(* ===== verification/Gsm_Codec.thy ===== *)
theory Gsm_Codec
  imports Smq_Prelude
begin

text \<open>
  The GSM layer under the SMS codec: the 7-bit alphabet (\<open>GSM/GSMCommon\<close>), BCD digits and
  called-party numbers (\<open>GSM/GSML3CCElements\<close>), time stamps (\<open>GSM/GSML3MMElements\<close>) and the LV
  format of protocol elements (\<open>GSM/GSML3Message.cpp\<close>).

  \<open>BitVector\<close>, the base class of every frame, is in the submodule CommonLibs: a frame is the list
  of its bits, and the operations of the class are the parameter \<open>bit_ops\<close>, with result \<open>None\<close>
  where an operation aborts.  A C++ exception is \<open>Some (Inl e)\<close>.
\<close>

section \<open>Results of the codec\<close>

datatype codec_exn = SMSReadError | L3ReadError

type_synonym 'a codec = "(codec_exn + 'a) option"

definition cret :: "'a \<Rightarrow> 'a codec" where
  "cret x = Some (Inr x)"

definition cthrow :: "codec_exn \<Rightarrow> 'a codec" where
  "cthrow e = Some (Inl e)"

definition cbind :: "'a codec \<Rightarrow> ('a \<Rightarrow> 'b codec) \<Rightarrow> 'b codec" where
  "cbind m f = (case m of None \<Rightarrow> None | Some (Inl e) \<Rightarrow> Some (Inl e) | Some (Inr x) \<Rightarrow> f x)"

definition clift :: "'a option \<Rightarrow> 'a codec" where
  "clift m = (case m of None \<Rightarrow> None | Some x \<Rightarrow> cret x)"

lemma cbind_simps [simp]:
  "cbind None f = None"
  "cbind (Some (Inl e)) f = Some (Inl e)"
  "cbind (Some (Inr x)) f = f x"
  "cbind (cret x) f = f x"
  "cbind (cthrow e) f = cthrow e"
  by (simp_all add: cbind_def cret_def cthrow_def)

lemma clift_simps [simp]:
  "clift None = None"
  "clift (Some x) = cret x"
  by (simp_all add: clift_def)

section \<open>Bit vectors\<close>

type_synonym bits = "bool list"

record bit_ops =
  peekField :: "bits \<Rightarrow> nat \<Rightarrow> nat \<Rightarrow> nat option"
  fillField :: "bits \<Rightarrow> nat \<Rightarrow> nat \<Rightarrow> nat \<Rightarrow> bits option"
  peekFieldReversed :: "bits \<Rightarrow> nat \<Rightarrow> nat \<Rightarrow> nat option"
  fillFieldReversed :: "bits \<Rightarrow> nat \<Rightarrow> nat \<Rightarrow> nat \<Rightarrow> bits option"
  getBit :: "bits \<Rightarrow> nat \<Rightarrow> bool option"
  setBit :: "bits \<Rightarrow> nat \<Rightarrow> bool \<Rightarrow> bits option"
  fillBits :: "bits \<Rightarrow> bool \<Rightarrow> nat \<Rightarrow> nat \<Rightarrow> bits option"
  newBits :: "nat \<Rightarrow> bits"
  resizeBits :: "bits \<Rightarrow> nat \<Rightarrow> bits"
  segmentCopyTo :: "bits \<Rightarrow> bits \<Rightarrow> nat \<Rightarrow> nat \<Rightarrow> bits option"
  copyToSegment :: "bits \<Rightarrow> bits \<Rightarrow> nat \<Rightarrow> nat \<Rightarrow> bits option"
  copyTo :: "bits \<Rightarrow> bits \<Rightarrow> bits option"
  LSB8MSB :: "bits \<Rightarrow> bits"
  unpackBytes :: "bits \<Rightarrow> string \<Rightarrow> bits"
  packBytes :: "bits \<Rightarrow> string"

text \<open>\<open>readField(rp, len)\<close> and \<open>writeField(wp, v, len)\<close> move the position past the field.\<close>

definition readField :: "bit_ops \<Rightarrow> bits \<Rightarrow> nat \<Rightarrow> nat \<Rightarrow> (nat \<times> nat) codec" where
  "readField B src rp len = cbind (clift (peekField B src rp len)) (\<lambda>v. cret (v, rp + len))"

definition writeField :: "bit_ops \<Rightarrow> bits \<Rightarrow> nat \<Rightarrow> nat \<Rightarrow> nat \<Rightarrow> (bits \<times> nat) codec" where
  "writeField B dest wp v len =
     cbind (clift (fillField B dest wp v len)) (\<lambda>d. cret (d, wp + len))"

definition readFieldReversed :: "bit_ops \<Rightarrow> bits \<Rightarrow> nat \<Rightarrow> nat \<Rightarrow> (nat \<times> nat) codec" where
  "readFieldReversed B src rp len =
     cbind (clift (peekFieldReversed B src rp len)) (\<lambda>v. cret (v, rp + len))"

definition writeFieldReversed :: "bit_ops \<Rightarrow> bits \<Rightarrow> nat \<Rightarrow> nat \<Rightarrow> nat \<Rightarrow> (bits \<times> nat) codec" where
  "writeFieldReversed B dest wp v len =
     cbind (clift (fillFieldReversed B dest wp v len)) (\<lambda>d. cret (d, wp + len))"

text \<open>A sequence of fields \<open>(value, width)\<close> written one after the other.\<close>

fun writeFields :: "bit_ops \<Rightarrow> bits \<Rightarrow> nat \<Rightarrow> (nat \<times> nat) list \<Rightarrow> (bits \<times> nat) codec" where
  "writeFields B dest wp [] = cret (dest, wp)"
| "writeFields B dest wp ((v, len) # fs) =
     cbind (writeField B dest wp v len) (\<lambda>(d, w). writeFields B d w fs)"

text \<open>A sequence of fields of the given widths read one after the other.\<close>

fun readFields :: "bit_ops \<Rightarrow> bits \<Rightarrow> nat \<Rightarrow> nat list \<Rightarrow> (nat list \<times> nat) codec" where
  "readFields B src rp [] = cret ([], rp)"
| "readFields B src rp (len # ls) =
     cbind (readField B src rp len) (\<lambda>(v, r).
     cbind (readFields B src r ls) (\<lambda>(vs, r'). cret (v # vs, r')))"

section \<open>The 7-bit alphabet and BCD characters\<close>

definition gGSMAlphabet :: "nat list" where
  "gGSMAlphabet =
     [64, 163, 36, 165, 232, 233, 249, 236, 242, 231, 10, 216, 248, 13, 197, 229] @
     [68, 95, 70, 71, 76, 79, 80, 67, 83, 84, 90, 32, 198, 230, 223, 201] @
     [32, 33, 34, 35, 164, 37, 38, 39, 40, 41, 42, 43, 44, 45, 46, 47] @
     [48, 49, 50, 51, 52, 53, 54, 55, 56, 57, 58, 59, 60, 61, 62, 63] @
     [161, 65, 66, 67, 68, 69, 70, 71, 72, 73, 74, 75, 76, 77, 78, 79] @
     [80, 81, 82, 83, 84, 85, 86, 87, 88, 89, 90, 196, 214, 209, 220, 167] @
     [191, 97, 98, 99, 100, 101, 102, 103, 104, 105, 106, 107, 108, 109, 110, 111] @
     [112, 113, 114, 115, 116, 117, 118, 119, 120, 121, 122, 228, 246, 241, 252, 225] @
     [0]"

definition gsm_reverse_init :: "nat list" where
  "gsm_reverse_init = 63 # replicate 255 0"

text \<open>
  The table of the first call: \<open>={'?'}\<close> sets entry 0 only, then every entry of the alphabet,
  its terminating NUL included (\<open>sizeof\<close>), overwrites its slot.
\<close>

definition gsm_reverse_table :: "nat list" where
  "gsm_reverse_table =
     foldl (\<lambda>t i. t[gGSMAlphabet ! i := i]) gsm_reverse_init [0..<length gGSMAlphabet]"

definition encodeGSMChar :: "nat \<Rightarrow> nat" where
  "encodeGSMChar ascii = gsm_reverse_table ! ascii"

definition decodeGSMChar :: "nat \<Rightarrow> nat" where
  "decodeGSMChar sms = gGSMAlphabet ! sms"

definition encodeBCDChar :: "char \<Rightarrow> nat" where
  "encodeBCDChar ascii =
     (if isdigit ascii then code_of ascii - 48
      else if ascii = CHR ''.'' then 11
      else if ascii = CHR ''*'' then 11
      else if ascii = CHR ''#'' then 12
      else if ascii = CHR ''a'' then 13
      else if ascii = CHR ''b'' then 14
      else if ascii = CHR ''c'' then 15
      else 15)"

definition decodeBCDChar :: "nat \<Rightarrow> char" where
  "decodeBCDChar bcd = (''0123456789.#abc'' @ [CHR 0x00]) ! bcd"

section \<open>Numbers\<close>

text \<open>An enumerator that is cast from a bit field keeps whatever value the field had.\<close>

type_synonym TypeOfNumber = nat
type_synonym NumberingPlan = nat

definition UnknownTypeOfNumber :: TypeOfNumber where "UnknownTypeOfNumber = 0"
definition InternationalNumber :: TypeOfNumber where "InternationalNumber = 1"
definition NationalNumber :: TypeOfNumber where "NationalNumber = 2"
definition UnknownPlan :: NumberingPlan where "UnknownPlan = 0"
definition E164Plan :: NumberingPlan where "E164Plan = 1"

text \<open>\<open>L3BCDDigits\<close>: the string in the array of \<open>maxDigits + 1\<close> characters.\<close>

definition maxDigits :: nat where
  "maxDigits = 20"

definition L3BCDDigits_of :: "string \<Rightarrow> string" where
  "L3BCDDigits_of wDigits = take maxDigits wDigits"

definition bcd_char :: "nat \<Rightarrow> char" where
  "bcd_char d = (if d = 10 then CHR ''*'' else if d = 11 then CHR ''#'' else char_of (d + 48))"

text \<open>\<open>mDigits[i++] = c\<close>; a write past the array has no defined result.\<close>

definition put_digit :: "string \<Rightarrow> char \<Rightarrow> string option" where
  "put_digit ds c = (if length ds < maxDigits + 1 then Some (ds @ [c]) else None)"

fun bcd_parse_loop :: "bit_ops \<Rightarrow> bits \<Rightarrow> nat \<Rightarrow> nat \<Rightarrow> string \<Rightarrow> (string \<times> nat) codec" where
  "bcd_parse_loop B src rp 0 ds = cret (ds, rp)"
| "bcd_parse_loop B src rp (Suc n) ds =
     cbind (readField B src rp 4) (\<lambda>(d2, rp).
     cbind (readField B src rp 4) (\<lambda>(d1, rp).
     cbind (clift (put_digit ds (bcd_char d1))) (\<lambda>ds.
     cbind (if d2 \<noteq> 15 then clift (put_digit ds (bcd_char d2)) else cret ds) (\<lambda>ds.
     if maxDigits < length ds then cthrow L3ReadError
     else bcd_parse_loop B src rp n ds))))"

definition L3BCDDigits_parse ::
  "bit_ops \<Rightarrow> bits \<Rightarrow> nat \<Rightarrow> nat \<Rightarrow> bool \<Rightarrow> (string \<times> nat) codec" where
  "L3BCDDigits_parse B src rp numOctets international =
     cbind (bcd_parse_loop B src rp numOctets (if international then ''+'' else [])) (\<lambda>(ds, rp).
     cbind (clift (put_digit ds (CHR 0x00))) (\<lambda>_. cret (ds, rp)))"

text \<open>\<open>encode\<close>: an invalid character is written as 0 and reported in the log only.\<close>

definition bcd_encode :: "char \<Rightarrow> nat" where
  "bcd_encode c =
     (if c = CHR ''*'' then 10 else if c = CHR ''#'' then 11
      else if isdigit c then code_of c - 48 else 0)"

fun bcd_write_loop :: "bit_ops \<Rightarrow> bits \<Rightarrow> nat \<Rightarrow> string \<Rightarrow> (bits \<times> nat) codec" where
  "bcd_write_loop B dest wp [] = cret (dest, wp)"
| "bcd_write_loop B dest wp [c] = writeFields B dest wp [(15, 4), (bcd_encode c, 4)]"
| "bcd_write_loop B dest wp (c # d # cs) =
     cbind (writeFields B dest wp [(bcd_encode d, 4), (bcd_encode c, 4)]) (\<lambda>(dest, wp).
     bcd_write_loop B dest wp cs)"

definition strip_plus :: "string \<Rightarrow> string" where
  "strip_plus ds = (if ds \<noteq> [] \<and> hd ds = CHR ''+'' then tl ds else ds)"

definition L3BCDDigits_write :: "bit_ops \<Rightarrow> bits \<Rightarrow> nat \<Rightarrow> string \<Rightarrow> (bits \<times> nat) codec" where
  "L3BCDDigits_write B dest wp mDigits = bcd_write_loop B dest wp (strip_plus mDigits)"

definition L3BCDDigits_lengthV :: "string \<Rightarrow> nat" where
  "L3BCDDigits_lengthV mDigits =
     (let sz = length (strip_plus mDigits) in sz div 2 + sz mod 2)"

text \<open>\<open>L3CalledPartyBCDNumber\<close>, also the relay-layer address \<open>RPAddress\<close>.\<close>

record bcd_number =
  mType :: TypeOfNumber
  mPlan :: NumberingPlan
  mDigits :: string

definition L3CalledPartyBCDNumber0 :: bcd_number where
  "L3CalledPartyBCDNumber0 =
     \<lparr>mType = UnknownTypeOfNumber, mPlan = UnknownPlan, mDigits = []\<rparr>"

definition L3CalledPartyBCDNumber :: "string \<Rightarrow> bcd_number" where
  "L3CalledPartyBCDNumber wDigits =
     \<lparr>mType = (if take 1 wDigits = ''+'' then InternationalNumber else NationalNumber),
      mPlan = E164Plan, mDigits = L3BCDDigits_of wDigits\<rparr>"

definition bcd_number_lengthV :: "bcd_number \<Rightarrow> nat" where
  "bcd_number_lengthV a =
     (if L3BCDDigits_lengthV (mDigits a) = 0 then 0 else 1 + L3BCDDigits_lengthV (mDigits a))"

definition bcd_number_writeV :: "bit_ops \<Rightarrow> bits \<Rightarrow> nat \<Rightarrow> bcd_number \<Rightarrow> (bits \<times> nat) codec" where
  "bcd_number_writeV B dest wp a =
     cbind (writeFields B dest wp [(1, 1), (mType a, 3), (mPlan a, 4)]) (\<lambda>(dest, wp).
     L3BCDDigits_write B dest wp (mDigits a))"

text \<open>\<open>expectedLength - 1\<close> does not wrap: \<open>parseLV\<close> returns before it for an empty element.\<close>

definition bcd_number_parseV ::
  "bit_ops \<Rightarrow> bits \<Rightarrow> nat \<Rightarrow> nat \<Rightarrow> bcd_number \<Rightarrow> (bcd_number \<times> nat) codec" where
  "bcd_number_parseV B src rp expectedLength a =
     cbind (readField B src rp 1) (\<lambda>(ext, rp).
     if ext \<noteq> 1 then cthrow L3ReadError else
     cbind (readField B src rp 3) (\<lambda>(ty, rp).
     cbind (readField B src rp 4) (\<lambda>(plan, rp).
     cbind (L3BCDDigits_parse B src rp (expectedLength - 1) (ty = InternationalNumber))
       (\<lambda>(ds, rp). cret (a\<lparr>mType := ty, mPlan := plan, mDigits := ds\<rparr>, rp)))))"

section \<open>The LV format of protocol elements\<close>

text \<open>\<open>L3ProtocolElement::parseLV\<close> for an element with the given \<open>parseV\<close> and present value.\<close>

definition parseLV ::
  "bit_ops \<Rightarrow> (bits \<Rightarrow> nat \<Rightarrow> nat \<Rightarrow> 'e \<Rightarrow> ('e \<times> nat) codec) \<Rightarrow> bits \<Rightarrow> nat \<Rightarrow> 'e \<Rightarrow> ('e \<times> nat) codec"
where
  "parseLV B parseV source rp e =
     cbind (readField B source rp 8) (\<lambda>(expectedLength, rp).
     if expectedLength = 0 then cret (e, rp) else
     cbind (parseV source rp expectedLength e) (\<lambda>(e', rp').
     if rp + 8 * expectedLength \<noteq> rp' then cthrow L3ReadError else cret (e', rp')))"

definition writeLV ::
  "bit_ops \<Rightarrow> ('e \<Rightarrow> nat) \<Rightarrow> (bits \<Rightarrow> nat \<Rightarrow> 'e \<Rightarrow> (bits \<times> nat) codec) \<Rightarrow> bits \<Rightarrow> nat \<Rightarrow> 'e
     \<Rightarrow> (bits \<times> nat) codec"
where
  "writeLV B lengthV writeV dest wp e =
     (let len = lengthV e in
      cbind (writeField B dest wp len 8) (\<lambda>(dest, wp).
      if len = 0 then cret (dest, wp) else writeV dest wp e))"

section \<open>Time stamps\<close>

text \<open>\<open>Timeval\<close> (CommonLibs) by the constructor calls that made it.\<close>

datatype Timeval =
    Timeval_now
  | Timeval_in int
  | Timeval_at int int
  | addMinutes Timeval nat

record tm =
  tm_year :: nat
  tm_mon :: nat
  tm_mday :: nat
  tm_hour :: nat
  tm_min :: nat
  tm_sec :: nat
  tm_gmtoff :: int

text \<open>The calendar functions of libc and \<open>Timeval::sec\<close>.\<close>

record time_ops =
  timeval_sec :: "Timeval \<Rightarrow> int"
  localtime_r :: "int \<Rightarrow> tm"
  gmtime_r :: "int \<Rightarrow> tm"
  timegm :: "tm \<Rightarrow> int"

datatype TimeType = LOCAL_TIME | UTC_TIME

record L3TimeZoneAndTime =
  mTime :: Timeval
  mTimeType :: TimeType

definition tz_quarters :: "int \<Rightarrow> int" where
  "tz_quarters gmtoff = (if gmtoff < 0 then - ((- gmtoff) div 900) else gmtoff div 900)"

definition bcd2 :: "nat \<Rightarrow> (nat \<times> nat) list" where
  "bcd2 n = [(n mod 10, 4), (n div 10, 4)]"

definition L3TimeZoneAndTime_writeV ::
  "bit_ops \<Rightarrow> time_ops \<Rightarrow> bits \<Rightarrow> nat \<Rightarrow> L3TimeZoneAndTime \<Rightarrow> (bits \<times> nat) codec"
where
  "L3TimeZoneAndTime_writeV B T dest wp t =
     (let seconds = timeval_sec T (mTime t);
          fields = (if mTimeType t = LOCAL_TIME then localtime_r T seconds else gmtime_r T seconds);
          year = tm_year fields mod 100;
          month = tm_mon fields + 1;
          gmtoff = (if mTimeType t = LOCAL_TIME then tm_gmtoff fields
                    else tm_gmtoff (localtime_r T seconds));
          zoneSign = (if tz_quarters gmtoff < 0 then 1 else 0);
          zone = nat \<bar>tz_quarters gmtoff\<bar>
      in writeFields B dest wp
           (bcd2 year @ bcd2 month @ bcd2 (tm_mday fields) @ bcd2 (tm_hour fields)
            @ bcd2 (tm_min fields) @ bcd2 (tm_sec fields)
            @ [(zone mod 10, 4), (zoneSign, 1), (zone div 10, 3)]))"

text \<open>
  The two calls of \<open>readField\<close> in one expression are taken left to right.  The zone is read as
  4 + 1 + 4 bits.
\<close>

definition L3TimeZoneAndTime_parseV ::
  "bit_ops \<Rightarrow> time_ops \<Rightarrow> bits \<Rightarrow> nat \<Rightarrow> L3TimeZoneAndTime \<Rightarrow> (L3TimeZoneAndTime \<times> nat) codec"
where
  "L3TimeZoneAndTime_parseV B T src rp t =
     cbind (readFields B src rp [4, 4, 4, 4, 4, 4, 4, 4, 4, 4, 4, 4, 4, 1, 4]) (\<lambda>(v, rp).
     let zone = of_nat (v ! 12) + 10 * of_nat (v ! 14) :: 32 word;
         zone' = (if v ! 13 \<noteq> 0 then - zone else zone);
         fields = \<lparr>tm_year = 2000 + v ! 0 + v ! 1 * 10, tm_mon = 1 + v ! 2 + v ! 3 * 10,
                   tm_mday = v ! 4 + v ! 5 * 10, tm_hour = v ! 6 + v ! 7 * 10,
                   tm_min = v ! 8 + v ! 9 * 10, tm_sec = v ! 10 + v ! 11 * 10,
                   tm_gmtoff = uint (zone' * 15 * 60)\<rparr>
     in cret (t\<lparr>mTime := Timeval_at (timegm T fields) 0\<rparr>, rp))"

definition L3TimeZoneAndTime_lengthV :: nat where
  "L3TimeZoneAndTime_lengthV = 7"

section \<open>Lemmas: alphabet\<close>

lemma gGSMAlphabet_length [simp]: "length gGSMAlphabet = 129"
  by (simp add: gGSMAlphabet_def)

lemma gsm_reverse_table_eval:
  "gsm_reverse_table = map encodeGSMChar [0..<256]"
proof -
  have "length (foldl (\<lambda>t i. t[gGSMAlphabet ! i := i]) t0 is) = length t0" for t0 :: "nat list" and "is"
    by (induction "is" arbitrary: t0) simp_all
  then have "length gsm_reverse_table = 256"
    by (simp add: gsm_reverse_table_def gsm_reverse_init_def)
  then show ?thesis
    by (simp add: list_eq_iff_nth_eq encodeGSMChar_def)
qed

lemma foldl_update_notin:
  "k \<notin> f ` set is \<Longrightarrow> foldl (\<lambda>t i. t[f i := i]) t0 is ! k = t0 ! k"
  by (induction "is" arbitrary: t0) auto

lemma foldl_update_in:
  assumes "k \<in> f ` set is" and "k < length t0"
  shows "\<exists>i \<in> set is. f i = k \<and> foldl (\<lambda>t i. t[f i := i]) t0 is ! k = i"
  using assms
proof (induction "is" arbitrary: t0)
  case Nil
  then show ?case by simp
next
  case (Cons j js)
  show ?case
  proof (cases "k \<in> f ` set js")
    case True
    then show ?thesis using Cons.IH [of "t0[f j := j]"] Cons.prems(2) by auto
  next
    case False
    with Cons.prems show ?thesis by (auto simp: foldl_update_notin)
  qed
qed

lemma gsm_alphabet_byte: "\<forall>c \<in> set gGSMAlphabet. c < 256"
  by (simp add: gGSMAlphabet_def)

lemma decode_encode_gsm:
  assumes "c \<in> set gGSMAlphabet"
  shows "encodeGSMChar c < 129 \<and> decodeGSMChar (encodeGSMChar c) = c"
proof -
  have "c \<in> (\<lambda>i. gGSMAlphabet ! i) ` set [0..<length gGSMAlphabet]"
    using assms by (metis atLeast_upt image_eqI in_set_conv_nth lessThan_iff)
  then obtain i where "i < 129" and "gGSMAlphabet ! i = c"
    and "gsm_reverse_table ! c = i"
    using foldl_update_in [of c "\<lambda>i. gGSMAlphabet ! i" "[0..<length gGSMAlphabet]" gsm_reverse_init]
      gsm_alphabet_byte assms
    by (auto simp: gsm_reverse_table_def gsm_reverse_init_def)
  then show ?thesis by (simp add: encodeGSMChar_def decodeGSMChar_def)
qed

lemma encode_gsm_unmapped:
  assumes "c \<notin> set gGSMAlphabet" and "c < 256"
  shows "encodeGSMChar c = 0"
proof -
  have "c \<noteq> 0" using assms(1) by (auto simp: gGSMAlphabet_def)
  moreover have "c \<notin> (\<lambda>i. gGSMAlphabet ! i) ` set [0..<length gGSMAlphabet]"
    using assms(1) by (auto simp: in_set_conv_nth)
  ultimately show ?thesis
    using assms(2)
    by (simp add: encodeGSMChar_def gsm_reverse_table_def foldl_update_notin gsm_reverse_init_def
        nth_Cons')
qed

end
