(* ===== verification/Sms_Codec.thy ===== *)
theory Sms_Codec
  imports Gsm_Codec
begin

text \<open>
  The SMS messages (\<open>SMS/SMSMessages.h\<close>, \<open>SMS/SMSMessages.cpp\<close>): the relay-layer message RP-DATA
  and the transfer-layer messages SMS-SUBMIT (parsed) and SMS-DELIVER (written), with their
  elements.  An \<open>assert\<close> that fails and an operation of \<open>BitVector\<close> that aborts have the result
  \<open>None\<close>.
\<close>

section \<open>Transfer-layer elements\<close>

text \<open>\<open>TLAddress\<close> has the fields of a called-party number; only the length octet differs.\<close>

type_synonym TLAddress = bcd_number

definition TLAddress_of :: "string \<Rightarrow> TLAddress" where
  "TLAddress_of wDigits =
     \<lparr>mType = (if take 1 wDigits = ''+'' then InternationalNumber else NationalNumber),
      mPlan = E164Plan, mDigits = L3BCDDigits_of wDigits\<rparr>"

definition TLAddress_length :: "TLAddress \<Rightarrow> nat" where
  "TLAddress_length a = 2 + L3BCDDigits_lengthV (mDigits a)"

definition TLAddress_parse :: "bit_ops \<Rightarrow> bits \<Rightarrow> nat \<Rightarrow> TLAddress \<Rightarrow> (TLAddress \<times> nat) codec" where
  "TLAddress_parse B src rp a =
     cbind (readField B src rp 8) (\<lambda>(numDigits, rp).
     let len = numDigits div 2 + numDigits mod 2 in
     cbind (readField B src rp 1) (\<lambda>(ext, rp).
     if ext \<noteq> 1 then cthrow SMSReadError else
     cbind (readField B src rp 3) (\<lambda>(ty, rp).
     cbind (readField B src rp 4) (\<lambda>(plan, rp).
     cbind (L3BCDDigits_parse B src rp len (ty = InternationalNumber)) (\<lambda>(ds, rp).
     cret (a\<lparr>mType := ty, mPlan := plan, mDigits := ds\<rparr>, rp))))))"

definition TLAddress_write :: "bit_ops \<Rightarrow> bits \<Rightarrow> nat \<Rightarrow> TLAddress \<Rightarrow> (bits \<times> nat) codec" where
  "TLAddress_write B dest wp a =
     cbind (writeFields B dest wp [(length (mDigits a), 8), (1, 1), (mType a, 3), (mPlan a, 4)])
       (\<lambda>(dest, wp). L3BCDDigits_write B dest wp (mDigits a))"

subsection \<open>Validity period\<close>

record TLValidityPeriod =
  vpVPF :: nat
  mExpiration :: Timeval

definition one_week_ms :: int where
  "one_week_ms = 7 * 24 * 60 * 60 * 1000"

definition TLValidityPeriod0 :: TLValidityPeriod where
  "TLValidityPeriod0 = \<lparr>vpVPF = 255, mExpiration = Timeval_in one_week_ms\<rparr>"

definition TLValidityPeriod_length :: "TLValidityPeriod \<Rightarrow> nat option" where
  "TLValidityPeriod_length vp =
     (if vpVPF vp = 0 then Some 0
      else if vpVPF vp = 1 then Some 1
      else if vpVPF vp = 2 then Some 7
      else if vpVPF vp = 3 then Some 7
      else None)"

text \<open>The relative format: the octet as minutes (GSM 03.40 9.2.3.12.1).\<close>

definition vp_minutes :: "nat \<Rightarrow> nat" where
  "vp_minutes vp =
     (if vp < 144 then (vp + 1) * 5
      else if vp < 168 then 12 * 60 + (vp - 143) * 30
      else if vp < 197 then 24 * 60 * (vp - 166)
      else 7 * 24 * 60 * (vp - 192))"

definition TLValidityPeriod_parse ::
  "bit_ops \<Rightarrow> time_ops \<Rightarrow> bits \<Rightarrow> nat \<Rightarrow> TLValidityPeriod \<Rightarrow> (TLValidityPeriod \<times> nat) codec"
where
  "TLValidityPeriod_parse B T src rp p =
     (if vpVPF p = 2 then
        cbind (readField B src rp 8) (\<lambda>(vp, rp).
        cret (p\<lparr>mExpiration := addMinutes Timeval_now (vp_minutes vp)\<rparr>, rp))
      else if vpVPF p = 3 then
        cbind (L3TimeZoneAndTime_parseV B T src rp
                 \<lparr>mTime = Timeval_now, mTimeType = LOCAL_TIME\<rparr>) (\<lambda>(decoder, rp).
        cret (p\<lparr>mExpiration := mTime decoder\<rparr>, rp))
      else if vpVPF p = 1 then cret (p\<lparr>mExpiration := Timeval_in one_week_ms\<rparr>, rp + 7)
      else if vpVPF p = 0 then cret (p\<lparr>mExpiration := Timeval_in one_week_ms\<rparr>, rp)
      else None)"

text \<open>The octet of the relative format for a number of minutes, as \<open>write\<close> computes it.\<close>

definition minutes_vp :: "int \<Rightarrow> int" where
  "minutes_vp m =
     (let minutes = (if m < 1 then 1 else m);
          vp = (if minutes \<le> 720 then (minutes - 1) div 5
                else if minutes < 1440 then 143 + (minutes - 720) div 30
                else if minutes < 43200 then 166 + minutes div (24 * 60)
                else 192 + minutes div (7 * 24 * 60))
      in if 255 < vp then 255 else vp)"

text \<open>\<open>seconds/60\<close> truncates towards zero; \<open>now\<close> is \<open>time(NULL)\<close>.\<close>

definition TLValidityPeriod_write ::
  "bit_ops \<Rightarrow> time_ops \<Rightarrow> int \<Rightarrow> bits \<Rightarrow> nat \<Rightarrow> TLValidityPeriod \<Rightarrow> (bits \<times> nat) codec"
where
  "TLValidityPeriod_write B T now dest wp p =
     (if vpVPF p = 0 then cret (dest, wp)
      else if vpVPF p \<noteq> 1 then None
      else let seconds = timeval_sec T (mExpiration p) - now;
               minutes = (if seconds < 0 then - ((- seconds) div 60) else seconds div 60)
           in writeField B dest wp (nat (minutes_vp minutes)) 8)"

subsection \<open>User data\<close>

record TLUserData =
  mDCS :: nat
  udUDHI :: bool
  mLength :: nat
  mRawData :: bits

definition TLUserData0 :: TLUserData where
  "TLUserData0 = \<lparr>mDCS = 256, udUDHI = False, mLength = 0, mRawData = []\<rparr>"

definition encode7bit_filler :: "nat \<Rightarrow> nat" where
  "encode7bit_filler n = (n * 7 + 7) div 8 * 8 - n * 7"

text \<open>\<open>encode7bit\<close>; writing the septets aborts where \<open>BitVector\<close> does.\<close>

definition encode7bit :: "bit_ops \<Rightarrow> string \<Rightarrow> TLUserData \<Rightarrow> TLUserData codec" where
  "encode7bit B text u =
     (let len = length text;
          bytes = (len * 7 + 7) div 8;
          raw = resizeBits B (mRawData u) (bytes * 8)
      in cbind (foldl (\<lambda>acc c. cbind acc (\<lambda>(raw, wp).
                   writeFieldReversed B raw wp (encodeGSMChar (code_of c)) 7))
                 (cret (raw, 0)) text) (\<lambda>(raw, wp).
         cbind (writeField B raw wp 0 (encode7bit_filler len)) (\<lambda>(raw, wp).
         cret (u\<lparr>mDCS := 0, mLength := len, mRawData := raw\<rparr>))))"

definition TLUserData_of_raw :: "nat \<Rightarrow> bits \<Rightarrow> nat \<Rightarrow> bool \<Rightarrow> TLUserData" where
  "TLUserData_of_raw wDCS wRawData wLength wUDHI =
     \<lparr>mDCS = wDCS, udUDHI = wUDHI, mLength = wLength, mRawData = wRawData\<rparr>"

definition TLUserData_of_text :: "bit_ops \<Rightarrow> string \<Rightarrow> TLUserData codec" where
  "TLUserData_of_text B text =
     encode7bit B text \<lparr>mDCS = 0, udUDHI = False, mLength = 0, mRawData = []\<rparr>"

text \<open>The loop that reads \<open>n\<close> septets from position \<open>crp\<close>.\<close>

fun decode7bit_loop :: "bit_ops \<Rightarrow> bits \<Rightarrow> nat \<Rightarrow> nat \<Rightarrow> string codec" where
  "decode7bit_loop B raw crp 0 = cret []"
| "decode7bit_loop B raw crp (Suc n) =
     cbind (readFieldReversed B raw crp 7) (\<lambda>(gsm, crp).
     cbind (decode7bit_loop B raw crp n) (\<lambda>cs. cret (char_of (decodeGSMChar gsm) # cs)))"

text \<open>
  \<open>text_length -= udh_septets\<close> is unsigned: a header longer than the text makes the length wrap
  and the loop runs past the data.
\<close>

definition TLUserData_decode :: "bit_ops \<Rightarrow> TLUserData \<Rightarrow> string codec" where
  "TLUserData_decode B u =
     (if mDCS u \<in> {0, 244, 245, 246, 247} then
        if length (mRawData u) < mLength u * 7 then cthrow SMSReadError
        else if udUDHI u then
          cbind (clift (peekFieldReversed B (mRawData u) 0 8)) (\<lambda>udhl.
          let udh_septets = (udhl * 8 + 8 + 6) div 7;
              text_length = of_nat (mLength u) - of_nat udh_septets :: 32 word
          in decode7bit_loop B (mRawData u) (udh_septets * 7) (unat text_length))
        else decode7bit_loop B (mRawData u) 0 (mLength u)
      else cthrow SMSReadError)"

definition TLUserData_length :: "TLUserData \<Rightarrow> nat option" where
  "TLUserData_length u =
     (if mDCS u < 256 then Some (1 + (length (mRawData u) + 7) div 8) else None)"

definition TLUserData_parse ::
  "bit_ops \<Rightarrow> bits \<Rightarrow> nat \<Rightarrow> TLUserData \<Rightarrow> (TLUserData \<times> nat) codec" where
  "TLUserData_parse B src rp u =
     (if mDCS u < 256 then
        cbind (readField B src rp 8) (\<lambda>(len, rp).
        cret (u\<lparr>mLength := len, mRawData := LSB8MSB B (drop rp src)\<rparr>, rp))
      else None)"

text \<open>\<open>dest.tail(wp)\<close> shares the memory of \<open>dest\<close>: the copy and the bit reversal are done in place.\<close>

definition TLUserData_write ::
  "bit_ops \<Rightarrow> bits \<Rightarrow> nat \<Rightarrow> TLUserData \<Rightarrow> (bits \<times> nat) codec" where
  "TLUserData_write B dest wp u =
     cbind (writeField B dest wp (mLength u) 8) (\<lambda>(dest, wp).
     cbind (clift (copyTo B (mRawData u) (drop wp dest))) (\<lambda>ud_dest.
     cret (take wp dest @ LSB8MSB B ud_dest, wp)))"

section \<open>Transfer-layer messages\<close>

text \<open>The header bits of GSM 03.40 9.2.3.\<close>

record TLHeader =
  mMMS :: bool
  mRD :: bool
  mVPF :: nat
  mSRR :: bool
  mSRI :: bool
  mSRQ :: bool
  mUDHI :: bool
  mRP :: bool

record TLSubmit = TLHeader +
  mMR :: nat
  mDA :: TLAddress
  mPI :: nat
  sDCS :: nat
  mVP :: TLValidityPeriod
  sUD :: TLUserData

record TLDeliver = TLHeader +
  mOA :: TLAddress
  mPID :: nat
  mSCTS :: L3TimeZoneAndTime
  dUD :: TLUserData

text \<open>\<open>TLMessage\<close> and its two subclasses that occur in a queued message.\<close>

datatype TLMessage = TLM_Submit TLSubmit | TLM_Deliver TLDeliver

definition MTI_DELIVER :: nat where "MTI_DELIVER = 0"
definition MTI_SUBMIT :: nat where "MTI_SUBMIT = 1"
definition MTI_STATUS_REPORT :: nat where "MTI_STATUS_REPORT = 2"

fun TLMessage_MTI :: "TLMessage \<Rightarrow> nat" where
  "TLMessage_MTI (TLM_Submit _) = MTI_SUBMIT"
| "TLMessage_MTI (TLM_Deliver _) = MTI_DELIVER"

text \<open>
  Constructors.  The base class initialises \<open>mMMS\<close>, \<open>mSRI\<close> and \<open>mRP\<close> only; nothing reads another
  header field before it is parsed, and those start here as 0.
\<close>

definition TLSubmit0 :: TLSubmit where
  "TLSubmit0 =
     \<lparr>mMMS = True, mRD = False, mVPF = 0, mSRR = False, mSRI = False, mSRQ = False,
      mUDHI = False, mRP = False,
      mMR = 0, mDA = \<lparr>mType = 0, mPlan = 0, mDigits = []\<rparr>, mPI = 0, sDCS = 0,
      mVP = TLValidityPeriod0, sUD = TLUserData0\<rparr>"

definition TLDeliver_new :: "TLAddress \<Rightarrow> TLUserData \<Rightarrow> nat \<Rightarrow> TLDeliver" where
  "TLDeliver_new wOA wUD wPID =
     \<lparr>mMMS = True, mRD = False, mVPF = 0, mSRR = False, mSRI = False, mSRQ = False,
      mUDHI = False, mRP = False,
      mOA = wOA, mPID = wPID,
      mSCTS = \<lparr>mTime = Timeval_now, mTimeType = LOCAL_TIME\<rparr>, dUD = wUD\<rparr>"

definition TLSubmit_parse_header :: "bit_ops \<Rightarrow> bits \<Rightarrow> TLSubmit \<Rightarrow> TLSubmit codec" where
  "TLSubmit_parse_header B src m =
     cbind (clift (getBit B src 5)) (\<lambda>rd.
     cbind (clift (peekField B src 3 2)) (\<lambda>vpf.
     cbind (clift (getBit B src 0)) (\<lambda>rp.
     cbind (clift (getBit B src 1)) (\<lambda>udhi.
     cbind (clift (getBit B src 2)) (\<lambda>srr.
     cret (m\<lparr>mRD := rd, mVPF := vpf, mRP := rp, mUDHI := udhi, mSRR := srr\<rparr>))))))"

definition TLSubmit_parseBody ::
  "bit_ops \<Rightarrow> time_ops \<Rightarrow> bits \<Rightarrow> nat \<Rightarrow> TLSubmit \<Rightarrow> (TLSubmit \<times> nat) codec" where
  "TLSubmit_parseBody B T src rp m =
     cbind (TLSubmit_parse_header B src m) (\<lambda>m.
     cbind (readField B src rp 8) (\<lambda>(mr, rp).
     cbind (TLAddress_parse B src rp (mDA m)) (\<lambda>(da, rp).
     cbind (readField B src rp 8) (\<lambda>(pi, rp).
     cbind (readField B src rp 8) (\<lambda>(dcs, rp).
     cbind (TLValidityPeriod_parse B T src rp ((mVP m)\<lparr>vpVPF := mVPF m\<rparr>)) (\<lambda>(vp, rp).
     cbind (TLUserData_parse B src rp ((sUD m)\<lparr>mDCS := dcs, udUDHI := mUDHI m\<rparr>)) (\<lambda>(ud, rp).
     cret (m\<lparr>mMR := mr, mDA := da, mPI := pi, sDCS := dcs, mVP := vp, sUD := ud\<rparr>, rp))))))))"

definition TLSubmit_parse :: "bit_ops \<Rightarrow> time_ops \<Rightarrow> bits \<Rightarrow> TLSubmit \<Rightarrow> TLSubmit codec" where
  "TLSubmit_parse B T src m =
     cbind (TLSubmit_parseBody B T src 8 m) (\<lambda>(m, rp). cret m)"

text \<open>\<open>parseTPDU\<close>: \<open>DELIVER_REPORT\<close> and \<open>STATUS_REPORT\<close> are the values 0 and 2.\<close>

definition parseTPDU :: "bit_ops \<Rightarrow> time_ops \<Rightarrow> bits \<Rightarrow> TLMessage option codec" where
  "parseTPDU B T TPDU =
     cbind (clift (peekField B TPDU 6 2)) (\<lambda>mti.
     if mti = MTI_DELIVER \<or> mti = MTI_STATUS_REPORT then cret None
     else if mti = MTI_SUBMIT then
       cbind (TLSubmit_parse B T TPDU TLSubmit0) (\<lambda>m. cret (Some (TLM_Submit m)))
     else cret None)"

definition TLDeliver_l2BodyLength :: "TLDeliver \<Rightarrow> nat option" where
  "TLDeliver_l2BodyLength m =
     map_option (\<lambda>ud. TLAddress_length (mOA m) + 1 + 1 + L3TimeZoneAndTime_lengthV + ud)
       (TLUserData_length (dUD m))"

definition TLDeliver_writeBody ::
  "bit_ops \<Rightarrow> time_ops \<Rightarrow> bits \<Rightarrow> nat \<Rightarrow> TLDeliver \<Rightarrow> (bits \<times> nat) codec" where
  "TLDeliver_writeBody B T dest wp m =
     cbind (clift (setBit B dest 5 (mMMS m))) (\<lambda>dest.
     cbind (clift (setBit B dest 0 (mRP m))) (\<lambda>dest.
     cbind (clift (setBit B dest 1 (udUDHI (dUD m)))) (\<lambda>dest.
     cbind (clift (setBit B dest 2 (mSRI m))) (\<lambda>dest.
     cbind (TLAddress_write B dest wp (mOA m)) (\<lambda>(dest, wp).
     cbind (writeFields B dest wp [(mPID m, 8), (mDCS (dUD m), 8)]) (\<lambda>(dest, wp).
     cbind (L3TimeZoneAndTime_writeV B T dest wp (mSCTS m)) (\<lambda>(dest, wp).
     cbind (clift (fillBits B dest False 3 2)) (\<lambda>dest.
     TLUserData_write B dest wp (dUD m)))))))))"

text \<open>\<open>TLMessage::write\<close>; \<open>TLSubmit::writeBody\<close> is \<open>assert(0)\<close>.\<close>

definition TLMessage_write :: "bit_ops \<Rightarrow> time_ops \<Rightarrow> bits \<Rightarrow> TLMessage \<Rightarrow> bits codec" where
  "TLMessage_write B T dest tlm =
     (case tlm of
        TLM_Submit m \<Rightarrow> None
      | TLM_Deliver m \<Rightarrow>
          cbind (clift (TLDeliver_l2BodyLength m)) (\<lambda>len.
          let dest = resizeBits B dest ((1 + len) * 8) in
          cbind (clift (fillField B dest 6 MTI_DELIVER 2)) (\<lambda>dest.
          cbind (TLDeliver_writeBody B T dest 8 m) (\<lambda>(dest, wp). cret dest))))"

section \<open>Relay layer\<close>

record RPData =
  mReference :: nat
  mOriginator :: bcd_number
  mDestination :: bcd_number
  mTPDU :: bits

definition RPData0 :: RPData where
  "RPData0 =
     \<lparr>mReference = 0, mOriginator = L3CalledPartyBCDNumber0,
      mDestination = L3CalledPartyBCDNumber0, mTPDU = []\<rparr>"

definition RPData_new ::
  "bit_ops \<Rightarrow> time_ops \<Rightarrow> nat \<Rightarrow> bcd_number \<Rightarrow> TLMessage \<Rightarrow> RPData codec" where
  "RPData_new B T ref wOriginator tlm =
     cbind (TLMessage_write B T [] tlm) (\<lambda>tpdu.
     cret (RPData0\<lparr>mReference := ref, mOriginator := wOriginator, mTPDU := tpdu\<rparr>))"

definition RPUserData_lengthV :: "bits \<Rightarrow> nat" where
  "RPUserData_lengthV tpdu =
     (let len = length tpdu div 8 in if length tpdu mod 8 \<noteq> 0 then len + 1 else len)"

definition RPUserData_parseV ::
  "bit_ops \<Rightarrow> bits \<Rightarrow> nat \<Rightarrow> nat \<Rightarrow> bits \<Rightarrow> (bits \<times> nat) codec" where
  "RPUserData_parseV B src rp expectedLength tpdu =
     (let numBits = expectedLength * 8 in
      if length src < rp + numBits then cthrow SMSReadError
      else cbind (clift (segmentCopyTo B src (resizeBits B tpdu numBits) rp numBits)) (\<lambda>tpdu.
           cret (tpdu, rp + numBits)))"

definition RPUserData_writeV :: "bit_ops \<Rightarrow> bits \<Rightarrow> nat \<Rightarrow> bits \<Rightarrow> (bits \<times> nat) codec" where
  "RPUserData_writeV B dest wp tpdu =
     cbind (clift (copyToSegment B tpdu dest wp (length tpdu))) (\<lambda>dest.
     cret (dest, wp + length tpdu))"

definition RPData_parseBody ::
  "bit_ops \<Rightarrow> bits \<Rightarrow> nat \<Rightarrow> RPData \<Rightarrow> (RPData \<times> nat) codec" where
  "RPData_parseBody B src rp d =
     cbind (parseLV B (bcd_number_parseV B) src rp (mOriginator d)) (\<lambda>(og, rp).
     cbind (parseLV B (bcd_number_parseV B) src rp (mDestination d)) (\<lambda>(dst, rp).
     cbind (parseLV B (RPUserData_parseV B) src rp (mTPDU d)) (\<lambda>(ud, rp).
     cret (d\<lparr>mOriginator := og, mDestination := dst, mTPDU := ud\<rparr>, rp))))"

definition RPData_parse :: "bit_ops \<Rightarrow> bits \<Rightarrow> RPData \<Rightarrow> RPData codec" where
  "RPData_parse B frame d =
     cbind (readField B frame 8 8) (\<lambda>(ref, rp).
     cbind (RPData_parseBody B frame rp (d\<lparr>mReference := ref\<rparr>)) (\<lambda>(d, rp). cret d))"

definition RPData_l2BodyLength :: "RPData \<Rightarrow> nat" where
  "RPData_l2BodyLength d =
     (bcd_number_lengthV (mOriginator d) + 1) + (bcd_number_lengthV (mDestination d) + 1)
     + (RPUserData_lengthV (mTPDU d) + 1)"

definition RPData_writeBody :: "bit_ops \<Rightarrow> bits \<Rightarrow> nat \<Rightarrow> RPData \<Rightarrow> (bits \<times> nat) codec" where
  "RPData_writeBody B dest wp d =
     cbind (writeLV B bcd_number_lengthV (bcd_number_writeV B) dest wp (mOriginator d))
       (\<lambda>(dest, wp).
     cbind (writeLV B bcd_number_lengthV (bcd_number_writeV B) dest wp (mDestination d))
       (\<lambda>(dest, wp).
     writeLV B RPUserData_lengthV (RPUserData_writeV B) dest wp (mTPDU d)))"

text \<open>The downlink message type is \<open>MTI() + 1\<close>; \<open>MTI()\<close> of RP-DATA is 0.\<close>

definition RPData_write :: "bit_ops \<Rightarrow> bits \<Rightarrow> RPData \<Rightarrow> bits codec" where
  "RPData_write B dest d =
     (let dest = resizeBits B dest ((RPData_l2BodyLength d + 2) * 8) in
      cbind (writeFields B dest 0 [(0, 5), (0 + 1, 3), (mReference d, 8)]) (\<lambda>(dest, wp).
      cbind (RPData_writeBody B dest wp d) (\<lambda>(dest, wp). cret dest)))"

text \<open>
  \<open>decodeRPData\<close>: both exceptions are caught and give \<open>NULL\<close>.  \<open>decodeToString\<close> (CommonLibs) is
  a parameter; \<open>datastring\<close> is the text from the pointer on.
\<close>

definition decodeRPData ::
  "bit_ops \<Rightarrow> (string \<Rightarrow> nat \<Rightarrow> string \<Rightarrow> string) \<Rightarrow> string \<Rightarrow> nat \<Rightarrow> string \<Rightarrow> RPData option option"
where
  "decodeRPData B decodeToString datastring datalen encoding =
     (if datalen = 0 then Some None
      else let binaryData = decodeToString datastring datalen encoding;
               RPDU = unpackBytes B (newBits B (length binaryData * 8)) binaryData
           in case RPData_parse B RPDU RPData0 of
                None \<Rightarrow> None
              | Some (Inl e) \<Rightarrow> Some None
              | Some (Inr d) \<Rightarrow> Some (Some d))"

end
