(* ===== verification/Smq_Sip.thy ===== *)
theory Smq_Sip
  imports Sms_Codec
begin

text \<open>
  What the daemon sees of the libraries it is linked to: the parsed SIP message of osip2 (the
  fields the sources read or write), the functions of osip2 on it, the transfer encodings and the
  bit vectors of CommonLibs.  None of that code is under \<open>src/\<close>: its types are records of the
  fields used, its functions are the parameter \<open>lib_ops\<close>.
\<close>

section \<open>The parsed SIP message\<close>

record osip_uri =
  u_scheme :: "string option"
  u_username :: "string option"
  u_host :: "string option"
  u_port :: "string option"

record gparam =
  gname :: string
  gvalue :: "string option"

text \<open>\<open>osip_from_t\<close>, also used for \<open>To\<close>; an element of the parameter list may be null.\<close>

record name_addr =
  displayname :: "string option"
  na_url :: "osip_uri option"
  gen_params :: "gparam option list"

record osip_cseq =
  cs_number :: "string option"
  cs_method :: "string option"

record osip_call_id =
  ci_number :: "string option"
  ci_host :: "string option"

record osip_content_type =
  ct_type :: "string option"
  ct_subtype :: "string option"

record osip_via =
  via_host :: "string option"
  via_port :: "string option"
  via_rest :: string

text \<open>\<open>osip_body_t\<close>: the text; its length is that of the text.\<close>

record osip_body =
  body :: "string option"

record osip_message =
  p_sip_version :: "string option"
  p_req_uri :: "osip_uri option"
  p_sip_method :: "string option"
  p_status_code :: int
  p_reason_phrase :: "string option"
  p_call_id :: "osip_call_id option"
  p_content_length :: "string option option"
  p_content_type :: "osip_content_type option"
  p_cseq :: "osip_cseq option"
  p_from :: "name_addr option"
  p_to :: "name_addr option"
  p_mime_version :: "string option option"
  p_vias :: "osip_via list"
  p_bodies :: "osip_body option list"
  p_rest :: "string list"

definition osip_uri0 :: osip_uri where
  "osip_uri0 = \<lparr>u_scheme = None, u_username = None, u_host = None, u_port = None\<rparr>"

definition osip_call_id0 :: osip_call_id where
  "osip_call_id0 = \<lparr>ci_number = None, ci_host = None\<rparr>"

section \<open>Library functions\<close>

text \<open>
  A status code that is not 0 is \<open>None\<close>.  \<open>encode_ops\<close> are \<open>decodeToString\<close> and
  \<open>encodeToString\<close> with their data, length and encoding.
\<close>

record lib_ops =
  osip_init_ok :: bool
  osip_message_init :: "osip_message option"
  osip_message_parse :: "string option \<Rightarrow> nat \<Rightarrow> osip_message option"
  osip_message_to_str :: "osip_message \<Rightarrow> string option"
  MSG_IS_REQUEST :: "osip_message \<Rightarrow> bool"
  MSG_IS_RESPONSE :: "osip_message \<Rightarrow> bool"
  osip_uri_parse :: "osip_uri \<Rightarrow> string \<Rightarrow> osip_uri"
  osip_call_id_parse :: "osip_call_id \<Rightarrow> string \<Rightarrow> osip_call_id"
  osip_call_id_to_str :: "osip_call_id \<Rightarrow> string option"
  osip_set_cseq :: "osip_message \<Rightarrow> string \<Rightarrow> osip_message"
  osip_set_from :: "osip_message \<Rightarrow> string \<Rightarrow> osip_message"
  osip_set_to :: "osip_message \<Rightarrow> string \<Rightarrow> osip_message"
  osip_set_contact :: "osip_message \<Rightarrow> string \<Rightarrow> osip_message"
  osip_set_content_type :: "osip_message \<Rightarrow> string \<Rightarrow> osip_message"
  osip_set_body :: "osip_message \<Rightarrow> string \<Rightarrow> osip_message"
  osip_append_via :: "osip_message \<Rightarrow> string \<Rightarrow> osip_message"
  osip_set_allow :: "osip_message \<Rightarrow> string \<Rightarrow> osip_message"
  osip_set_accept :: "osip_message \<Rightarrow> string \<Rightarrow> osip_message"
  bit_lib :: bit_ops
  time_lib :: time_ops
  decodeToString :: "string \<Rightarrow> nat \<Rightarrow> string \<Rightarrow> string"
  encodeToString :: "string \<Rightarrow> nat \<Rightarrow> string \<Rightarrow> string"

section \<open>Path updates\<close>

text \<open>Assignments such as \<open>parsed->req_uri->username = s\<close>.\<close>

definition set_uri_username :: "string option \<Rightarrow> osip_message \<Rightarrow> osip_message option" where
  "set_uri_username s p =
     do { u \<leftarrow> p_req_uri p; Some (p\<lparr>p_req_uri := Some (u\<lparr>u_username := s\<rparr>)\<rparr>) }"

definition from_username :: "osip_message \<Rightarrow> string option option" where
  "from_username p = do { f \<leftarrow> p_from p; u \<leftarrow> na_url f; Some (u_username u) }"

definition to_username :: "osip_message \<Rightarrow> string option option" where
  "to_username p = do { f \<leftarrow> p_to p; u \<leftarrow> na_url f; Some (u_username u) }"

definition set_from_username :: "string option \<Rightarrow> osip_message \<Rightarrow> osip_message option" where
  "set_from_username s p =
     do { f \<leftarrow> p_from p; u \<leftarrow> na_url f;
          Some (p\<lparr>p_from := Some (f\<lparr>na_url := Some (u\<lparr>u_username := s\<rparr>)\<rparr>)\<rparr>) }"

end
