(* ===== verification/Smq_Net.thy ===== *)
theory Smq_Net
  imports Smq_Sip
begin

text \<open>
  The sockets of the daemon (class \<open>SMnet\<close>, \<open>smqueue/smnet.h\<close> and \<open>smqueue/smnet.cpp\<close>) and the
  replacement of \<open>poll\<close> by \<open>select\<close> (\<open>smqueue/poll.c\<close>).

  Every answer of the kernel and of the resolver comes from the parameter \<open>net_world\<close>; a call
  that may answer differently each time takes the index of the external call, which the caller
  counts.
\<close>

section \<open>State\<close>

record pollfd =
  fd :: int
  pevents :: "16 word"
  revents :: "16 word"

text \<open>A socket address is its bytes.\<close>

type_synonym sockaddr = string

record extra_sockinfo =
  addrfam :: int
  socktype :: int
  protofam :: int
  saddr :: sockaddr
  addrlen :: nat

text \<open>
  \<open>sockets\<close> is the live part of the array, \<open>numsockets\<close> its length.  \<open>sockinfo\<close> is the array of
  the same index; entries past its end are not initialised.
\<close>

record SMnet =
  sockets :: "pollfd list"
  sockinfo :: "extra_sockinfo list"
  allocsockets :: nat
  src_addr :: sockaddr
  recvaddrlen :: nat
  my_network_hostname :: "string option"
  random_string :: "string option"
  random_fd :: int
  rand_fallback :: "32 word"

definition SMnet0 :: SMnet where
  "SMnet0 =
     \<lparr>sockets = [], sockinfo = [], allocsockets = 0, src_addr = [], recvaddrlen = 0,
      my_network_hostname = None, random_string = None, random_fd = 0, rand_fallback = 0\<rparr>"

record addrinfo =
  ai_family :: int
  ai_socktype :: int
  ai_protocol :: int
  ai_addr :: sockaddr
  ai_addrlen :: nat

definition SOCK_DGRAM :: int where "SOCK_DGRAM = 2"

definition POLLIN :: "16 word" where "POLLIN = 1"
definition POLLPRI :: "16 word" where "POLLPRI = 2"
definition POLLOUT :: "16 word" where "POLLOUT = 4"
definition POLLERR :: "16 word" where "POLLERR = 8"
definition POLLHUP :: "16 word" where "POLLHUP = 16"
definition POLLNVAL :: "16 word" where "POLLNVAL = 32"
definition POLLRDHUP :: "16 word" where "POLLRDHUP = 8192"

text \<open>\<open>recvfrom\<close> returns -1 or the length of the datagram (\<open>MSG_TRUNC\<close>), its bytes and its source.\<close>

record net_world =
  getaddrinfo :: "nat \<Rightarrow> string option \<Rightarrow> string \<Rightarrow> addrinfo list option"
  sendto :: "nat \<Rightarrow> int \<Rightarrow> string \<Rightarrow> sockaddr \<Rightarrow> int"
  poll_rc :: "nat \<Rightarrow> pollfd list \<Rightarrow> int \<Rightarrow> int \<times> pollfd list"
  recvfrom :: "nat \<Rightarrow> int \<Rightarrow> int \<times> string \<times> sockaddr"
  sys_socket :: "nat \<Rightarrow> int \<Rightarrow> int \<Rightarrow> int \<Rightarrow> int"
  sys_bind :: "nat \<Rightarrow> int \<Rightarrow> sockaddr \<Rightarrow> int"
  getsockname :: "nat \<Rightarrow> int \<Rightarrow> sockaddr"
  getnameinfo :: "nat \<Rightarrow> sockaddr \<Rightarrow> nat \<Rightarrow> (string \<times> string) option"
  inet_ntop :: "nat \<Rightarrow> sockaddr \<Rightarrow> string option"
  open_urandom :: "nat \<Rightarrow> int"
  read_urandom :: "nat \<Rightarrow> (32 word) option"

section \<open>The socket table\<close>

definition set_at :: "'a \<Rightarrow> nat \<Rightarrow> 'a \<Rightarrow> 'a list \<Rightarrow> 'a list" where
  "set_at d i x xs = (xs @ replicate (Suc i - length xs) d)[i := x]"

definition sockinfo0 :: extra_sockinfo where
  "sockinfo0 = \<lparr>addrfam = 0, socktype = 0, protofam = 0, saddr = [], addrlen = 0\<rparr>"

definition sizeof_sockaddr_storage :: nat where
  "sizeof_sockaddr_storage = 128"

definition add_socket ::
  "int \<Rightarrow> 16 word \<Rightarrow> int \<Rightarrow> int \<Rightarrow> int \<Rightarrow> sockaddr \<Rightarrow> nat \<Rightarrow> SMnet \<Rightarrow> SMnet" where
  "add_socket sock ev fam ty pf a alen net =
     (let numsockets = length (sockets net);
          net1 = (if allocsockets net \<le> numsockets
                  then net\<lparr>allocsockets := allocsockets net + 10\<rparr> else net);
          si = (if alen \<le> sizeof_sockaddr_storage
                then \<lparr>addrfam = fam, socktype = ty, protofam = pf, saddr = a, addrlen = alen\<rparr>
                else \<lparr>addrfam = fam, socktype = ty, protofam = pf, saddr = [], addrlen = 0\<rparr>)
      in net1\<lparr>sockets := sockets net @ [\<lparr>fd = sock, pevents = ev, revents = 0\<rparr>],
              sockinfo := set_at sockinfo0 numsockets si (sockinfo net)\<rparr>)"

text \<open>The loop keeps the entries of \<open>sockets\<close> in place order; \<open>sockinfo\<close> is not touched.\<close>

fun remove_socket_loop :: "int \<Rightarrow> pollfd list \<Rightarrow> pollfd list" where
  "remove_socket_loop sock [] = []"
| "remove_socket_loop sock (s # ss) =
     (if fd s \<noteq> sock then s # remove_socket_loop sock ss else remove_socket_loop sock ss)"

definition remove_socket :: "int \<Rightarrow> SMnet \<Rightarrow> SMnet" where
  "remove_socket sock net = net\<lparr>sockets := remove_socket_loop sock (sockets net)\<rparr>"

fun care_about_writes_loop :: "int \<Rightarrow> bool \<Rightarrow> pollfd list \<Rightarrow> bool \<times> pollfd list" where
  "care_about_writes_loop sock icare [] = (False, [])"
| "care_about_writes_loop sock icare (s # ss) =
     (if fd s = sock
      then (True, s\<lparr>pevents := (if icare then or (pevents s) POLLOUT
                                else and (pevents s) (not POLLOUT))\<rparr> # ss)
      else let (r, ss') = care_about_writes_loop sock icare ss in (r, s # ss'))"

definition care_about_writes :: "int \<Rightarrow> bool \<Rightarrow> SMnet \<Rightarrow> bool \<times> SMnet" where
  "care_about_writes sock icare net =
     (let (r, ss) = care_about_writes_loop sock icare (sockets net)
      in (r, net\<lparr>sockets := ss\<rparr>))"

definition poll_sockets :: "net_world \<Rightarrow> nat \<Rightarrow> int \<Rightarrow> SMnet \<Rightarrow> int \<times> SMnet" where
  "poll_sockets W t mstimeout net =
     (let (i, ss) = poll_rc W t (sockets net) (if mstimeout < 0 then -1 else mstimeout)
      in (i, net\<lparr>sockets := ss\<rparr>))"

section \<open>Sending and receiving\<close>

text \<open>
  \<open>send_dgram\<close>: the pairs of a socket and its information, in order.  The result is the
  success, the datagrams the kernel accepted, and the next call index.
\<close>

fun send_dgram_loop ::
  "net_world \<Rightarrow> nat \<Rightarrow> string \<Rightarrow> sockaddr \<Rightarrow> nat \<Rightarrow> (pollfd \<times> extra_sockinfo) list
     \<Rightarrow> bool \<times> (int \<times> string \<times> sockaddr) list \<times> nat"
where
  "send_dgram_loop W t buffer toaddr toaddrsize [] = (False, [], t)"
| "send_dgram_loop W t buffer toaddr toaddrsize ((s, si) # r) =
     (if socktype si = SOCK_DGRAM \<and> addrlen si = toaddrsize then
        (let i = sendto W t (fd s) buffer toaddr in
         if i < 0 then send_dgram_loop W (t + 1) buffer toaddr toaddrsize r
         else if i \<noteq> int (length buffer) then (False, [(fd s, take (nat i) buffer, toaddr)], t + 1)
         else (True, [(fd s, buffer, toaddr)], t + 1))
      else send_dgram_loop W t buffer toaddr toaddrsize r)"

definition send_dgram ::
  "net_world \<Rightarrow> nat \<Rightarrow> string \<Rightarrow> sockaddr \<Rightarrow> nat \<Rightarrow> SMnet
     \<Rightarrow> bool \<times> (int \<times> string \<times> sockaddr) list \<times> nat"
where
  "send_dgram W t buffer toaddr toaddrsize net =
     (if sockets net = [] then (False, [], t)
      else send_dgram_loop W t buffer toaddr toaddrsize (zip (sockets net) (sockinfo net)))"

text \<open>
  The sending part of \<open>deliver_msg_datagram\<close>.  For one address the datagram goes out on every
  matching socket; \<open>i\<close> is the result of the last \<open>sendto\<close>, 0 if no socket matched.
\<close>

definition sock_matches :: "addrinfo \<Rightarrow> extra_sockinfo \<Rightarrow> bool" where
  "sock_matches ap si \<longleftrightarrow>
     addrfam si = ai_family ap \<and> socktype si = ai_socktype ap
     \<and> protofam si = ai_protocol ap \<and> addrlen si = ai_addrlen ap"

fun deliver_sockets ::
  "net_world \<Rightarrow> nat \<Rightarrow> string \<Rightarrow> addrinfo \<Rightarrow> (pollfd \<times> extra_sockinfo) list \<Rightarrow> int
     \<Rightarrow> int \<times> (int \<times> string \<times> sockaddr) list \<times> nat"
where
  "deliver_sockets W t txt ap [] i = (i, [], t)"
| "deliver_sockets W t txt ap ((s, si) # r) i =
     (if sock_matches ap si then
        (let i' = sendto W t (fd s) txt (ai_addr ap) in
         if i' < 0 then (i', [], t + 1)
         else let (k, out, t') = deliver_sockets W (t + 1) txt ap r i'
              in (k, (fd s, take (nat i') txt, ai_addr ap) # out, t'))
      else deliver_sockets W t txt ap r i)"

fun deliver_addrs ::
  "net_world \<Rightarrow> nat \<Rightarrow> string \<Rightarrow> (pollfd \<times> extra_sockinfo) list \<Rightarrow> addrinfo list
     \<Rightarrow> bool \<times> (int \<times> string \<times> sockaddr) list \<times> nat"
where
  "deliver_addrs W t txt socks [] = (False, [], t)"
| "deliver_addrs W t txt socks (ap # aps) =
     (let (i, out, t') = deliver_sockets W t txt ap socks 0 in
      if i \<le> 0 then
        (let (r, out', t'') = deliver_addrs W t' txt socks aps in (r, out @ out', t''))
      else (True, out, t'))"

text \<open>
  \<open>get_next_dgram\<close>: the result, the buffer (empty unless a datagram arrived) and the state.
  \<open>recvlength\<close> is a \<open>size_t\<close>: the test \<open>recvlength < 0\<close> never holds and an error of \<open>recvfrom\<close>
  is the length \<open>2 ^ 64 - 1\<close>, for which the kernel leaves \<open>addrlen\<close> alone.
\<close>

definition sizeof_src_addr :: nat where
  "sizeof_src_addr = 200"

definition recv_length :: "int \<Rightarrow> nat" where
  "recv_length rc = (if rc < 0 then 2 ^ 64 - 1 else nat rc)"

fun get_next_dgram_loop ::
  "net_world \<Rightarrow> nat \<Rightarrow> nat \<Rightarrow> pollfd list \<Rightarrow> SMnet \<Rightarrow> (int \<times> string \<times> SMnet \<times> nat) option"
where
  "get_next_dgram_loop W t bufferlen [] net = Some (-1, [], net, t)"
| "get_next_dgram_loop W t bufferlen (s # ss) net =
     (if and (revents s) (or POLLIN (or POLLPRI POLLRDHUP)) \<noteq> 0 then
        (let (rc, dat, src) = recvfrom W t (fd s);
             recvlength = recv_length rc;
             alen = (if rc < 0 then sizeof_src_addr else length src)
         in if sizeof_src_addr < alen then None
            else let net1 = net\<lparr>src_addr := (if rc < 0 then src_addr net else src),
                                recvaddrlen := alen\<rparr>
                 in if bufferlen < recvlength then Some (-1, [], net1, t + 1)
                    else Some (rc, dat, net1, t + 1))
      else if and (revents s) POLLOUT \<noteq> 0 then Some (0, [], net, t)
      else if and (revents s) (or POLLERR (or POLLHUP POLLNVAL)) \<noteq> 0 then Some (-1, [], net, t)
      else get_next_dgram_loop W t bufferlen ss net)"

definition get_next_dgram ::
  "net_world \<Rightarrow> nat \<Rightarrow> nat \<Rightarrow> int \<Rightarrow> SMnet \<Rightarrow> (int \<times> string \<times> SMnet \<times> nat) option" where
  "get_next_dgram W t bufferlen mstimeout net =
     (let (i, net1) = poll_sockets W t mstimeout net in
      if i < 0 then Some (i, [], net1, t + 1)
      else if i = 0 then Some (0, [], net1, t + 1)
      else get_next_dgram_loop W (t + 1) bufferlen (sockets net1) net1)"

section \<open>Listening, names and addresses\<close>

fun listen_loop :: "net_world \<Rightarrow> nat \<Rightarrow> addrinfo list \<Rightarrow> nat \<Rightarrow> SMnet \<Rightarrow> nat \<times> SMnet \<times> nat" where
  "listen_loop W t [] gotasocket net = (gotasocket, net, t)"
| "listen_loop W t (ap # aps) gotasocket net =
     (let f = sys_socket W t (ai_family ap) (ai_socktype ap) (ai_protocol ap) in
      if f < 0 then listen_loop W (t + 1) aps gotasocket net
      else if sys_bind W (t + 1) f (ai_addr ap) < 0
      then listen_loop W (t + 2) aps gotasocket net
      else listen_loop W (t + 2) aps (gotasocket + 1)
             (add_socket f (or POLLIN POLLPRI) (ai_family ap) (ai_socktype ap) (ai_protocol ap)
                (ai_addr ap) (ai_addrlen ap) net))"

definition listen_on_port :: "net_world \<Rightarrow> nat \<Rightarrow> string \<Rightarrow> SMnet \<Rightarrow> bool \<times> SMnet \<times> nat" where
  "listen_on_port W t port net =
     (case getaddrinfo W t None port of
        None \<Rightarrow> (False, net, t + 1)
      | Some myaddrs \<Rightarrow>
          let (n, net', t') = listen_loop W (t + 1) myaddrs 0 net in (n \<noteq> 0, net', t'))"

definition myhostname :: "net_world \<Rightarrow> nat \<Rightarrow> SMnet \<Rightarrow> (string \<times> SMnet \<times> nat) option" where
  "myhostname W t net =
     (case my_network_hostname net of
        Some h \<Rightarrow> Some (h, net, t)
      | None \<Rightarrow>
          (case sockets net of
             [] \<Rightarrow> None
           | s # _ \<Rightarrow>
               let sa = getsockname W t (fd s);
                   p = (case getnameinfo W (t + 1) sa (length sa) of
                          None \<Rightarrow> ''x'' | Some (h, _) \<Rightarrow> h)
               in Some (p, net\<lparr>my_network_hostname := Some p\<rparr>, t + 2)))"

definition string_addr :: "net_world \<Rightarrow> nat \<Rightarrow> sockaddr \<Rightarrow> nat \<Rightarrow> bool \<Rightarrow> string" where
  "string_addr W t sa len withport =
     (let (p, port) =
        (if len = 0 then (''0'', ''0'')
         else case getnameinfo W t sa len of
                Some r \<Rightarrow> r
              | None \<Rightarrow> (case inet_ntop W t sa of None \<Rightarrow> ''0'' | Some h \<Rightarrow> h, ''0''))
      in if withport then p @ '':'' @ port else p)"

definition msg_is_from_relay ::
  "net_world \<Rightarrow> nat \<Rightarrow> sockaddr \<Rightarrow> nat \<Rightarrow> string \<Rightarrow> string \<Rightarrow> bool" where
  "msg_is_from_relay W t srcaddr srcaddrlen relay_ip relay_port =
     (if relay_ip = [] then False
      else case getaddrinfo W t (Some relay_ip) relay_port of
             None \<Rightarrow> False
           | Some myaddrs \<Rightarrow>
               list_ex (\<lambda>ap. ai_addrlen ap = srcaddrlen
                          \<and> take srcaddrlen (ai_addr ap) = take srcaddrlen srcaddr) myaddrs)"

text \<open>
  \<open>parse_addr\<close>: the result and what was stored through \<open>sockad\<close> and \<open>len\<close>, if anything.
\<close>

fun parse_addr_loop :: "nat \<Rightarrow> addrinfo list \<Rightarrow> (sockaddr \<times> nat) option
    \<Rightarrow> bool \<times> (sockaddr \<times> nat) option" where
  "parse_addr_loop maxlen [] seen = (seen \<noteq> None, seen)"
| "parse_addr_loop maxlen (ap # aps) seen =
     (if maxlen < ai_addrlen ap then parse_addr_loop maxlen aps seen
      else if ai_socktype ap \<noteq> SOCK_DGRAM then parse_addr_loop maxlen aps seen
      else if seen \<noteq> None then (False, seen)
      else parse_addr_loop maxlen aps (Some (take (ai_addrlen ap) (ai_addr ap), ai_addrlen ap)))"

definition parse_addr ::
  "net_world \<Rightarrow> nat \<Rightarrow> string \<Rightarrow> nat \<Rightarrow> bool \<times> (sockaddr \<times> nat) option" where
  "parse_addr W t str maxlen =
     (case strchr_split CHR '':'' str of
        None \<Rightarrow> (False, None)
      | Some (host, port) \<Rightarrow>
          if str = ''0:0'' then (True, Some ([], 0))
          else (case getaddrinfo W t (Some host) port of
                  None \<Rightarrow> (False, None)
                | Some myaddrs \<Rightarrow> parse_addr_loop maxlen myaddrs None))"

section \<open>Random numbers\<close>

text \<open>
  The loop repeats until the number is positive; \<open>randnum = -randnum\<close> wraps for the smallest
  integer.  \<open>None\<close> is a loop that never ends.
\<close>

partial_function (option) new_random_loop ::
  "net_world \<Rightarrow> nat \<Rightarrow> SMnet \<Rightarrow> (32 word \<times> SMnet \<times> nat) option" where
  "new_random_loop W t net =
     (let (r, net1, t1) =
        (if 0 < random_fd net
         then (case read_urandom W t of
                 Some v \<Rightarrow> (v, net, t + 1)
               | None \<Rightarrow> (rand_fallback net + 1,
                          net\<lparr>rand_fallback := rand_fallback net + 1\<rparr>, t + 1))
         else (rand_fallback net + 1, net\<lparr>rand_fallback := rand_fallback net + 1\<rparr>, t));
        r1 = (if sint r < 0 then - r else r)
      in if sint r1 \<le> 0 then new_random_loop W t1 net1 else Some (r1, net1, t1))"

declare new_random_loop.simps [code]

definition new_random_number ::
  "net_world \<Rightarrow> nat \<Rightarrow> SMnet \<Rightarrow> (32 word \<times> SMnet \<times> nat) option" where
  "new_random_number W t net =
     (if random_fd net \<le> 0
      then new_random_loop W (t + 1) (net\<lparr>random_fd := open_urandom W t\<rparr>)
      else new_random_loop W t net)"

text \<open>\<open>l64a\<close> of libc: the digits in radix 64, the least significant first.\<close>

definition a64_digits :: string where
  "a64_digits = ''./0123456789ABCDEFGHIJKLMNOPQRSTUVWXYZabcdefghijklmnopqrstuvwxyz''"

fun l64a :: "nat \<Rightarrow> string" where
  "l64a n = (if n = 0 then [] else a64_digits ! (n mod 64) # l64a (n div 64))"

declare l64a.simps [simp del]

definition new_call_number ::
  "net_world \<Rightarrow> nat \<Rightarrow> SMnet \<Rightarrow> (string \<times> SMnet \<times> nat) option" where
  "new_call_number W t net =
     (case new_random_number W t net of
        None \<Rightarrow> None
      | Some (randnum, net1, t1) \<Rightarrow>
          let s = take 6 (l64a (unat randnum))
          in Some (s, net1\<lparr>random_string := Some s\<rparr>, t1))"

end
