(* ===== verification/Smq_States.thy ===== *)
theory Smq_States
  imports Smq_Prelude
begin

text \<open>
  The states of a queued message (\<open>enum sm_state\<close> of \<open>smqueue/smqueue.h\<close>), their printable
  names and the two-dimensional timeout table of \<open>smqueue/smqueue.cpp\<close>.
\<close>

section \<open>States\<close>

datatype sm_state =
    NO_STATE
  | INITIAL_STATE
  | REQUEST_FROM_ADDRESS_LOOKUP
  | ASKED_FOR_FROM_ADDRESS_LOOKUP
  | AWAITING_TRY_DESTINATION_IMSI
  | REQUEST_DESTINATION_IMSI
  | ASKED_FOR_DESTINATION_IMSI
  | AWAITING_TRY_DESTINATION_SIPURL
  | REQUEST_DESTINATION_SIPURL
  | ASKED_FOR_DESTINATION_SIPURL
  | AWAITING_TRY_MSG_DELIVERY
  | REQUEST_MSG_DELIVERY
  | ASKED_FOR_MSG_DELIVERY
  | DELETE_ME_STATE
  | AWAITING_REGISTER_HANDSET
  | REGISTER_HANDSET
  | ASKED_TO_REGISTER_HANDSET

definition STATE_MAX_PLUS_ONE :: nat where
  "STATE_MAX_PLUS_ONE = 17"

text \<open>The numeric value of an enumerator, and all enumerators in the order of the \<open>enum\<close>.\<close>

fun state_num :: "sm_state \<Rightarrow> nat" where
  "state_num NO_STATE = 0"
| "state_num INITIAL_STATE = 1"
| "state_num REQUEST_FROM_ADDRESS_LOOKUP = 2"
| "state_num ASKED_FOR_FROM_ADDRESS_LOOKUP = 3"
| "state_num AWAITING_TRY_DESTINATION_IMSI = 4"
| "state_num REQUEST_DESTINATION_IMSI = 5"
| "state_num ASKED_FOR_DESTINATION_IMSI = 6"
| "state_num AWAITING_TRY_DESTINATION_SIPURL = 7"
| "state_num REQUEST_DESTINATION_SIPURL = 8"
| "state_num ASKED_FOR_DESTINATION_SIPURL = 9"
| "state_num AWAITING_TRY_MSG_DELIVERY = 10"
| "state_num REQUEST_MSG_DELIVERY = 11"
| "state_num ASKED_FOR_MSG_DELIVERY = 12"
| "state_num DELETE_ME_STATE = 13"
| "state_num AWAITING_REGISTER_HANDSET = 14"
| "state_num REGISTER_HANDSET = 15"
| "state_num ASKED_TO_REGISTER_HANDSET = 16"

definition sm_states :: "sm_state list" where
  "sm_states =
     [NO_STATE, INITIAL_STATE, REQUEST_FROM_ADDRESS_LOOKUP, ASKED_FOR_FROM_ADDRESS_LOOKUP,
      AWAITING_TRY_DESTINATION_IMSI, REQUEST_DESTINATION_IMSI, ASKED_FOR_DESTINATION_IMSI,
      AWAITING_TRY_DESTINATION_SIPURL, REQUEST_DESTINATION_SIPURL, ASKED_FOR_DESTINATION_SIPURL,
      AWAITING_TRY_MSG_DELIVERY, REQUEST_MSG_DELIVERY, ASKED_FOR_MSG_DELIVERY,
      DELETE_ME_STATE, AWAITING_REGISTER_HANDSET, REGISTER_HANDSET, ASKED_TO_REGISTER_HANDSET]"

text \<open>
  The cast \<open>(SMqueue::sm_state) astate\<close> of a number read from the save file.  A number that is
  no enumerator has no state in the program's tables: every later use indexes
  \<open>SMqueue::timeouts\<close> outside its bounds.
\<close>

definition sm_state_of_num :: "nat \<Rightarrow> sm_state option" where
  "sm_state_of_num n = (if n < STATE_MAX_PLUS_ONE then Some (sm_states ! n) else None)"

text \<open>Enumerators compare by their number, as \<open>astate < STATE_MAX_PLUS_ONE\<close> does.\<close>

lemma state_num_inj: "state_num a = state_num b \<Longrightarrow> a = b"
  by (cases a; cases b) simp_all

instantiation sm_state :: linorder
begin

definition less_eq_sm_state :: "sm_state \<Rightarrow> sm_state \<Rightarrow> bool" where
  "less_eq_sm_state a b \<longleftrightarrow> state_num a \<le> state_num b"

definition less_sm_state :: "sm_state \<Rightarrow> sm_state \<Rightarrow> bool" where
  "less_sm_state a b \<longleftrightarrow> state_num a < state_num b"

instance
  by standard (auto simp: less_eq_sm_state_def less_sm_state_def dest: state_num_inj)

end

lemma state_num_less [simp]: "state_num s < 17"
  by (cases s) simp_all

lemma sm_states_nth [simp]: "sm_states ! state_num s = s"
  by (cases s) (simp_all add: sm_states_def)

lemma state_num_nth: "n < 17 \<Longrightarrow> state_num (sm_states ! n) = n"
  by (auto simp: sm_states_def numeral_eq_Suc less_Suc_eq)

lemma sm_state_of_num_inverse [simp]: "sm_state_of_num (state_num s) = Some s"
  by (simp add: sm_state_of_num_def STATE_MAX_PLUS_ONE_def)

section \<open>Printable names\<close>

definition sm_state_strings :: "string list" where
  "sm_state_strings =
     [''No State'', ''Initial State'', ''Request From-Address Lookup'',
      ''Asked for From-Address'', ''Awaiting Try Destination IMSI'',
      ''Request Destination IMSI'', ''Asked for Destination IMSI'',
      ''Awaiting Try Destination SIP URL'', ''Request Destination SIP URL'',
      ''Asked for Destination SIP URL'', ''Awaiting Try Message Delivery'',
      ''Request Message Delivery'', ''Asked for Message Delivery'', ''Delete Me'',
      ''Awaiting Register Handset'', ''Register Handset'', ''Asked to Register Handset'']"

definition sm_state_string :: "nat \<Rightarrow> string" where
  "sm_state_string astate =
     (if astate < STATE_MAX_PLUS_ONE then sm_state_strings ! astate
      else ''Invalid State Number'')"

section \<open>Timeouts\<close>

text \<open>Milliseconds: "no timeout" (50 minutes), "retry" (5 minutes) and "trying" (1 minute).\<close>

definition NT :: int where "NT = 3000 * 1000"
definition RT :: int where "RT = 300 * 1000"
definition TT :: int where "TT = 60 * 1000"

text \<open>One row per state that is left, one column per state that is entered.\<close>

fun timeouts_row :: "sm_state \<Rightarrow> int list" where
  "timeouts_row NO_STATE =
     [NT, 0, 0, NT, NT, 0, NT, NT, 0, NT, NT, 0, NT, 0, NT, NT, NT]"
| "timeouts_row INITIAL_STATE =
     [0, 0, 0, NT, NT, NT, NT, NT, NT, NT, NT, 0, NT, 0, NT, NT, NT]"
| "timeouts_row REQUEST_FROM_ADDRESS_LOOKUP =
     [0, NT, 10, 10, NT, 0, NT, NT, NT, NT, NT, NT, NT, 0, 1, 0, NT]"
| "timeouts_row ASKED_FOR_FROM_ADDRESS_LOOKUP =
     [0, NT, 60, NT, NT, NT, NT, NT, NT, NT, NT, NT, NT, 0, NT, NT, NT]"
| "timeouts_row AWAITING_TRY_DESTINATION_IMSI =
     [0, NT, RT, NT, RT, NT, NT, NT, NT, NT, NT, NT, NT, 0, NT, NT, NT]"
| "timeouts_row REQUEST_DESTINATION_IMSI =
     [0, NT, RT, NT, RT, NT, NT, NT, 0, NT, NT, NT, NT, 0, NT, NT, NT]"
| "timeouts_row ASKED_FOR_DESTINATION_IMSI =
     [0, NT, RT, NT, RT, NT, NT, NT, NT, NT, NT, NT, NT, 0, NT, NT, NT]"
| "timeouts_row AWAITING_TRY_DESTINATION_SIPURL =
     [0, NT, RT, NT, RT, NT, NT, NT, NT, NT, NT, NT, NT, 0, NT, NT, NT]"
| "timeouts_row REQUEST_DESTINATION_SIPURL =
     [0, NT, RT, NT, RT, NT, NT, NT, NT, NT, NT, 0, NT, 0, NT, NT, NT]"
| "timeouts_row ASKED_FOR_DESTINATION_SIPURL =
     [0, NT, RT, NT, RT, NT, NT, NT, NT, NT, NT, NT, NT, 0, NT, NT, NT]"
| "timeouts_row AWAITING_TRY_MSG_DELIVERY =
     [0, NT, RT, NT, RT, NT, NT, NT, NT, NT, 75*1000, 0, NT, 0, NT, NT, NT]"
| "timeouts_row REQUEST_MSG_DELIVERY =
     [0, NT, RT, NT, RT, NT, NT, NT, 15*1000, NT, 75*1000, 75*1000, 15*1000, 0, NT, NT, NT]"
| "timeouts_row ASKED_FOR_MSG_DELIVERY =
     [0, NT, RT, NT, NT, NT, NT, NT, NT, NT, 60*1000, 10*1000, TT, 0, NT, NT, NT]"
| "timeouts_row DELETE_ME_STATE =
     [0, 0, 0, 0, 0, 0, 0, 0, 0, 0, 0, 0, 0, 0, 0, 0, 0]"
| "timeouts_row AWAITING_REGISTER_HANDSET =
     [0, NT, 0, NT, RT, NT, NT, NT, NT, NT, NT, NT, NT, 0, 1*1000, 0, NT]"
| "timeouts_row REGISTER_HANDSET =
     [0, NT, 0, NT, RT, NT, NT, NT, NT, NT, NT, NT, NT, 0, 1*1000, 1*1000, 2*1000]"
| "timeouts_row ASKED_TO_REGISTER_HANDSET =
     [0, NT, 0, NT, RT, NT, NT, NT, NT, NT, NT, NT, NT, 0, 1*1000, 1*1000, 10*1000]"

text \<open>The index \<open>SMqueue::timeouts\<close>: \<open>(*SMqueue::timeouts[state])[newstate]\<close>.\<close>

type_synonym timeout_table = "sm_state \<Rightarrow> sm_state \<Rightarrow> int"

definition timeouts_table :: timeout_table where
  "timeouts_table state newstate = timeouts_row state ! state_num newstate"

text \<open>A single entry is assigned: \<open>timeouts_S[T] = v\<close>.\<close>

definition set_timeout :: "timeout_table \<Rightarrow> sm_state \<Rightarrow> sm_state \<Rightarrow> int \<Rightarrow> timeout_table" where
  "set_timeout tbl s t v = tbl(s := (tbl s)(t := v))"

lemma timeouts_row_length [simp]: "length (timeouts_row s) = 17"
  by (cases s) simp_all

lemma timeouts_row_nonneg: "\<forall>t \<in> set (timeouts_row s). 0 \<le> t"
  by (cases s) (simp_all add: NT_def RT_def TT_def)

lemma timeouts_nonneg: "0 \<le> timeouts_table s t"
  using timeouts_row_nonneg [of s] by (simp add: timeouts_table_def)

end
