(* ===== verification/Smq_Message.thy ===== *)
theory Smq_Message
  imports Smq_Net Smq_States
begin

text \<open>
  The message objects of the queue (classes \<open>short_msg\<close> and \<open>short_msg_pending\<close> of
  \<open>smqueue/smqueue.h\<close>): the cached text, the parsed form with its two flags, the decoded SMS, and
  the queueing state with its next action time.

  Times are milliseconds since the epoch.  An object has an identity \<open>mid\<close>: a pointer or a list
  iterator to it is that number, and a pointer to an object that no longer exists finds nothing.
\<close>

section \<open>Objects\<close>

datatype ContentType = UNSUPPORTED_CONTENT | TEXT_PLAIN | VND_3GPP_SMS

record short_msg =
  text_length :: "16 word"
  msg_text :: "string option"
  parsed_is_valid :: bool
  parsed_is_better :: bool
  parsed :: "osip_message option"
  content_type :: ContentType
  convert_content_type :: ContentType
  rp_data :: "RPData option"
  tl_message :: "TLMessage option"
  ms_to_sc :: bool
  need_repack :: bool
  from_relay :: bool

record short_msg_pending = short_msg +
  state :: sm_state
  next_action_time :: int
  retries :: int
  srcaddr :: sockaddr
  srcaddrlen :: nat
  qtag :: "string option"
  qtaghash :: int
  linktag :: "string option"
  mid :: nat

definition sizeof_srcaddr :: nat where
  "sizeof_srcaddr = 16"

text \<open>The default constructors; \<open>list(1)\<close> makes one such object.\<close>

definition short_msg0 :: short_msg where
  "short_msg0 =
     \<lparr>text_length = 0, msg_text = None, parsed_is_valid = False, parsed_is_better = False,
      parsed = None, content_type = UNSUPPORTED_CONTENT,
      convert_content_type = UNSUPPORTED_CONTENT, rp_data = None, tl_message = None,
      ms_to_sc = False, need_repack = True, from_relay = False\<rparr>"

definition short_msg_pending0 :: "nat \<Rightarrow> short_msg_pending" where
  "short_msg_pending0 i =
     short_msg.extend short_msg0
       (short_msg_pending.fields NO_STATE 0 0 [] 0 None 0 None i)"

text \<open>
  \<open>strncpy\<close> into a fresh buffer of \<open>n + 1\<close> bytes whose last byte is NUL: the C string that results.
\<close>

definition strncpy_of :: "string \<Rightarrow> nat \<Rightarrow> string" where
  "strncpy_of s n = take n (c_str s)"

text \<open>Copy constructor: the text is copied, nothing of the parsed form is.\<close>

definition short_msg_copy :: "short_msg \<Rightarrow> short_msg option" where
  "short_msg_copy sm =
     (if text_length sm = 0
      then Some (short_msg0\<lparr>text_length := text_length sm, from_relay := from_relay sm\<rparr>)
      else do { s \<leftarrow> msg_text sm;
                Some (short_msg0\<lparr>text_length := text_length sm,
                                 msg_text := Some (strncpy_of s (unat (text_length sm))),
                                 from_relay := from_relay sm\<rparr>) })"

definition initialize ::
  "int \<Rightarrow> string option \<Rightarrow> bool \<Rightarrow> 'a short_msg_scheme \<Rightarrow> 'a short_msg_scheme option" where
  "initialize len cstr use_my_memory m =
     (let m1 = m\<lparr>text_length := word_of_int len, msg_text := cstr\<rparr> in
      if use_my_memory then Some m1
      else do { s \<leftarrow> cstr;
                Some (m1\<lparr>msg_text := Some (strncpy_of s (unat (text_length m1)))\<rparr>) })"

section \<open>Parsing and unparsing\<close>

definition scanWord :: "string \<Rightarrow> string" where
  "scanWord start = takeWhile (\<lambda>c. isalpha c \<or> isdigit c \<or> c = CHR ''_'') start"

text \<open>
  \<open>make_text_valid\<close>.  When the library cannot print the message it leaves no text to copy, and
  the copy has no defined result.
\<close>

definition make_text_valid :: "lib_ops \<Rightarrow> 'a short_msg_scheme \<Rightarrow> 'a short_msg_scheme option" where
  "make_text_valid L m =
     (if parsed_is_better m then
        if \<not> parsed_is_valid m then Some m
        else do {
          p \<leftarrow> parsed m;
          dest \<leftarrow> osip_message_to_str L p;
          let len = (of_nat (length dest) :: 16 word);
          Some (m\<lparr>text_length := len, msg_text := Some (strncpy_of dest (unat len)),
                  parsed_is_valid := True, parsed_is_better := False\<rparr>) }
      else Some m)"

definition unparse :: "lib_ops \<Rightarrow> 'a short_msg_scheme \<Rightarrow> 'a short_msg_scheme option" where
  "unparse L m =
     do {
       let m1 = m\<lparr>rp_data := None, tl_message := None, content_type := UNSUPPORTED_CONTENT\<rparr>;
       m2 \<leftarrow> (if parsed_is_better m1 then make_text_valid L m1 else Some m1);
       Some (m2\<lparr>parsed := None, parsed_is_valid := False, parsed_is_better := False\<rparr>) }"

definition cteHeader :: string where
  "cteHeader = [CHR 0x0D, CHR 0x0A] @ ''Content-Transfer-Encoding''"

definition crlf2 :: string where
  "crlf2 = [CHR 0x0D, CHR 0x0A, CHR 0x0D, CHR 0x0A]"

text \<open>The transfer encoding, found in the text of the message.\<close>

definition transfer_encoding :: "string \<Rightarrow> string" where
  "transfer_encoding s =
     (case strcasestr s cteHeader of
        None \<Rightarrow> ''hex''
      | Some h \<Rightarrow> scanWord (dropWhile (\<lambda>c. isspace c \<or> c = CHR '':'') (drop (length cteHeader) h)))"

text \<open>\<open>parsed->content_length && parsed->content_length->value ? atoi(...) : 0\<close>, as \<open>unsigned\<close>.\<close>

definition content_len :: "osip_message \<Rightarrow> nat" where
  "content_len p =
     (case p_content_length p of
        Some (Some v) \<Rightarrow> unat (word_of_int (atoi v) :: 32 word)
      | _ \<Rightarrow> 0)"

text \<open>\<open>type/subtype\<close>; a null type or subtype is dereferenced by \<open>strcmp\<close>.\<close>

definition content_type_is :: "string \<Rightarrow> string \<Rightarrow> osip_content_type \<Rightarrow> bool option" where
  "content_type_is ty sub ct =
     do { t \<leftarrow> ct_type ct;
          if t = ty then do { s \<leftarrow> ct_subtype ct; Some (s = sub) } else Some False }"

text \<open>
  The SMS part of \<open>parse\<close>: \<open>decodeRPData\<close> on the text after the empty line, then \<open>parseTPDU\<close>,
  whose exceptions no caller catches.
\<close>

definition parse_3gpp ::
  "lib_ops \<Rightarrow> osip_message \<Rightarrow> 'a short_msg_scheme \<Rightarrow> (bool \<times> 'a short_msg_scheme) option" where
  "parse_3gpp L p m =
     do {
       s \<leftarrow> msg_text m;
       rp \<leftarrow> (case strstr s crlf2 of
                Some endp \<Rightarrow> decodeRPData (bit_lib L) (decodeToString L) (drop 4 endp)
                               (content_len p) (transfer_encoding s)
              | None \<Rightarrow> (if content_len p = 0 then Some None else None));
       let m = m\<lparr>rp_data := rp\<rparr>;
       (case rp of
          None \<Rightarrow> Some (True, m)
        | Some rpd \<Rightarrow>
            (case parseTPDU (bit_lib L) (time_lib L) (mTPDU rpd) of
               Some (Inr tlm) \<Rightarrow> Some (tlm \<noteq> None, m\<lparr>tl_message := tlm\<rparr>)
             | _ \<Rightarrow> None)) }"

text \<open>
  \<open>parse\<close>.  The initialisation of the library has the same result at each call, so the flag
  \<open>osip_initialized\<close> needs no state.
\<close>

definition parse :: "lib_ops \<Rightarrow> 'a short_msg_scheme \<Rightarrow> (bool \<times> 'a short_msg_scheme) option" where
  "parse L m =
     (if parsed_is_valid m then Some (True, m)
      else if \<not> osip_init_ok L then Some (False, m)
      else do {
        m \<leftarrow> unparse L m;
        if osip_message_init L = None then Some (False, m)
        else case osip_message_parse L (msg_text m) (unat (text_length m)) of
          None \<Rightarrow> Some (False, m)
        | Some sip \<Rightarrow>
            do {
              let m = m\<lparr>parsed := Some sip, parsed_is_valid := True, parsed_is_better := False\<rparr>;
              (case p_content_type sip of
                 None \<Rightarrow> Some (True, m\<lparr>content_type := UNSUPPORTED_CONTENT\<rparr>)
               | Some ct \<Rightarrow>
                   do {
                     plain \<leftarrow> content_type_is ''text'' ''plain'' ct;
                     if plain then Some (True, m\<lparr>content_type := TEXT_PLAIN\<rparr>)
                     else do {
                       gpp \<leftarrow> content_type_is ''application'' ''vnd.3gpp.sms'' ct;
                       if gpp then parse_3gpp L sip (m\<lparr>content_type := VND_3GPP_SMS\<rparr>)
                       else Some (True, m) } }) } })"

definition parsed_was_changed :: "'a short_msg_scheme \<Rightarrow> 'a short_msg_scheme" where
  "parsed_was_changed m = m\<lparr>parsed_is_better := True\<rparr>"

text \<open>\<open>parsed\<close> is modified in place and \<open>parsed_was_changed\<close> is called.\<close>

definition modify_parsed ::
  "(osip_message \<Rightarrow> osip_message option) \<Rightarrow> 'a short_msg_scheme \<Rightarrow> 'a short_msg_scheme option"
where
  "modify_parsed f m =
     do { p \<leftarrow> parsed m; p' \<leftarrow> f p; Some (parsed_was_changed (m\<lparr>parsed := Some p'\<rparr>)) }"

section \<open>Text of a message\<close>

text \<open>\<open>SMSReadError\<close> is caught and gives the empty text.\<close>

definition ud_text :: "lib_ops \<Rightarrow> TLUserData \<Rightarrow> string option" where
  "ud_text L ud =
     (case TLUserData_decode (bit_lib L) ud of
        Some (Inr s) \<Rightarrow> Some s
      | Some (Inl SMSReadError) \<Rightarrow> Some []
      | _ \<Rightarrow> None)"

definition get_text :: "lib_ops \<Rightarrow> 'a short_msg_scheme \<Rightarrow> string option" where
  "get_text L m =
     (case content_type m of
        TEXT_PLAIN \<Rightarrow>
          do { p \<leftarrow> parsed m;
               case p_bodies p of
                 [] \<Rightarrow> Some []
               | bod1 # _ \<Rightarrow> do { b \<leftarrow> bod1; body b } }
      | VND_3GPP_SMS \<Rightarrow>
          (case tl_message m of
             None \<Rightarrow> Some []
           | Some tlm \<Rightarrow>
               if ms_to_sc m then
                 (case tlm of TLM_Submit submit \<Rightarrow> ud_text L (sUD submit) | _ \<Rightarrow> Some [])
               else
                 (case tlm of TLM_Deliver deliver \<Rightarrow> ud_text L (dUD deliver) | _ \<Rightarrow> Some []))
      | UNSUPPORTED_CONTENT \<Rightarrow> Some [])"

definition convert_message :: "ContentType \<Rightarrow> 'a short_msg_scheme \<Rightarrow> 'a short_msg_scheme" where
  "convert_message to m = m\<lparr>convert_content_type := to\<rparr>"

definition do_not_convert_message :: "'a short_msg_scheme \<Rightarrow> 'a short_msg_scheme" where
  "do_not_convert_message m = m\<lparr>convert_content_type := UNSUPPORTED_CONTENT\<rparr>"

end
