(* ===== verification/Smq_Core.thy ===== *)
theory Smq_Core
  imports Smq_Message
begin

text \<open>
  The state of the daemon (class \<open>SMq\<close>) and the world it runs in: the clock, the subscriber
  registry, the network and the configuration.  Nothing of the world is under \<open>src/\<close>; each of its
  answers may differ from call to call, so a query takes the number of external calls made so
  far, kept in the field \<open>tick\<close>.
\<close>

section \<open>World and configuration\<close>

datatype hlr_status = HLR_SUCCESS | HLR_FAILURE | HLR_DELAYED | HLR_TRYAGAIN

record world =
  w_net :: net_world
  w_clock :: "nat \<Rightarrow> int \<times> int"
  w_time :: "nat \<Rightarrow> int"
  w_ctime :: "int \<Rightarrow> string"
  getIMSI2 :: "nat \<Rightarrow> string option \<Rightarrow> string option"
  getCLIDLocal :: "nat \<Rightarrow> string option \<Rightarrow> string option"
  getRegistrationIP :: "nat \<Rightarrow> string \<Rightarrow> string option"
  mapCLIDGlobal :: "nat \<Rightarrow> string option \<Rightarrow> string option"
  addUser :: "nat \<Rightarrow> string option \<Rightarrow> string \<Rightarrow> hlr_status"
  w_elapsed :: "nat \<Rightarrow> nat \<Rightarrow> int"
  w_random :: "nat \<Rightarrow> nat"
  email_match :: "string \<Rightarrow> bool"
  w_popen :: "nat \<Rightarrow> string \<Rightarrow> bool"
  w_pclose :: "nat \<Rightarrow> int"
  w_fopen :: "nat \<Rightarrow> string \<Rightarrow> bool"
  w_readfile :: "nat \<Rightarrow> string \<Rightarrow> string option"

record config =
  getStr :: "string \<Rightarrow> string"
  getNum :: "string \<Rightarrow> int"
  getBool :: "string \<Rightarrow> bool"
  defines_key :: "string \<Rightarrow> bool"

section \<open>State\<close>

text \<open>The functions a short code can name (\<open>short_func_t\<close>).\<close>

datatype short_func =
    shortcode_register_fn | shortcode_four_one_one_fn | shortcode_debug_dump_fn
  | shortcode_quick_chk_fn | shortcode_zap_queued_fn | whiplash_quit_fn | shortcode_smsc_fn

text \<open>
  The objects in the queue of the writer thread.  \<open>SIPAckMessage\<close> holds a pointer to the message
  and one to the address inside it.
\<close>

datatype queued_msg =
    ProcessIncommingMsg
  | SIPAckMessage int nat nat
  | TestMessage string

record smq =
  time_sorted_list :: "short_msg_pending list"
  next_mid :: nat
  savefile :: string
  please_re_exec :: bool
  my_network :: SMnet
  global_relay :: string
  global_relay_port :: string
  global_relay_contenttype :: ContentType
  my_ipaddress :: string
  my_2nd_ipaddress :: string
  my_udp_port :: string
  my_register_hostport :: string
  register_call_id :: string
  register_call_seq :: int
  have_register_call_id :: bool
  stop_main_loop :: bool
  reexec_smqueue :: bool
  short_code_map :: "string \<rightharpoonup> short_func"
  timeouts :: timeout_table
  gCDRFile :: bool
  print_as_we_validate :: bool
  spacing_set :: nat
  tick :: nat
  sent :: "(int \<times> string \<times> sockaddr) list"
  cdr_lines :: "string list"
  commands :: "(string \<times> string) list"
  writer_queue :: "queued_msg list"
  saved_files :: "(string \<times> string) list"

text \<open>
  The objects before \<open>main\<close>; \<open>global_relay_contenttype\<close> is not initialised by the constructor.
\<close>

definition SMq0 :: smq where
  "SMq0 =
     \<lparr>time_sorted_list = [], next_mid = 0, savefile = [], please_re_exec = False,
      my_network = SMnet0, global_relay = [], global_relay_port = [],
      global_relay_contenttype = UNSUPPORTED_CONTENT, my_ipaddress = [], my_2nd_ipaddress = [],
      my_udp_port = [], my_register_hostport = [], register_call_id = [], register_call_seq = 0,
      have_register_call_id = False, stop_main_loop = False, reexec_smqueue = False,
      short_code_map = Map.empty, timeouts = timeouts_table, gCDRFile = False,
      print_as_we_validate = False, spacing_set = 0, tick = 0, sent = [], cdr_lines = [],
      commands = [], writer_queue = [], saved_files = []\<rparr>"

definition set_global_relay :: "string \<Rightarrow> string \<Rightarrow> string \<Rightarrow> smq \<Rightarrow> smq" where
  "set_global_relay gr port contentType q =
     q\<lparr>global_relay := gr, global_relay_port := port,
       global_relay_contenttype :=
         (if contentType \<noteq> [] then
            (if contentType = ''text/plain'' then TEXT_PLAIN
             else if contentType = ''application/vnd.3gpp.sms'' then VND_3GPP_SMS
             else global_relay_contenttype q)
          else VND_3GPP_SMS)\<rparr>"

section \<open>Queries of the world\<close>

text \<open>\<open>msgettime\<close>: seconds and nanoseconds of \<open>clock_gettime\<close> as milliseconds.\<close>

definition ms_of_timespec :: "int \<times> int \<Rightarrow> int" where
  "ms_of_timespec tv = fst tv * 1000 + snd tv div 1000000"

definition msgettime :: "world \<Rightarrow> smq \<Rightarrow> int \<times> smq" where
  "msgettime W q = (ms_of_timespec (w_clock W (tick q)), q\<lparr>tick := tick q + 1\<rparr>)"

definition ask :: "(nat \<Rightarrow> 'a) \<Rightarrow> smq \<Rightarrow> 'a \<times> smq" where
  "ask f q = (f (tick q), q\<lparr>tick := tick q + 1\<rparr>)"

section \<open>The list of messages\<close>

text \<open>Dereferencing an iterator, and changing the object it points to.\<close>

definition deref :: "nat \<Rightarrow> smq \<Rightarrow> short_msg_pending option" where
  "deref i q = find (\<lambda>m. mid m = i) (time_sorted_list q)"

definition put_msg :: "short_msg_pending \<Rightarrow> smq \<Rightarrow> smq" where
  "put_msg m q =
     q\<lparr>time_sorted_list := map (\<lambda>x. if mid x = mid m then m else x) (time_sorted_list q)\<rparr>"

text \<open>\<open>temp.splice(temp.begin(), time_sorted_list, it)\<close>.\<close>

definition remove_mid :: "nat \<Rightarrow> short_msg_pending list \<Rightarrow> short_msg_pending list" where
  "remove_mid i xs = filter (\<lambda>x. mid x \<noteq> i) xs"

definition splice_out :: "nat \<Rightarrow> smq \<Rightarrow> (short_msg_pending \<times> smq) option" where
  "splice_out i q =
     do { m \<leftarrow> deref i q;
          Some (m, q\<lparr>time_sorted_list := remove_mid i (time_sorted_list q)\<rparr>) }"

text \<open>A new element of \<open>list(1)\<close>.\<close>

definition new_message :: "smq \<Rightarrow> short_msg_pending \<times> smq" where
  "new_message q = (short_msg_pending0 (next_mid q), q\<lparr>next_mid := next_mid q + 1\<rparr>)"

section \<open>Printing\<close>

text \<open>\<open>ostream << (char *)\<close>; the library prints a null pointer as nothing and sets \<open>badbit\<close>,
  after which the stream takes no more text.\<close>

fun ostream_cstrs :: "string option list \<Rightarrow> string" where
  "ostream_cstrs [] = []"
| "ostream_cstrs (Some s # r) = s @ ostream_cstrs r"
| "ostream_cstrs (None # r) = []"

text \<open>\<open>printf("%s", p)\<close> with a null \<open>p\<close>.\<close>

definition printf_s :: "string option \<Rightarrow> string" where
  "printf_s s = (case s of None \<Rightarrow> ''(null)'' | Some x \<Rightarrow> x)"

end
