(* ===== verification/Smq_Validate.thy ===== *)
theory Smq_Validate
  imports Smq_Core
begin

text \<open>
  The checks on an incoming message (\<open>short_msg_pending::validate_short_msg\<close> and the functions
  it calls, \<open>smqueue/smqueue.cpp\<close>) and the tag that identifies a queued message.

  A validation returns 0 or the SIP status code to answer with.
\<close>

section \<open>Tags\<close>

text \<open>\<open>return fromtag[0]\<close>: a \<open>char\<close> is signed; the empty string has its NUL there.\<close>

definition taghash_of :: "string \<Rightarrow> int" where
  "taghash_of fromtag =
     (case fromtag of
        [] \<Rightarrow> 0
      | c # _ \<Rightarrow> (if code_of c < 128 then int (code_of c) else int (code_of c) - 256))"

text \<open>The walk over the parameters of \<open>From\<close>; it stops at the first \<open>tag\<close> or null element.\<close>

fun find_from_tag :: "gparam option list \<Rightarrow> string option" where
  "find_from_tag [] = None"
| "find_from_tag (None # _) = None"
| "find_from_tag (Some param # plist) =
     (if gname param = ''tag'' then gvalue param else find_from_tag plist)"

text \<open>
  \<open>set_qtag\<close>.  A missing \<open>From\<close> tag leaves \<open>fromtag\<close> null, and \<open>strlen(fromtag)\<close> is undefined.
  The buffer holds the tag and its NUL.
\<close>

definition set_qtag ::
  "lib_ops \<Rightarrow> short_msg_pending \<Rightarrow> (int \<times> short_msg_pending) option" where
  "set_qtag L m =
     do {
       (ok, m) \<leftarrow> (if parsed_is_valid m then Some (True, m) else parse L m);
       if \<not> ok then Some (400, m) else do {
       p \<leftarrow> parsed m;
       case p_from p of
         None \<Rightarrow> Some (400, m)
       | Some fr \<Rightarrow>
           if p_call_id p = None then Some (401, m)
           else case p_cseq p of
             None \<Rightarrow> Some (402, m)
           | Some cseq \<Rightarrow>
               do {
                 number \<leftarrow> cs_number cseq;
                 fromtag \<leftarrow> find_from_tag (gen_params fr);
                 let len = length number + 2 + length fromtag + 1;
                 let buf = (number @ ''--'' @ fromtag) @ [CHR 0x00];
                 let m = m\<lparr>qtag := Some (number @ ''--'' @ fromtag)\<rparr>;
                 if buf ! (len - 1) \<noteq> CHR 0x00 \<or> buf ! (len - 2) = CHR 0x00 then Some (400, m)
                 else Some (0, m\<lparr>qtaghash := taghash_of (number @ ''--'' @ fromtag)\<rparr>) } } }"

section \<open>Pieces of the validation\<close>

text \<open>
  \<open>check_host_port\<close>; both branches accept.  The arguments \<open>my1\<close> and \<open>my2\<close> are the copies of the
  daemon's own addresses.
\<close>

definition check_host_port :: "string option \<Rightarrow> string option \<Rightarrow> string option \<Rightarrow> bool" where
  "check_host_port my1 my2 host =
     (case host of
        None \<Rightarrow> False
      | Some h \<Rightarrow>
          if h = ''localhost'' \<or> h = ''127.0.0.1'' \<or> my1 = Some h \<or> my2 = Some h
          then True else True)"

definition check_to_user :: "string option \<Rightarrow> bool" where
  "check_to_user user = True"

definition relaxed_verify_relay :: "osip_via list \<Rightarrow> string \<Rightarrow> string \<Rightarrow> bool" where
  "relaxed_verify_relay vias host port =
     list_ex (\<lambda>via. case (via_host via, via_port via) of
                      (Some h, Some p) \<Rightarrow> strcaseeq host h \<and> strcaseeq port p
                    | _ \<Rightarrow> False) vias"

definition is_imsi4 :: "string \<Rightarrow> bool" where
  "is_imsi4 s \<longleftrightarrow> strneq 4 ''imsi'' s \<or> strneq 4 ''IMSI'' s"

definition to_is_deliverable :: "world \<Rightarrow> string \<Rightarrow> smq \<Rightarrow> bool \<times> smq" where
  "to_is_deliverable W to_user q =
     (if short_code_map q to_user \<noteq> None then (True, q)
      else let (newdest, q) = ask (\<lambda>t. getIMSI2 W t (Some to_user)) q in
           (case newdest of None \<Rightarrow> False | Some d \<Rightarrow> is_imsi4 d, q))"

definition from_is_deliverable :: "world \<Rightarrow> string \<Rightarrow> smq \<Rightarrow> bool \<times> smq" where
  "from_is_deliverable W fr q =
     (let (newdest, q) = ask (\<lambda>t. getCLIDLocal W t (Some fr)) q in (newdest \<noteq> None, q))"

text \<open>Lines 548-575: a response.\<close>

definition validate_response :: "osip_message \<Rightarrow> int" where
  "validate_response p =
     (if p_status_code p < 0 \<or> p_reason_phrase p = None then 400
      else case p_content_length p of
             Some (Some v) \<Rightarrow>
               let (clen, endptr, erange) = strtol10 v in
               if endptr \<noteq> [] \<or> erange then 400
               else if clen \<noteq> 0 then 400
               else if p_bodies p \<noteq> [] then 400 else 0
           | _ \<Rightarrow> (if p_bodies p \<noteq> [] then 400 else 0))"

text \<open>The method of \<open>CSeq\<close> is the given one and there is a number.\<close>

definition cseq_ok :: "string \<Rightarrow> osip_message \<Rightarrow> bool" where
  "cseq_ok meth p \<longleftrightarrow>
     (case p_cseq p of
        None \<Rightarrow> False
      | Some c \<Rightarrow> cs_method c = Some meth \<and> cs_number c \<noteq> None)"

definition content_type_supported :: "osip_message \<Rightarrow> bool" where
  "content_type_supported p \<longleftrightarrow>
     (case p_content_type p of
        None \<Rightarrow> False
      | Some ct \<Rightarrow>
          (ct_type ct = Some ''text'' \<and> ct_subtype ct = Some ''plain'')
          \<or> (ct_type ct = Some ''application'' \<and> ct_subtype ct = Some ''vnd.3gpp.sms''))"

text \<open>Lines 616-629: \<open>len\<close> is an \<open>int\<close>.\<close>

definition body_ok :: "osip_message \<Rightarrow> bool" where
  "body_ok p \<longleftrightarrow>
     (case p_content_length p of
        Some (Some v) \<Rightarrow>
          if 0 < sint (word_of_int (fst (strtol10 v)) :: 32 word)
          then length (p_bodies p) = 1 \<and> hd (p_bodies p) \<noteq> None else True
      | _ \<Rightarrow> True)"

text \<open>Lines 576-653: a request.\<close>

definition validate_request :: "string option \<Rightarrow> string option \<Rightarrow> osip_message \<Rightarrow> int" where
  "validate_request my1 my2 p =
     (case p_req_uri p of
        None \<Rightarrow> 400
      | Some u \<Rightarrow>
          (case u_scheme u of
             None \<Rightarrow> 400
           | Some scheme \<Rightarrow>
               if scheme \<noteq> ''sip'' then 416
               else if \<not> check_host_port my1 my2 (u_host u) then 484
               else (case p_sip_method p of
                       None \<Rightarrow> 405
                     | Some meth \<Rightarrow>
                         if meth = ''MESSAGE'' then
                           (if u_username u = None then 484
                            else if \<not> check_to_user (u_username u) then 484
                            else if \<not> content_type_supported p then 415
                            else if \<not> body_ok p then 413
                            else if \<not> cseq_ok ''MESSAGE'' p then 400 else 0)
                         else if meth = ''REGISTER'' then
                           (if \<not> cseq_ok ''REGISTER'' p then 400 else 0)
                         else 405)))"

text \<open>Lines 662-739: Call-ID, From, Mime-Version and To.\<close>

definition to_ok :: "string option \<Rightarrow> string option \<Rightarrow> osip_message \<Rightarrow> bool" where
  "to_ok my1 my2 p \<longleftrightarrow>
     (case p_to p of
        None \<Rightarrow> False
      | Some a \<Rightarrow>
          (case na_url a of
             None \<Rightarrow> False
           | Some u \<Rightarrow> u_scheme u = Some ''sip'' \<and> check_host_port my1 my2 (u_host u)
                       \<and> u_username u \<noteq> None))"

definition from_ok :: "osip_message \<Rightarrow> bool" where
  "from_ok p \<longleftrightarrow> (case p_from p of None \<Rightarrow> False | Some f \<Rightarrow> na_url f \<noteq> None)"

definition validate_common :: "string option \<Rightarrow> string option \<Rightarrow> osip_message \<Rightarrow> int" where
  "validate_common my1 my2 p =
     (if p_call_id p = None then 400
      else if \<not> from_ok p then 400
      else if (case p_mime_version p of None \<Rightarrow> False | Some v \<Rightarrow> v \<noteq> Some ''1.0'') then 415
      else if \<not> to_ok my1 my2 p then 400
      else if \<not> check_to_user (case to_username p of Some u \<Rightarrow> u | None \<Rightarrow> None) then 400
      else 0)"

text \<open>Everything up to line 739, on the parsed message.\<close>

definition validate_parsed ::
  "lib_ops \<Rightarrow> string option \<Rightarrow> string option \<Rightarrow> osip_message \<Rightarrow> int" where
  "validate_parsed L my1 my2 p =
     (if p_sip_version p \<noteq> Some ''SIP/2.0'' then 400
      else let code = (if MSG_IS_RESPONSE L p then validate_response p
                       else validate_request my1 my2 p)
           in if code \<noteq> 0 then code else validate_common my1 my2 p)"

text \<open>Lines 742-747: is this a MESSAGE request that came through the relay?\<close>

definition early_check ::
  "lib_ops \<Rightarrow> world \<Rightarrow> config \<Rightarrow> bool \<Rightarrow> osip_message \<Rightarrow> short_msg_pending \<Rightarrow> smq \<Rightarrow> bool \<times> smq"
where
  "early_check L W C should_early_check p m q =
     (if should_early_check \<and> \<not> MSG_IS_RESPONSE L p \<and> p_sip_method p = Some ''MESSAGE'' then
        (let (r, q) = ask (\<lambda>t. msg_is_from_relay (w_net W) t (srcaddr m) (srcaddrlen m)
                                (global_relay q) (global_relay_port q)) q
         in (r \<or> (getBool C ''SIP.GlobalRelay.RelaxedVerify''
                  \<and> relaxed_verify_relay (p_vias p) (global_relay q) (global_relay_port q)), q))
      else (False, q))"

section \<open>Validation\<close>

definition validate_short_msg ::
  "lib_ops \<Rightarrow> world \<Rightarrow> config \<Rightarrow> bool \<Rightarrow> short_msg_pending \<Rightarrow> smq
     \<Rightarrow> (int \<times> short_msg_pending \<times> smq) option"
where
  "validate_short_msg L W C should_early_check m q =
     do {
       m \<leftarrow> (if print_as_we_validate q then make_text_valid L m else Some m);
       (ok, m) \<leftarrow> (if parsed_is_valid m then Some (True, m) else parse L m);
       if \<not> ok then Some (400, m, q)
       else case parsed m of
         None \<Rightarrow> Some (400, m, q)
       | Some p \<Rightarrow>
           do {
             let code = validate_parsed L (Some (my_ipaddress q)) (Some (my_2nd_ipaddress q)) p;
             if code \<noteq> 0 then Some (code, m, q)
             else do {
               user \<leftarrow> to_username p;
               user \<leftarrow> user;
               let (relayed, q) = early_check L W C should_early_check p m q;
               let (deliverable, q) =
                 (if relayed then to_is_deliverable W user q else (True, q));
               if \<not> deliverable then Some (404, m, q)
               else do {
                 let m = (if relayed then m\<lparr>from_relay := True\<rparr> else m);
                 (code, m) \<leftarrow> set_qtag L m;
                 Some (code, m, q) } } } }"

end
