(* ===== verification/Timed_Queue.thy ===== *)
theory Timed_Queue
  imports Smq_Prelude
begin

text \<open>
  The contract of a queue ordered by time whose elements have an identity, and what its clients
  may conclude from it.  The queue of the daemon is one (theory \<open>Smq_Queue\<close>).
\<close>

text \<open>Insertion before the first element that is not earlier: \<open>x->next >= sm->next\<close>.\<close>

fun insert_by :: "('a \<Rightarrow> int) \<Rightarrow> 'a \<Rightarrow> 'a list \<Rightarrow> 'a list" where
  "insert_by key m [] = [m]"
| "insert_by key m (x # xs) = (if key m \<le> key x then m # x # xs else x # insert_by key m xs)"

lemma insert_by_insort: "insert_by key m xs = insort_key key m xs"
  by (induction xs) simp_all

locale timed_queue =
  fixes key :: "'a \<Rightarrow> int"
    and ident :: "'a \<Rightarrow> nat"
    and ins :: "'a \<Rightarrow> 'a list \<Rightarrow> 'a list"
    and del :: "nat \<Rightarrow> 'a list \<Rightarrow> 'a list"
  assumes ins_mset: "mset (ins x xs) = add_mset x (mset xs)"
    and ins_sorted: "sorted (map key xs) \<Longrightarrow> sorted (map key (ins x xs))"
    and del_sorted: "sorted (map key xs) \<Longrightarrow> sorted (map key (del i xs))"
    and del_set: "set (del i xs) = {x \<in> set xs. ident x \<noteq> i}"
    and del_distinct: "distinct (map ident xs) \<Longrightarrow> distinct (map ident (del i xs))"
    and del_mset: "distinct (map ident xs) \<Longrightarrow> x \<in> set xs
                     \<Longrightarrow> mset xs = add_mset x (mset (del (ident x) xs))"
begin

lemma ins_set [simp]: "set (ins x xs) = insert x (set xs)"
  by (metis ins_mset set_mset_add_mset_insert set_mset_mset)

lemma ins_length [simp]: "length (ins x xs) = Suc (length xs)"
  by (metis ins_mset size_add_mset size_mset)

lemma ins_distinct:
  assumes "distinct (map ident xs)" and "ident x \<notin> ident ` set xs"
  shows "distinct (map ident (ins x xs))"
proof -
  have "mset (map ident (ins x xs)) = mset (map ident (x # xs))"
    by (simp add: ins_mset)
  then have "distinct (map ident (ins x xs)) = distinct (map ident (x # xs))"
    by (metis mset_eq_imp_distinct_iff)
  with assms show ?thesis by simp
qed

text \<open>Taking an element out and inserting a changed one with the same identity.\<close>

lemma requeue_distinct:
  assumes "distinct (map ident xs)" and "ident y = i"
  shows "distinct (map ident (ins y (del i xs)))"
  using assms by (intro ins_distinct del_distinct) (auto simp: del_set)

lemma requeue_idents:
  assumes "distinct (map ident xs)" and "x \<in> set xs" and "ident y = ident x"
  shows "mset (map ident (ins y (del (ident x) xs))) = mset (map ident xs)"
proof -
  have "mset xs = add_mset x (mset (del (ident x) xs))"
    by (rule del_mset) (use assms in auto)
  then have "image_mset ident (mset xs) = add_mset (ident x) (image_mset ident (mset (del (ident x) xs)))"
    by simp
  then show ?thesis using assms(3) by (simp add: ins_mset)
qed

lemma requeue_sorted: "sorted (map key xs) \<Longrightarrow> sorted (map key (ins y (del i xs)))"
  by (intro ins_sorted del_sorted)

lemma requeue_others:
  assumes "distinct (map ident xs)" and "x \<in> set xs"
  shows "mset (ins y (del (ident x) xs)) + {#x#} = mset xs + {#y#}"
proof -
  have "mset xs = add_mset x (mset (del (ident x) xs))"
    by (rule del_mset) (use assms in auto)
  then show ?thesis by (simp add: ins_mset)
qed

lemma del_length:
  assumes "distinct (map ident xs)" and "x \<in> set xs"
  shows "length xs = Suc (length (del (ident x) xs))"
proof -
  have "mset xs = add_mset x (mset (del (ident x) xs))"
    by (rule del_mset) (use assms in auto)
  then show ?thesis by (metis size_add_mset size_mset)
qed

text \<open>In an ordered queue the front is due first.\<close>

lemma front_earliest: "sorted (map key (x # xs)) \<Longrightarrow> y \<in> set (x # xs) \<Longrightarrow> key x \<le> key y"
  by auto

end

end
