(* ===== verification/Smq_Queue.thy ===== *)
theory Smq_Queue
  imports Smq_Validate Timed_Queue
begin

text \<open>
  The operations of \<open>SMq\<close> on its list of messages (\<open>smqueue/smqueue.h\<close> and
  \<open>smqueue/smqueue.cpp\<close>): state changes with and without requeueing, insertion of new messages,
  search by tag, links between messages, the dump, and the billing record.

  The mutex \<open>sortedListMutex\<close> is not modelled: an operation here is what runs while it is held.
\<close>

section \<open>Changing the state of a message\<close>

text \<open>\<open>short_msg_pending::set_state\<close>: the message stays where it is in the list.\<close>

definition smp_set_state_at :: "sm_state \<Rightarrow> int \<Rightarrow> short_msg_pending \<Rightarrow> short_msg_pending" where
  "smp_set_state_at newstate timeout m = m\<lparr>next_action_time := timeout, state := newstate\<rparr>"

definition smp_set_state ::
  "timeout_table \<Rightarrow> int \<Rightarrow> sm_state \<Rightarrow> short_msg_pending \<Rightarrow> short_msg_pending" where
  "smp_set_state tbl now newstate m =
     m\<lparr>next_action_time := now + tbl (state m) newstate, state := newstate\<rparr>"

text \<open>\<open>SMq::set_state\<close>: extract, change, insert before the first later message.\<close>

definition queue_insert ::
  "short_msg_pending \<Rightarrow> short_msg_pending list \<Rightarrow> short_msg_pending list" where
  "queue_insert m xs = insert_by next_action_time m xs"

definition set_state :: "world \<Rightarrow> nat \<Rightarrow> sm_state \<Rightarrow> smq \<Rightarrow> smq option" where
  "set_state W sm newstate q =
     do {
       (m, q) \<leftarrow> splice_out sm q;
       let (now, q) = msgettime W q;
       let m = smp_set_state (timeouts q) now newstate m;
       Some (q\<lparr>time_sorted_list := queue_insert m (time_sorted_list q)\<rparr>) }"

definition set_state_at :: "nat \<Rightarrow> sm_state \<Rightarrow> int \<Rightarrow> smq \<Rightarrow> smq option" where
  "set_state_at sm newstate timestamp q =
     do {
       (m, q) \<leftarrow> splice_out sm q;
       let m = smp_set_state_at newstate timestamp m;
       Some (q\<lparr>time_sorted_list := queue_insert m (time_sorted_list q)\<rparr>) }"

section \<open>Inserting a message\<close>

text \<open>The dump makes the text of every message valid before it logs it.\<close>

definition debug_dump :: "lib_ops \<Rightarrow> world \<Rightarrow> smq \<Rightarrow> smq option" where
  "debug_dump L W q =
     do {
       let (now, q) = msgettime W q;
       xs \<leftarrow> those (map (make_text_valid L) (time_sorted_list q));
       Some (q\<lparr>time_sorted_list := xs\<rparr>) }"

text \<open>\<open>ProcessReceivedMsg\<close> and \<open>queue_respond_sip_ack\<close> of \<open>SmqMessageHandler.cpp\<close>.\<close>

definition SendWriterMsg :: "queued_msg \<Rightarrow> smq \<Rightarrow> smq" where
  "SendWriterMsg msg q = q\<lparr>writer_queue := writer_queue q @ [msg]\<rparr>"

definition ProcessReceivedMsg :: "smq \<Rightarrow> smq" where
  "ProcessReceivedMsg q = SendWriterMsg ProcessIncommingMsg q"

definition queue_respond_sip_ack :: "int \<Rightarrow> nat \<Rightarrow> nat \<Rightarrow> smq \<Rightarrow> smq" where
  "queue_respond_sip_ack errcode smp netaddrlen q =
     SendWriterMsg (SIPAckMessage errcode smp netaddrlen) q"

text \<open>The new message goes to the front of the list whatever its time is.\<close>

definition insert_new_message_state ::
  "lib_ops \<Rightarrow> world \<Rightarrow> short_msg_pending \<Rightarrow> sm_state \<Rightarrow> smq \<Rightarrow> smq option" where
  "insert_new_message_state L W m s q =
     do {
       let (now, q) = msgettime W q;
       let m = smp_set_state (timeouts q) now s m;
       q \<leftarrow> debug_dump L W (q\<lparr>time_sorted_list := m # time_sorted_list q\<rparr>);
       Some (ProcessReceivedMsg q) }"

definition insert_new_message ::
  "lib_ops \<Rightarrow> world \<Rightarrow> short_msg_pending \<Rightarrow> smq \<Rightarrow> smq option" where
  "insert_new_message L W m q = insert_new_message_state L W m INITIAL_STATE q"

definition insert_new_message_at ::
  "lib_ops \<Rightarrow> world \<Rightarrow> short_msg_pending \<Rightarrow> sm_state \<Rightarrow> int \<Rightarrow> smq \<Rightarrow> smq option" where
  "insert_new_message_at L W m s t q =
     do {
       let m = smp_set_state_at s t m;
       q \<leftarrow> debug_dump L W (q\<lparr>time_sorted_list := m # time_sorted_list q\<rparr>);
       Some (ProcessReceivedMsg q) }"

section \<open>Searching and linking\<close>

text \<open>A message whose hash matches but that has no tag is dereferenced by \<open>strcmp\<close>.\<close>

fun find_by_tag :: "string \<Rightarrow> int \<Rightarrow> short_msg_pending list \<Rightarrow> nat option option" where
  "find_by_tag tag taghash [] = Some None"
| "find_by_tag tag taghash (x # xs) =
     (if taghash = qtaghash x
      then (case qtag x of
              None \<Rightarrow> None
            | Some t \<Rightarrow> (if t = tag then Some (Some (mid x)) else find_by_tag tag taghash xs))
      else find_by_tag tag taghash xs)"

definition find_queued_msg_by_tag_hash :: "string \<Rightarrow> int \<Rightarrow> smq \<Rightarrow> nat option option" where
  "find_queued_msg_by_tag_hash tag taghash q = find_by_tag tag taghash (time_sorted_list q)"

definition find_queued_msg_by_tag :: "string \<Rightarrow> smq \<Rightarrow> nat option option" where
  "find_queued_msg_by_tag tag q = find_queued_msg_by_tag_hash tag (taghash_of tag) q"

text \<open>\<open>oldmsg\<close> is in the list, \<open>newmsg\<close> still in a list of its own.\<close>

definition set_linktag ::
  "lib_ops \<Rightarrow> short_msg_pending \<Rightarrow> nat \<Rightarrow> smq \<Rightarrow> (short_msg_pending \<times> smq) option" where
  "set_linktag L newmsg oldmsg q =
     do {
       old \<leftarrow> deref oldmsg q;
       (_, old) \<leftarrow> (if qtag old = None then set_qtag L old else Some (0, old));
       tag \<leftarrow> qtag old;
       Some (newmsg\<lparr>linktag := Some tag\<rparr>, put_msg old q) }"

definition get_link :: "nat \<Rightarrow> smq \<Rightarrow> nat option option" where
  "get_link qmsg q =
     do {
       m \<leftarrow> deref qmsg q;
       case linktag m of
         None \<Rightarrow> Some None
       | Some alink \<Rightarrow> find_queued_msg_by_tag alink q }"

section \<open>Timeouts and billing\<close>

definition INCREASEACKEDMSGTMOMS :: int where
  "INCREASEACKEDMSGTMOMS = 60000"

definition acked_timeout :: "config \<Rightarrow> int" where
  "acked_timeout C =
     (if defines_key C ''SIP.Timeout.ACKedMessageResend''
      then getNum C ''SIP.Timeout.ACKedMessageResend'' else INCREASEACKEDMSGTMOMS)"

definition increase_acked_msg_timeout :: "world \<Rightarrow> config \<Rightarrow> nat \<Rightarrow> smq \<Rightarrow> smq option" where
  "increase_acked_msg_timeout W C i q =
     do {
       m \<leftarrow> deref i q;
       let (now, q) = msgettime W q;
       Some (put_msg (smp_set_state_at (state m) (now + acked_timeout C) m) q) }"

definition write_cdr :: "world \<Rightarrow> nat \<Rightarrow> smq \<Rightarrow> smq option" where
  "write_cdr W i q =
     do {
       m \<leftarrow> deref i q;
       p \<leftarrow> parsed m;
       fr \<leftarrow> from_username p;
       dest \<leftarrow> to_username p;
       let (now, q) = ask (w_time W) q;
       if gCDRFile q then
         (let (user, q) = ask (\<lambda>t. getIMSI2 W t fr) q in
          Some (q\<lparr>cdr_lines := cdr_lines q @
                    [printf_s fr @ '','' @ printf_s user @ '','' @ printf_s dest @ '',''
                     @ w_ctime W now]\<rparr>))
       else Some q }"

section \<open>The list as a timed queue\<close>

interpretation smq_list: timed_queue next_action_time mid queue_insert remove_mid
proof unfold_locales
  fix x :: short_msg_pending and xs :: "short_msg_pending list" and i :: nat
  show "mset (queue_insert x xs) = add_mset x (mset xs)"
    by (simp add: queue_insert_def insert_by_insort)
  show "set (remove_mid i xs) = {x \<in> set xs. mid x \<noteq> i}"
    by (auto simp: remove_mid_def)
  show "sorted (map next_action_time xs) \<Longrightarrow> sorted (map next_action_time (queue_insert x xs))"
    by (simp add: queue_insert_def insert_by_insort sorted_insort_key)
  show "sorted (map next_action_time xs) \<Longrightarrow> sorted (map next_action_time (remove_mid i xs))"
    by (simp add: remove_mid_def sorted_filter)
  show "distinct (map mid xs) \<Longrightarrow> distinct (map mid (remove_mid i xs))"
    by (simp add: remove_mid_def distinct_map_filter)
  show "distinct (map mid xs) \<Longrightarrow> x \<in> set xs
      \<Longrightarrow> mset xs = add_mset x (mset (remove_mid (mid x) xs))"
  proof (induction xs)
    case Nil
    then show ?case by simp
  next
    case (Cons y ys)
    show ?case
    proof (cases "y = x")
      case True
      with Cons.prems have "remove_mid (mid x) ys = ys"
        by (auto simp: remove_mid_def filter_id_conv) (metis image_eqI)
      with True show ?thesis by (simp add: remove_mid_def)
    next
      case False
      with Cons.prems have "x \<in> set ys" "mid y \<noteq> mid x" by auto
      with Cons show ?thesis by (simp add: remove_mid_def)
    qed
  qed
qed

definition mids :: "smq \<Rightarrow> nat set" where
  "mids q = mid ` set (time_sorted_list q)"

text \<open>
  The hash of a message is that of its tag, and 0 without a tag.  (A tag with a NUL inside is no
  C string; \<open>set_qtag\<close> refuses it before it computes the hash.)
\<close>

fun tag_hashed :: "string option \<Rightarrow> int \<Rightarrow> bool" where
  "tag_hashed None h = (h = 0)"
| "tag_hashed (Some t) h = (CHR 0x00 \<in> set t \<or> h = taghash_of t)"

definition tag_ok :: "short_msg_pending \<Rightarrow> bool" where
  "tag_ok m = tag_hashed (qtag m) (qtaghash m)"

lemma tag_ok_updates [simp]:
  "tag_ok (m\<lparr>parsed := p\<rparr>) = tag_ok m"
  "tag_ok (m\<lparr>parsed_is_valid := b\<rparr>) = tag_ok m"
  "tag_ok (m\<lparr>parsed_is_better := b\<rparr>) = tag_ok m"
  "tag_ok (m\<lparr>content_type := ct\<rparr>) = tag_ok m"
  "tag_ok (m\<lparr>need_repack := b\<rparr>) = tag_ok m"
  "tag_ok (m\<lparr>ms_to_sc := b\<rparr>) = tag_ok m"
  "tag_ok (m\<lparr>from_relay := b\<rparr>) = tag_ok m"
  "tag_ok (m\<lparr>convert_content_type := ct\<rparr>) = tag_ok m"
  "tag_ok (m\<lparr>state := s\<rparr>) = tag_ok m"
  "tag_ok (m\<lparr>next_action_time := t\<rparr>) = tag_ok m"
  "tag_ok (m\<lparr>retries := n\<rparr>) = tag_ok m"
  "tag_ok (m\<lparr>srcaddr := a\<rparr>) = tag_ok m"
  "tag_ok (m\<lparr>srcaddrlen := l\<rparr>) = tag_ok m"
  "tag_ok (m\<lparr>linktag := lt\<rparr>) = tag_ok m"
  by (simp_all add: tag_ok_def)

text \<open>
  Every object has its own identity, identities are handed out in order, and the hashes are
  those of the tags.
\<close>

definition wf :: "smq \<Rightarrow> bool" where
  "wf q \<longleftrightarrow> distinct (map mid (time_sorted_list q)) \<and> (\<forall>i \<in> mids q. i < next_mid q)
            \<and> (\<forall>m \<in> set (time_sorted_list q). tag_ok m)"

lemma wf_tag_ok: "wf q \<Longrightarrow> m \<in> set (time_sorted_list q) \<Longrightarrow> tag_ok m"
  by (simp add: wf_def)

lemma deref_SomeD:
  assumes "deref i q = Some m"
  shows "m \<in> set (time_sorted_list q)" and "mid m = i"
  using assms by (auto simp: deref_def dest: find_SomeD)

lemma deref_mids: "deref i q = Some m \<Longrightarrow> i \<in> mids q"
  using deref_SomeD [of i q m] by (auto simp: mids_def)

lemma mids_deref: "i \<in> mids q \<Longrightarrow> \<exists>m. deref i q = Some m"
  by (cases "deref i q") (auto simp: deref_def mids_def dest: find_NoneD)

lemma deref_None_iff: "deref i q = None \<longleftrightarrow> i \<notin> mids q"
  using mids_deref deref_mids by fastforce

lemma find_distinct:
  assumes "distinct (map mid xs)" and "m \<in> set xs"
  shows "find (\<lambda>x. mid x = mid m) xs = Some m"
  using assms by (induction xs) auto

lemma deref_mem:
  assumes "wf q" and "m \<in> set (time_sorted_list q)"
  shows "deref (mid m) q = Some m"
  using assms by (simp add: deref_def wf_def find_distinct)

lemma deref_tag_ok: "deref i q = Some m \<Longrightarrow> wf q \<Longrightarrow> tag_ok m"
  by (auto dest: deref_SomeD(1) wf_tag_ok)

lemma put_msg_fields [simp]:
  "next_mid (put_msg m q) = next_mid q"
  "tick (put_msg m q) = tick q"
  "timeouts (put_msg m q) = timeouts q"
  "my_network (put_msg m q) = my_network q"
  by (simp_all add: put_msg_def)

lemma put_msg_map_mid:
  "map mid (time_sorted_list (put_msg m q)) = map mid (time_sorted_list q)"
  by (auto simp: put_msg_def)

lemma mids_map: "mids q = set (map mid (time_sorted_list q))"
  by (simp add: mids_def)

lemma mids_put_msg [simp]: "mids (put_msg m q) = mids q"
  by (simp only: mids_map put_msg_map_mid)

lemma wf_put_msg: "wf q \<Longrightarrow> tag_ok m \<Longrightarrow> wf (put_msg m q)"
  by (auto simp: wf_def put_msg_map_mid) (auto simp: put_msg_def)

lemma find_map_put:
  "find (\<lambda>x. mid x = i) (map (\<lambda>x. if mid x = mid m then m else x) xs) =
     (if i = mid m then (case find (\<lambda>x. mid x = i) xs of None \<Rightarrow> None | Some _ \<Rightarrow> Some m)
      else find (\<lambda>x. mid x = i) xs)"
  by (induction xs) auto

lemma deref_put_msg:
  "deref i (put_msg m q) =
     (if i = mid m then (case deref i q of None \<Rightarrow> None | Some _ \<Rightarrow> Some m) else deref i q)"
  by (simp add: deref_def put_msg_def find_map_put)

lemma deref_put_same: "deref i q = Some m \<Longrightarrow> mid m' = i \<Longrightarrow> deref i (put_msg m' q) = Some m'"
  by (simp add: deref_put_msg)

lemma put_msg_id:
  assumes "wf q" and "deref i q = Some m"
  shows "put_msg m q = q"
proof -
  have "m = x" if x: "x \<in> set (time_sorted_list q)" and same: "mid x = mid m" for x
  proof -
    have "deref (mid x) q = Some m"
      unfolding same deref_SomeD(2) [OF assms(2)] by (rule assms(2))
    then have "Some m = Some x" using deref_mem [OF assms(1) x] by (rule trans [OF sym])
    then show ?thesis by simp
  qed
  then have "map (\<lambda>x. if mid x = mid m then m else x) (time_sorted_list q) = time_sorted_list q"
    by (intro map_idI) auto
  then show ?thesis by (simp add: put_msg_def)
qed

lemma msgettime_fields [simp]:
  "time_sorted_list (snd (msgettime W q)) = time_sorted_list q"
  "next_mid (snd (msgettime W q)) = next_mid q"
  "timeouts (snd (msgettime W q)) = timeouts q"
  "tick (snd (msgettime W q)) = tick q + 1"
  by (simp_all add: msgettime_def)

section \<open>Requeueing\<close>

lemma splice_out_SomeD:
  assumes "splice_out i q = Some (m, q')"
  shows "deref i q = Some m"
    and "q' = q\<lparr>time_sorted_list := remove_mid i (time_sorted_list q)\<rparr>"
  using assms by (auto simp: splice_out_def elim!: bind_SomeE)

lemma splice_out_mids: "splice_out i q = Some (m, q') \<Longrightarrow> mids q' = mids q - {i}"
  by (auto dest!: splice_out_SomeD(2) simp: mids_def smq_list.del_set)

lemma splice_out_wf: "splice_out i q = Some (m, q') \<Longrightarrow> wf q \<Longrightarrow> wf q'"
  by (auto dest!: splice_out_SomeD(2) simp: wf_def mids_def smq_list.del_set
      intro: smq_list.del_distinct)

definition clock :: "world \<Rightarrow> smq \<Rightarrow> int" where
  "clock W q = ms_of_timespec (w_clock W (tick q))"

lemma msgettime_eq: "msgettime W q = (clock W q, q\<lparr>tick := tick q + 1\<rparr>)"
  by (simp add: msgettime_def clock_def)

lemma set_state_eq:
  "set_state W i s q =
     (case deref i q of
        None \<Rightarrow> None
      | Some m \<Rightarrow>
          Some (q\<lparr>tick := tick q + 1,
                  time_sorted_list :=
                    queue_insert (smp_set_state (timeouts q) (clock W q) s m)
                      (remove_mid i (time_sorted_list q))\<rparr>))"
  by (cases "deref i q") (simp_all add: set_state_def splice_out_def msgettime_eq clock_def)

lemma smp_set_state_fields [simp]:
  "mid (smp_set_state tbl now s m) = mid m"
  "state (smp_set_state tbl now s m) = s"
  "next_action_time (smp_set_state tbl now s m) = now + tbl (state m) s"
  "tag_ok (smp_set_state tbl now s m) = tag_ok m"
  by (simp_all add: smp_set_state_def)

lemma smp_set_state_at_fields [simp]:
  "mid (smp_set_state_at s t m) = mid m"
  "state (smp_set_state_at s t m) = s"
  "next_action_time (smp_set_state_at s t m) = t"
  "tag_ok (smp_set_state_at s t m) = tag_ok m"
  by (simp_all add: smp_set_state_at_def)

lemma set_state_props:
  assumes "set_state W i s q = Some q'" and "wf q"
  shows "wf q'" and "mids q' = mids q" and "next_mid q' = next_mid q"
    and "tick q' = tick q + 1"
    and "\<exists>m. deref i q = Some m
           \<and> deref i q' = Some (smp_set_state (timeouts q) (clock W q) s m)"
proof -
  from assms(1) obtain m where m: "deref i q = Some m"
    and q': "q' = q\<lparr>tick := tick q + 1,
                     time_sorted_list := queue_insert (smp_set_state (timeouts q) (clock W q) s m)
                        (remove_mid i (time_sorted_list q))\<rparr>"
    by (auto simp: set_state_eq split: option.splits)
  note mem = deref_SomeD [OF m]
  show w: "wf q'"
    using assms(2) mem
    by (auto simp: wf_def q' mids_def smq_list.del_set intro!: smq_list.requeue_distinct)
  show "mids q' = mids q"
    using mem by (auto simp: q' mids_def smq_list.del_set)
  show "next_mid q' = next_mid q" "tick q' = tick q + 1"
    by (simp_all add: q')
  have "smp_set_state (timeouts q) (clock W q) s m \<in> set (time_sorted_list q')"
    by (simp add: q')
  from deref_mem [OF w this] show "\<exists>m. deref i q = Some m
      \<and> deref i q' = Some (smp_set_state (timeouts q) (clock W q) s m)"
    using m mem by simp
qed

end
