(* ===== verification/Smq_Originate.thy ===== *)
theory Smq_Originate
  imports Smq_Queue
begin

text \<open>
  Messages the daemon makes itself (\<open>smqueue/smqueue.cpp\<close>): half-built messages, text messages,
  bounces, and the SIP REGISTER sent on behalf of a handset.
\<close>

section \<open>Half of a message\<close>

definition new_call_number_q :: "world \<Rightarrow> smq \<Rightarrow> (string \<times> smq) option" where
  "new_call_number_q W q =
     do { (s, net, t) \<leftarrow> new_call_number (w_net W) (tick q) (my_network q);
          Some (s, q\<lparr>my_network := net, tick := t\<rparr>) }"

definition new_random_number_q :: "world \<Rightarrow> smq \<Rightarrow> (32 word \<times> smq) option" where
  "new_random_number_q W q =
     do { (r, net, t) \<leftarrow> new_random_number (w_net W) (tick q) (my_network q);
          Some (r, q\<lparr>my_network := net, tick := t\<rparr>) }"

definition via_line :: "smq \<Rightarrow> string" where
  "via_line q =
     ''SIP/2.0/UDP '' @ my_ipaddress q @ '':'' @ my_udp_port q
     @ '';branch=1;received=smqueue@Range.com''"

definition cseq_line :: "32 word \<Rightarrow> string \<Rightarrow> string" where
  "cseq_line n meth = show_nat (unat n) @ '' '' @ meth"

text \<open>
  The Call-ID: a new one, except that all REGISTER messages share the one of the first.  The
  result \<open>None\<close> of the inner option is the return of \<open>NULL\<close>.
\<close>

definition half_sm_call_id ::
  "lib_ops \<Rightarrow> world \<Rightarrow> string \<Rightarrow> smq \<Rightarrow> (osip_call_id option \<times> smq) option" where
  "half_sm_call_id L W meth q =
     (if \<not> have_register_call_id q \<or> meth \<noteq> ''REGISTER'' then
        do {
          (mycallnum, q) \<leftarrow> new_call_number_q W q;
          let cid = \<lparr>ci_number = Some mycallnum, ci_host = Some (my_ipaddress q)\<rparr>;
          if meth = ''REGISTER'' then
            (case osip_call_id_to_str L cid of
               None \<Rightarrow> Some (None, q)
             | Some s \<Rightarrow> Some (Some cid, q\<lparr>register_call_id := s, register_call_seq := 0,
                                         have_register_call_id := True\<rparr>))
          else Some (Some cid, q) }
      else Some (Some (osip_call_id_parse L osip_call_id0 (register_call_id q)), q))"

definition half_sm_cseq :: "world \<Rightarrow> string \<Rightarrow> smq \<Rightarrow> (32 word \<times> smq) option" where
  "half_sm_cseq W meth q =
     (if meth = ''REGISTER'' then
        (let n = register_call_seq q + 1
         in Some (word_of_int n, q\<lparr>register_call_seq := n\<rparr>))
      else do { (r, q) \<leftarrow> new_random_number_q W q; Some (and r 0xFFFF, q) })"

definition originate_half_sm ::
  "lib_ops \<Rightarrow> world \<Rightarrow> string \<Rightarrow> smq \<Rightarrow> (short_msg_pending option \<times> smq) option" where
  "originate_half_sm L W meth q =
     do {
       let (response, q) = new_message q;
       response \<leftarrow> initialize 0 None True response;
       sip \<leftarrow> osip_message_init L;
       (cid, q) \<leftarrow> half_sm_call_id L W meth q;
       case cid of
         None \<Rightarrow> Some (None, q)
       | Some _ \<Rightarrow>
           do {
             (cseq, q) \<leftarrow> half_sm_cseq W meth q;
             let sip = osip_set_cseq L (sip\<lparr>p_call_id := cid\<rparr>) (cseq_line cseq meth);
             let sip = osip_append_via L (sip\<lparr>p_sip_method := Some meth\<rparr>) (via_line q);
             Some (Some (parsed_was_changed
                           (response\<lparr>parsed := Some sip, parsed_is_valid := True\<rparr>)), q) } }"

section \<open>A text message\<close>

definition SMS_MESSAGE_MAX_LENGTH :: nat where
  "SMS_MESSAGE_MAX_LENGTH = 160"

text \<open>The header lines and the body; \<open>to\<close> may be null.\<close>

definition sm_fill ::
  "lib_ops \<Rightarrow> config \<Rightarrow> string \<Rightarrow> string option \<Rightarrow> string \<Rightarrow> smq \<Rightarrow> osip_message \<Rightarrow> osip_message option"
where
  "sm_fill L C fr to msgtext q sip =
     do {
       cseq \<leftarrow> p_cseq sip;
       let ip = Some (my_ipaddress q);
       let fromline = ostream_cstrs [Some fr, Some ''<sip:'', Some fr, Some ''@'', ip,
                                     Some ''>;tag='', cs_number cseq];
       let toline = ostream_cstrs [Some ''<sip:'', to, Some ''@'', ip, Some ''>''];
       let uriline = ostream_cstrs [Some ''sip:'', to, Some ''@'', ip, Some '':'',
                                    Some (getStr C ''SIP.Default.BTSPort'')];
       let sip = osip_set_to L (osip_set_from L sip fromline) toline;
       let sip = sip\<lparr>p_req_uri := Some (osip_uri_parse L osip_uri0 uriline)\<rparr>;
       let sip = osip_set_content_type L sip ''text/plain'';
       Some (osip_set_body L sip (take SMS_MESSAGE_MAX_LENGTH msgtext)) }"

text \<open>From \<open>set_qtag\<close> to the validation, common to \<open>originate_sm\<close> and \<open>register_handset\<close>.\<close>

definition finish_sm ::
  "lib_ops \<Rightarrow> world \<Rightarrow> config \<Rightarrow> short_msg_pending \<Rightarrow> smq
     \<Rightarrow> (int \<times> short_msg_pending \<times> smq) option" where
  "finish_sm L W C response q =
     do {
       response \<leftarrow> make_text_valid L response;
       response \<leftarrow> unparse L response;
       validate_short_msg L W C False response q }"

definition originate_sm ::
  "lib_ops \<Rightarrow> world \<Rightarrow> config \<Rightarrow> string \<Rightarrow> string option \<Rightarrow> string \<Rightarrow> sm_state \<Rightarrow> smq
     \<Rightarrow> (int \<times> smq) option"
where
  "originate_sm L W C fr to msgtext firststate q =
     do {
       (half, q) \<leftarrow> originate_half_sm L W ''MESSAGE'' q;
       case half of
         None \<Rightarrow> Some (-1, q)
       | Some response \<Rightarrow>
           do {
             let response = response\<lparr>need_repack := True\<rparr>;
             sip \<leftarrow> parsed response;
             sip \<leftarrow> sm_fill L C fr to msgtext q sip;
             let response = parsed_was_changed
                              (response\<lparr>parsed := Some sip, content_type := TEXT_PLAIN\<rparr>);
             (_, response) \<leftarrow> set_qtag L response;
             (errcode, response, q) \<leftarrow> finish_sm L W C response q;
             if errcode = 0 then
               do { q \<leftarrow> insert_new_message_state L W response firststate q; Some (0, q) }
             else Some (-1, q) } }"

section \<open>Bounces\<close>

definition bounce_text :: "string option \<Rightarrow> string \<Rightarrow> string \<Rightarrow> string" where
  "bounce_text username errstr thetext =
     ostream_cstrs [Some ''Can't send your SMS to '', username, Some '': '', Some errstr,
                    Some '': '', Some thetext]"

definition bounce_message ::
  "lib_ops \<Rightarrow> world \<Rightarrow> config \<Rightarrow> nat \<Rightarrow> string \<Rightarrow> smq \<Rightarrow> (sm_state \<times> smq) option" where
  "bounce_message L W C sent_msg errstr q =
     do {
       m \<leftarrow> deref sent_msg q;
       p \<leftarrow> parsed m;
       username \<leftarrow> to_username p;
       thetext \<leftarrow> get_text L m;
       fr \<leftarrow> from_username p;
       bounceto \<leftarrow> fr;
       (status, q) \<leftarrow>
         (if getStr C ''Bounce.Code'' \<noteq> bounceto
          then originate_sm L W C (getStr C ''Bounce.Code'') (Some bounceto)
                 (bounce_text username errstr thetext)
                 (if strneq 4 ''IMSI'' bounceto \<or> strneq 4 ''imsi'' bounceto
                  then REQUEST_DESTINATION_SIPURL else REQUEST_DESTINATION_IMSI) q
          else Some (1, q));
       Some (if status = 0 then DELETE_ME_STATE else NO_STATE, q) }"

section \<open>Registering a handset\<close>

definition ready_to_register :: "lib_ops \<Rightarrow> world \<Rightarrow> nat \<Rightarrow> smq \<Rightarrow> (bool \<times> smq) option" where
  "ready_to_register L W qmsg q =
     do {
       m \<leftarrow> deref qmsg q;
       (_, m) \<leftarrow> parse L m;
       let q = put_msg m q;
       case Option.bind (parsed m) from_username of
         None \<Rightarrow> Some (False, q)
       | Some imsi \<Rightarrow>
           (let (callerid, q) = ask (\<lambda>t. getCLIDLocal W t imsi) q
            in Some (callerid \<noteq> None, q)) }"

definition register_fill ::
  "lib_ops \<Rightarrow> string option \<Rightarrow> string \<Rightarrow> string \<Rightarrow> osip_message \<Rightarrow> osip_message option" where
  "register_fill L imsi hostport cell sip =
     do {
       let toline = ostream_cstrs [imsi, Some ''<sip:'', imsi, Some ''@'', Some hostport,
                                   Some ''>''];
       let sip = osip_set_to L sip toline;
       cseq \<leftarrow> p_cseq sip;
       let sip = osip_set_from L sip
                   (ostream_cstrs [Some toline, Some '';tag='', cs_number cseq]);
       let sip = sip\<lparr>p_req_uri := Some (osip_uri_parse L osip_uri0 (''sip:'' @ hostport))\<rparr>;
       Some (osip_set_contact L sip
               (ostream_cstrs [Some ''<sip:'', imsi, Some ''@'', Some cell,
                               Some ''>;expires=3600''])) }"

definition register_handset ::
  "lib_ops \<Rightarrow> world \<Rightarrow> config \<Rightarrow> nat \<Rightarrow> smq \<Rightarrow> (sm_state \<times> smq) option" where
  "register_handset L W C qmsg q =
     do {
       (half, q) \<leftarrow> originate_half_sm L W ''REGISTER'' q;
       case half of
         None \<Rightarrow> Some (DELETE_ME_STATE, q)
       | Some response \<Rightarrow>
           do {
             let response = response\<lparr>need_repack := False\<rparr>;
             m \<leftarrow> deref qmsg q;
             p \<leftarrow> parsed m;
             imsi \<leftarrow> from_username p;
             let (cell, q) =
               ask (\<lambda>t. string_addr (w_net W) t (srcaddr m) (srcaddrlen m) True) q;
             sip \<leftarrow> parsed response;
             sip \<leftarrow> register_fill L imsi (my_register_hostport q) cell sip;
             let response = parsed_was_changed (response\<lparr>parsed := Some sip\<rparr>);
             (_, response) \<leftarrow> set_qtag L response;
             (response, q) \<leftarrow> set_linktag L response qmsg q;
             (errcode, response, q) \<leftarrow> finish_sm L W C response q;
             if errcode \<noteq> 0 then Some (DELETE_ME_STATE, q)
             else do {
               q \<leftarrow> insert_new_message_state L W response REQUEST_MSG_DELIVERY q;
               Some (ASKED_TO_REGISTER_HANDSET, q) } } }"

end
