(* ===== verification/Smq_Smsc.thy ===== *)
theory Smq_Smsc
  imports Smq_Originate
begin

text \<open>
  The short message service centre (\<open>smqueue/smsc.cpp\<close>): gateways, recoding of a message for
  delivery, and the short code that takes an SMS-SUBMIT.

  A function here works on the message \<open>m\<close> its iterator points to and on the daemon; the caller
  puts the message back.  A \<open>sprintf\<close> that does not fit its buffer has no defined result.
\<close>

datatype short_code_action =
    SCA_DONE | SCA_INTERNAL_ERROR | SCA_REPLY | SCA_RETRY_AFTER_DELAY | SCA_REPLY_AND_RETRY
  | SCA_QUIT_SMQUEUE | SCA_AWAIT_REGISTER | SCA_REGISTER | SCA_TREAT_AS_ORDINARY
  | SCA_EXEC_SMQUEUE | SCA_RESTART_PROCESSING

section \<open>Gateways\<close>

fun convertText :: "string \<Rightarrow> string" where
  "convertText [] = []"
| "convertText (c # cs) =
     (if c = CHR 0x00 then []
      else (if c = CHR '' '' then CHR ''+'' else c) # convertText cs)"

text \<open>
  \<open>sprintf\<close> with string arguments only: a \<open>%s\<close> without an argument has no defined result, and
  the model gives none to a format with a conversion other than \<open>%s\<close> and \<open>%%\<close>.
\<close>

fun sprintf_s :: "string \<Rightarrow> string list \<Rightarrow> string option" where
  "sprintf_s [] args = Some []"
| "sprintf_s [c] args = (if c = CHR ''%'' then None else Some [c])"
| "sprintf_s (c # d # cs) args =
     (if c = CHR ''%'' then
        (if d = CHR ''%'' then map_option (Cons CHR ''%'') (sprintf_s cs args)
         else if d = CHR ''s'' then
           (case args of [] \<Rightarrow> None | a # as \<Rightarrow> map_option (append a) (sprintf_s cs as))
         else None)
      else map_option (Cons c) (sprintf_s (d # cs) args))"

text \<open>The result goes into a buffer of \<open>n\<close> bytes.\<close>

definition fits :: "nat \<Rightarrow> string \<Rightarrow> string option" where
  "fits n s = (if length s < n then Some s else None)"

definition quote :: char where
  "quote = CHR 0x22"

text \<open>The cast \<open>(int)\<close>.\<close>

definition int_cast :: "int \<Rightarrow> int" where
  "int_cast n = sint (word_of_int n :: 32 word)"

definition sendHTTP ::
  "world \<Rightarrow> config \<Rightarrow> string \<Rightarrow> string \<Rightarrow> smq \<Rightarrow> (short_code_action \<times> smq) option" where
  "sendHTTP W C destination message q =
     do {
       let convMessage = convertText message;
       c1 \<leftarrow> fits 1024 (''wget -t '' @ show_int (int_cast (getNum C ''SMS.HTTPGateway.Retries''))
                        @ '' -T '' @ show_int (int_cast (getNum C ''SMS.HTTPGateway.Timeout''))
                        @ '' -q -O - '' @ [quote] @ getStr C ''SMS.HTTPGateway.URL'' @ [quote]);
       command \<leftarrow> sprintf_s c1 [destination, convMessage];
       command \<leftarrow> fits 1500 command;
       let (wget, q) = ask (\<lambda>t. w_popen W t command) q;
       if \<not> wget then Some (SCA_INTERNAL_ERROR, q)
       else Some (SCA_DONE, q\<lparr>commands := commands q @ [(command, [])]\<rparr>) }"

definition sendEMail ::
  "world \<Rightarrow> string \<Rightarrow> string \<Rightarrow> string option \<Rightarrow> smq \<Rightarrow> (short_code_action \<times> smq) option" where
  "sendEMail W address bdy subject q =
     do {
       command \<leftarrow> fits 1024 (case subject of
                               Some s \<Rightarrow> ''mail -s '' @ [quote] @ s @ [quote] @ '' '' @ address
                             | None \<Rightarrow> ''mail '' @ address);
       let (mail, q) = ask (\<lambda>t. w_popen W t command) q;
       if \<not> mail then Some (SCA_INTERNAL_ERROR, q)
       else do {
         let q = q\<lparr>commands := commands q @ [(command, bdy)]\<rparr>;
         let (rc, q) = ask (w_pclose W) q;
         if rc = -1 then Some (SCA_INTERNAL_ERROR, q) else Some (SCA_DONE, q) } }"

text \<open>
  \<open>set_to_for_smsc(address, smsg)\<close> frees \<open>to->url->username\<close> and \<open>to->displayname\<close> and then reads
  \<open>address\<close>.  The address is a string of its own (\<open>Some a\<close>) or the pointer
  \<open>to->url->username\<close> itself (\<open>None\<close>), which is freed memory by then.
\<close>

definition set_to_for_smsc :: "string option \<Rightarrow> osip_message \<Rightarrow> osip_message option" where
  "set_to_for_smsc address p =
     do {
       to \<leftarrow> p_to p;
       u \<leftarrow> na_url to;
       a \<leftarrow> address;
       ru \<leftarrow> p_req_uri p;
       user \<leftarrow> u_username ru;
       Some (p\<lparr>p_to := Some (to\<lparr>na_url := Some (u\<lparr>u_username := Some a\<rparr>),
                                displayname := Some user\<rparr>)\<rparr>) }"

definition sendSIP_init ::
  "TLSubmit \<Rightarrow> short_msg_pending \<Rightarrow> (short_code_action \<times> short_msg_pending) option" where
  "sendSIP_init submit m =
     do {
       let address = mDigits (mDA submit);
       p \<leftarrow> parsed m;
       _ \<leftarrow> from_username p;
       p \<leftarrow> set_uri_username (Some address) p;
       p \<leftarrow> set_to_for_smsc (Some address) p;
       Some (SCA_RESTART_PROCESSING, parsed_was_changed (m\<lparr>parsed := Some p\<rparr>)) }"

definition sendSIP_init_text ::
  "short_msg_pending \<Rightarrow> (short_code_action \<times> short_msg_pending) option" where
  "sendSIP_init_text m =
     do {
       p \<leftarrow> parsed m;
       to_user \<leftarrow> to_username p;
       address \<leftarrow> to_user;
       _ \<leftarrow> from_username p;
       p \<leftarrow> set_uri_username (Some address) p;
       p \<leftarrow> set_to_for_smsc None p;
       Some (SCA_RESTART_PROCESSING, parsed_was_changed (m\<lparr>parsed := Some p\<rparr>)) }"

text \<open>\<open>sprintf(subjectLine, "from %s", ...)\<close> into 200 bytes.\<close>

definition submitSMS ::
  "world \<Rightarrow> config \<Rightarrow> string option \<Rightarrow> TLSubmit \<Rightarrow> string \<Rightarrow> short_msg_pending \<Rightarrow> smq
     \<Rightarrow> (short_code_action \<times> short_msg_pending \<times> smq) option"
where
  "submitSMS W C imsi submit bdy m q =
     (if email_match W bdy then
        do {
          (SMTPAddress, SMTPPayload) \<leftarrow> strchr_split CHR '' '' bdy;
          let (clid, q) = ask (\<lambda>t. getCLIDLocal W t imsi) q;
          subjectLine \<leftarrow> fits 200 (''from '' @ printf_s (if clid = None then imsi else clid));
          (a, q) \<leftarrow> sendEMail W SMTPAddress SMTPPayload (Some subjectLine) q;
          Some (a, m, q) }
      else do {
        let digits = mDigits (mDA submit);
        let (destinationNumber, q) = ask (\<lambda>t. getIMSI2 W t (Some digits)) q;
        if getStr C ''SIP.GlobalRelay.IP'' = [] \<and> getStr C ''SMS.HTTPGateway.URL'' \<noteq> []
           \<and> destinationNumber = None
        then do { (a, q) \<leftarrow> sendHTTP W C digits bdy q; Some (a, m, q) }
        else do { (a, m) \<leftarrow> sendSIP_init submit m; Some (a, m, q) } })"

definition shortcode_smsc ::
  "world \<Rightarrow> config \<Rightarrow> string option \<Rightarrow> string \<Rightarrow> short_msg_pending \<Rightarrow> smq
     \<Rightarrow> (short_code_action \<times> short_msg_pending \<times> smq) option"
where
  "shortcode_smsc W C imsi msgtext m q =
     (case content_type m of
        TEXT_PLAIN \<Rightarrow> do { (a, m) \<leftarrow> sendSIP_init_text m; Some (a, m, q) }
      | UNSUPPORTED_CONTENT \<Rightarrow> Some (SCA_INTERNAL_ERROR, m, q)
      | VND_3GPP_SMS \<Rightarrow>
          (case tl_message m of
             None \<Rightarrow> Some (SCA_INTERNAL_ERROR, m, q)
           | Some (TLM_Deliver _) \<Rightarrow> Some (SCA_INTERNAL_ERROR, m, q)
           | Some (TLM_Submit submit) \<Rightarrow> submitSMS W C imsi submit msgtext m q))"

section \<open>Packing a message for delivery\<close>

text \<open>\<open>omsg->bodies.node->element->body = s\<close>, when there is a body.\<close>

definition set_first_body :: "string \<Rightarrow> osip_message \<Rightarrow> osip_message" where
  "set_first_body s p =
     (case p_bodies p of
        Some b # bs \<Rightarrow> p\<lparr>p_bodies := Some (b\<lparr>body := Some s\<rparr>) # bs\<rparr>
      | _ \<Rightarrow> p)"

definition has_first_body :: "osip_message \<Rightarrow> bool" where
  "has_first_body p = (case p_bodies p of Some _ # _ \<Rightarrow> True | _ \<Rightarrow> False)"

definition set_content_type_fields ::
  "string \<Rightarrow> string \<Rightarrow> osip_message \<Rightarrow> osip_message option" where
  "set_content_type_fields ty sub p =
     do { ct \<leftarrow> p_content_type p;
          Some (p\<lparr>p_content_type := Some (ct\<lparr>ct_type := Some ty, ct_subtype := Some sub\<rparr>)\<rparr>) }"

definition uncaught :: "'a codec \<Rightarrow> 'a option" where
  "uncaught r = (case r of Some (Inr x) \<Rightarrow> Some x | _ \<Rightarrow> None)"

definition pack_tpdu :: "lib_ops \<Rightarrow> short_msg_pending \<Rightarrow> short_msg_pending option" where
  "pack_tpdu L m =
     do {
       d \<leftarrow> rp_data m;
       let B = bit_lib L;
       rpdu \<leftarrow> uncaught (RPData_write B (newBits B ((RPData_l2BodyLength d + 2) * 8)) d);
       p \<leftarrow> parsed m;
       p \<leftarrow> (if has_first_body p then
               do {
                 s \<leftarrow> msg_text m;
                 let packet = packBytes B rpdu;
                 Some (set_first_body (c_str (encodeToString L packet (length packet)
                                                (transfer_encoding s))) p) }
             else Some p);
       Some (parsed_was_changed (m\<lparr>parsed := Some p\<rparr>)) }"

text \<open>\<open>sscanf(body, "#!TLPID%d", &TLPID)\<close>: no digits, no assignment.\<close>

definition easter_egg :: "string \<Rightarrow> nat \<Rightarrow> nat" where
  "easter_egg bdy TLPID =
     (if strneq 7 bdy ''#!TLPID'' then
        (let (v, rest, _) = strtol10 (drop 7 bdy) in
         if rest = drop 7 bdy then TLPID else unat (word_of_int v :: 32 word))
      else TLPID)"

text \<open>\<open>((TLSubmit*)tl_message)->PI()\<close> reads a message of another class as an SMS-SUBMIT.\<close>

definition delivery_pid :: "short_msg_pending \<Rightarrow> nat option" where
  "delivery_pid m =
     (case tl_message m of
        None \<Rightarrow> Some 0
      | Some (TLM_Submit s) \<Rightarrow> Some (if mPI s \<noteq> 0x40 then 0 else mPI s)
      | Some (TLM_Deliver _) \<Rightarrow> None)"

definition create_sms_delivery ::
  "lib_ops \<Rightarrow> world \<Rightarrow> config \<Rightarrow> string \<Rightarrow> TLUserData \<Rightarrow> short_msg_pending \<Rightarrow> smq
     \<Rightarrow> (short_msg_pending \<times> smq) option"
where
  "create_sms_delivery L W C bdy UD m q =
     do {
       p \<leftarrow> parsed m;
       f \<leftarrow> p_from p;
       fr \<leftarrow> (case displayname f of
                Some d \<Rightarrow> Some d
              | None \<Rightarrow> do { u \<leftarrow> na_url f; u_username u });
       pid \<leftarrow> delivery_pid m;
       let pid = easter_egg bdy pid;
       let (rnd, q) = ask (w_random W) q;
       let deliver = TLDeliver_new (TLAddress_of fr) UD pid;
       d \<leftarrow> uncaught (RPData_new (bit_lib L) (time_lib L) (rnd mod 255)
                        (L3CalledPartyBCDNumber (getStr C ''SMS.FakeSrcSMSC''))
                        (TLM_Deliver deliver));
       m \<leftarrow> pack_tpdu L (m\<lparr>rp_data := Some d, tl_message := Some (TLM_Deliver deliver)\<rparr>);
       Some (m\<lparr>ms_to_sc := False\<rparr>, q) }"

definition pack_text_to_tpdu ::
  "lib_ops \<Rightarrow> world \<Rightarrow> config \<Rightarrow> string \<Rightarrow> short_msg_pending \<Rightarrow> smq
     \<Rightarrow> (bool \<times> short_msg_pending \<times> smq) option"
where
  "pack_text_to_tpdu L W C bdy m q =
     do {
       UD \<leftarrow> uncaught (TLUserData_of_text (bit_lib L) (c_str bdy));
       (m, q) \<leftarrow> create_sms_delivery L W C bdy UD m q;
       m \<leftarrow> modify_parsed (set_content_type_fields ''application'' ''vnd.3gpp.sms'') m;
       Some (True, m, q) }"

definition pack_plain_text ::
  "string \<Rightarrow> short_msg_pending \<Rightarrow> (bool \<times> short_msg_pending) option" where
  "pack_plain_text bdy m =
     do {
       m \<leftarrow> modify_parsed (\<lambda>p. Some (set_first_body (c_str bdy) p)) m;
       let m = m\<lparr>ms_to_sc := False\<rparr>;
       m \<leftarrow> modify_parsed (set_content_type_fields ''text'' ''plain'') m;
       Some (True, m) }"

definition recode_tpdu ::
  "lib_ops \<Rightarrow> world \<Rightarrow> config \<Rightarrow> string \<Rightarrow> short_msg_pending \<Rightarrow> smq
     \<Rightarrow> (bool \<times> short_msg_pending \<times> smq) option"
where
  "recode_tpdu L W C bdy m q =
     (case tl_message m of
        None \<Rightarrow> Some (False, m, q)
      | Some (TLM_Submit submit) \<Rightarrow>
          do { (m, q) \<leftarrow> create_sms_delivery L W C bdy (sUD submit) m q; Some (True, m, q) }
      | Some (TLM_Deliver _) \<Rightarrow> Some (False, m, q))"

definition pack_converted ::
  "lib_ops \<Rightarrow> world \<Rightarrow> config \<Rightarrow> string \<Rightarrow> short_msg_pending \<Rightarrow> smq
     \<Rightarrow> (bool \<times> short_msg_pending \<times> smq) option"
where
  "pack_converted L W C msgtext m q =
     (case convert_content_type m of
        TEXT_PLAIN \<Rightarrow> do { (r, m) \<leftarrow> pack_plain_text msgtext m; Some (r, m, q) }
      | VND_3GPP_SMS \<Rightarrow> pack_text_to_tpdu L W C msgtext m q
      | UNSUPPORTED_CONTENT \<Rightarrow>
          (case content_type m of
             TEXT_PLAIN \<Rightarrow> do { (r, m) \<leftarrow> pack_plain_text msgtext m; Some (r, m, q) }
           | VND_3GPP_SMS \<Rightarrow>
               (if ms_to_sc m then recode_tpdu L W C msgtext m q else Some (True, m, q))
           | UNSUPPORTED_CONTENT \<Rightarrow> Some (False, m, q)))"

definition pack_sms_for_delivery ::
  "lib_ops \<Rightarrow> world \<Rightarrow> config \<Rightarrow> short_msg_pending \<Rightarrow> smq
     \<Rightarrow> (bool \<times> short_msg_pending \<times> smq) option"
where
  "pack_sms_for_delivery L W C m q =
     (if \<not> need_repack m then Some (True, m, q)
      else do {
        (_, m) \<leftarrow> parse L m;
        msgtext \<leftarrow> get_text L m;
        (ok, m, q) \<leftarrow> pack_converted L W C msgtext m q;
        Some (ok, (if ok then m\<lparr>need_repack := False\<rparr> else m), q) })"

end
