(* ===== verification/Smq_Commands.thy ===== *)
theory Smq_Commands
  imports Smq_Smsc
begin

text \<open>
  The short-code functions (\<open>smqueue/smcommands.cpp\<close>) and saving the queue, which one of them
  does (\<open>SMq::save_queue_to_file\<close>).

  A function gets the daemon, the message its short code came in (by its identity) and the text,
  and returns an action, perhaps with a reply.  A pointer into a temporary string that has been
  destroyed (the password of \<open>whiplash_quit\<close>, the cell name of 411) is read as the string it
  pointed to.
\<close>

section \<open>Saving the queue\<close>

definition nl :: string where
  "nl = [CHR 0x0A]"

definition queue_record :: "string \<Rightarrow> short_msg_pending \<Rightarrow> string \<Rightarrow> string" where
  "queue_record addr m s =
     ''=== '' @ show_nat (state_num (state m)) @ '' '' @ show_int (next_action_time m) @ '' ''
     @ addr @ '' '' @ show_nat (length s) @ '' '' @ show_bool (ms_to_sc m) @ '' ''
     @ show_bool (need_repack m) @ nl @ s @ nl @ nl"

text \<open>The messages in reverse order; a message without text is dereferenced.\<close>

fun save_loop ::
  "lib_ops \<Rightarrow> world \<Rightarrow> short_msg_pending list \<Rightarrow> string \<Rightarrow> smq \<Rightarrow> (string \<times> smq) option" where
  "save_loop L W [] acc q = Some (acc, q)"
| "save_loop L W (x # xs) acc q =
     do {
       x \<leftarrow> make_text_valid L x;
       let (addr, q) = ask (\<lambda>t. string_addr (w_net W) t (srcaddr x) (srcaddrlen x) True)
                         (put_msg x q);
       s \<leftarrow> msg_text x;
       save_loop L W xs (acc @ queue_record addr x s) q }"

text \<open>The stream does not fail once the file is open.\<close>

definition save_queue_to_file :: "lib_ops \<Rightarrow> world \<Rightarrow> string \<Rightarrow> smq \<Rightarrow> (bool \<times> smq) option" where
  "save_queue_to_file L W qfile q =
     (let (is_open, q) = ask (\<lambda>t. w_fopen W t qfile) q in
      if \<not> is_open then Some (False, q)
      else do { (out, q) \<leftarrow> save_loop L W (rev (time_sorted_list q)) [] q;
                Some (True, q\<lparr>saved_files := saved_files q @ [(qfile, out)]\<rparr>) })"

section \<open>Administrator commands\<close>

type_synonym sc_result = "(short_code_action \<times> string option \<times> smq) option"

text \<open>
  \<open>msgtext+len+1\<close> is past the terminator when the text is the password alone.  Of \<open>testsave\<close> only
  the first four characters are compared.
\<close>

definition whiplash_quit :: "lib_ops \<Rightarrow> world \<Rightarrow> config \<Rightarrow> string \<Rightarrow> smq \<Rightarrow> sc_result" where
  "whiplash_quit L W C msgtext q =
     (let psswd = getStr C ''SC.WhiplashQuit.Password'';
          len = length psswd in
      if strneq len psswd msgtext then
        (if length msgtext = len then None
         else let arg = drop (len + 1) msgtext in
           if strneq 4 ''quit'' arg then Some (SCA_QUIT_SMQUEUE, None, q)
           else if strneq 4 ''exec'' arg then Some (SCA_EXEC_SMQUEUE, None, q)
           else if strneq 4 ''testsave'' arg then
             do { (_, q) \<leftarrow> save_queue_to_file L W (getStr C ''SC.WhiplashQuit.SaveFile'') q;
                  Some (SCA_REPLY, Some ''Done.'', q) }
           else Some (SCA_REPLY, Some ''Unknown Command'', q))
      else Some (SCA_TREAT_AS_ORDINARY, None, q))"

definition shortcode_debug_dump :: "lib_ops \<Rightarrow> world \<Rightarrow> smq \<Rightarrow> sc_result" where
  "shortcode_debug_dump L W q = do { q \<leftarrow> debug_dump L W q; Some (SCA_DONE, None, q) }"

definition shortcode_quick_chk :: "smq \<Rightarrow> sc_result" where
  "shortcode_quick_chk q =
     Some (SCA_REPLY, Some (show_nat (length (time_sorted_list q)) @ '' queued.''), q)"

text \<open>The counters of 411: missing, registering, bouncing.\<close>

definition count_delivery :: "config \<Rightarrow> short_msg_pending \<Rightarrow> (nat \<times> nat \<times> nat) option" where
  "count_delivery C x =
     do {
       p \<leftarrow> parsed x;
       u \<leftarrow> p_req_uri p;
       host \<leftarrow> u_host u;
       fr \<leftarrow> from_username p;
       fr \<leftarrow> fr;
       user \<leftarrow> u_username u;
       Some (if host = ''127.0.0.1'' then 1 else 0,
             (if getStr C ''SC.Register.Code'' = fr then 1 else 0)
             + (if getStr C ''SC.Register.Code'' = user then 1 else 0),
             if getStr C ''SC.Info.Code'' = fr then 1 else 0) }"

fun count_loop ::
  "lib_ops \<Rightarrow> config \<Rightarrow> short_msg_pending list
     \<Rightarrow> (short_msg_pending list \<times> nat \<times> nat \<times> nat) option" where
  "count_loop L C [] = Some ([], 0, 0, 0)"
| "count_loop L C (x # xs) =
     do {
       (x, m1, r1, b1) \<leftarrow>
         (if state x \<in> {REQUEST_DESTINATION_SIPURL, REQUEST_MSG_DELIVERY, ASKED_FOR_MSG_DELIVERY,
                        AWAITING_TRY_MSG_DELIVERY}
          then do { x \<leftarrow> make_text_valid L x; (m1, r1, b1) \<leftarrow> count_delivery C x;
                    Some (x, m1, r1, b1) }
          else if state x \<in> {AWAITING_REGISTER_HANDSET, REGISTER_HANDSET,
                             ASKED_TO_REGISTER_HANDSET}
          then Some (x, 0, 1, 0)
          else Some (x, 0, 0, 0));
       (xs, m2, r2, b2) \<leftarrow> count_loop L C xs;
       Some (x # xs, m1 + m2, r1 + r2, b1 + b2) }"

definition counted :: "nat \<Rightarrow> string \<Rightarrow> string" where
  "counted n what = (if n = 0 then [] else '', '' @ show_nat n @ what)"

text \<open>\<open>mycell += strlen(mycell) - 3\<close>, and \<open>timebuf+4\<close> up to column 19 of \<open>ctime\<close>.\<close>

definition shortcode_four_one_one ::
  "lib_ops \<Rightarrow> world \<Rightarrow> config \<Rightarrow> string \<Rightarrow> nat \<Rightarrow> smq \<Rightarrow> sc_result" where
  "shortcode_four_one_one L W C msgtext i q =
     do {
       (xs, missing, registering, bouncing) \<leftarrow> count_loop L C (time_sorted_list q);
       let n = length (time_sorted_list q);
       let q = q\<lparr>time_sorted_list := xs\<rparr>;
       m \<leftarrow> deref i q;
       let (mycell, q) = ask (\<lambda>t. string_addr (w_net W) t (srcaddr m) (srcaddrlen m) False) q;
       if length mycell < 3 then None else do {
         p \<leftarrow> parsed m;
         username \<leftarrow> from_username p;
         let (newfrom, q) = ask (\<lambda>t. getCLIDLocal W t username) q;
         let (now, q) = ask (w_time W) q;
         let timebuf = take 15 (drop 4 (w_ctime W now));
         let answer = ostream_cstrs
           [Some (show_nat n @ '' queued'' @ counted missing '' unlocatable''
                  @ counted registering '' registering'' @ counted bouncing '' bouncing''
                  @ '', cell '' @ drop (length mycell - 3) mycell @ '', ''),
            username, Some '', phonenum '', newfrom,
            Some ('', at '' @ timebuf @ '', '' @ [CHR 0x27] @ msgtext @ [CHR 0x27])];
         Some (SCA_REPLY, Some answer, q) } }"

definition LONGDELETMS :: int where
  "LONGDELETMS = 5000000"

text \<open>
  The loop of the password branch: after a message has been spliced out and freed, \<open>x++\<close> reads
  its freed list node.
\<close>

fun zap_loop :: "int \<Rightarrow> short_msg_pending list \<Rightarrow> nat option" where
  "zap_loop toolate [] = Some 0"
| "zap_loop toolate (x # xs) =
     (if state x = NO_STATE \<or> toolate \<le> next_action_time x then None else zap_loop toolate xs)"

definition shortcode_zap_queued :: "world \<Rightarrow> config \<Rightarrow> string \<Rightarrow> smq \<Rightarrow> sc_result" where
  "shortcode_zap_queued W C msgtext0 q =
     do {
       let noreply = (take 1 msgtext0 = ''-'');
       let msgtext = (if noreply then tl msgtext0 else msgtext0);
       (answer, q) \<leftarrow>
         (if getStr C ''SC.ZapQueued.Password'' = msgtext then
            (let (now, q) = msgettime W q in
             do { n \<leftarrow> zap_loop (LONGDELETMS + now) (time_sorted_list q);
                  Some (''Removed '' @ show_nat n @ '' messages.'', q) })
          else do {
            found \<leftarrow> find_queued_msg_by_tag msgtext q;
            case found of
              None \<Rightarrow> Some (''No message queued with tag '' @ [CHR 0x27] @ msgtext
                            @ [CHR 0x27] @ ''.'', q)
            | Some i \<Rightarrow>
                do {
                  (sent_msg, q) \<leftarrow> splice_out i q;
                  let (now, q) = msgettime W q;
                  Some (''Deleting queued msg '' @ [CHR 0x27] @ msgtext @ '' in state ''
                        @ show_nat (state_num (state sent_msg)) @ '' and timeout ''
                        @ show_int (next_action_time sent_msg - now), q) } });
       Some (if noreply then SCA_DONE else SCA_REPLY, Some answer, q) }"

section \<open>Registration\<close>

record reg_scan =
  phonenum :: string
  seendig :: nat
  seenplus :: bool
  exclaim :: nat
  reg_answer :: string
  badnum :: bool

definition reg_scan0 :: reg_scan where
  "reg_scan0 = \<lparr>phonenum = [], seendig = 0, seenplus = False, exclaim = 0, reg_answer = [],
                badnum = False\<rparr>"

definition reg_step :: "char \<Rightarrow> reg_scan \<Rightarrow> reg_scan" where
  "reg_step c r =
     (if isdigit c then r\<lparr>phonenum := phonenum r @ [c], seendig := seendig r + 1\<rparr>
      else if c = CHR ''+'' then
        (if seendig r = 0 \<and> \<not> seenplus r
         then r\<lparr>phonenum := phonenum r @ [c], seenplus := True\<rparr>
         else r\<lparr>reg_answer := reg_answer r
                  @ ''Error: + can only be the first character in a phone number'',
                badnum := True\<rparr>)
      else if c \<in> {CHR '' '', CHR ''('', CHR '')'', CHR 0x0D, CHR 0x0A} then r
      else if c = CHR ''!'' then r\<lparr>exclaim := exclaim r + 1\<rparr>
      else r\<lparr>reg_answer := reg_answer r @ ''Error: invalid character '' @ [CHR 0x27, c, CHR 0x27]
               @ '' in requested number'', badnum := True\<rparr>)"

fun reg_scan_loop :: "string \<Rightarrow> reg_scan \<Rightarrow> reg_scan" where
  "reg_scan_loop [] r = r"
| "reg_scan_loop (c # cs) r =
     (if c = CHR 0x00 \<or> badnum r then r else reg_scan_loop cs (reg_step c r))"

definition reg_check_length :: "config \<Rightarrow> reg_scan \<Rightarrow> reg_scan" where
  "reg_check_length C r =
     (if badnum r then r
      else if getBool C ''SC.Register.Digits.Override'' \<and> exclaim r = 3 then r
      else if getNum C ''SC.Register.Digits.Max'' < int (seendig r)
              \<or> int (seendig r) < getNum C ''SC.Register.Digits.Min''
      then r\<lparr>reg_answer := reg_answer r @ phonenum r @ '' not valid with ''
               @ show_nat (seendig r) @ '' digits. Must be ''
               @ getStr C ''SC.Register.Digits.Min'' @ '' to ''
               @ getStr C ''SC.Register.Digits.Max'' @ '' digits.'', badnum := True\<rparr>
      else r)"

definition reg_number :: "config \<Rightarrow> string \<Rightarrow> reg_scan" where
  "reg_number C msgtext = reg_check_length C (reg_scan_loop msgtext reg_scan0)"

definition shortcode_register ::
  "world \<Rightarrow> config \<Rightarrow> string option \<Rightarrow> string \<Rightarrow> smq \<Rightarrow> sc_result" where
  "shortcode_register W C imsi msgtext q =
     (let r = reg_number C msgtext; num = phonenum r in
      if badnum r then Some (SCA_REPLY, Some (reg_answer r), q)
      else
        let (existing, q) = ask (\<lambda>t. getCLIDLocal W t imsi) q in
        (case existing of
           Some e \<Rightarrow>
             (if e = num
              then Some (SCA_REPLY, Some (getStr C ''SC.Register.Msg.WelcomeA'' @ '' '' @ num
                                          @ '' '' @ getStr C ''SC.Register.Msg.WelcomeB''), q)
              else Some (SCA_REPLY, Some (getStr C ''SC.Register.Msg.AlreadyA'' @ '' '' @ e
                                          @ '' '' @ getStr C ''SC.Register.Msg.AlreadyB''), q))
         | None \<Rightarrow>
             let (owner, q) = ask (\<lambda>t. getIMSI2 W t (Some num)) q in
             if owner \<noteq> None
             then Some (SCA_REPLY, Some (getStr C ''SC.Register.Msg.TakenA'' @ '' '' @ num
                                         @ '' '' @ getStr C ''SC.Register.Msg.TakenB''), q)
             else let (did, q) = ask (\<lambda>t. addUser W t imsi num) q in
               (case did of
                  HLR_SUCCESS \<Rightarrow> Some (SCA_REGISTER, None, q)
                | HLR_DELAYED \<Rightarrow> Some (SCA_AWAIT_REGISTER, None, q)
                | HLR_TRYAGAIN \<Rightarrow> Some (SCA_RETRY_AFTER_DELAY, None, q)
                | HLR_FAILURE \<Rightarrow>
                    Some (SCA_REPLY,
                      Some (getStr C ''SC.Register.Msg.ErrorA'' @ '' '' @ num @ '' ''
                            @ getStr C ''SC.Register.Msg.ErrorB''
                            @ ostream_cstrs [imsi, Some ''.'']), q))))"

section \<open>The table of commands\<close>

definition add_code ::
  "config \<Rightarrow> string \<Rightarrow> short_func \<Rightarrow> (string \<rightharpoonup> short_func) \<Rightarrow> (string \<rightharpoonup> short_func)" where
  "add_code C key f scm = (if defines_key C key then scm(getStr C key \<mapsto> f) else scm)"

definition init_smcommands :: "config \<Rightarrow> (string \<rightharpoonup> short_func) \<Rightarrow> (string \<rightharpoonup> short_func)" where
  "init_smcommands C scm =
     add_code C ''SC.SMSC.Code'' shortcode_smsc_fn
    (add_code C ''SC.WhiplashQuit.Code'' whiplash_quit_fn
    (add_code C ''SC.ZapQueued.Code'' shortcode_zap_queued_fn
    (add_code C ''SC.QuickChk.Code'' shortcode_quick_chk_fn
    (add_code C ''SC.DebugDump.Code'' shortcode_debug_dump_fn
    (add_code C ''SC.Info.Code'' shortcode_four_one_one_fn
    (add_code C ''SC.Register.Code'' shortcode_register_fn scm))))))"

text \<open>A call through the function pointer: \<open>imsi\<close> is the user name of \<open>From\<close>.\<close>

definition call_short_func ::
  "lib_ops \<Rightarrow> world \<Rightarrow> config \<Rightarrow> short_func \<Rightarrow> string option \<Rightarrow> string \<Rightarrow> nat \<Rightarrow> smq \<Rightarrow> sc_result"
where
  "call_short_func L W C f imsi msgtext i q =
     (case f of
        shortcode_register_fn \<Rightarrow> shortcode_register W C imsi msgtext q
      | shortcode_four_one_one_fn \<Rightarrow> shortcode_four_one_one L W C msgtext i q
      | shortcode_debug_dump_fn \<Rightarrow> shortcode_debug_dump L W q
      | shortcode_quick_chk_fn \<Rightarrow> shortcode_quick_chk q
      | shortcode_zap_queued_fn \<Rightarrow> shortcode_zap_queued W C msgtext q
      | whiplash_quit_fn \<Rightarrow> whiplash_quit L W C msgtext q
      | shortcode_smsc_fn \<Rightarrow>
          do { m \<leftarrow> deref i q;
               (a, m, q) \<leftarrow> shortcode_smsc W C imsi msgtext m q;
               Some (a, None, put_msg m q) })"

end
