(* ===== verification/Smq_Lookup.thy ===== *)
theory Smq_Lookup
  imports Smq_Commands
begin

text \<open>
  Routing a queued message (\<open>smqueue/smqueue.cpp\<close>): who it is from, which IMSI it is for, which
  host and port that IMSI is at; and handing it to the network (\<open>SMnet::deliver_msg_datagram\<close>).
  Each function names the state the message goes to next.
\<close>

section \<open>The built-in table\<close>

definition imsi_phone :: "(string \<times> string) list" where
  "imsi_phone =
     [(''IMSI666410186585295'', ''+17074700741''),
      (''IMSI777100223456161'', ''+17074700746'')]"

definition table_phone :: "string \<Rightarrow> string option" where
  "table_phone imsi = map_option snd (find (\<lambda>(i, p). i = imsi) imsi_phone)"

definition table_imsi :: "string \<Rightarrow> string option" where
  "table_imsi phone = map_option fst (find (\<lambda>(i, p). p = phone) imsi_phone)"

definition or_else :: "'a option \<Rightarrow> 'a option \<Rightarrow> 'a option" where
  "or_else a b = (case a of None \<Rightarrow> b | Some _ \<Rightarrow> a)"

section \<open>The sender\<close>

definition strip_imsi_any_case :: "string \<Rightarrow> string" where
  "strip_imsi_any_case s = (if strcaseeq (take 4 s) ''imsi'' then drop 4 s else s)"

definition imsi_length_ok :: "string \<Rightarrow> bool" where
  "imsi_length_ok s \<longleftrightarrow> length s = 15 \<or> length s = 14"

definition is_number :: "string \<Rightarrow> bool" where
  "is_number s = (case s of [] \<Rightarrow> False | c # _ \<Rightarrow> c = CHR ''+'' \<or> isdigit c)"

definition set_from_name :: "string \<Rightarrow> osip_message \<Rightarrow> osip_message option" where
  "set_from_name newfrom p =
     do { f \<leftarrow> p_from p; u \<leftarrow> na_url f;
          Some (p\<lparr>p_from := Some (f\<lparr>na_url := Some (u\<lparr>u_username := Some newfrom\<rparr>),
                                    displayname := Some newfrom\<rparr>)\<rparr>) }"

text \<open>
  The Via line is appended in place, without \<open>parsed_was_changed\<close>.
\<close>

definition lookup_from_address ::
  "lib_ops \<Rightarrow> world \<Rightarrow> nat \<Rightarrow> smq \<Rightarrow> (sm_state \<times> smq) option" where
  "lookup_from_address L W i q =
     do {
       m \<leftarrow> deref i q;
       p \<leftarrow> parsed m;
       f \<leftarrow> p_from p;
       u \<leftarrow> na_url f;
       if u_scheme u \<noteq> Some ''sip'' then Some (NO_STATE, q)
       else case u_username u of
         None \<Rightarrow> Some (NO_STATE, q)
       | Some fromusername \<Rightarrow>
           if u_host u = None then Some (NO_STATE, q)
           else do {
             let m = m\<lparr>parsed := Some (osip_append_via L p (via_line q))\<rparr>;
             let q = put_msg m q;
             if is_number fromusername then Some (REQUEST_DESTINATION_IMSI, q)
             else if \<not> imsi_length_ok (strip_imsi_any_case fromusername)
             then Some (NO_STATE, q)
             else do {
               let (clid, q) = ask (\<lambda>t. getCLIDLocal W t (Some fromusername)) q;
               case or_else clid (table_phone fromusername) of
                 None \<Rightarrow> Some (REQUEST_DESTINATION_IMSI, q)
               | Some newfrom \<Rightarrow>
                   do { m \<leftarrow> modify_parsed (set_from_name newfrom) m;
                        Some (REQUEST_DESTINATION_IMSI, put_msg m q) } } } }"

section \<open>The destination\<close>

text \<open>\<open>convert_content_type\<close> always succeeds.\<close>

definition convert_to :: "ContentType \<Rightarrow> short_msg_pending \<Rightarrow> bool \<times> short_msg_pending" where
  "convert_to to_type m = (True, convert_message to_type m)"

definition strip_imsi :: "string \<Rightarrow> string" where
  "strip_imsi s =
     (let s = (if strneq 4 s ''imsi'' then drop 4 s else s)
      in if strneq 4 s ''IMSI'' then drop 4 s else s)"

text \<open>The phone number has no IMSI: bounce, or send to the relay under the global number.\<close>

definition route_unknown ::
  "lib_ops \<Rightarrow> world \<Rightarrow> config \<Rightarrow> nat \<Rightarrow> short_msg_pending \<Rightarrow> smq \<Rightarrow> (sm_state \<times> smq) option"
where
  "route_unknown L W C i m q =
     (if global_relay q = [] then
        bounce_message L W C i (getStr C ''Bounce.Message.NotRegistered'') q
      else do {
        p \<leftarrow> parsed m;
        fr \<leftarrow> from_username p;
        let (newfrom, q) = ask (\<lambda>t. mapCLIDGlobal W t fr) q;
        p \<leftarrow> (case newfrom of None \<Rightarrow> Some p | Some n \<Rightarrow> set_from_username (Some n) p);
        let m = snd (convert_to (global_relay_contenttype q) (m\<lparr>parsed := Some p\<rparr>));
        Some (REQUEST_DESTINATION_SIPURL, put_msg m q) })"

definition lookup_uri_imsi ::
  "lib_ops \<Rightarrow> world \<Rightarrow> config \<Rightarrow> nat \<Rightarrow> smq \<Rightarrow> (sm_state \<times> smq) option" where
  "lookup_uri_imsi L W C i q =
     do {
       m \<leftarrow> deref i q;
       (_, m) \<leftarrow> parse L m;
       let q = put_msg m q;
       p \<leftarrow> parsed m;
       u \<leftarrow> p_req_uri p;
       if u_scheme u \<noteq> Some ''sip'' then Some (NO_STATE, q)
       else case u_username u of
         None \<Rightarrow> Some (NO_STATE, q)
       | Some username \<Rightarrow>
           if take 1 username = ''+'' \<or> \<not> is_imsi4 username then
             (let (imsi, q) = ask (\<lambda>t. getIMSI2 W t (Some username)) q in
              case or_else imsi (table_imsi username) of
                None \<Rightarrow> route_unknown L W C i m q
              | Some newdest \<Rightarrow>
                  if \<not> is_imsi4 newdest then route_unknown L W C i m q
                  else do { m \<leftarrow> modify_parsed (set_uri_username (Some newdest)) m;
                            Some (REQUEST_DESTINATION_SIPURL, put_msg m q) })
           else if \<not> imsi_length_ok (strip_imsi username) then Some (NO_STATE, q)
           else Some (REQUEST_DESTINATION_SIPURL, q) }"

text \<open>Where to send: the relay for a number, else the registered address of the IMSI.\<close>

definition find_hostport ::
  "world \<Rightarrow> config \<Rightarrow> string \<Rightarrow> short_msg_pending \<Rightarrow> smq
     \<Rightarrow> (string \<times> string) \<times> short_msg_pending \<times> smq" where
  "find_hostport W C imsi m q =
     (if take 1 imsi = ''+'' \<or> \<not> is_imsi4 imsi then
        ((global_relay q, global_relay_port q),
         snd (convert_to (global_relay_contenttype q) m), q)
      else
        let (reg, q) = ask (\<lambda>t. getRegistrationIP W t imsi) q;
            defport = getStr C ''SIP.Default.BTSPort'';
            hp = (case reg of
                    None \<Rightarrow> (''127.0.0.1'', defport)
                  | Some h \<Rightarrow> (case strchr_split CHR '':'' h of
                                Some (host, port) \<Rightarrow> (host, port)
                              | None \<Rightarrow> (h, defport)))
        in (hp, m, q))"

text \<open>
  The ports are compared as pointers, and \<open>newport\<close> is always a fresh copy.
\<close>

definition set_hostport ::
  "string \<Rightarrow> string \<Rightarrow> short_msg_pending \<Rightarrow> short_msg_pending option" where
  "set_hostport newhost newport m =
     do {
       p \<leftarrow> parsed m;
       u \<leftarrow> p_req_uri p;
       host \<leftarrow> u_host u;
       let u = (if newhost \<noteq> host then u\<lparr>u_host := Some newhost\<rparr> else u);
       Some (parsed_was_changed
               (m\<lparr>parsed := Some (p\<lparr>p_req_uri := Some (u\<lparr>u_port := Some newport\<rparr>)\<rparr>)\<rparr>)) }"

definition renew_call_id ::
  "string \<Rightarrow> string \<Rightarrow> short_msg_pending \<Rightarrow> short_msg_pending option" where
  "renew_call_id myhost mycallnum m =
     do {
       p \<leftarrow> parsed m;
       let cid = (case p_call_id p of None \<Rightarrow> osip_call_id0 | Some c \<Rightarrow> c);
       let cid1 = (case ci_host cid of
                     None \<Rightarrow> cid | Some h \<Rightarrow> cid\<lparr>ci_host := Some myhost\<rparr>);
       number \<leftarrow> ci_number cid1;
       let cid2 = cid1\<lparr>ci_number := Some mycallnum\<rparr>;
       let m = m\<lparr>parsed := Some (p\<lparr>p_call_id := Some cid2\<rparr>)\<rparr>;
       Some (if cid2 = cid then m else parsed_was_changed m) }"

definition lookup_uri_hostport ::
  "lib_ops \<Rightarrow> world \<Rightarrow> config \<Rightarrow> nat \<Rightarrow> smq \<Rightarrow> (sm_state \<times> smq) option" where
  "lookup_uri_hostport L W C i q =
     do {
       m \<leftarrow> deref i q;
       (_, m) \<leftarrow> parse L m;
       let q = put_msg m q;
       p \<leftarrow> parsed m;
       u \<leftarrow> p_req_uri p;
       case u_username u of
         None \<Rightarrow> Some (NO_STATE, q)
       | Some imsi \<Rightarrow>
           do {
             let (hp, m, q) = find_hostport W C imsi m q;
             m \<leftarrow> set_hostport (fst hp) (snd hp) m;
             (mycallnum, q) \<leftarrow> new_call_number_q W q;
             m \<leftarrow> renew_call_id (my_ipaddress q) mycallnum m;
             (_, m) \<leftarrow> set_qtag L m;
             Some (REQUEST_MSG_DELIVERY, put_msg m q) } }"

section \<open>Delivery\<close>

definition deliver_msg_datagram ::
  "lib_ops \<Rightarrow> world \<Rightarrow> nat \<Rightarrow> smq \<Rightarrow> (bool \<times> smq) option" where
  "deliver_msg_datagram L W i q =
     do {
       m \<leftarrow> deref i q;
       m \<leftarrow> make_text_valid L m;
       let q = put_msg m q;
       if sockets (my_network q) = [] then Some (False, q)
       else do {
         (ok, m) \<leftarrow> parse L m;
         let q = put_msg m q;
         if \<not> ok then Some (False, q)
         else do {
           p \<leftarrow> parsed m;
           u \<leftarrow> p_req_uri p;
           let scheme = (case u_scheme u of None \<Rightarrow> ''sip'' | Some s \<Rightarrow> s);
           let port = (case u_port u of None \<Rightarrow> scheme | Some s \<Rightarrow> s);
           let (addrs, q) = ask (\<lambda>t. getaddrinfo (w_net W) t (u_host u) port) q;
           case addrs of
             None \<Rightarrow> Some (False, q)
           | Some myaddrs \<Rightarrow>
               (let txt = (case msg_text m of None \<Rightarrow> []
                           | Some s \<Rightarrow> take (unat (text_length m)) s);
                    net = my_network q;
                    (r, out, t) = deliver_addrs (w_net W) (tick q) txt
                                    (zip (sockets net) (sockinfo net)) myaddrs
                in Some (r, q\<lparr>sent := sent q @ out, tick := t\<rparr>)) } } }"

end
