(* ===== verification/Smq_Machine.thy ===== *)
theory Smq_Machine
  imports Smq_Lookup
begin

text \<open>
  The state machine of a queued message (\<open>smqueue/smqueue.cpp\<close>): what a SIP response does to the
  message it answers, what a short code does, and the handler that the writer thread runs on the
  front of the queue (\<open>SMq::process_timeout\<close>).
\<close>

section \<open>Responses\<close>

text \<open>The original SMS of a registration is rerun; its place in the list does not change.\<close>

definition rerun_linked_sms :: "world \<Rightarrow> nat \<Rightarrow> smq \<Rightarrow> smq option" where
  "rerun_linked_sms W sent_msg q =
     do {
       found \<leftarrow> get_link sent_msg q;
       case found of
         None \<Rightarrow> Some q
       | Some oldsms \<Rightarrow>
           do {
             old \<leftarrow> deref oldsms q;
             if state old \<in> {ASKED_TO_REGISTER_HANDSET, REGISTER_HANDSET,
                              AWAITING_REGISTER_HANDSET}
             then (let (now, q) = msgettime W q
                   in Some (put_msg (smp_set_state (timeouts q) now INITIAL_STATE old) q))
             else Some q } }"

definition sip_method_is :: "string \<Rightarrow> short_msg_pending \<Rightarrow> bool" where
  "sip_method_is meth m =
     (case parsed m of None \<Rightarrow> False | Some p \<Rightarrow> p_sip_method p = Some meth)"

text \<open>2xx: the message was delivered; billing, and the message goes.\<close>

definition response_success :: "lib_ops \<Rightarrow> world \<Rightarrow> nat \<Rightarrow> smq \<Rightarrow> smq option" where
  "response_success L W sent_msg q =
     do {
       m \<leftarrow> deref sent_msg q;
       (_, m) \<leftarrow> parse L m;
       let q = put_msg m q;
       q \<leftarrow> (if sip_method_is ''REGISTER'' m then rerun_linked_sms W sent_msg q else Some q);
       q \<leftarrow> (if sip_method_is ''MESSAGE'' m then write_cdr W sent_msg q else Some q);
       (_, q) \<leftarrow> splice_out sent_msg q;
       Some q }"

text \<open>\<open>sent_msg->set_state(s)\<close>.\<close>

definition smp_set_state_q :: "world \<Rightarrow> nat \<Rightarrow> sm_state \<Rightarrow> smq \<Rightarrow> smq option" where
  "smp_set_state_q W i s q =
     do {
       m \<leftarrow> deref i q;
       let (now, q) = msgettime W q;
       Some (put_msg (smp_set_state (timeouts q) now s m) q) }"

definition response_reject ::
  "lib_ops \<Rightarrow> world \<Rightarrow> config \<Rightarrow> nat \<Rightarrow> osip_message \<Rightarrow> smq \<Rightarrow> smq option" where
  "response_reject L W C sent_msg p q =
     do {
       let errmsg = ostream_cstrs [Some (show_int (p_status_code p) @ '' ''), p_reason_phrase p];
       (s, q) \<leftarrow> bounce_message L W C sent_msg errmsg q;
       smp_set_state_q W sent_msg s q }"

definition response_action ::
  "lib_ops \<Rightarrow> world \<Rightarrow> config \<Rightarrow> nat \<Rightarrow> osip_message \<Rightarrow> smq \<Rightarrow> smq option" where
  "response_action L W C sent_msg p q =
     (let code = p_status_code p; cls = code div 100 in
      if cls = 1 then increase_acked_msg_timeout W C sent_msg q
      else if cls = 2 then response_success L W sent_msg q
      else if cls = 4 then
        (if code = 480 \<or> code = 486 then increase_acked_msg_timeout W C sent_msg q
         else response_reject L W C sent_msg p q)
      else if cls = 5 then increase_acked_msg_timeout W C sent_msg q
      else if cls = 3 \<or> cls = 6 then smp_set_state_q W sent_msg REQUEST_DESTINATION_IMSI q
      else Some q)"

definition handle_response ::
  "lib_ops \<Rightarrow> world \<Rightarrow> config \<Rightarrow> nat \<Rightarrow> smq \<Rightarrow> smq option" where
  "handle_response L W C qmsgit q =
     do {
       (qmsg, q) \<leftarrow> splice_out qmsgit q;
       tag \<leftarrow> qtag qmsg;
       found \<leftarrow> find_queued_msg_by_tag_hash tag (qtaghash qmsg) q;
       case found of
         None \<Rightarrow> Some q
       | Some sent_msg \<Rightarrow>
           do { p \<leftarrow> parsed qmsg; response_action L W C sent_msg p q } }"

section \<open>Short codes\<close>

text \<open>
  The reply goes back to the sender; the result is the next state of the message.
\<close>

definition short_code_reply ::
  "lib_ops \<Rightarrow> world \<Rightarrow> config \<Rightarrow> nat \<Rightarrow> string option \<Rightarrow> smq \<Rightarrow> (sm_state \<times> smq) option" where
  "short_code_reply L W C i reply q =
     do {
       m \<leftarrow> deref i q;
       p \<leftarrow> parsed m;
       u \<leftarrow> p_req_uri p;
       code \<leftarrow> u_username u;
       imsi \<leftarrow> from_username p;
       msg \<leftarrow> reply;
       (status, q) \<leftarrow> originate_sm L W C code imsi msg REQUEST_DESTINATION_SIPURL q;
       Some (if status = 0 then DELETE_ME_STATE else NO_STATE, q) }"

definition short_code_next ::
  "lib_ops \<Rightarrow> world \<Rightarrow> config \<Rightarrow> nat \<Rightarrow> short_code_action \<Rightarrow> string option \<Rightarrow> smq
     \<Rightarrow> (sm_state option \<times> smq) option"
where
  "short_code_next L W C i sca reply q =
     (case sca of
        SCA_REPLY \<Rightarrow> do { (s, q) \<leftarrow> short_code_reply L W C i reply q; Some (Some s, q) }
      | SCA_INTERNAL_ERROR \<Rightarrow> Some (Some NO_STATE, q)
      | SCA_REPLY_AND_RETRY \<Rightarrow> Some (Some NO_STATE, q)
      | SCA_EXEC_SMQUEUE \<Rightarrow>
          Some (Some DELETE_ME_STATE, q\<lparr>reexec_smqueue := True, stop_main_loop := True\<rparr>)
      | SCA_QUIT_SMQUEUE \<Rightarrow> Some (Some DELETE_ME_STATE, q\<lparr>stop_main_loop := True\<rparr>)
      | SCA_DONE \<Rightarrow> Some (Some DELETE_ME_STATE, q)
      | SCA_RETRY_AFTER_DELAY \<Rightarrow>
          do { m \<leftarrow> deref i q;
               Some (Some REQUEST_FROM_ADDRESS_LOOKUP, put_msg (m\<lparr>retries := retries m + 1\<rparr>) q) }
      | SCA_AWAIT_REGISTER \<Rightarrow> Some (Some AWAITING_REGISTER_HANDSET, q)
      | SCA_REGISTER \<Rightarrow> do { (s, q) \<leftarrow> register_handset L W C i q; Some (Some s, q) }
      | SCA_TREAT_AS_ORDINARY \<Rightarrow> Some (None, q)
      | SCA_RESTART_PROCESSING \<Rightarrow> Some (Some INITIAL_STATE, q))"

definition handle_short_code ::
  "lib_ops \<Rightarrow> world \<Rightarrow> config \<Rightarrow> nat \<Rightarrow> smq \<Rightarrow> (sm_state option \<times> smq) option" where
  "handle_short_code L W C i q =
     do {
       m \<leftarrow> deref i q;
       p \<leftarrow> parsed m;
       u \<leftarrow> p_req_uri p;
       short_code \<leftarrow> u_username u;
       case short_code_map q short_code of
         None \<Rightarrow> Some (None, q)
       | Some shortfn \<Rightarrow>
           do {
             bods \<leftarrow> get_text L m;
             imsi \<leftarrow> from_username p;
             (sca, reply, q) \<leftarrow> call_short_func L W C shortfn imsi (c_str bods) i q;
             short_code_next L W C i sca reply q } }"

section \<open>One step of the machine\<close>

definition step_initial :: "lib_ops \<Rightarrow> world \<Rightarrow> config \<Rightarrow> nat \<Rightarrow> smq \<Rightarrow> smq option" where
  "step_initial L W C i q =
     do {
       m \<leftarrow> deref i q;
       p \<leftarrow> parsed m;
       if MSG_IS_REQUEST L p then
         do {
           meth \<leftarrow> p_sip_method p;
           (newstate, q) \<leftarrow>
             (if meth \<noteq> ''MESSAGE'' then Some (NO_STATE, q)
              else do {
                (r, q) \<leftarrow> handle_short_code L W C i q;
                Some (case r of Some s \<Rightarrow> s | None \<Rightarrow> REQUEST_FROM_ADDRESS_LOOKUP, q) });
           set_state W i newstate q }
       else handle_response L W C i q }"

definition step_delete :: "nat \<Rightarrow> smq \<Rightarrow> smq option" where
  "step_delete i q = do { (_, q) \<leftarrow> splice_out i q; Some q }"

text \<open>A message in \<open>NO_STATE\<close> is printed and deleted.\<close>

definition step_no_state :: "lib_ops \<Rightarrow> nat \<Rightarrow> smq \<Rightarrow> smq option" where
  "step_no_state L i q =
     do { m \<leftarrow> deref i q; m \<leftarrow> make_text_valid L m; step_delete i (put_msg m q) }"

definition step_lookup_from :: "lib_ops \<Rightarrow> world \<Rightarrow> nat \<Rightarrow> smq \<Rightarrow> smq option" where
  "step_lookup_from L W i q =
     do { (s, q) \<leftarrow> lookup_from_address L W i q; set_state W i s q }"

text \<open>Rate limiting: is the message held back?  Otherwise the spacing timer is restarted.\<close>

definition rate_limit :: "world \<Rightarrow> config \<Rightarrow> smq \<Rightarrow> bool \<times> smq" where
  "rate_limit W C q =
     (let msSMSRateLimit = getNum C ''SMS.RateLimit'' * 1000 in
      if 0 < msSMSRateLimit then
        (let (elapsed, q) = ask (w_elapsed W (spacing_set q)) q in
         if elapsed \<le> msSMSRateLimit then (True, q) else (False, q\<lparr>spacing_set := tick q\<rparr>))
      else (False, q))"

definition max_retries_exceeded :: "config \<Rightarrow> short_msg_pending \<Rightarrow> bool" where
  "max_retries_exceeded C m \<longleftrightarrow>
     getNum C ''SMS.MaxRetries'' \<noteq> 0 \<and> getNum C ''SMS.MaxRetries'' < retries m"

definition step_delivery :: "lib_ops \<Rightarrow> world \<Rightarrow> config \<Rightarrow> nat \<Rightarrow> smq \<Rightarrow> smq option" where
  "step_delivery L W C i q =
     do {
       m \<leftarrow> deref i q;
       let m = m\<lparr>retries := retries m + 1\<rparr>;
       (ok, m, q) \<leftarrow> pack_sms_for_delivery L W C m q;
       let q = put_msg m q;
       if \<not> ok then set_state W i NO_STATE q
       else if max_retries_exceeded C m then set_state W i DELETE_ME_STATE q
       else
         (let (held, q) = rate_limit W C q in
          if held then
            Some (put_msg (m\<lparr>next_action_time :=
                              next_action_time m + getNum C ''SMS.RateLimit'' * 1000\<rparr>) q)
          else do {
            (_, q) \<leftarrow> deliver_msg_datagram L W i q;
            set_state W i ASKED_FOR_MSG_DELIVERY q }) }"

definition step_register :: "lib_ops \<Rightarrow> world \<Rightarrow> config \<Rightarrow> nat \<Rightarrow> smq \<Rightarrow> smq option" where
  "step_register L W C i q =
     do { (s, q) \<leftarrow> register_handset L W C i q; set_state W i s q }"

definition step_await_register :: "lib_ops \<Rightarrow> world \<Rightarrow> config \<Rightarrow> nat \<Rightarrow> smq \<Rightarrow> smq option" where
  "step_await_register L W C i q =
     do {
       (ready, q) \<leftarrow> ready_to_register L W i q;
       if \<not> ready then set_state W i AWAITING_REGISTER_HANDSET q
       else do { q \<leftarrow> set_state W i REGISTER_HANDSET q; step_register L W C i q } }"

text \<open>The \<open>switch\<close> on the state of the front message, with its fall-throughs.\<close>

definition dispatch ::
  "lib_ops \<Rightarrow> world \<Rightarrow> config \<Rightarrow> nat \<Rightarrow> sm_state \<Rightarrow> smq \<Rightarrow> smq option" where
  "dispatch L W C i s q =
     (case s of
        INITIAL_STATE \<Rightarrow> step_initial L W C i q
      | NO_STATE \<Rightarrow> step_no_state L i q
      | DELETE_ME_STATE \<Rightarrow> step_delete i q
      | REQUEST_FROM_ADDRESS_LOOKUP \<Rightarrow> step_lookup_from L W i q
      | REQUEST_DESTINATION_IMSI \<Rightarrow>
          do { (s', q) \<leftarrow> lookup_uri_imsi L W C i q; set_state W i s' q }
      | REQUEST_DESTINATION_SIPURL \<Rightarrow>
          do { (s', q) \<leftarrow> lookup_uri_hostport L W C i q; set_state W i s' q }
      | AWAITING_TRY_MSG_DELIVERY \<Rightarrow>
          do { q \<leftarrow> set_state W i REQUEST_MSG_DELIVERY q; step_delivery L W C i q }
      | REQUEST_MSG_DELIVERY \<Rightarrow> step_delivery L W C i q
      | ASKED_FOR_MSG_DELIVERY \<Rightarrow> set_state W i AWAITING_TRY_MSG_DELIVERY q
      | AWAITING_REGISTER_HANDSET \<Rightarrow> step_await_register L W C i q
      | REGISTER_HANDSET \<Rightarrow> step_register L W C i q
      | ASKED_TO_REGISTER_HANDSET \<Rightarrow> set_state W i AWAITING_REGISTER_HANDSET q
      | _ \<Rightarrow> do { q \<leftarrow> set_state W i INITIAL_STATE q; step_lookup_from L W i q })"

definition process_timeout :: "lib_ops \<Rightarrow> world \<Rightarrow> config \<Rightarrow> smq \<Rightarrow> smq option" where
  "process_timeout L W C q =
     (let (now, q) = msgettime W q in
      case time_sorted_list q of
        [] \<Rightarrow> Some q
      | qmsg # _ \<Rightarrow>
          if now < next_action_time qmsg then Some q
          else dispatch L W C (mid qmsg) (state qmsg) q)"

end
