(* ===== verification/Smq_Savefile.thy ===== *)
theory Smq_Savefile
  imports Smq_Machine
begin

text \<open>
  Reading a saved queue (\<open>SMq::read_queue_from_file\<close>, \<open>smqueue/smqueue.cpp\<close>) and the two functions
  that print and parse a network address in hexadecimal.

  An input stream is its unread characters with the flags \<open>failbit\<close> and \<open>eofbit\<close>; extraction
  follows the standard library: an operation on a stream that is not good sets \<open>failbit\<close> and
  leaves its variable alone.
\<close>

section \<open>Input streams\<close>

record istream =
  is_rest :: string
  is_fail :: bool
  is_eof :: bool

definition is_good :: "istream \<Rightarrow> bool" where
  "is_good s \<longleftrightarrow> \<not> is_fail s \<and> \<not> is_eof s"

definition sentry :: "bool \<Rightarrow> istream \<Rightarrow> bool \<times> istream" where
  "sentry skipws s =
     (if \<not> is_good s then (False, s\<lparr>is_fail := True\<rparr>)
      else if skipws then
        (let r = dropWhile isspace (is_rest s) in
         if r = [] then (False, s\<lparr>is_rest := [], is_fail := True, is_eof := True\<rparr>)
         else (True, s\<lparr>is_rest := r\<rparr>))
      else (True, s))"

definition extract_word :: "string \<Rightarrow> istream \<Rightarrow> string \<times> istream" where
  "extract_word old s =
     (let (ok, s) = sentry True s in
      if \<not> ok then (old, s)
      else let w = takeWhile (\<lambda>c. \<not> isspace c) (is_rest s);
               r = dropWhile (\<lambda>c. \<not> isspace c) (is_rest s)
           in (w, s\<lparr>is_rest := r, is_eof := (r = [])\<rparr>))"

definition UINT_MAX :: nat where
  "UINT_MAX = 2 ^ 32 - 1"

definition extract_unsigned :: "nat \<Rightarrow> istream \<Rightarrow> nat \<times> istream" where
  "extract_unsigned old s =
     (let (ok, s) = sentry True s in
      if \<not> ok then (old, s)
      else let t = is_rest s;
               neg = (hd t = CHR ''-'');
               t1 = (if hd t \<in> {CHR ''-'', CHR ''+''} then tl t else t);
               ds = takeWhile isdigit t1;
               r = dropWhile isdigit t1;
               s1 = s\<lparr>is_rest := r, is_eof := (r = [])\<rparr>
           in if ds = [] then (0, s1\<lparr>is_fail := True\<rparr>)
              else if UINT_MAX < digits_val ds then (UINT_MAX, s1\<lparr>is_fail := True\<rparr>)
              else if neg then (unat (- of_nat (digits_val ds) :: 32 word), s1)
              else (digits_val ds, s1))"

text \<open>\<open>while (ifile.peek() == '\n') ifile.get()\<close>.\<close>

definition skip_newlines :: "istream \<Rightarrow> istream" where
  "skip_newlines s =
     (let (ok, s) = sentry False s in
      if \<not> ok then s
      else let r = dropWhile (\<lambda>c. c = CHR 0x0A) (is_rest s)
           in s\<lparr>is_rest := r, is_eof := (r = [])\<rparr>)"

text \<open>\<open>ifile.get(msgtext, n, '\0')\<close>: at most \<open>n - 1\<close> characters, none is a failure.\<close>

definition get_chars :: "nat \<Rightarrow> istream \<Rightarrow> string \<times> istream" where
  "get_chars n s =
     (let (ok, s) = sentry False s in
      if \<not> ok then ([], s)
      else let w = take (n - 1) (takeWhile (\<lambda>c. c \<noteq> CHR 0x00) (is_rest s));
               r = drop (length w) (is_rest s)
           in (w, s\<lparr>is_rest := r, is_eof := (r = [] \<and> length w < n - 1),
                    is_fail := (w = [])\<rparr>))"

section \<open>The records\<close>

text \<open>The local variables that keep their value when an extraction fails.\<close>

record read_vars =
  v_equals :: string
  v_astate :: nat
  v_atime :: nat
  v_netaddr :: string
  v_alength :: nat
  v_ms_to_sc :: nat
  v_need_repack :: nat

definition read_header :: "read_vars \<Rightarrow> istream \<Rightarrow> read_vars \<times> istream" where
  "read_header v s =
     (let (a, s) = extract_word (v_equals v) s;
          (b, s) = extract_unsigned (v_astate v) s;
          (c, s) = extract_unsigned (v_atime v) s
      in (v\<lparr>v_equals := a, v_astate := b, v_atime := c\<rparr>, s))"

definition read_rest :: "read_vars \<Rightarrow> istream \<Rightarrow> string \<times> read_vars \<times> istream" where
  "read_rest v s =
     (let (a, s) = extract_word (v_netaddr v) s;
          (b, s) = extract_unsigned (v_alength v) s;
          (c, s) = extract_unsigned (v_ms_to_sc v) s;
          (d, s) = extract_unsigned (v_need_repack v) s;
          (txt, s) = get_chars (b + 1) (skip_newlines s)
      in (txt, v\<lparr>v_netaddr := a, v_alength := b, v_ms_to_sc := c, v_need_repack := d\<rparr>,
          skip_newlines s))"

text \<open>From the new message to its insertion; a message that does not pass is dropped.\<close>

definition restore_message ::
  "lib_ops \<Rightarrow> world \<Rightarrow> config \<Rightarrow> read_vars \<Rightarrow> string \<Rightarrow> smq \<Rightarrow> smq option" where
  "restore_message L W C v msgtext q =
     do {
       let (smp, q) = new_message q;
       smp \<leftarrow> initialize (int (v_alength v)) (Some msgtext) True smp;
       let smp = smp\<lparr>ms_to_sc := (v_ms_to_sc v \<noteq> 0), need_repack := (v_need_repack v \<noteq> 0),
                     srcaddrlen := 0\<rparr>;
       let ((ok, addr), q) = ask (\<lambda>t. parse_addr (w_net W) t (v_netaddr v) sizeof_srcaddr) q;
       let smp = (case addr of None \<Rightarrow> smp
                  | Some (a, n) \<Rightarrow> smp\<lparr>srcaddr := a, srcaddrlen := n\<rparr>);
       if \<not> ok then Some q
       else do {
         (errcode, smp, q) \<leftarrow> validate_short_msg L W C False smp q;
         if errcode \<noteq> 0 then Some q
         else do {
           p \<leftarrow> parsed smp;
           if MSG_IS_REQUEST L p then
             do { s \<leftarrow> sm_state_of_num (v_astate v);
                  insert_new_message_at L W smp s (int (v_atime v)) q }
           else Some q } } }"

text \<open>The loop; it has no value when it does not end.\<close>

partial_function (option) read_loop ::
  "lib_ops \<Rightarrow> world \<Rightarrow> config \<Rightarrow> read_vars \<Rightarrow> istream \<Rightarrow> smq \<Rightarrow> smq option" where
  "read_loop L W C v s q =
     (if is_eof s then Some q
      else let (v, s) = read_header v s in
        if v_equals v \<noteq> ''==='' \<or> is_eof s then Some q
        else let (msgtext, v, s) = read_rest v s in
          Option.bind (restore_message L W C v msgtext q) (\<lambda>q. read_loop L W C v s q))"

declare read_loop.simps [code]

definition read_queue_from_file ::
  "lib_ops \<Rightarrow> world \<Rightarrow> config \<Rightarrow> read_vars \<Rightarrow> string \<Rightarrow> smq \<Rightarrow> (bool \<times> smq) option" where
  "read_queue_from_file L W C v0 qfile q =
     (let (content, q) = ask (\<lambda>t. w_readfile W t qfile) q in
      case content of
        None \<Rightarrow> Some (False, q)
      | Some f \<Rightarrow>
          do { q \<leftarrow> read_loop L W C v0 \<lparr>is_rest = f, is_fail = False, is_eof = False\<rparr> q;
               Some (True, q) })"

section \<open>Network addresses in hexadecimal\<close>

definition hex_digit :: "nat \<Rightarrow> char" where
  "hex_digit n = ''0123456789abcdef'' ! n"

definition hex2 :: "char \<Rightarrow> string" where
  "hex2 c = [hex_digit (code_of c div 16), hex_digit (code_of c mod 16)]"

text \<open>The pointer is not advanced: each round prints the first byte.\<close>

fun netaddr_fmt_loop :: "string \<Rightarrow> nat \<Rightarrow> string" where
  "netaddr_fmt_loop a 0 = []"
| "netaddr_fmt_loop a (Suc len) = hex2 (hd a) @ netaddr_fmt_loop a len"

definition netaddr_fmt :: "string \<Rightarrow> nat \<Rightarrow> string" where
  "netaddr_fmt a len = ''='' @ netaddr_fmt_loop a len"

definition hex_val :: "char \<Rightarrow> nat option" where
  "hex_val c =
     (if isdigit c then Some (code_of c - 48)
      else if 97 \<le> code_of c \<and> code_of c \<le> 102 then Some (code_of c - 87)
      else if 65 \<le> code_of c \<and> code_of c \<le> 70 then Some (code_of c - 55)
      else None)"

text \<open>
  \<open>sscanf(blah, "%x", &mybyte)\<close> on two characters; \<open>None\<close> where nothing is converted and
  \<open>mybyte\<close> stays unset.
\<close>

definition scan_hex2 :: "char \<Rightarrow> char \<Rightarrow> nat option" where
  "scan_hex2 a b =
     (if a = CHR ''0'' \<and> b \<in> {CHR ''x'', CHR ''X''} then None
      else case hex_val a of
        Some x \<Rightarrow> Some (case hex_val b of Some y \<Rightarrow> x * 16 + y | None \<Rightarrow> x)
      | None \<Rightarrow>
          (if isspace a \<or> a = CHR ''+'' then hex_val b
           else if a = CHR ''-'' then map_option (\<lambda>y. (256 - y) mod 256) (hex_val b)
           else None))"

fun netaddr_parse_loop :: "string \<Rightarrow> string option" where
  "netaddr_parse_loop (a # b # cs) =
     do { x \<leftarrow> scan_hex2 a b; r \<leftarrow> netaddr_parse_loop cs; Some (char_of x # r) }"
| "netaddr_parse_loop _ = Some []"

definition netaddr_parse :: "string \<Rightarrow> (bool \<times> string) option" where
  "netaddr_parse str =
     (if take 1 str \<noteq> ''='' then Some (False, [])
      else let s = tl str in
        if length s mod 2 \<noteq> 0 then Some (False, [])
        else do { addr \<leftarrow> netaddr_parse_loop s; Some (True, addr) })"

end
