(* ===== verification/Smq_Daemon.thy ===== *)
theory Smq_Daemon
  imports Smq_Savefile
begin

text \<open>
  The daemon: start-up and reload of the configuration, a datagram from the network to the queue
  (\<open>SMq::main_loop\<close>), the acknowledgement sent for it (\<open>SMq::respond_sip_ack\<close>), and the two
  threads (\<open>SmqReader.cpp\<close>, \<open>SmqWriter.cpp\<close>, \<open>QueuedMsgHdrs.h\<close>).

  The reader takes a datagram and puts work in the queue of the writer; the writer takes one
  item of its queue, or times out, at a time.  A run of the daemon is any interleaving of such
  steps.
\<close>

section \<open>Configuration\<close>

definition InitInsideReaderLoop :: "config \<Rightarrow> smq \<Rightarrow> smq" where
  "InitInsideReaderLoop C q =
     (let grIP = getStr C ''SIP.GlobalRelay.IP'';
          grPort = getStr C ''SIP.GlobalRelay.Port'';
          grContentType = getStr C ''SIP.GlobalRelay.ContentType'';
          q1 = q\<lparr>my_register_hostport := getStr C ''Asterisk.address''\<rparr>;
          q2 = (if grIP \<noteq> [] \<and> grPort \<noteq> [] \<and> grContentType \<noteq> []
                then set_global_relay grIP grPort grContentType q1
                else set_global_relay [] [] [] q1)
      in q2\<lparr>my_ipaddress := getStr C ''SIP.myIP'',
            my_2nd_ipaddress := getStr C ''SIP.myIP2'',
            print_as_we_validate := getBool C ''Debug.print_as_we_validate'',
            savefile := getStr C ''savefile''\<rparr>)"

definition init_listener :: "world \<Rightarrow> string \<Rightarrow> smq \<Rightarrow> bool \<times> smq" where
  "init_listener W port q =
     (let (ok, net, t) = listen_on_port (w_net W) (tick q) port (my_network q)
      in (ok, q\<lparr>my_udp_port := port, my_network := net, tick := t\<rparr>))"

text \<open>
  The value of \<open>SIP.Timeout.MessageBounce\<close> goes into the table of milliseconds as it is.  The
  node manager and the limit of POSIX queues are outside the model.
\<close>

definition init_timeouts :: "config \<Rightarrow> timeout_table \<Rightarrow> timeout_table" where
  "init_timeouts C tbl =
     (if defines_key C ''SIP.Timeout.MessageBounce''
      then set_timeout tbl REQUEST_DESTINATION_IMSI DELETE_ME_STATE
             (getNum C ''SIP.Timeout.MessageBounce'')
      else tbl)"

definition InitBeforeMainLoop ::
  "lib_ops \<Rightarrow> world \<Rightarrow> config \<Rightarrow> read_vars \<Rightarrow> smq \<Rightarrow> smq option" where
  "InitBeforeMainLoop L W C v0 q =
     do {
       let q = q\<lparr>please_re_exec := False, stop_main_loop := False, reexec_smqueue := False\<rparr>;
       let path = getStr C ''CDRFile'';
       let q = (if path \<noteq> []
                then (let (r, q) = ask (\<lambda>t. w_fopen W t path) q in q\<lparr>gCDRFile := r\<rparr>) else q);
       let q = q\<lparr>short_code_map := init_smcommands C (short_code_map q),
                 timeouts := init_timeouts C (timeouts q)\<rparr>;
       let (_, q) = init_listener W (getStr C ''SIP.myPort'') q;
       let q = q\<lparr>savefile := getStr C ''savefile''\<rparr>;
       (_, q) \<leftarrow> read_queue_from_file L W C v0 (savefile q) q;
       Some q }"

text \<open>Shutdown: the queue is saved; whether the program runs itself again is a flag.\<close>

definition CleaupAfterMainreaderLoop :: "lib_ops \<Rightarrow> world \<Rightarrow> smq \<Rightarrow> smq option" where
  "CleaupAfterMainreaderLoop L W q =
     do {
       let q = q\<lparr>please_re_exec := reexec_smqueue q\<rparr>;
       (_, q) \<leftarrow> save_queue_to_file L W (savefile q) q;
       Some q }"

section \<open>Receiving\<close>

definition sizeof_buffer :: nat where
  "sizeof_buffer = 5000"

text \<open>The message made from a datagram.\<close>

definition received_message :: "string \<Rightarrow> int \<Rightarrow> smq \<Rightarrow> (short_msg_pending \<times> smq) option" where
  "received_message buffer len q =
     do {
       let (smp, q) = new_message q;
       smp \<leftarrow> initialize len (Some buffer) False smp;
       let smp = smp\<lparr>ms_to_sc := True\<rparr>;
       let net = my_network q;
       Some (if recvaddrlen net \<le> sizeof_srcaddr
             then smp\<lparr>srcaddrlen := recvaddrlen net,
                      srcaddr := take (recvaddrlen net) (src_addr net)\<rparr>
             else smp, q) }"

text \<open>
  \<open>delete smpl\<close> frees a message that was not inserted; the pointer to it is in the queue of the
  writer.
\<close>

definition main_loop :: "lib_ops \<Rightarrow> world \<Rightarrow> config \<Rightarrow> int \<Rightarrow> smq \<Rightarrow> smq option" where
  "main_loop L W C msTMO q =
     do {
       (len, buffer, net, t) \<leftarrow>
         get_next_dgram (w_net W) (tick q) sizeof_buffer msTMO (my_network q);
       let q = q\<lparr>my_network := net, tick := t\<rparr>;
       if len \<le> 0 then Some q
       else do {
         (smp, q) \<leftarrow> received_message buffer len q;
         (errcode, smp, q) \<leftarrow> validate_short_msg L W C True smp q;
         if errcode = 0 then
           do {
             q \<leftarrow> insert_new_message L W smp q;
             Some (queue_respond_sip_ack 202 (mid smp) (srcaddrlen smp) q) }
         else Some (queue_respond_sip_ack errcode (mid smp) (srcaddrlen smp) q) } }"

section \<open>Acknowledging\<close>

definition ack_phrase :: "int \<Rightarrow> string" where
  "ack_phrase errcode =
     (if errcode = 100 then ''Trying...''
      else if errcode = 200 then ''Okay!''
      else if errcode = 202 then ''Queued''
      else if errcode = 400 then ''Bad Request''
      else if errcode = 401 then ''Unauthorized''
      else if errcode = 403
      then ''Forbidden - first register, by texting your 10-digit phone number to 101.''
      else if errcode = 404 then ''Phone Number Not Registered''
      else if errcode = 405 then ''Method Not Allowed''
      else if errcode = 413 then ''Message Body Size Error''
      else if errcode = 415 then ''Unsupported Content Type''
      else if errcode = 416 then ''Unsupported URI scheme (not SIP)''
      else if errcode = 480 then ''Recipient Temporarily Unavailable''
      else if errcode = 484 then ''Address Incomplete''
      else ''Error Message Table Needs Updating'')"

definition ack_message :: "lib_ops \<Rightarrow> int \<Rightarrow> osip_message \<Rightarrow> osip_message \<Rightarrow> osip_message" where
  "ack_message L errcode p sip0 =
     (let sip1 = sip0\<lparr>p_to := p_to p, p_from := p_from p, p_cseq := p_cseq p,
                      p_call_id := p_call_id p, p_vias := p_vias p\<rparr>;
          sip2 = (if errcode = 405 then osip_set_allow L sip1 ''MESSAGE''
                  else if errcode = 415
                  then osip_set_accept L sip1 ''text/plain, application/vnd.3gpp.sms''
                  else sip1)
      in sip2\<lparr>p_status_code := errcode, p_reason_phrase := Some (ack_phrase errcode)\<rparr>)"

text \<open>The address is read through the pointer into the message.\<close>

definition respond_sip_ack ::
  "lib_ops \<Rightarrow> world \<Rightarrow> int \<Rightarrow> nat \<Rightarrow> nat \<Rightarrow> smq \<Rightarrow> smq option" where
  "respond_sip_ack L W errcode smp netaddrlen q =
     do {
       m \<leftarrow> deref smp q;
       (ok, m) \<leftarrow> parse L m;
       let q = put_msg m q;
       if \<not> ok then Some q
       else do {
         p \<leftarrow> parsed m;
         if MSG_IS_RESPONSE L p then Some q
         else do {
           sip0 \<leftarrow> osip_message_init L;
           response \<leftarrow> make_text_valid L
             (parsed_was_changed
               (short_msg0\<lparr>parsed := Some (ack_message L errcode p sip0),
                           parsed_is_valid := True\<rparr>));
           txt \<leftarrow> msg_text response;
           let (ok, out, t) = send_dgram (w_net W) (tick q) txt
                                (take netaddrlen (srcaddr m)) netaddrlen (my_network q);
           Some (q\<lparr>sent := sent q @ out, tick := t\<rparr>) } } }"

section \<open>Threads\<close>

text \<open>\<open>ProcessMessage\<close> of the three classes of messages.\<close>

definition ProcessMessage :: "lib_ops \<Rightarrow> world \<Rightarrow> config \<Rightarrow> queued_msg \<Rightarrow> smq \<Rightarrow> smq option" where
  "ProcessMessage L W C msg q =
     (case msg of
        ProcessIncommingMsg \<Rightarrow> process_timeout L W C q
      | SIPAckMessage errcode smp netaddrlen \<Rightarrow> respond_sip_ack L W errcode smp netaddrlen q
      | TestMessage _ \<Rightarrow> Some q)"

text \<open>
  The queue wait ended without a message: one step of the state machine, and once a minute the
  configuration and the save file.
\<close>

text \<open>The difference of the two times is unsigned: it wraps when the clock is set back.\<close>

definition writer_timeout ::
  "lib_ops \<Rightarrow> world \<Rightarrow> config \<Rightarrow> int \<Rightarrow> int \<Rightarrow> smq \<Rightarrow> (int \<times> smq) option" where
  "writer_timeout L W C currentSeconds lastRunSeconds q =
     do {
       q \<leftarrow> process_timeout L W C q;
       if 60 < (currentSeconds - lastRunSeconds) mod 2 ^ 64 then
         do {
           let q = InitInsideReaderLoop C q;
           (_, q) \<leftarrow> save_queue_to_file L W (savefile q) q;
           Some (currentSeconds, q) }
       else Some (lastRunSeconds, q) }"

definition writer_step :: "lib_ops \<Rightarrow> world \<Rightarrow> config \<Rightarrow> smq \<Rightarrow> smq option" where
  "writer_step L W C q =
     (case writer_queue q of
        [] \<Rightarrow> Some q
      | msg # rest \<Rightarrow> ProcessMessage L W C msg (q\<lparr>writer_queue := rest\<rparr>))"

text \<open>A run: reader and writer steps in any order, until the daemon is told to stop.\<close>

inductive daemon_step :: "lib_ops \<Rightarrow> world \<Rightarrow> config \<Rightarrow> smq \<Rightarrow> smq \<Rightarrow> bool"
  for L :: lib_ops and W :: world and C :: config where
  reader: "\<not> stop_main_loop q \<Longrightarrow> main_loop L W C 60000 q = Some q' \<Longrightarrow> daemon_step L W C q q'"
| writer_msg: "\<not> stop_main_loop q \<Longrightarrow> writer_queue q \<noteq> [] \<Longrightarrow> writer_step L W C q = Some q'
    \<Longrightarrow> daemon_step L W C q q'"
| writer_idle: "\<not> stop_main_loop q \<Longrightarrow> writer_timeout L W C now last_run q = Some (r, q')
    \<Longrightarrow> daemon_step L W C q q'"

inductive reachable :: "lib_ops \<Rightarrow> world \<Rightarrow> config \<Rightarrow> smq \<Rightarrow> smq \<Rightarrow> bool"
  for L :: lib_ops and W :: world and C :: config where
  refl: "reachable L W C q q"
| step: "reachable L W C q q' \<Longrightarrow> daemon_step L W C q' q'' \<Longrightarrow> reachable L W C q q''"

end
