(* ===== verification/Smq_Contract.thy ===== *)
theory Smq_Contract
  imports Smq_Daemon
begin

text \<open>
  What every operation of the daemon guarantees about the list of messages: identities stay
  distinct, nothing but the named messages disappears, and what appears is new.  The guarantee is
  proved once per operation, bottom up, and composed along the calls.
\<close>

section \<open>Operations on one message\<close>

text \<open>The operations of \<open>short_msg\<close> do not touch the fields of \<open>short_msg_pending\<close>.\<close>

definition same_pend :: "short_msg_pending \<Rightarrow> short_msg_pending \<Rightarrow> bool" where
  "same_pend m m' \<longleftrightarrow>
     mid m' = mid m \<and> state m' = state m \<and> next_action_time m' = next_action_time m
     \<and> retries m' = retries m \<and> srcaddr m' = srcaddr m \<and> srcaddrlen m' = srcaddrlen m
     \<and> linktag m' = linktag m \<and> (tag_ok m \<longrightarrow> tag_ok m')"

lemma same_pend_refl [simp]: "same_pend m m"
  by (simp add: same_pend_def)

lemma same_pend_trans: "same_pend a b \<Longrightarrow> same_pend b c \<Longrightarrow> same_pend a c"
  by (simp add: same_pend_def)

lemma same_pend_tag: "same_pend m m' \<Longrightarrow> tag_ok m \<Longrightarrow> tag_ok m'"
  by (simp add: same_pend_def)

lemma same_pend_mid: "same_pend m m' \<Longrightarrow> mid m' = mid m"
  by (simp add: same_pend_def)

text \<open>
  The same object with a consistent hash, no attempt of delivery forgotten, whatever else is changed.
\<close>

definition same_object :: "short_msg_pending \<Rightarrow> short_msg_pending \<Rightarrow> bool" where
  "same_object m m' \<longleftrightarrow>
     mid m' = mid m \<and> retries m \<le> retries m' \<and> (tag_ok m \<longrightarrow> tag_ok m')"

lemma same_pend_object: "same_pend m m' \<Longrightarrow> same_object m m'"
  by (simp add: same_pend_def same_object_def)

lemma same_object_trans: "same_object a b \<Longrightarrow> same_object b c \<Longrightarrow> same_object a c"
  by (simp add: same_object_def)

lemma more_same_pend:
  assumes "short_msg.more m' = short_msg.more (m :: short_msg_pending)"
  shows "same_pend m m'"
  using assms by (cases m; cases m') (simp add: same_pend_def tag_ok_def)

lemma initialize_more:
  "initialize len cstr b m = Some m' \<Longrightarrow> short_msg.more m' = short_msg.more m"
  by (auto simp: initialize_def Let_def split: if_splits elim!: bind_SomeE)

lemma make_text_valid_more:
  "make_text_valid L m = Some m' \<Longrightarrow> short_msg.more m' = short_msg.more m"
  by (auto simp: make_text_valid_def Let_def split: if_splits elim!: bind_SomeE)

lemma unparse_more:
  assumes "unparse L m = Some m'"
  shows "short_msg.more m' = short_msg.more m"
  using assms
  by (auto simp: unparse_def Let_def split: if_splits elim!: bind_SomeE dest!: make_text_valid_more)

lemma parse_3gpp_more:
  "parse_3gpp L p m = Some (ok, m') \<Longrightarrow> short_msg.more m' = short_msg.more m"
  by (auto simp: parse_3gpp_def Let_def split: option.splits sum.splits elim!: bind_SomeE)

lemma parse_more:
  assumes "parse L m = Some (ok, m')"
  shows "short_msg.more m' = short_msg.more m"
  using assms
  by (auto simp: parse_def Let_def split: if_splits option.splits elim!: bind_SomeE
      dest!: unparse_more parse_3gpp_more)

lemma modify_parsed_more:
  "modify_parsed f m = Some m' \<Longrightarrow> short_msg.more m' = short_msg.more m"
  by (auto simp: modify_parsed_def parsed_was_changed_def elim!: bind_SomeE)

lemmas make_text_valid_same = more_same_pend [OF make_text_valid_more]
lemmas unparse_same = more_same_pend [OF unparse_more]
lemmas parse_same = more_same_pend [OF parse_more]
lemmas modify_parsed_same = more_same_pend [OF modify_parsed_more]
lemmas initialize_same = more_same_pend [OF initialize_more]

lemma parsed_was_changed_same [simp]: "same_pend m (parsed_was_changed m)"
  by (simp add: parsed_was_changed_def same_pend_def)

lemma same_pend_updates [simp]:
  "same_pend m (m\<lparr>parsed := p\<rparr>)"
  "same_pend m (m\<lparr>content_type := ct\<rparr>)"
  "same_pend m (m\<lparr>need_repack := b\<rparr>)"
  "same_pend m (m\<lparr>ms_to_sc := b\<rparr>)"
  "same_pend m (m\<lparr>from_relay := b\<rparr>)"
  by (simp_all add: same_pend_def)

text \<open>The buffer of \<open>set_qtag\<close> ends with a NUL; one before its end would be in the tag.\<close>

lemma tag_buffer_end:
  "(n @ CHR ''-'' # CHR ''-'' # f @ [c]) ! Suc (Suc (length n + length f)) = c"
  by (simp add: nth_append)

lemma tag_ok_refused:
  assumes "(n @ CHR ''-'' # CHR ''-'' # f @ [CHR 0x00]) ! Suc (length n + length f) = CHR 0x00"
  shows "tag_ok (m\<lparr>qtag := Some (n @ CHR ''-'' # CHR ''-'' # f)\<rparr>)"
proof -
  let ?t = "n @ CHR ''-'' # CHR ''-'' # f"
  have "?t ! Suc (length n + length f) = CHR 0x00"
    using assms nth_append [of ?t "[CHR 0x00]" "Suc (length n + length f)"] by simp
  then show ?thesis
    using nth_mem [of "Suc (length n + length f)" ?t] by (simp add: tag_ok_def)
qed

lemma tag_ok_hashed: "tag_ok (m\<lparr>qtag := Some t, qtaghash := taghash_of t\<rparr>)"
  by (simp add: tag_ok_def)

lemma set_qtag_same:
  assumes "set_qtag L m = Some (e, m')"
  shows "same_pend m m'"
proof -
  from assms obtain ok m1 where
    one: "(if parsed_is_valid m then Some (True, m) else parse L m) = Some (ok, m1)"
    by (auto simp: set_qtag_def elim!: bind_SomeE)
  then have "same_pend m m1"
    by (auto split: if_splits dest: parse_same)
  moreover have "same_pend m1 m'"
    using assms one
    by (auto simp: set_qtag_def Let_def same_pend_def tag_buffer_end tag_ok_hashed
        tag_ok_refused split: if_splits option.splits elim!: bind_SomeE)
  ultimately show ?thesis by (rule same_pend_trans)
qed

section \<open>The contract\<close>

text \<open>Everything that is not the list of messages or the supply of identities may change.\<close>

definition same_list :: "smq \<Rightarrow> smq \<Rightarrow> bool" where
  "same_list q q' \<longleftrightarrow> time_sorted_list q' = time_sorted_list q \<and> next_mid q' = next_mid q"

text \<open>A message that is still in the list with its state, time and counters.\<close>

definition kept :: "nat \<Rightarrow> smq \<Rightarrow> smq \<Rightarrow> bool" where
  "kept j q q' \<longleftrightarrow> (\<exists>m m'. deref j q = Some m \<and> deref j q' = Some m' \<and> same_pend m m')"

text \<open>The attempts to deliver a message, as long as it is in the list, never become fewer.\<close>

definition aged :: "nat \<Rightarrow> smq \<Rightarrow> smq \<Rightarrow> bool" where
  "aged j q q' \<longleftrightarrow>
     (\<forall>m m'. deref j q = Some m \<and> deref j q' = Some m' \<longrightarrow> retries m \<le> retries m')"

text \<open>
  The messages of \<open>X\<close> may go and those of \<open>Y\<close> may change, the others stay as they are; those
  that come have fresh identities, and no attempt is forgotten.
\<close>

definition evolves :: "nat set \<Rightarrow> nat set \<Rightarrow> smq \<Rightarrow> smq \<Rightarrow> bool" where
  "evolves X Y q q' \<longleftrightarrow>
     (wf q \<longrightarrow>
        wf q' \<and> next_mid q \<le> next_mid q'
        \<and> mids q - X \<subseteq> mids q' \<and> mids q' \<subseteq> mids q \<union> {next_mid q..<next_mid q'}
        \<and> (\<forall>j \<in> mids q - (X \<union> Y). kept j q q')
        \<and> (\<forall>j \<in> mids q \<inter> (X \<union> Y). aged j q q'))"

abbreviation grows :: "smq \<Rightarrow> smq \<Rightarrow> bool" where
  "grows q q' \<equiv> evolves {} {} q q'"

lemma same_list_refl [simp]: "same_list q q"
  by (simp add: same_list_def)

lemma same_list_trans: "same_list a b \<Longrightarrow> same_list b c \<Longrightarrow> same_list a c"
  by (simp add: same_list_def)

lemma same_list_mids: "same_list q q' \<Longrightarrow> mids q' = mids q"
  by (simp add: same_list_def mids_def)

lemma same_list_wf: "same_list q q' \<Longrightarrow> wf q' = wf q"
  by (simp add: same_list_def wf_def mids_def)

lemma same_list_deref: "same_list q q' \<Longrightarrow> deref i q' = deref i q"
  by (simp add: same_list_def deref_def)

lemma kept_refl: "j \<in> mids q \<Longrightarrow> kept j q q"
  using mids_deref [of j q] by (auto simp: kept_def)

lemma kept_trans: "kept j a b \<Longrightarrow> kept j b c \<Longrightarrow> kept j a c"
  by (auto simp: kept_def intro: same_pend_trans)

lemma kept_deref_eq: "j \<in> mids q \<Longrightarrow> deref j q' = deref j q \<Longrightarrow> kept j q q'"
  using mids_deref [of j q] by (auto simp: kept_def)

lemma kept_aged: "kept j q q' \<Longrightarrow> aged j q q'"
  by (auto simp: kept_def aged_def same_pend_def)

lemma aged_refl [simp]: "aged j q q"
  by (auto simp: aged_def)

lemma aged_gone: "j \<notin> mids q' \<Longrightarrow> aged j q q'"
  using deref_mids [of j q'] by (auto simp: aged_def)

lemma aged_trans: "aged j a b \<Longrightarrow> aged j b c \<Longrightarrow> deref j b \<noteq> None \<Longrightarrow> aged j a c"
  by (fastforce simp: aged_def intro: order_trans)

lemma evolves_refl [simp]: "evolves X Y q q"
  by (auto simp: evolves_def intro: kept_refl)

lemma evolves_mono: "evolves X Y q q' \<Longrightarrow> X \<subseteq> X' \<Longrightarrow> Y \<subseteq> Y' \<Longrightarrow> evolves X' Y' q q'"
  by (auto simp: evolves_def dest: kept_aged)

text \<open>Of every message, not only of those that may change.\<close>

lemma evolves_aged: "evolves X Y q q' \<Longrightarrow> wf q \<Longrightarrow> j \<in> mids q \<Longrightarrow> aged j q q'"
  by (cases "j \<in> X \<union> Y") (auto simp: evolves_def intro: kept_aged)

lemma evolves_trans:
  assumes "evolves X Y a b" and "evolves X Y b c"
  shows "evolves X Y a c"
  unfolding evolves_def
proof
  assume w: "wf a"
  with assms(1) have ab: "wf b" "mids a - X \<subseteq> mids b" "next_mid a \<le> next_mid b"
    "mids b \<subseteq> mids a \<union> {next_mid a..<next_mid b}" "\<forall>j \<in> mids a - (X \<union> Y). kept j a b"
    by (auto simp: evolves_def)
  with assms(2) have bc: "wf c" "mids b - X \<subseteq> mids c" "next_mid b \<le> next_mid c"
    "mids c \<subseteq> mids b \<union> {next_mid b..<next_mid c}" "\<forall>j \<in> mids b - (X \<union> Y). kept j b c"
    by (auto simp: evolves_def)
  have "\<forall>j \<in> mids a - (X \<union> Y). kept j a c"
    using ab(2,5) bc(5) by (blast intro: kept_trans)
  moreover have "mids c \<subseteq> mids a \<union> {next_mid a..<next_mid c}"
    using ab(3,4) bc(3,4) by fastforce
  moreover have "aged j a c" if j: "j \<in> mids a" for j
  proof (cases "j \<in> mids c")
    case True
    have "j < next_mid b" using j w ab(3) by (auto simp: wf_def)
    with True bc(4) have jb: "j \<in> mids b" by auto
    then have "deref j b \<noteq> None" using mids_deref by fastforce
    with evolves_aged [OF assms(1) w j] evolves_aged [OF assms(2) ab(1) jb] show ?thesis
      by (rule aged_trans)
  next
    case False
    then show ?thesis by (rule aged_gone)
  qed
  ultimately show "wf c \<and> next_mid a \<le> next_mid c \<and> mids a - X \<subseteq> mids c
      \<and> mids c \<subseteq> mids a \<union> {next_mid a..<next_mid c} \<and> (\<forall>j \<in> mids a - (X \<union> Y). kept j a c)
      \<and> (\<forall>j \<in> mids a \<inter> (X \<union> Y). aged j a c)"
    using ab bc by auto
qed

lemma grows_evolves: "grows q q' \<Longrightarrow> evolves X Y q q'"
  by (rule evolves_mono) auto

lemma evolves_changes: "evolves {} Y q q' \<Longrightarrow> evolves X Y q q'"
  by (rule evolves_mono) auto

text \<open>Two steps with different sets.\<close>

lemma evolves_join:
  "evolves X Y a b \<Longrightarrow> evolves X' Y' b c \<Longrightarrow> evolves (X \<union> X') (Y \<union> Y') a c"
  by (rule evolves_trans [of _ _ a b c]) (auto elim: evolves_mono)

lemma grows_first: "grows a b \<Longrightarrow> evolves X Y b c \<Longrightarrow> evolves X Y a c"
  using evolves_join [of "{}" "{}" a b X Y c] by simp

lemma grows_last: "evolves X Y a b \<Longrightarrow> grows b c \<Longrightarrow> evolves X Y a c"
  using evolves_join [of X Y a b "{}" "{}" c] by simp

lemma same_list_grows: "same_list q q' \<Longrightarrow> grows q q'"
  using same_list_mids [of q q'] same_list_wf [of q q'] same_list_deref [of q q']
  by (auto simp: evolves_def same_list_def intro: kept_deref_eq)

lemma put_msg_touches:
  "mid m = i \<Longrightarrow> (wf q \<Longrightarrow> tag_ok m) \<Longrightarrow> (\<And>m0. deref i q = Some m0 \<Longrightarrow> retries m0 \<le> retries m)
     \<Longrightarrow> evolves {} {i} q (put_msg m q)"
  by (auto simp: evolves_def deref_put_msg aged_def intro!: kept_deref_eq wf_put_msg)

lemma put_msg_grows:
  assumes "deref (mid m') q = Some m" and "same_pend m m'"
  shows "grows q (put_msg m' q)"
proof -
  have "kept j q (put_msg m' q)" if "j \<in> mids q" for j
  proof (cases "j = mid m'")
    case True
    with assms show ?thesis by (auto simp: kept_def deref_put_msg)
  next
    case False
    with that show ?thesis by (auto simp: deref_put_msg intro!: kept_deref_eq)
  qed
  moreover have "wf (put_msg m' q)" if "wf q"
    using deref_tag_ok [OF assms(1) that] assms(2) that
    by (auto intro: wf_put_msg same_pend_tag)
  ultimately show ?thesis by (auto simp: evolves_def)
qed

lemma put_same_grows:
  assumes "deref i q = Some m" and "same_pend m m'"
  shows "grows q (put_msg m' q)"
  using assms deref_SomeD(2) [OF assms(1)] by (auto intro!: put_msg_grows simp: same_pend_def)

lemma ask_same_list: "ask f q = (x, q') \<Longrightarrow> same_list q q'"
  by (auto simp: ask_def same_list_def)

lemma msgettime_same_list: "msgettime W q = (x, q') \<Longrightarrow> same_list q q'"
  by (auto simp: msgettime_def same_list_def)

lemma change_touches:
  assumes "deref i q = Some m" and "same_object m m'" and "same_list q q1"
  shows "evolves {} {i} q (put_msg m' q1)"
proof (rule grows_first [OF same_list_grows [OF assms(3)] put_msg_touches])
  show "mid m' = i"
    using assms(2) deref_SomeD(2) [OF assms(1)] by (simp add: same_object_def)
  assume "wf q1"
  then have "wf q" using same_list_wf [OF assms(3)] by simp
  with assms(2) deref_tag_ok [OF assms(1)] show "tag_ok m'" by (simp add: same_object_def)
next
  fix m0
  assume "deref i q1 = Some m0"
  then have "m0 = m" using same_list_deref [OF assms(3)] assms(1) by simp
  with assms(2) show "retries m0 \<le> retries m'" by (simp add: same_object_def)
qed

text \<open>The membership of other elements is untouched by removal and insertion.\<close>

lemma deref_by_mem:
  assumes "wf q" and "wf q'" and "deref j q = Some m" and "m \<in> set (time_sorted_list q')"
  shows "deref j q' = deref j q"
  using deref_mem [OF assms(2,4)] assms(3) deref_SomeD(2) [OF assms(3)] by simp

lemma set_state_touches:
  assumes "set_state W i s q = Some q'"
  shows "evolves {} {i} q q'"
proof -
  obtain m where q': "q' = q\<lparr>tick := tick q + 1,
                     time_sorted_list := queue_insert (smp_set_state (timeouts q) (clock W q) s m)
                        (remove_mid i (time_sorted_list q))\<rparr>"
    using assms by (auto simp: set_state_eq split: option.splits)
  have "kept j q q'" if w: "wf q" and j: "j \<in> mids q" and ne: "j \<noteq> i" for j
  proof -
    obtain x where x: "deref j q = Some x" using mids_deref [OF j] by blast
    have "x \<in> set (time_sorted_list q')"
      using deref_SomeD [OF x] ne by (simp add: q' smq_list.del_set)
    with x w j show ?thesis
      by (intro kept_deref_eq deref_by_mem set_state_props(1) [OF assms]) auto
  qed
  moreover have "aged i q q'" if "wf q"
    using set_state_props(5) [OF assms that] by (auto simp: aged_def smp_set_state_def)
  ultimately show ?thesis
    by (auto simp: evolves_def set_state_props [OF assms])
qed

lemma splice_out_evolves:
  assumes "splice_out i q = Some (m, q')"
  shows "evolves {i} Y q q'"
proof -
  note q' = splice_out_SomeD(2) [OF assms]
  have "kept j q q'" if w: "wf q" and j: "j \<in> mids q" and ne: "j \<noteq> i" for j
  proof -
    obtain x where x: "deref j q = Some x" using mids_deref [OF j] by blast
    have "x \<in> set (time_sorted_list q')"
      using deref_SomeD [OF x] ne by (simp add: q' smq_list.del_set)
    with x w j show ?thesis
      by (intro kept_deref_eq deref_by_mem splice_out_wf [OF assms]) auto
  qed
  moreover have "aged j q q'" if "wf q" and "j \<in> mids q" for j
    using calculation [OF that] aged_gone [of j q'] splice_out_mids [OF assms]
    by (cases "j = i") (auto intro: kept_aged)
  ultimately show ?thesis
    using splice_out_wf [OF assms] splice_out_mids [OF assms] by (auto simp: evolves_def q')
qed

text \<open>Operations that rewrite every message in place.\<close>

definition same_all :: "short_msg_pending list \<Rightarrow> short_msg_pending list \<Rightarrow> bool" where
  "same_all xs ys \<longleftrightarrow> list_all2 same_pend xs ys"

lemma same_all_Nil [simp]: "same_all [] []"
  by (simp add: same_all_def)

lemma same_all_Cons [simp]: "same_all (x # xs) (y # ys) \<longleftrightarrow> same_pend x y \<and> same_all xs ys"
  by (simp add: same_all_def)

lemma same_all_refl [simp]: "same_all xs xs"
  by (simp add: same_all_def list.rel_refl)

lemma same_all_trans: "same_all xs ys \<Longrightarrow> same_all ys zs \<Longrightarrow> same_all xs zs"
  unfolding same_all_def by (rule list_all2_trans [OF same_pend_trans])

lemma same_all_mids: "same_all xs ys \<Longrightarrow> map mid ys = map mid xs"
  unfolding same_all_def by (induction rule: list_all2_induct) (auto simp: same_pend_def)

lemma same_all_tags:
  "same_all xs ys \<Longrightarrow> \<forall>m \<in> set xs. tag_ok m \<Longrightarrow> \<forall>m \<in> set ys. tag_ok m"
  unfolding same_all_def by (induction rule: list_all2_induct) (auto dest: same_pend_tag)

lemma same_all_find:
  "same_all xs ys \<Longrightarrow> find (\<lambda>m. mid m = j) xs = Some m
     \<Longrightarrow> \<exists>m'. find (\<lambda>m. mid m = j) ys = Some m' \<and> same_pend m m'"
  unfolding same_all_def
  by (induction arbitrary: m rule: list_all2_induct) (auto simp: same_pend_def split: if_splits)

lemma map_mid_mids:
  "map mid (time_sorted_list q') = map mid (time_sorted_list q) \<Longrightarrow> mids q' = mids q"
  by (simp add: mids_map)

lemma same_all_grows:
  assumes "same_all (time_sorted_list q) (time_sorted_list q')" and "next_mid q' = next_mid q"
  shows "grows q q'"
proof -
  note m = same_all_mids [OF assms(1)]
  have "kept j q q'" if "j \<in> mids q" for j
    using mids_deref [OF that] same_all_find [OF assms(1)] by (auto simp: kept_def deref_def)
  then show ?thesis
    using m map_mid_mids [OF m] assms(2) same_all_tags [OF assms(1)]
    by (auto simp: evolves_def wf_def)
qed

lemma put_msg_same_all:
  assumes "m \<in> set (time_sorted_list q)" and "wf q" and "same_pend m m'"
  shows "same_all (time_sorted_list q) (time_sorted_list (put_msg m' q))"
proof -
  have "same_pend x (if mid x = mid m' then m' else x)" if x: "x \<in> set (time_sorted_list q)" for x
  proof (cases "mid x = mid m'")
    case True
    then have "mid x = mid m" using same_pend_mid [OF assms(3)] by simp
    with deref_mem [OF assms(2,1)] deref_mem [OF assms(2) x] have "x = m" by simp
    with assms(3) show ?thesis by simp
  qed simp
  then show ?thesis
    by (simp add: same_all_def put_msg_def list.rel_map list.rel_refl_strong)
qed

lemma those_map_same:
  assumes "those (map (make_text_valid L) xs) = Some ys"
  shows "same_all (xs :: short_msg_pending list) ys"
  using assms
proof (induction xs arbitrary: ys)
  case Nil
  then show ?case by simp
next
  case (Cons x xs)
  then show ?case
    by (auto split: option.splits dest: make_text_valid_same)
qed

lemma debug_dump_same:
  assumes "debug_dump L W q = Some q'"
  shows "same_all (time_sorted_list q) (time_sorted_list q')"
    and "next_mid q' = next_mid q"
  using assms
  by (auto simp: debug_dump_def Let_def msgettime_def elim!: bind_SomeE dest: those_map_same)

lemma SendWriterMsg_same_list [simp]: "same_list q (SendWriterMsg msg q)"
  by (simp add: same_list_def SendWriterMsg_def)

text \<open>Insertion of a message with an unused identity.\<close>

definition put_in_front :: "short_msg_pending \<Rightarrow> smq \<Rightarrow> smq \<Rightarrow> bool" where
  "put_in_front m q q' \<longleftrightarrow>
     same_all (m # time_sorted_list q) (time_sorted_list q') \<and> next_mid q' = next_mid q"

lemma insert_state_front:
  assumes "insert_new_message_state L W m s q = Some q'"
  shows "put_in_front (smp_set_state (timeouts q) (clock W q) s m) q q'"
proof -
  from assms obtain q1 where
    d: "debug_dump L W (q\<lparr>tick := tick q + 1,
        time_sorted_list := smp_set_state (timeouts q) (clock W q) s m # time_sorted_list q\<rparr>) = Some q1"
    and q': "q' = ProcessReceivedMsg q1"
    by (auto simp: insert_new_message_state_def msgettime_eq clock_def elim!: bind_SomeE)
  from debug_dump_same [OF d] show ?thesis
    by (simp add: q' put_in_front_def ProcessReceivedMsg_def SendWriterMsg_def)
qed

lemma insert_at_front:
  assumes "insert_new_message_at L W m s t q = Some q'"
  shows "put_in_front (smp_set_state_at s t m) q q'"
proof -
  from assms obtain q1 where
    d: "debug_dump L W (q\<lparr>time_sorted_list := smp_set_state_at s t m # time_sorted_list q\<rparr>) = Some q1"
    and q': "q' = ProcessReceivedMsg q1"
    by (auto simp: insert_new_message_at_def elim!: bind_SomeE)
  from debug_dump_same [OF d] show ?thesis
    by (simp add: q' put_in_front_def ProcessReceivedMsg_def SendWriterMsg_def)
qed

text \<open>The new message has the identity handed out last before it.\<close>

lemma put_fresh_grows:
  assumes "put_in_front m b c" and "mid m = next_mid a"
    and "time_sorted_list b = time_sorted_list a" and "next_mid b = next_mid a + 1"
    and "tag_ok m"
  shows "grows a c"
proof -
  have front: "same_all (m # time_sorted_list a) (time_sorted_list c)" and n: "next_mid c = next_mid a + 1"
    using assms by (simp_all add: put_in_front_def)
  note ids = same_all_mids [OF front]
  have m: "mids c = insert (next_mid a) (mids a)"
    using ids assms(2) by (simp add: mids_map)
  have "kept j a c" if w: "wf a" and j: "j \<in> mids a" for j
  proof -
    have "j \<noteq> mid m" using w j assms(2) by (auto simp: wf_def)
    moreover obtain x where "deref j a = Some x" using mids_deref [OF j] by blast
    ultimately show ?thesis
      using same_all_find [OF front, of j x] by (auto simp: kept_def deref_def)
  qed
  moreover have "wf c" if w: "wf a"
  proof -
    have "\<forall>x \<in> set (time_sorted_list c). tag_ok x"
      using same_all_tags [OF front] w assms(5) by (simp add: wf_def)
    moreover have "distinct (map mid (time_sorted_list c))"
      using ids assms(2) w by (auto simp: wf_def mids_def)
    ultimately show ?thesis
      using m n w by (auto simp: wf_def)
  qed
  ultimately show ?thesis
    using m n by (auto simp: evolves_def)
qed

section \<open>The same messages, rewritten in place\<close>

definition same_msgs :: "smq \<Rightarrow> smq \<Rightarrow> bool" where
  "same_msgs q q' \<longleftrightarrow>
     (wf q \<longrightarrow> same_all (time_sorted_list q) (time_sorted_list q') \<and> next_mid q' = next_mid q)"

lemma same_msgs_refl [simp]: "same_msgs q q"
  by (simp add: same_msgs_def)

lemma same_msgs_wf: "same_msgs q q' \<Longrightarrow> wf q \<Longrightarrow> wf q'"
  using same_all_mids [of "time_sorted_list q" "time_sorted_list q'"]
    same_all_tags [of "time_sorted_list q" "time_sorted_list q'"]
  by (auto simp: same_msgs_def wf_def mids_map)

lemma same_msgs_trans: "same_msgs a b \<Longrightarrow> same_msgs b c \<Longrightarrow> same_msgs a c"
  using same_msgs_wf [of a b] by (auto simp: same_msgs_def intro: same_all_trans)

lemma same_list_msgs: "same_list q q' \<Longrightarrow> same_msgs q q'"
  by (simp add: same_list_def same_msgs_def)

lemma same_msgs_grows: "same_msgs q q' \<Longrightarrow> grows q q'"
  using same_all_grows [of q q'] by (auto simp: same_msgs_def evolves_def)

lemma put_same_msgs:
  assumes "deref i q = Some m" and "same_pend m m'"
  shows "same_msgs q (put_msg m' q)"
  using put_msg_same_all [OF deref_SomeD(1) [OF assms(1)] _ assms(2)]
  by (simp add: same_msgs_def)

lemma debug_dump_msgs: "debug_dump L W q = Some q' \<Longrightarrow> same_msgs q q'"
  using debug_dump_same [of L W q q'] by (simp add: same_msgs_def)

section \<open>Validation\<close>

lemma to_is_deliverable_list: "to_is_deliverable W u q = (d, q') \<Longrightarrow> same_list q q'"
  by (auto simp: to_is_deliverable_def ask_def same_list_def split: if_splits)

lemma early_check_list: "early_check L W C b p m q = (r, q') \<Longrightarrow> same_list q q'"
  by (auto simp: early_check_def ask_def same_list_def Let_def split: if_splits)

text \<open>The message that reaches the checks, and what they return.\<close>

definition validation_input ::
  "lib_ops \<Rightarrow> short_msg_pending \<Rightarrow> smq \<Rightarrow> (bool \<times> short_msg_pending) option" where
  "validation_input L m q =
     do { m \<leftarrow> (if print_as_we_validate q then make_text_valid L m else Some m);
          if parsed_is_valid m then Some (True, m) else parse L m }"

lemma validation_input_same: "validation_input L m q = Some (ok, m1) \<Longrightarrow> same_pend m m1"
  unfolding validation_input_def
  by (auto split: if_splits elim!: bind_SomeE dest!: make_text_valid_same parse_same
      intro: same_pend_trans)

lemma validate_unfold:
  "validate_short_msg L W C b m q =
     do {
       (ok, m) \<leftarrow> validation_input L m q;
       if \<not> ok then Some (400, m, q)
       else case parsed m of
         None \<Rightarrow> Some (400, m, q)
       | Some p \<Rightarrow>
           (let code = validate_parsed L (Some (my_ipaddress q)) (Some (my_2nd_ipaddress q)) p in
            if code \<noteq> 0 then Some (code, m, q)
            else do {
               user \<leftarrow> to_username p;
               user \<leftarrow> user;
               let (relayed, q) = early_check L W C b p m q;
               let (deliverable, q) =
                 (if relayed then to_is_deliverable W user q else (True, q));
               if \<not> deliverable then Some (404, m, q)
               else do {
                 let m = (if relayed then m\<lparr>from_relay := True\<rparr> else m);
                 (code, m) \<leftarrow> set_qtag L m;
                 Some (code, m, q) } }) }"
  by (simp add: validate_short_msg_def validation_input_def Let_def)

lemma validate_same:
  assumes "validate_short_msg L W C b m q = Some (e, m', q')"
  shows "same_pend m m'" and "same_list q q'"
proof -
  from assms obtain ok m1 where inp: "validation_input L m q = Some (ok, m1)"
    by (auto simp: validate_unfold elim!: bind_SomeE)
  note m1 = validation_input_same [OF inp]
  have "same_pend m1 m' \<and> same_list q q'"
    using assms inp
    by (auto simp: validate_unfold Let_def split: if_splits option.splits prod.splits
        elim!: bind_SomeE dest!: set_qtag_same early_check_list to_is_deliverable_list
        intro: same_pend_trans [OF same_pend_updates(5)] same_list_trans)
  with m1 show "same_pend m m'" and "same_list q q'"
    by (auto intro: same_pend_trans)
qed

section \<open>Originated messages\<close>

lemma net_q_list:
  "new_call_number_q W q = Some (x, q') \<Longrightarrow> same_list q q'"
  "new_random_number_q W q = Some (y, q') \<Longrightarrow> same_list q q'"
  by (auto simp: new_call_number_q_def new_random_number_q_def same_list_def elim!: bind_SomeE)

lemma half_sm_call_id_list: "half_sm_call_id L W meth q = Some (c, q') \<Longrightarrow> same_list q q'"
  by (auto simp: half_sm_call_id_def Let_def split: if_splits option.splits elim!: bind_SomeE
      dest!: net_q_list(1)) (auto simp: same_list_def)

lemma half_sm_cseq_list: "half_sm_cseq W meth q = Some (c, q') \<Longrightarrow> same_list q q'"
  by (auto simp: half_sm_cseq_def Let_def same_list_def split: if_splits elim!: bind_SomeE
      dest!: net_q_list(2))

text \<open>A half-built message is new and in no list.\<close>

definition made_new :: "smq \<Rightarrow> short_msg_pending \<Rightarrow> smq \<Rightarrow> bool" where
  "made_new q m q' \<longleftrightarrow>
     mid m = next_mid q \<and> tag_ok m
     \<and> (wf q \<longrightarrow> same_all (time_sorted_list q) (time_sorted_list q') \<and> next_mid q' = next_mid q + 1)"

lemma made_new_wf:
  assumes "made_new a m b" and "wf a"
  shows "wf b"
proof -
  have s: "same_all (time_sorted_list a) (time_sorted_list b)" "next_mid b = next_mid a + 1"
    using assms by (simp_all add: made_new_def)
  with assms(2) same_all_mids [OF s(1)] map_mid_mids [of b a] same_all_tags [OF s(1)]
  show ?thesis by (auto simp: wf_def)
qed

lemma made_new_trans:
  assumes "made_new a m b" and "same_msgs b c" and "same_object m m'"
  shows "made_new a m' c"
  using assms made_new_wf [OF assms(1)]
  by (auto simp: made_new_def same_object_def same_msgs_def intro: same_all_trans)

lemma new_message_made: "new_message q = (m, q') \<Longrightarrow> made_new q m q'"
  by (auto simp: new_message_def made_new_def short_msg_pending0_def short_msg0_def
      short_msg.defs short_msg_pending.defs tag_ok_def)

lemma made_new_grows:
  assumes "made_new a m b"
  shows "grows a b"
proof -
  have "grows a (b\<lparr>next_mid := next_mid a\<rparr>)" if "wf a"
    using assms that by (intro same_all_grows) (simp_all add: made_new_def)
  with assms made_new_wf [OF assms] show ?thesis
    by (auto simp: made_new_def evolves_def mids_def kept_def deref_def intro!: less_SucI)
qed

lemma made_new_insert_grows:
  assumes "made_new a m b" and "insert_new_message_state L W m s b = Some c"
  shows "grows a c"
proof -
  let ?m = "smp_set_state (timeouts b) (clock W b) s m"
  have "put_in_front ?m (b\<lparr>time_sorted_list := time_sorted_list a\<rparr>) c" if "wf a"
  proof -
    have "same_all (?m # time_sorted_list a) (?m # time_sorted_list b)"
      using assms(1) that by (simp add: made_new_def)
    moreover have "put_in_front ?m b c"
      by (rule insert_state_front [OF assms(2)])
    ultimately show ?thesis
      using same_all_trans [of "?m # time_sorted_list a" "?m # time_sorted_list b"]
      by (simp add: put_in_front_def del: same_all_Cons)
  qed
  then have "grows a c" if "wf a"
    using that assms(1)
    by (intro put_fresh_grows [of ?m "b\<lparr>time_sorted_list := time_sorted_list a\<rparr>"])
      (auto simp: made_new_def)
  then show ?thesis by (auto simp: evolves_def)
qed

lemma originate_half_made:
  assumes "originate_half_sm L W meth q = Some (h, q')"
  shows "case h of Some m \<Rightarrow> made_new q m q' | None \<Rightarrow> grows q q'"
proof -
  obtain r q1 where r: "new_message q = (r, q1)" by force
  from assms r obtain r' sip cid q2 where r': "initialize 0 None True r = Some r'"
    and cid: "half_sm_call_id L W meth q1 = Some (cid, q2)"
    by (auto simp: originate_half_sm_def elim!: bind_SomeE)
  have made: "made_new q r' q2"
    using new_message_made [OF r] same_list_msgs [OF half_sm_call_id_list [OF cid]]
      same_pend_object [OF initialize_same [OF r']]
    by (rule made_new_trans)
  show ?thesis
  proof (cases cid)
    case None
    with assms r r' cid made_new_grows [OF made] show ?thesis
      by (auto simp: originate_half_sm_def elim!: bind_SomeE)
  next
    case (Some c)
    with assms r r' cid obtain sip0 cseq q3 sip1 where cseq: "half_sm_cseq W meth q2 = Some (cseq, q3)"
      and "h = Some (parsed_was_changed (r'\<lparr>parsed := Some sip1, parsed_is_valid := True\<rparr>))"
      and "q' = q3"
      by (auto simp: originate_half_sm_def Let_def elim!: bind_SomeE)
    moreover have "same_object r' (parsed_was_changed (r'\<lparr>parsed := Some sip1, parsed_is_valid := True\<rparr>))"
      by (simp add: parsed_was_changed_def same_object_def)
    ultimately show ?thesis
      using made_new_trans [OF made same_list_msgs [OF half_sm_cseq_list [OF cseq]]] by auto
  qed
qed

lemma finish_sm_same:
  assumes "finish_sm L W C m q = Some (e, m', q')"
  shows "same_pend m m'" and "same_list q q'"
proof -
  from assms obtain m1 m2 where "make_text_valid L m = Some m1"
    and "unparse L m1 = Some m2" and "validate_short_msg L W C False m2 q = Some (e, m', q')"
    by (auto simp: finish_sm_def elim!: bind_SomeE)
  then have "same_pend m m1" "same_pend m1 m2" "same_pend m2 m'" "same_list q q'"
    by (simp_all add: make_text_valid_same unparse_same validate_same)
  then show "same_pend m m'" and "same_list q q'"
    by (blast intro: same_pend_trans)+
qed

lemma originate_sm_grows:
  assumes "originate_sm L W C fr to msgtext s q = Some (e, q')"
  shows "grows q q'"
proof -
  from assms obtain half q1 where half: "originate_half_sm L W ''MESSAGE'' q = Some (half, q1)"
    by (auto simp: originate_sm_def elim!: bind_SomeE)
  note made = originate_half_made [OF half]
  show ?thesis
  proof (cases half)
    case None
    with assms half made show ?thesis by (auto simp: originate_sm_def)
  next
    case (Some r)
    with made have r: "made_new q r q1" by simp
    from assms half Some obtain sip e1 r1 errcode r2 q2 where
      r1: "set_qtag L (parsed_was_changed (r\<lparr>need_repack := True, parsed := Some sip,
              content_type := TEXT_PLAIN\<rparr>)) = Some (e1, r1)"
      and r2: "finish_sm L W C r1 q1 = Some (errcode, r2, q2)"
      and fin: "(if errcode = 0 then do { q \<leftarrow> insert_new_message_state L W r2 s q2; Some (0, q) }
                 else Some (-1, q2)) = Some (e, q')"
      by (auto simp: originate_sm_def Let_def elim!: bind_SomeE)
    have "same_object r r2"
      using same_pend_object [OF set_qtag_same [OF r1]] same_pend_object [OF finish_sm_same(1) [OF r2]]
      by (simp add: parsed_was_changed_def same_object_def)
    then have "made_new q r2 q2"
      by (rule made_new_trans [OF r same_list_msgs [OF finish_sm_same(2) [OF r2]]])
    then show ?thesis
      using fin by (auto split: if_splits elim!: bind_SomeE
          intro: made_new_grows made_new_insert_grows)
  qed
qed

lemma bounce_message_grows:
  "bounce_message L W C i err q = Some (s, q') \<Longrightarrow> grows q q'"
  by (auto simp: bounce_message_def split: if_splits elim!: bind_SomeE dest!: originate_sm_grows)

lemma bounce_message_state:
  "bounce_message L W C i err q = Some (s, q') \<Longrightarrow> s \<in> {DELETE_ME_STATE, NO_STATE}"
  by (auto simp: bounce_message_def split: if_splits elim!: bind_SomeE)

end
