(* ===== verification/Smq_Handlers.thy ===== *)
theory Smq_Handlers
  imports Smq_Contract
begin

text \<open>
  The contract of theory \<open>Smq_Contract\<close> for the handlers of the state machine: a handler that only
  computes the next state of a message adds messages, never removes or reschedules one.  The locale
  \<open>state_handler\<close> is that interface; the lookups and the registration are its instances.
\<close>

section \<open>The interface of a handler\<close>

locale state_handler =
  fixes run :: "nat \<Rightarrow> smq \<Rightarrow> (sm_state \<times> smq) option"
    and outcomes :: "sm_state set"
  assumes run_grows: "run i q = Some (s, q') \<Longrightarrow> grows q q'"
    and run_outcome: "run i q = Some (s, q') \<Longrightarrow> s \<in> outcomes"
begin

lemma step_touches:
  assumes "do { (s, q) \<leftarrow> run i q; set_state W i s q } = Some q'"
  shows "evolves {} {i} q q'"
  using assms
  by (auto elim!: bind_SomeE dest!: run_grows set_state_touches intro: grows_first)

lemma step_outcome:
  assumes "do { (s, q) \<leftarrow> run i q; set_state W i s q } = Some q'" and "wf q"
  shows "\<exists>m'. deref i q' = Some m' \<and> state m' \<in> outcomes"
proof -
  from assms(1) obtain s q1 where r: "run i q = Some (s, q1)" and st: "set_state W i s q1 = Some q'"
    by (auto elim!: bind_SomeE)
  have "wf q1" using run_grows [OF r] assms(2) by (simp add: evolves_def)
  from set_state_props(5) [OF st this] run_outcome [OF r] show ?thesis by auto
qed

end

section \<open>Changes in place\<close>

lemma deref_put_pend:
  "deref i q = Some m \<Longrightarrow> same_pend m m' \<Longrightarrow> deref i (put_msg m' q) = Some m'"
  using deref_SomeD(2) [of i q m] by (auto simp: same_pend_def intro!: deref_put_same)

text \<open>A message changed twice, with queries in between.\<close>

lemma put_twice_msgs:
  assumes "deref i q = Some m" and "same_pend m m1" and "same_list (put_msg m1 q) q2"
    and "same_pend m1 m2"
  shows "same_msgs q (put_msg m2 q2)"
proof -
  have "deref i q2 = Some m1"
    using deref_put_pend [OF assms(1,2)] same_list_deref [OF assms(3)] by simp
  from put_same_msgs [OF this assms(4)] put_same_msgs [OF assms(1,2)] same_list_msgs [OF assms(3)]
  show ?thesis by (blast intro: same_msgs_trans)
qed

lemma put_then_msgs:
  assumes "deref i q = Some m" and "same_pend m m1" and "same_list (put_msg m1 q) q2"
  shows "same_msgs q q2"
  using put_same_msgs [OF assms(1,2)] same_list_msgs [OF assms(3)] by (rule same_msgs_trans)

lemma put_parsed_msgs:
  assumes "deref i q = Some m"
  shows "same_msgs q (put_msg (m\<lparr>parsed := p\<rparr>) q)"
    and "same_msgs q ((put_msg (m\<lparr>parsed := p\<rparr>) q)\<lparr>tick := t\<rparr>)"
    and "same_pend (m\<lparr>parsed := p\<rparr>) m2
           \<Longrightarrow> same_msgs q (put_msg m2 ((put_msg (m\<lparr>parsed := p\<rparr>) q)\<lparr>tick := t\<rparr>))"
  by (rule put_same_msgs [OF assms] put_then_msgs [OF assms] put_twice_msgs [OF assms];
      simp add: same_list_def)+

section \<open>Registration\<close>

lemma set_linktag_msgs:
  assumes "set_linktag L r i q = Some (r', q')"
  shows "same_msgs q q'" and "same_object r r'"
  using assms
  by (auto simp: set_linktag_def same_object_def elim!: bind_SomeE split: if_splits
      intro: put_same_msgs dest!: set_qtag_same)

lemma ready_to_register_msgs:
  assumes "ready_to_register L W i q = Some (b, q')"
  shows "same_msgs q q'"
proof -
  from assms obtain m ok m1 where m: "deref i q = Some m" and p: "parse L m = Some (ok, m1)"
    and "same_list (put_msg m1 q) q'"
    by (auto simp: ready_to_register_def ask_def same_list_def Let_def elim!: bind_SomeE
        split: option.splits)
  then show ?thesis using put_then_msgs [OF m parse_same [OF p]] by simp
qed

lemma register_handset_grows:
  assumes "register_handset L W C i q = Some (s, q')"
  shows "grows q q'"
proof -
  from assms obtain half q1 where half: "originate_half_sm L W ''REGISTER'' q = Some (half, q1)"
    by (auto simp: register_handset_def elim!: bind_SomeE)
  note made = originate_half_made [OF half]
  show ?thesis
  proof (cases half)
    case None
    with assms half made show ?thesis by (auto simp: register_handset_def)
  next
    case (Some r)
    with made have r: "made_new q r q1" by simp
    from assms half Some obtain qa sip e1 r1 r2 q2 errcode r3 q3 where
      a: "same_list q1 qa"
      and r1: "set_qtag L (parsed_was_changed (r\<lparr>need_repack := False, parsed := Some sip\<rparr>))
                 = Some (e1, r1)"
      and r2: "set_linktag L r1 i qa = Some (r2, q2)"
      and r3: "finish_sm L W C r2 q2 = Some (errcode, r3, q3)"
      and fin: "q' = q3 \<or> insert_new_message_state L W r3 REQUEST_MSG_DELIVERY q3 = Some q'"
      by (auto simp: register_handset_def Let_def elim!: bind_SomeE split: prod.splits if_splits
          dest!: ask_same_list)
    have "same_object r r3"
      using same_pend_object [OF set_qtag_same [OF r1]] set_linktag_msgs(2) [OF r2]
        same_pend_object [OF finish_sm_same(1) [OF r3]]
      by (simp add: parsed_was_changed_def same_object_def)
    moreover have "same_msgs q1 q3"
      using same_list_msgs [OF a] set_linktag_msgs(1) [OF r2]
        same_list_msgs [OF finish_sm_same(2) [OF r3]]
      by (blast intro: same_msgs_trans)
    ultimately have "made_new q r3 q3"
      using r made_new_trans by blast
    then show ?thesis
      using fin by (auto intro: made_new_grows made_new_insert_grows)
  qed
qed

lemma register_handset_state:
  "register_handset L W C i q = Some (s, q')
     \<Longrightarrow> s \<in> {DELETE_ME_STATE, ASKED_TO_REGISTER_HANDSET}"
  by (auto simp: register_handset_def Let_def elim!: bind_SomeE split: option.splits prod.splits
      if_splits)

interpretation register_handler: state_handler "register_handset L W C"
    "{DELETE_ME_STATE, ASKED_TO_REGISTER_HANDSET}" for L W C
  by unfold_locales (auto dest: register_handset_grows register_handset_state)

section \<open>Lookups\<close>

lemma lookup_from_address_msgs:
  assumes "lookup_from_address L W i q = Some (s, q')"
  shows "same_msgs q q'"
  using assms
  by (auto simp: lookup_from_address_def ask_def Let_def same_list_def elim!: bind_SomeE
      dest!: modify_parsed_same split: if_splits option.splits
      intro: put_parsed_msgs)

lemma lookup_from_address_state:
  "lookup_from_address L W i q = Some (s, q') \<Longrightarrow> s \<in> {NO_STATE, REQUEST_DESTINATION_IMSI}"
  by (auto simp: lookup_from_address_def Let_def elim!: bind_SomeE
      split: if_splits option.splits prod.splits)

interpretation from_handler: state_handler "lookup_from_address L W"
    "{NO_STATE, REQUEST_DESTINATION_IMSI}" for L W
  by unfold_locales (auto dest: lookup_from_address_msgs same_msgs_grows lookup_from_address_state)

lemma convert_message_same [simp]: "same_pend m (convert_message t m)"
  by (auto simp: convert_message_def same_pend_def)

lemma convert_to_same [simp]: "same_pend m (snd (convert_to t m))"
  by (simp add: convert_to_def)

lemma convert_to_parsed_same: "same_pend m (snd (convert_to t (m\<lparr>parsed := p\<rparr>)))"
  by (rule same_pend_trans [OF same_pend_updates(1) convert_to_same])

lemma route_unknown_grows:
  assumes "route_unknown L W C i m q = Some (s, q')" and "deref i q = Some m"
  shows "grows q q'"
proof (cases "global_relay q = []")
  case True
  with assms show ?thesis by (auto simp: route_unknown_def dest: bounce_message_grows)
next
  case False
  with assms(1) obtain fr p qa n where a: "ask (\<lambda>t. mapCLIDGlobal W t fr) q = (n, qa)"
    and q': "q' = put_msg (snd (convert_to (global_relay_contenttype qa) (m\<lparr>parsed := Some p\<rparr>))) qa"
    by (auto simp: route_unknown_def Let_def elim!: bind_SomeE split: prod.splits)
  have "deref i qa = Some m"
    using assms(2) same_list_deref [OF ask_same_list [OF a]] by simp
  then have "same_msgs qa q'"
    unfolding q' by (rule put_same_msgs [OF _ convert_to_parsed_same])
  with same_list_msgs [OF ask_same_list [OF a]] show ?thesis
    by (blast intro: same_msgs_trans same_msgs_grows)
qed

lemma route_unknown_state:
  "route_unknown L W C i m q = Some (s, q')
     \<Longrightarrow> s \<in> {NO_STATE, DELETE_ME_STATE, REQUEST_DESTINATION_SIPURL}"
  by (auto simp: route_unknown_def Let_def elim!: bind_SomeE split: if_splits prod.splits
      dest: bounce_message_state)

text \<open>The two results of looking up an IMSI: the message is routed in place, or as unknown.\<close>

lemma put_parse_grows:
  assumes "deref i q = Some m" and "parse L m = Some (ok, m1)"
  shows "grows q (put_msg m1 q)"
  by (rule same_msgs_grows [OF put_same_msgs [OF assms(1) parse_same [OF assms(2)]]])

lemma routed_grows:
  assumes "deref i q = Some m" and "parse L m = Some (ok, m1)"
    and "same_list (put_msg m1 q) q2"
  shows "route_unknown L W C i m1 q2 = Some (s, q') \<Longrightarrow> grows q q'"
    and "modify_parsed f m1 = Some m2 \<Longrightarrow> grows q (put_msg m2 q2)"
proof -
  note p = parse_same [OF assms(2)]
  have d: "deref i q2 = Some m1"
    using deref_put_pend [OF assms(1) p] same_list_deref [OF assms(3)] by simp
  have g: "grows q q2"
    by (rule same_msgs_grows [OF put_then_msgs [OF assms(1) p assms(3)]])
  show "route_unknown L W C i m1 q2 = Some (s, q') \<Longrightarrow> grows q q'"
    using route_unknown_grows [OF _ d] g by (blast intro: evolves_trans)
  show "modify_parsed f m1 = Some m2 \<Longrightarrow> grows q (put_msg m2 q2)"
    using put_twice_msgs [OF assms(1) p assms(3)] by (blast intro: modify_parsed_same same_msgs_grows)
qed

lemma ask_keeps_list: "same_list q (snd (ask f q))"
  by (simp add: ask_def same_list_def)

lemma lookup_uri_imsi_grows:
  assumes "lookup_uri_imsi L W C i q = Some (s, q')"
  shows "grows q q'"
proof -
  from assms obtain m ok m1 where m: "deref i q = Some m" and p: "parse L m = Some (ok, m1)"
    by (auto simp: lookup_uri_imsi_def elim!: bind_SomeE)
  note routed = routed_grows [OF m p]
  show ?thesis
    using assms m p put_parse_grows [OF m p]
    by (auto simp: lookup_uri_imsi_def Let_def elim!: bind_SomeE dest!: ask_same_list
        split: if_splits option.splits prod.splits intro: routed)
qed

lemma lookup_uri_imsi_state:
  "lookup_uri_imsi L W C i q = Some (s, q')
     \<Longrightarrow> s \<in> {NO_STATE, DELETE_ME_STATE, REQUEST_DESTINATION_SIPURL}"
  by (auto simp: lookup_uri_imsi_def Let_def elim!: bind_SomeE
      split: if_splits option.splits prod.splits dest: route_unknown_state)

interpretation imsi_handler: state_handler "lookup_uri_imsi L W C"
    "{NO_STATE, DELETE_ME_STATE, REQUEST_DESTINATION_SIPURL}" for L W C
  by unfold_locales (auto dest: lookup_uri_imsi_grows lookup_uri_imsi_state)

lemma find_hostport_same:
  assumes "find_hostport W C u m q = (hp, m', q')"
  shows "same_pend m m'" and "same_list q q'"
  using assms
  by (auto simp: find_hostport_def ask_def same_list_def Let_def split: if_splits)

lemma set_hostport_same: "set_hostport h p m = Some m' \<Longrightarrow> same_pend m m'"
  by (auto simp: set_hostport_def Let_def same_pend_def parsed_was_changed_def elim!: bind_SomeE)

lemma renew_call_id_same: "renew_call_id h n m = Some m' \<Longrightarrow> same_pend m m'"
  by (auto simp: renew_call_id_def Let_def same_pend_def parsed_was_changed_def elim!: bind_SomeE)

lemma lookup_uri_hostport_msgs:
  assumes "lookup_uri_hostport L W C i q = Some (s, q')"
  shows "same_msgs q q'"
proof -
  from assms obtain m ok m1 where m: "deref i q = Some m" and p: "parse L m = Some (ok, m1)"
    by (auto simp: lookup_uri_hostport_def elim!: bind_SomeE)
  note m1 = parse_same [OF p]
  from assms m p consider "q' = put_msg m1 q"
    | u hp m2 q2 m3 n q3 m4 e m5 where "find_hostport W C u m1 (put_msg m1 q) = (hp, m2, q2)"
      "set_hostport (fst hp) (snd hp) m2 = Some m3" "new_call_number_q W q2 = Some (n, q3)"
      "renew_call_id (my_ipaddress q3) n m3 = Some m4" "set_qtag L m4 = Some (e, m5)"
      "q' = put_msg m5 q3"
    by (auto simp: lookup_uri_hostport_def Let_def elim!: bind_SomeE
        split: option.splits prod.splits)
  then show ?thesis
  proof cases
    case 1
    with put_same_msgs [OF m m1] show ?thesis by simp
  next
    case 2
    have "same_list (put_msg m1 q) q3"
      using find_hostport_same(2) [OF 2(1)] net_q_list(1) [OF 2(3)] by (rule same_list_trans)
    moreover have "same_pend m1 m5"
      using find_hostport_same(1) [OF 2(1)] set_hostport_same [OF 2(2)]
        renew_call_id_same [OF 2(4)] set_qtag_same [OF 2(5)]
      by (blast intro: same_pend_trans)
    ultimately show ?thesis
      unfolding 2(6) by (rule put_twice_msgs [OF m m1])
  qed
qed

lemma lookup_uri_hostport_state:
  "lookup_uri_hostport L W C i q = Some (s, q') \<Longrightarrow> s \<in> {NO_STATE, REQUEST_MSG_DELIVERY}"
  by (auto simp: lookup_uri_hostport_def Let_def elim!: bind_SomeE split: option.splits prod.splits)

interpretation hostport_handler: state_handler "lookup_uri_hostport L W C"
    "{NO_STATE, REQUEST_MSG_DELIVERY}" for L W C
  by unfold_locales
    (auto dest: lookup_uri_hostport_msgs same_msgs_grows lookup_uri_hostport_state)

section \<open>Packing and delivery\<close>

lemma pack_tpdu_more: "pack_tpdu L m = Some m' \<Longrightarrow> short_msg.more m' = short_msg.more m"
  by (auto simp: pack_tpdu_def Let_def parsed_was_changed_def elim!: bind_SomeE)

lemma create_sms_delivery_same:
  assumes "create_sms_delivery L W C b UD m q = Some (m', q')"
  shows "short_msg.more m' = short_msg.more m \<and> same_list q q'"
  using assms
  by (auto simp: create_sms_delivery_def Let_def ask_def same_list_def elim!: bind_SomeE
      dest!: pack_tpdu_more)

lemma pack_plain_text_more:
  "pack_plain_text b m = Some (r, m') \<Longrightarrow> short_msg.more m' = short_msg.more m"
  by (auto simp: pack_plain_text_def Let_def elim!: bind_SomeE dest!: modify_parsed_more)

lemma pack_text_to_tpdu_same:
  assumes "pack_text_to_tpdu L W C b m q = Some (r, m', q')"
  shows "short_msg.more m' = short_msg.more m \<and> same_list q q'"
  using assms
  by (auto simp: pack_text_to_tpdu_def elim!: bind_SomeE
      dest!: modify_parsed_more create_sms_delivery_same)

lemma recode_tpdu_same:
  assumes "recode_tpdu L W C b m q = Some (r, m', q')"
  shows "short_msg.more m' = short_msg.more m \<and> same_list q q'"
  using assms
  by (auto simp: recode_tpdu_def elim!: bind_SomeE split: option.splits TLMessage.splits
      dest!: create_sms_delivery_same)

lemma pack_converted_same:
  assumes "pack_converted L W C t m q = Some (r, m', q')"
  shows "short_msg.more m' = short_msg.more m \<and> same_list q q'"
  using assms
  by (auto simp: pack_converted_def elim!: bind_SomeE split: ContentType.splits if_splits
      dest!: pack_plain_text_more pack_text_to_tpdu_same recode_tpdu_same)

lemma pack_sms_same:
  assumes "pack_sms_for_delivery L W C m q = Some (ok, m', q')"
  shows "same_pend m m'" and "same_list q q'"
proof -
  have "short_msg.more m' = short_msg.more m \<and> same_list q q'"
    using assms
    by (auto simp: pack_sms_for_delivery_def elim!: bind_SomeE split: if_splits
        dest!: pack_converted_same parse_more)
  then show "same_pend m m'" and "same_list q q'"
    by (auto intro: more_same_pend)
qed

lemma deliver_msg_datagram_msgs:
  assumes "deliver_msg_datagram L W i q = Some (r, q')"
  shows "same_msgs q q'"
proof -
  from assms obtain m m1 where m: "deref i q = Some m" and t: "make_text_valid L m = Some m1"
    by (auto simp: deliver_msg_datagram_def elim!: bind_SomeE)
  note m1 = make_text_valid_same [OF t]
  from assms m t consider "q' = put_msg m1 q"
    | ok m2 where "parse L m1 = Some (ok, m2)" "same_list (put_msg m2 (put_msg m1 q)) q'"
    by (auto simp: deliver_msg_datagram_def Let_def ask_def same_list_def elim!: bind_SomeE
        split: option.splits prod.splits if_splits)
  then show ?thesis
  proof cases
    case 1
    with put_same_msgs [OF m m1] show ?thesis by simp
  next
    case 2
    have "same_msgs q (put_msg m2 (put_msg m1 q))"
      by (rule put_twice_msgs [OF m m1 _ parse_same [OF 2(1)]]) simp
    then show ?thesis using same_list_msgs [OF 2(2)] by (rule same_msgs_trans)
  qed
qed

end
