(* ===== verification/Smq_Steps.thy ===== *)
theory Smq_Steps
  imports Smq_Handlers
begin

text \<open>
  The contract for the short codes, the responses, the steps of the state machine and the threads;
  the graph of the states of a message and that every step of the machine follows it.
\<close>

section \<open>Short codes\<close>

lemma save_loop_msgs:
  assumes "save_loop L W xs acc q = Some (out, q')" and "set xs \<subseteq> set (time_sorted_list q)"
    and "distinct (map mid xs)"
  shows "same_msgs q q'"
  using assms
proof (induction xs arbitrary: acc q)
  case Nil
  then show ?case by simp
next
  case (Cons x xs)
  from Cons.prems(1) obtain x1 a q1 s where t: "make_text_valid L x = Some x1"
    and q1: "same_list (put_msg x1 q) q1"
    and rest: "save_loop L W xs (acc @ queue_record a x1 s) q1 = Some (out, q')"
    by (auto elim!: bind_SomeE split: prod.splits dest!: ask_same_list)
  note x1 = make_text_valid_same [OF t]
  show ?case
  proof (cases "wf q")
    case True
    have x: "deref (mid x) q = Some x" using Cons.prems(2) True by (simp add: deref_mem)
    have "set xs \<subseteq> set (time_sorted_list q1)"
    proof
      fix y assume y: "y \<in> set xs"
      then have "mid y \<noteq> mid x1"
        using Cons.prems(3) same_pend_mid [OF x1] by (auto simp: image_iff)
      with y Cons.prems(2) q1 show "y \<in> set (time_sorted_list q1)"
        by (auto simp: same_list_def put_msg_def image_iff intro!: bexI [of _ y])
    qed
    then have "same_msgs q1 q'" using Cons.IH [OF rest] Cons.prems(3) by simp
    with put_then_msgs [OF x x1 q1] show ?thesis by (rule same_msgs_trans)
  qed (simp add: same_msgs_def)
qed

lemma save_queue_msgs:
  assumes "save_queue_to_file L W f q = Some (r, q')"
  shows "same_msgs q q'"
proof (cases "wf q")
  case True
  obtain b q1 where a: "ask (\<lambda>t. w_fopen W t f) q = (b, q1)" by force
  have q1: "same_list q q1" by (rule ask_same_list [OF a])
  have "same_msgs q1 q'"
  proof (cases b)
    case False
    with assms a show ?thesis by (simp add: save_queue_to_file_def)
  next
    case True
    with assms a obtain out q2 where
      l: "save_loop L W (rev (time_sorted_list q1)) [] q1 = Some (out, q2)"
      and q': "q' = q2\<lparr>saved_files := saved_files q2 @ [(f, out)]\<rparr>"
      by (auto simp: save_queue_to_file_def elim!: bind_SomeE)
    have "same_msgs q1 q2"
      using same_list_wf [OF q1] \<open>wf q\<close>
      by (intro save_loop_msgs [OF l]) (auto simp: wf_def rev_map [symmetric])
    then show ?thesis by (simp add: q' same_msgs_def)
  qed
  with same_list_msgs [OF q1] show ?thesis by (rule same_msgs_trans)
qed (simp add: same_msgs_def)

lemma whiplash_quit_msgs:
  "whiplash_quit L W C t q = Some (a, r, q') \<Longrightarrow> same_msgs q q'"
  by (auto simp: whiplash_quit_def Let_def split: if_splits elim!: bind_SomeE
      dest: save_queue_msgs)

lemma count_loop_same:
  "count_loop L C xs = Some (ys, n) \<Longrightarrow> same_all xs ys"
proof (induction xs arbitrary: ys n)
  case Nil
  then show ?case by simp
next
  case (Cons x xs)
  then show ?case
    by (auto elim!: bind_SomeE split: if_splits dest: make_text_valid_same)
qed

lemma four_one_one_msgs:
  assumes "shortcode_four_one_one L W C t i q = Some (a, r, q')"
  shows "same_msgs q q'"
proof -
  from assms obtain xs n where c: "count_loop L C (time_sorted_list q) = Some (xs, n)"
    and "same_list (q\<lparr>time_sorted_list := xs\<rparr>) q'"
    by (auto simp: shortcode_four_one_one_def Let_def ask_def same_list_def elim!: bind_SomeE
        split: if_splits)
  then show ?thesis
    using count_loop_same [OF c] by (auto simp: same_msgs_def same_list_def)
qed

text \<open>Zapping by tag removes one message.\<close>

lemma zap_queued_evolves:
  assumes "shortcode_zap_queued W C t q = Some (a, r, q')"
  shows "\<exists>j. evolves {j} {} q q'"
proof -
  from assms consider q1 where "same_list q q1" "q' = q1"
    | j m q1 where "splice_out j q = Some (m, q1)" "same_list q1 q'"
    by (auto simp: shortcode_zap_queued_def Let_def elim!: bind_SomeE
        split: if_splits option.splits prod.splits dest!: msgettime_same_list)
  then show ?thesis
  proof cases
    case 1
    then show ?thesis by (auto intro: grows_evolves same_list_grows)
  next
    case 2
    from grows_last [OF splice_out_evolves [OF 2(1)] same_list_grows [OF 2(2)]]
    show ?thesis by blast
  qed
qed

lemma shortcode_register_list:
  "shortcode_register W C imsi t q = Some (a, r, q') \<Longrightarrow> same_list q q'"
  by (auto simp: shortcode_register_def Let_def ask_def same_list_def
      split: if_splits option.splits hlr_status.splits)

lemma send_list:
  "sendHTTP W C d t q = Some (a, q') \<Longrightarrow> same_list q q'"
  "sendEMail W d t sub q = Some (a, q') \<Longrightarrow> same_list q q'"
  by (auto simp: sendHTTP_def sendEMail_def Let_def ask_def same_list_def elim!: bind_SomeE
      split: if_splits)

lemma sendSIP_same:
  "sendSIP_init sub m = Some (a, m') \<Longrightarrow> same_pend m m'"
  "sendSIP_init_text m = Some (a, m') \<Longrightarrow> same_pend m m'"
  by (auto simp: sendSIP_init_def sendSIP_init_text_def Let_def same_pend_def
      parsed_was_changed_def elim!: bind_SomeE)

lemma submitSMS_same:
  assumes "submitSMS W C imsi sub t m q = Some (a, m', q')"
  shows "same_pend m m' \<and> same_list q q'"
  using assms
  by (auto simp: submitSMS_def Let_def elim!: bind_SomeE split: if_splits prod.splits
      dest!: send_list sendSIP_same ask_same_list intro: same_list_trans)

lemma shortcode_smsc_same:
  assumes "shortcode_smsc W C imsi t m q = Some (a, m', q')"
  shows "same_pend m m' \<and> same_list q q'"
  using assms
  by (auto simp: shortcode_smsc_def elim!: bind_SomeE
      split: ContentType.splits option.splits TLMessage.splits
      dest!: sendSIP_same(2) submitSMS_same)

lemma smsc_call_msgs:
  assumes "deref i q = Some m" and "shortcode_smsc W C imsi t m q = Some (a, m', q')"
  shows "same_msgs q (put_msg m' q')"
proof -
  note same = shortcode_smsc_same [OF assms(2)]
  then have "deref i q' = Some m" using assms(1) same_list_deref [of q q' i] by simp
  from put_same_msgs [OF this] same show ?thesis
    by (blast intro: same_msgs_trans same_list_msgs)
qed

text \<open>A short code removes at most one message, and reschedules none.\<close>

lemma call_short_func_evolves:
  assumes "call_short_func L W C f imsi t i q = Some (a, r, q')"
  shows "\<exists>j. evolves {j} {} q q'"
proof (cases f)
  case shortcode_zap_queued_fn
  with assms show ?thesis by (auto simp: call_short_func_def intro: zap_queued_evolves)
next
  case shortcode_smsc_fn
  with assms have "same_msgs q q'"
    by (auto simp: call_short_func_def elim!: bind_SomeE intro: smsc_call_msgs)
  then show ?thesis by (blast intro: same_msgs_grows grows_evolves)
qed (use assms in \<open>auto simp: call_short_func_def shortcode_debug_dump_def shortcode_quick_chk_def
      elim!: bind_SomeE intro!: exI [of _ "0 :: nat"] grows_evolves same_msgs_grows
      dest: shortcode_register_list same_list_msgs four_one_one_msgs whiplash_quit_msgs
        debug_dump_msgs\<close>)

lemma short_code_reply_grows:
  assumes "short_code_reply L W C i r q = Some (s, q')"
  shows "grows q q'" and "s \<in> {DELETE_ME_STATE, NO_STATE}"
  using assms
  by (auto simp: short_code_reply_def elim!: bind_SomeE dest!: originate_sm_grows split: if_splits)

text \<open>The states a request goes to from \<open>INITIAL_STATE\<close>.\<close>

definition short_code_states :: "sm_state set" where
  "short_code_states =
     {NO_STATE, DELETE_ME_STATE, REQUEST_FROM_ADDRESS_LOOKUP, AWAITING_REGISTER_HANDSET,
      ASKED_TO_REGISTER_HANDSET, INITIAL_STATE}"

lemma retries_touches:
  "deref i q = Some m \<Longrightarrow> evolves {} {i} q (put_msg (m\<lparr>retries := retries m + 1\<rparr>) q)"
  by (erule change_touches) (simp_all add: same_object_def)

lemma short_code_next_touches:
  assumes "short_code_next L W C i sca r q = Some (s, q')"
  shows "evolves {} {i} q q'" and "s = Some s' \<Longrightarrow> s' \<in> short_code_states"
proof -
  have flags: "evolves {} {i} q (q\<lparr>reexec_smqueue := b, stop_main_loop := c\<rparr>)"
    "evolves {} {i} q (q\<lparr>stop_main_loop := c\<rparr>)" for b c
    by (auto intro!: grows_evolves same_list_grows simp: same_list_def)
  show "evolves {} {i} q q'"
    using assms
    by (auto simp: short_code_next_def elim!: bind_SomeE split: short_code_action.splits
        dest: short_code_reply_grows register_handset_grows
        intro: grows_evolves flags retries_touches)
  show "s = Some s' \<Longrightarrow> s' \<in> short_code_states"
    using assms
    by (auto simp: short_code_next_def short_code_states_def elim!: bind_SomeE
        split: short_code_action.splits
        dest!: short_code_reply_grows(2) register_handset_state)
qed

lemma handle_short_code_evolves:
  assumes "handle_short_code L W C i q = Some (s, q')"
  shows "\<exists>j. evolves {j} {i} q q'" and "s = Some s' \<Longrightarrow> s' \<in> short_code_states"
proof -
  from assms consider "s = None" "q' = q"
    | f imsi t a r q1 where "call_short_func L W C f imsi t i q = Some (a, r, q1)"
      "short_code_next L W C i a r q1 = Some (s, q')"
    by (auto simp: handle_short_code_def elim!: bind_SomeE split: option.splits)
  then have "(\<exists>j. evolves {j} {i} q q') \<and> (s = Some s' \<longrightarrow> s' \<in> short_code_states)"
  proof cases
    case 2
    obtain j where "evolves {j} {} q q1" using call_short_func_evolves [OF 2(1)] by blast
    from evolves_join [OF this short_code_next_touches(1) [OF 2(2)]]
    show ?thesis using short_code_next_touches(2) [OF 2(2)] by auto
  qed auto
  then show "\<exists>j. evolves {j} {i} q q'" and "s = Some s' \<Longrightarrow> s' \<in> short_code_states"
    by auto
qed

section \<open>Responses\<close>

lemma increase_acked_touches:
  "increase_acked_msg_timeout W C j q = Some q' \<Longrightarrow> evolves {} {j} q q'"
  by (auto simp: increase_acked_msg_timeout_def msgettime_eq same_object_def same_list_def
      smp_set_state_at_def
      elim!: bind_SomeE intro: change_touches)

lemma set_in_place_touches:
  assumes "deref k q = Some old"
  shows "evolves {} {k} q (put_msg (smp_set_state tbl now s old) (q\<lparr>tick := t\<rparr>))"
  by (rule change_touches [OF assms]) (simp_all add: same_object_def same_list_def smp_set_state_def)

lemma smp_set_state_q_touches:
  "smp_set_state_q W j s q = Some q' \<Longrightarrow> evolves {} {j} q q'"
  by (auto simp: smp_set_state_q_def msgettime_eq elim!: bind_SomeE intro: set_in_place_touches)

lemma rerun_linked_touches:
  assumes "rerun_linked_sms W j q = Some q'"
  shows "\<exists>k. evolves {} {k} q q'"
proof -
  from assms obtain found where f: "get_link j q = Some found"
    by (auto simp: rerun_linked_sms_def elim!: bind_SomeE)
  show ?thesis
  proof (cases found)
    case None
    with assms f show ?thesis by (auto simp: rerun_linked_sms_def)
  next
    case (Some k)
    with assms f obtain old where old: "deref k q = Some old"
      by (auto simp: rerun_linked_sms_def elim!: bind_SomeE)
    with assms f Some have "evolves {} {k} q q'"
      by (auto simp: rerun_linked_sms_def msgettime_eq set_in_place_touches split: if_split_asm)
    then show ?thesis ..
  qed
qed

lemma write_cdr_list: "write_cdr W j q = Some q' \<Longrightarrow> same_list q q'"
  by (auto simp: write_cdr_def Let_def ask_def same_list_def elim!: bind_SomeE split: if_splits)

lemma response_success_evolves:
  assumes "response_success L W j q = Some q'"
  shows "\<exists>k. evolves {j} {k} q q'"
proof -
  from assms obtain m ok m1 q2 q3 m3 where m: "deref j q = Some m" "parse L m = Some (ok, m1)"
    and q2: "(if sip_method_is ''REGISTER'' m1 then rerun_linked_sms W j (put_msg m1 q)
              else Some (put_msg m1 q)) = Some q2"
    and q3: "(if sip_method_is ''MESSAGE'' m1 then write_cdr W j q2 else Some q2) = Some q3"
    and out: "splice_out j q3 = Some (m3, q')"
    by (auto simp: response_success_def Let_def elim!: bind_SomeE)
  obtain k where "evolves {} {k} (put_msg m1 q) q2"
    using q2 rerun_linked_touches [of W j "put_msg m1 q" q2]
    by (cases "sip_method_is ''REGISTER'' m1") auto
  then have "evolves {} {k} q q2"
    by (rule grows_first [OF put_parse_grows [OF m]])
  moreover have "grows q2 q3"
    using q3 by (auto split: if_splits dest: write_cdr_list intro: same_list_grows)
  ultimately have "evolves {} {k} q q3" by (rule grows_last)
  from evolves_join [OF this splice_out_evolves [OF out, of "{}"]] show ?thesis by auto
qed

lemma response_reject_touches:
  "response_reject L W C j p q = Some q' \<Longrightarrow> evolves {} {j} q q'"
  by (auto simp: response_reject_def Let_def elim!: bind_SomeE
      dest!: bounce_message_grows smp_set_state_q_touches intro: grows_first)

lemma response_action_evolves:
  assumes "response_action L W C j p q = Some q'"
  shows "\<exists>k. evolves {j} {k} q q'"
proof -
  from assms consider "response_success L W j q = Some q'" | "evolves {} {j} q q'"
    by (auto simp: response_action_def Let_def split: if_splits
        dest: increase_acked_touches response_reject_touches smp_set_state_q_touches)
  then show ?thesis
    by cases (auto intro: response_success_evolves evolves_changes)
qed

lemma handle_response_evolves:
  assumes "handle_response L W C i q = Some q'"
  shows "\<exists>j k. evolves {i, j} {k} q q'" and "wf q \<Longrightarrow> i \<notin> mids q'"
proof -
  from assms obtain m q1 tag found where out: "splice_out i q = Some (m, q1)"
    and tag: "qtag m = Some tag"
    and f: "find_queued_msg_by_tag_hash tag (qtaghash m) q1 = Some found"
    by (auto simp: handle_response_def elim!: bind_SomeE)
  have "\<exists>j k. evolves {j} {k} q1 q'"
  proof (cases found)
    case None
    with assms out tag f show ?thesis by (auto simp: handle_response_def)
  next
    case (Some j)
    with assms out tag f obtain p where "response_action L W C j p q1 = Some q'"
      by (auto simp: handle_response_def elim!: bind_SomeE)
    then show ?thesis using response_action_evolves by blast
  qed
  then obtain j k where jk: "evolves {j} {k} q1 q'" by blast
  show "\<exists>j k. evolves {i, j} {k} q q'"
    using evolves_mono [OF evolves_join [OF splice_out_evolves [OF out, of "{}"] jk], of "{i, j}" "{k}"]
    by auto
  assume w: "wf q"
  then have i: "i < next_mid q" "i \<notin> mids q1" "next_mid q1 = next_mid q"
    using deref_mids [OF splice_out_SomeD(1) [OF out]] splice_out_mids [OF out]
      splice_out_SomeD(2) [OF out] by (auto simp: wf_def)
  have "mids q' \<subseteq> mids q1 \<union> {next_mid q1..<next_mid q'}"
    using jk splice_out_wf [OF out w] by (simp add: evolves_def)
  with i show "i \<notin> mids q'" by auto
qed

section \<open>The graph of the states\<close>

text \<open>
  What one step of the machine does to the message it runs on: the state it is in afterwards, or
  \<open>None\<close> when it has left the queue.  The states a message never stays in are left as those that
  ask for an address are: the lookup of the sender is done again.
\<close>

inductive sm_trans :: "sm_state \<Rightarrow> sm_state option \<Rightarrow> bool" where
  request: "s \<in> short_code_states \<Longrightarrow> sm_trans INITIAL_STATE (Some s)"
| response: "sm_trans INITIAL_STATE None"
| dropped: "s \<in> {NO_STATE, DELETE_ME_STATE} \<Longrightarrow> sm_trans s None"
| from_looked_up: "s \<in> {NO_STATE, REQUEST_DESTINATION_IMSI}
    \<Longrightarrow> sm_trans REQUEST_FROM_ADDRESS_LOOKUP (Some s)"
| imsi_looked_up: "s \<in> {NO_STATE, DELETE_ME_STATE, REQUEST_DESTINATION_SIPURL}
    \<Longrightarrow> sm_trans REQUEST_DESTINATION_IMSI (Some s)"
| url_looked_up: "s \<in> {NO_STATE, REQUEST_MSG_DELIVERY}
    \<Longrightarrow> sm_trans REQUEST_DESTINATION_SIPURL (Some s)"
| delivery: "s \<in> {REQUEST_MSG_DELIVERY, AWAITING_TRY_MSG_DELIVERY}
    \<Longrightarrow> s' \<in> {NO_STATE, DELETE_ME_STATE, REQUEST_MSG_DELIVERY, ASKED_FOR_MSG_DELIVERY}
    \<Longrightarrow> sm_trans s (Some s')"
| unanswered: "sm_trans ASKED_FOR_MSG_DELIVERY (Some AWAITING_TRY_MSG_DELIVERY)"
| not_ready: "sm_trans AWAITING_REGISTER_HANDSET (Some AWAITING_REGISTER_HANDSET)"
| registering: "s \<in> {AWAITING_REGISTER_HANDSET, REGISTER_HANDSET}
    \<Longrightarrow> s' \<in> {DELETE_ME_STATE, ASKED_TO_REGISTER_HANDSET} \<Longrightarrow> sm_trans s (Some s')"
| unregistered: "sm_trans ASKED_TO_REGISTER_HANDSET (Some AWAITING_REGISTER_HANDSET)"
| unexpected: "s \<in> {ASKED_FOR_FROM_ADDRESS_LOOKUP, AWAITING_TRY_DESTINATION_IMSI,
                     ASKED_FOR_DESTINATION_IMSI, AWAITING_TRY_DESTINATION_SIPURL,
                     ASKED_FOR_DESTINATION_SIPURL}
    \<Longrightarrow> s' \<in> {NO_STATE, REQUEST_DESTINATION_IMSI} \<Longrightarrow> sm_trans s (Some s')"

inductive_cases sm_trans_gone: "sm_trans s None"

inductive_simps sm_trans_delivery: "sm_trans s (Some ASKED_FOR_MSG_DELIVERY)"

section \<open>Steps of the machine\<close>

lemma evolves_mem: "evolves {} Y q q' \<Longrightarrow> wf q \<Longrightarrow> i \<in> mids q \<Longrightarrow> i \<in> mids q'"
  by (auto simp: evolves_def)

lemma evolves_wf: "evolves X Y q q' \<Longrightarrow> wf q \<Longrightarrow> wf q'"
  by (simp add: evolves_def)

text \<open>What the steps guarantee: the message they run on, and everything else.\<close>

definition step_ok :: "nat \<Rightarrow> sm_state \<Rightarrow> smq \<Rightarrow> smq \<Rightarrow> bool" where
  "step_ok i s q q' \<longleftrightarrow> sm_trans s (map_option state (deref i q'))"

lemma set_state_state:
  assumes "set_state W i s q = Some q'" and "wf q"
  shows "map_option state (deref i q') = Some s"
  using set_state_props(5) [OF assms] by auto

lemma step_initial_cases:
  assumes "step_initial L W C i q = Some q'"
  obtains (resp) "handle_response L W C i q = Some q'"
    | (req) s q1 j where "set_state W i s q1 = Some q'" "s \<in> short_code_states"
        "evolves {j} {i} q q1"
proof -
  from assms consider "handle_response L W C i q = Some q'" | "set_state W i NO_STATE q = Some q'"
    | r q1 where "handle_short_code L W C i q = Some (r, q1)"
      "set_state W i (case r of Some s \<Rightarrow> s | None \<Rightarrow> REQUEST_FROM_ADDRESS_LOOKUP) q1 = Some q'"
    by (auto simp: step_initial_def elim!: bind_SomeE split: if_split_asm)
  then show thesis
  proof cases
    case 1
    then show ?thesis by (rule resp)
  next
    case 2
    then show ?thesis by (rule req) (auto simp: short_code_states_def)
  next
    case 3
    obtain j where "evolves {j} {i} q q1" using handle_short_code_evolves(1) [OF 3(1)] by blast
    then show ?thesis
    proof (rule req [OF 3(2), rotated])
      show "(case r of Some s \<Rightarrow> s | None \<Rightarrow> REQUEST_FROM_ADDRESS_LOOKUP) \<in> short_code_states"
        using handle_short_code_evolves(2) [OF 3(1)]
        by (auto simp: short_code_states_def split: option.splits)
    qed
  qed
qed

lemma step_initial_evolves:
  assumes "step_initial L W C i q = Some q'"
  shows "\<exists>j k. evolves {i, j} {i, k} q q'"
    and "wf q \<Longrightarrow> step_ok i INITIAL_STATE q q'"
proof -
  from assms have "(\<exists>j k. evolves {i, j} {i, k} q q') \<and> (wf q \<longrightarrow> step_ok i INITIAL_STATE q q')"
  proof (cases rule: step_initial_cases)
    case resp
    obtain j k where "evolves {i, j} {k} q q'"
      using handle_response_evolves(1) [OF resp] by blast
    then have "evolves {i, j} {i, k} q q'" by (rule evolves_mono) auto
    moreover have "step_ok i INITIAL_STATE q q'" if "wf q"
      using handle_response_evolves(2) [OF resp that]
      by (auto simp: step_ok_def deref_None_iff [symmetric] intro: sm_trans.response)
    ultimately show ?thesis by blast
  next
    case (req s q1 j)
    have "evolves {i, j} {i, i} q q'"
      using evolves_join [OF req(3) set_state_touches [OF req(1)]] by (rule evolves_mono) auto
    moreover have "step_ok i INITIAL_STATE q q'" if "wf q"
      using set_state_state [OF req(1) evolves_wf [OF req(3) that]] req(2)
      by (auto simp: step_ok_def sm_trans.request)
    ultimately show ?thesis by blast
  qed
  then show "\<exists>j k. evolves {i, j} {i, k} q q'" and "wf q \<Longrightarrow> step_ok i INITIAL_STATE q q'"
    by auto
qed

lemma step_delete_evolves:
  assumes "step_delete i q = Some q'"
  shows "evolves {i} {} q q'" and "deref i q' = None"
proof -
  from assms obtain m where "splice_out i q = Some (m, q')"
    by (auto simp: step_delete_def elim!: bind_SomeE)
  then show "evolves {i} {} q q'" and "deref i q' = None"
    by (auto simp: deref_None_iff splice_out_mids intro: splice_out_evolves)
qed

lemma step_no_state_evolves:
  assumes "step_no_state L i q = Some q'"
  shows "evolves {i} {} q q'" and "deref i q' = None"
proof -
  from assms obtain m m1 where m: "deref i q = Some m" "make_text_valid L m = Some m1"
    and d: "step_delete i (put_msg m1 q) = Some q'"
    by (auto simp: step_no_state_def elim!: bind_SomeE)
  from grows_first [OF put_same_grows [OF m(1) make_text_valid_same [OF m(2)]]
      step_delete_evolves(1) [OF d]]
  show "evolves {i} {} q q'" .
  show "deref i q' = None" by (rule step_delete_evolves(2) [OF d])
qed

lemma rate_limit_list: "rate_limit W C q = (b, q') \<Longrightarrow> same_list q q'"
  by (auto simp: rate_limit_def Let_def ask_def same_list_def split: if_splits)

lemma step_delivery_evolves:
  assumes "step_delivery L W C i q = Some q'"
  shows "evolves {} {i} q q'"
    and "wf q \<Longrightarrow> deref i q = Some m0 \<Longrightarrow> state m0 = REQUEST_MSG_DELIVERY
           \<Longrightarrow> \<exists>m. deref i q' = Some m \<and>
                 state m \<in> {NO_STATE, DELETE_ME_STATE, REQUEST_MSG_DELIVERY, ASKED_FOR_MSG_DELIVERY}"
proof -
  from assms obtain m ok m1 q1 where m: "deref i q = Some m"
    and pack: "pack_sms_for_delivery L W C (m\<lparr>retries := retries m + 1\<rparr>) q = Some (ok, m1, q1)"
    by (auto simp: step_delivery_def Let_def elim!: bind_SomeE)
  let ?q = "put_msg m1 q1"
  have m1: "mid m1 = i" "state m1 = state m" "next_action_time m1 = next_action_time m"
    using pack_sms_same(1) [OF pack] deref_SomeD(2) [OF m] by (simp_all add: same_pend_def)
  have "same_object m m1"
    using same_pend_object [OF pack_sms_same(1) [OF pack]] by (simp add: same_object_def)
  then have g: "evolves {} {i} q ?q"
    by (rule change_touches [OF m _ pack_sms_same(2) [OF pack]])
  have d: "deref i ?q = Some m1"
    using m m1(1) same_list_deref [OF pack_sms_same(2) [OF pack]] by (simp add: deref_put_same)
  from assms m pack consider s q2 where "same_msgs ?q q2" "set_state W i s q2 = Some q'"
      "s \<in> {NO_STATE, DELETE_ME_STATE, ASKED_FOR_MSG_DELIVERY}"
    | t q2 where "same_list ?q q2" "q' = put_msg (m1\<lparr>next_action_time := t\<rparr>) q2"
    by (auto simp: step_delivery_def Let_def elim!: bind_SomeE split: if_split_asm prod.splits
        dest!: rate_limit_list deliver_msg_datagram_msgs intro: same_msgs_refl
          same_msgs_trans [OF same_list_msgs])
  then have "evolves {} {i} q q' \<and> (wf q \<and> state m = REQUEST_MSG_DELIVERY \<longrightarrow>
      (\<exists>m. deref i q' = Some m \<and>
         state m \<in> {NO_STATE, DELETE_ME_STATE, REQUEST_MSG_DELIVERY, ASKED_FOR_MSG_DELIVERY}))"
  proof cases
    case 1
    have g2: "evolves {} {i} q q2" by (rule grows_last [OF g same_msgs_grows [OF 1(1)]])
    then have "evolves {} {i} q q'" using set_state_touches [OF 1(2)] by (rule evolves_trans)
    moreover have "\<exists>m. deref i q' = Some m \<and> state m = s" if "wf q"
      using set_state_state [OF 1(2) evolves_wf [OF g2 that]] by auto
    ultimately show ?thesis using 1(3) by auto
  next
    case 2
    have g2: "evolves {} {i} q q2" by (rule grows_last [OF g same_list_grows [OF 2(1)]])
    moreover have "deref i q2 = Some m1" using d same_list_deref [OF 2(1)] by simp
    then have "evolves {} {i} q2 q'"
      unfolding 2(2) by (rule change_touches) (simp_all add: same_object_def)
    ultimately have "evolves {} {i} q q'" by (rule evolves_trans)
    moreover have "deref i q' = Some (m1\<lparr>next_action_time := t\<rparr>)"
      using d same_list_deref [OF 2(1)] m1(1) by (simp add: 2(2) deref_put_same)
    ultimately show ?thesis using m1(2) by auto
  qed
  then show "evolves {} {i} q q'"
    and "wf q \<Longrightarrow> deref i q = Some m0 \<Longrightarrow> state m0 = REQUEST_MSG_DELIVERY
           \<Longrightarrow> \<exists>m. deref i q' = Some m \<and>
                 state m \<in> {NO_STATE, DELETE_ME_STATE, REQUEST_MSG_DELIVERY, ASKED_FOR_MSG_DELIVERY}"
    using m by auto
qed

lemma step_register_evolves:
  assumes "step_register L W C i q = Some q'"
  shows "evolves {} {i} q q'"
    and "wf q \<Longrightarrow> \<exists>m. deref i q' = Some m \<and> state m \<in> {DELETE_ME_STATE, ASKED_TO_REGISTER_HANDSET}"
  using assms unfolding step_register_def
  by (rule register_handler.step_touches register_handler.step_outcome; assumption?)+

lemma step_lookup_from_evolves:
  assumes "step_lookup_from L W i q = Some q'"
  shows "evolves {} {i} q q'"
    and "wf q \<Longrightarrow> \<exists>m. deref i q' = Some m \<and> state m \<in> {NO_STATE, REQUEST_DESTINATION_IMSI}"
  using assms unfolding step_lookup_from_def
  by (rule from_handler.step_touches from_handler.step_outcome; assumption?)+

lemma step_await_register_evolves:
  assumes "step_await_register L W C i q = Some q'"
  shows "evolves {} {i} q q'"
    and "wf q \<Longrightarrow> \<exists>m. deref i q' = Some m
           \<and> state m \<in> {AWAITING_REGISTER_HANDSET, DELETE_ME_STATE, ASKED_TO_REGISTER_HANDSET}"
proof -
  from assms obtain b q1 where r: "ready_to_register L W i q = Some (b, q1)"
    by (auto simp: step_await_register_def elim!: bind_SomeE)
  note g = same_msgs_grows [OF ready_to_register_msgs [OF r]]
  have "evolves {} {i} q q' \<and> (wf q \<longrightarrow> (\<exists>m. deref i q' = Some m
           \<and> state m \<in> {AWAITING_REGISTER_HANDSET, DELETE_ME_STATE, ASKED_TO_REGISTER_HANDSET}))"
  proof (cases b)
    case False
    with assms r have st: "set_state W i AWAITING_REGISTER_HANDSET q1 = Some q'"
      by (simp add: step_await_register_def)
    show ?thesis
      using grows_first [OF g set_state_touches [OF st]] set_state_state [OF st evolves_wf [OF g]]
      by auto
  next
    case True
    with assms r obtain q2 where st: "set_state W i REGISTER_HANDSET q1 = Some q2"
      and reg: "step_register L W C i q2 = Some q'"
      by (auto simp: step_await_register_def elim!: bind_SomeE)
    have g2: "evolves {} {i} q q2" by (rule grows_first [OF g set_state_touches [OF st]])
    show ?thesis
      using evolves_trans [OF g2 step_register_evolves(1) [OF reg]]
        step_register_evolves(2) [OF reg evolves_wf [OF g2]] by auto
  qed
  then show "evolves {} {i} q q'"
    and "wf q \<Longrightarrow> \<exists>m. deref i q' = Some m
           \<and> state m \<in> {AWAITING_REGISTER_HANDSET, DELETE_ME_STATE, ASKED_TO_REGISTER_HANDSET}"
    by auto
qed

text \<open>The states whose handler leaves the message and every other one in the queue.\<close>

definition keeps_state :: "sm_state \<Rightarrow> bool" where
  "keeps_state s \<longleftrightarrow> s \<notin> {INITIAL_STATE, NO_STATE, DELETE_ME_STATE}"

lemma retry_delivery_evolves:
  assumes "do { q \<leftarrow> set_state W i REQUEST_MSG_DELIVERY q; step_delivery L W C i q } = Some q'"
  shows "evolves {} {i} q q'"
    and "wf q \<Longrightarrow> \<exists>m. deref i q' = Some m
           \<and> state m \<in> {NO_STATE, DELETE_ME_STATE, REQUEST_MSG_DELIVERY, ASKED_FOR_MSG_DELIVERY}"
proof -
  from assms obtain q1 where st: "set_state W i REQUEST_MSG_DELIVERY q = Some q1"
    and d: "step_delivery L W C i q1 = Some q'"
    by (auto elim!: bind_SomeE)
  show "evolves {} {i} q q'"
    using set_state_touches [OF st] step_delivery_evolves(1) [OF d] by (rule evolves_trans)
  assume w: "wf q"
  with set_state_state [OF st w] evolves_wf [OF set_state_touches [OF st] w]
  show "\<exists>m. deref i q' = Some m
           \<and> state m \<in> {NO_STATE, DELETE_ME_STATE, REQUEST_MSG_DELIVERY, ASKED_FOR_MSG_DELIVERY}"
    using step_delivery_evolves(2) [OF d] by auto
qed

lemma unexpected_evolves:
  assumes "do { q \<leftarrow> set_state W i INITIAL_STATE q; step_lookup_from L W i q } = Some q'"
  shows "evolves {} {i} q q'"
    and "wf q \<Longrightarrow> \<exists>m. deref i q' = Some m \<and> state m \<in> {NO_STATE, REQUEST_DESTINATION_IMSI}"
proof -
  from assms obtain q1 where st: "set_state W i INITIAL_STATE q = Some q1"
    and d: "step_lookup_from L W i q1 = Some q'"
    by (auto elim!: bind_SomeE)
  show "evolves {} {i} q q'"
    using set_state_touches [OF st] step_lookup_from_evolves(1) [OF d] by (rule evolves_trans)
  show "wf q \<Longrightarrow> \<exists>m. deref i q' = Some m \<and> state m \<in> {NO_STATE, REQUEST_DESTINATION_IMSI}"
    using step_lookup_from_evolves(2) [OF d] evolves_wf [OF set_state_touches [OF st]] by blast
qed

lemma dispatch_keeps:
  assumes "dispatch L W C i s q = Some q'" and "keeps_state s"
  shows "evolves {} {i} q q'"
  using assms
  by (cases s)
    (auto simp: dispatch_def keeps_state_def
      dest: step_lookup_from_evolves(1) imsi_handler.step_touches hostport_handler.step_touches
        retry_delivery_evolves(1) step_delivery_evolves(1) set_state_touches
        step_await_register_evolves(1) step_register_evolves(1) unexpected_evolves(1))

lemma dispatch_evolves:
  assumes "dispatch L W C i s q = Some q'"
  shows "\<exists>j k. evolves {i, j} {i, k} q q'"
proof (cases "keeps_state s")
  case True
  with dispatch_keeps [OF assms] show ?thesis
    by (auto intro: evolves_mono)
next
  case False
  with assms consider "step_initial L W C i q = Some q'" | "evolves {i} {} q q'"
    by (auto simp: keeps_state_def dispatch_def
        dest!: step_no_state_evolves(1) step_delete_evolves(1))
  then show ?thesis
    by cases (auto dest: step_initial_evolves(1) intro: evolves_mono)
qed

lemma dispatch_follows:
  assumes "dispatch L W C i s q = Some q'" and "wf q" and "deref i q = Some m" and "state m = s"
  shows "sm_trans s (map_option state (deref i q'))"
proof (cases s)
  case INITIAL_STATE
  with assms show ?thesis
    by (auto simp: dispatch_def dest: step_initial_evolves(2) simp: step_ok_def)
next
  case NO_STATE
  with assms show ?thesis
    by (auto simp: dispatch_def dest!: step_no_state_evolves(2) intro: sm_trans.intros)
next
  case DELETE_ME_STATE
  with assms show ?thesis
    by (auto simp: dispatch_def dest!: step_delete_evolves(2) intro: sm_trans.intros)
next
  case REQUEST_MSG_DELIVERY
  with assms have "step_delivery L W C i q = Some q'" by (simp add: dispatch_def)
  from step_delivery_evolves(2) [OF this assms(2,3)] assms(4) REQUEST_MSG_DELIVERY
  show ?thesis by (auto intro: sm_trans.intros)
qed (use assms in \<open>auto simp: dispatch_def
      dest!: step_lookup_from_evolves(2) imsi_handler.step_outcome hostport_handler.step_outcome
        retry_delivery_evolves(2) set_state_state step_await_register_evolves(2)
        step_register_evolves(2) unexpected_evolves(2)
      intro: sm_trans.intros\<close>)

section \<open>The threads\<close>

lemma process_timeout_cases:
  assumes "process_timeout L W C q = Some q'"
  obtains (idle) "q' = q\<lparr>tick := tick q + 1\<rparr>"
    | (work) m ms where "time_sorted_list q = m # ms" "next_action_time m \<le> clock W q"
        "dispatch L W C (mid m) (state m) (q\<lparr>tick := tick q + 1\<rparr>) = Some q'"
  using assms by (auto simp: process_timeout_def msgettime_eq split: list.splits if_split_asm)

lemma tick_grows: "grows q (q\<lparr>tick := t\<rparr>)"
  by (rule same_list_grows) (simp add: same_list_def)

lemma grows_bounded: "grows q q' \<Longrightarrow> \<exists>i j k. evolves {i, j} {i, k} q q'"
  by (blast intro: grows_evolves)

text \<open>A step removes at most two messages and reschedules at most two.\<close>

lemma process_timeout_evolves:
  assumes "process_timeout L W C q = Some q'"
  shows "\<exists>i j k. evolves {i, j} {i, k} q q'"
  using assms
proof (cases rule: process_timeout_cases)
  case idle
  then show ?thesis by (simp only: grows_bounded tick_grows)
next
  case (work m ms)
  from dispatch_evolves [OF work(3)] show ?thesis
    by (blast intro: grows_first [OF tick_grows])
qed

lemma get_next_dgram_q: "same_list q (q\<lparr>my_network := net, tick := t\<rparr>)"
  by (simp add: same_list_def)

lemma received_message_made:
  assumes "received_message b len q = Some (m, q')"
  shows "made_new q m q'"
proof -
  obtain m0 q0 where n: "new_message q = (m0, q0)" by force
  from assms n obtain m1 where i: "initialize len (Some b) False m0 = Some m1"
    and m: "same_object m1 m" and "q' = q0"
    by (auto simp: received_message_def same_object_def Let_def elim!: bind_SomeE)
  then show ?thesis
    using made_new_trans [OF new_message_made [OF n] same_msgs_refl
        same_object_trans [OF same_pend_object [OF initialize_same [OF i]] m]] by simp
qed

lemma main_loop_grows:
  assumes "main_loop L W C ms q = Some q'"
  shows "grows q q'"
proof -
  from assms obtain len buf net t where
    g: "get_next_dgram (w_net W) (tick q) sizeof_buffer ms (my_network q) = Some (len, buf, net, t)"
    by (auto simp: main_loop_def elim!: bind_SomeE)
  let ?q = "q\<lparr>my_network := net, tick := t\<rparr>"
  note first = grows_first [OF same_list_grows [OF get_next_dgram_q [of q t net]]]
  show ?thesis
  proof (cases "len \<le> 0")
    case True
    with assms g show ?thesis
      by (auto simp: main_loop_def intro: same_list_grows get_next_dgram_q)
  next
    case False
    with assms g obtain m q1 e m2 q2 where r: "received_message buf len ?q = Some (m, q1)"
      and v: "validate_short_msg L W C True m q1 = Some (e, m2, q2)"
      and fin: "(e = 0 \<and> (\<exists>q3. insert_new_message L W m2 q2 = Some q3
                   \<and> q' = queue_respond_sip_ack 202 (mid m2) (srcaddrlen m2) q3))
                \<or> q' = queue_respond_sip_ack e (mid m2) (srcaddrlen m2) q2"
      by (auto simp: main_loop_def elim!: bind_SomeE split: if_split_asm)
    have made: "made_new ?q m2 q2"
      using received_message_made [OF r] same_list_msgs [OF validate_same(2) [OF v]]
        same_pend_object [OF validate_same(1) [OF v]] by (rule made_new_trans)
    have ack: "grows x (queue_respond_sip_ack c j n x)" for c j n x
      by (simp add: queue_respond_sip_ack_def same_list_grows)
    have "grows ?q q'"
      using fin made_new_grows [OF made]
      by (auto simp: insert_new_message_def intro: grows_last [OF _ ack] dest!: made_new_insert_grows [OF made])
    then show ?thesis by (rule first)
  qed
qed

lemma respond_sip_ack_msgs:
  assumes "respond_sip_ack L W e i n q = Some q'"
  shows "same_msgs q q'"
proof -
  from assms obtain m ok m1 where m: "deref i q = Some m" and p: "parse L m = Some (ok, m1)"
    and "same_list (put_msg m1 q) q'"
    by (auto simp: respond_sip_ack_def Let_def same_list_def elim!: bind_SomeE split: if_split_asm
        prod.splits)
  then show ?thesis using put_then_msgs [OF m parse_same [OF p]] by simp
qed

lemma ProcessMessage_evolves:
  "ProcessMessage L W C msg q = Some q' \<Longrightarrow> \<exists>i j k. evolves {i, j} {i, k} q q'"
  by (auto simp: ProcessMessage_def split: queued_msg.splits
      dest!: process_timeout_evolves respond_sip_ack_msgs intro: grows_bounded same_msgs_grows)

lemma InitInside_list: "same_list q (InitInsideReaderLoop C q)"
  by (simp add: InitInsideReaderLoop_def Let_def same_list_def set_global_relay_def)

lemma writer_timeout_evolves:
  assumes "writer_timeout L W C now last_run q = Some (r, q')"
  shows "\<exists>i j k. evolves {i, j} {i, k} q q'"
proof -
  from assms obtain q1 where p: "process_timeout L W C q = Some q1"
    and "q' = q1 \<or> same_msgs (InitInsideReaderLoop C q1) q'"
    by (auto simp: writer_timeout_def Let_def elim!: bind_SomeE split: if_split_asm
        dest!: save_queue_msgs)
  then have "grows q1 q'"
    by (auto intro: grows_first [OF same_list_grows [OF InitInside_list]] same_msgs_grows)
  with process_timeout_evolves [OF p] show ?thesis by (blast intro: grows_last)
qed

lemma daemon_step_evolves:
  assumes "daemon_step L W C q q'"
  shows "\<exists>i j k. evolves {i, j} {i, k} q q'"
  using assms
proof cases
  case reader
  from main_loop_grows [OF reader(2)] show ?thesis by (rule grows_bounded)
next
  case writer_msg
  then obtain msg rest where p: "ProcessMessage L W C msg (q\<lparr>writer_queue := rest\<rparr>) = Some q'"
    by (auto simp: writer_step_def split: list.splits)
  have "grows q (q\<lparr>writer_queue := rest\<rparr>)"
    by (rule same_list_grows) (simp add: same_list_def)
  with ProcessMessage_evolves [OF p] show ?thesis by (blast intro: grows_first)
next
  case (writer_idle now last_run r)
  from writer_timeout_evolves [OF writer_idle(2)] show ?thesis .
qed

lemma reachable_evolves:
  assumes "reachable L W C q q'"
  shows "evolves UNIV UNIV q q'"
  using assms
proof induction
  case refl
  show ?case by simp
next
  case (step q q' q'')
  from daemon_step_evolves [OF step(2)] have "evolves UNIV UNIV q' q''"
    by (blast intro: evolves_mono)
  with step(3) show ?case by (rule evolves_trans)
qed

end
