(* ===== verification/Smq_Example.thy ===== *)
theory Smq_Example
  imports Smq_Steps
begin

text \<open>
  A concrete instance of the parameters of the model, on which its definitions are evaluated: a
  library that reads two kinds of datagrams, a world with one subscriber, a configuration, and
  queues with one or two messages.
\<close>

definition uri1 :: "string \<Rightarrow> osip_uri" where
  "uri1 user = \<lparr>u_scheme = Some ''sip'', u_username = Some user, u_host = Some ''10.0.0.1'',
                u_port = Some ''5062''\<rparr>"

definition addr1 :: "string \<Rightarrow> name_addr" where
  "addr1 user = \<lparr>displayname = None, na_url = Some (uri1 user),
                 gen_params = [Some \<lparr>gname = ''tag'', gvalue = Some ''abc''\<rparr>]\<rparr>"

text \<open>A text message from the subscriber, and the answer to it.\<close>

definition sip_request :: osip_message where
  "sip_request =
     \<lparr>p_sip_version = Some ''SIP/2.0'', p_req_uri = Some (uri1 ''17074700741''),
      p_sip_method = Some ''MESSAGE'', p_status_code = 0, p_reason_phrase = None,
      p_call_id = Some \<lparr>ci_number = Some ''77'', ci_host = Some ''10.0.0.1''\<rparr>,
      p_content_length = Some (Some ''2''),
      p_content_type = Some \<lparr>ct_type = Some ''text'', ct_subtype = Some ''plain''\<rparr>,
      p_cseq = Some \<lparr>cs_number = Some ''1'', cs_method = Some ''MESSAGE''\<rparr>,
      p_from = Some (addr1 ''IMSI001010000000001''), p_to = Some (addr1 ''17074700741''),
      p_mime_version = None, p_vias = [], p_bodies = [Some \<lparr>body = Some ''hi''\<rparr>], p_rest = []\<rparr>"

definition sip_response :: "int \<Rightarrow> osip_message" where
  "sip_response code =
     sip_request\<lparr>p_req_uri := None, p_sip_method := None, p_status_code := code,
                 p_reason_phrase := Some ''reason'', p_content_length := None,
                 p_content_type := None, p_bodies := []\<rparr>"

text \<open>
  Bit vectors as lists, most significant bit first; an access outside the vector aborts.
\<close>

definition bits_val :: "bits \<Rightarrow> nat" where
  "bits_val bs = foldl (\<lambda>v b. 2 * v + (if b then 1 else 0)) 0 bs"

definition val_bits :: "nat \<Rightarrow> nat \<Rightarrow> bits" where
  "val_bits n v = map (\<lambda>i. odd (v div 2 ^ i)) (rev [0..<n])"

definition segment :: "bits \<Rightarrow> nat \<Rightarrow> nat \<Rightarrow> bits option" where
  "segment b i n = (if i + n \<le> length b then Some (take n (drop i b)) else None)"

definition overwrite :: "bits \<Rightarrow> nat \<Rightarrow> bits \<Rightarrow> bits option" where
  "overwrite b i x =
     (if i + length x \<le> length b then Some (take i b @ x @ drop (i + length x) b) else None)"

fun reverse_octets :: "bits \<Rightarrow> bits" where
  "reverse_octets (a # b # c # d # e # f # g # h # r) = h # g # f # e # d # c # b # a # reverse_octets r"
| "reverse_octets r = r"

fun pack_octets :: "bits \<Rightarrow> string" where
  "pack_octets (a # b # c # d # e # f # g # h # r) =
     char_of (bits_val [a, b, c, d, e, f, g, h]) # pack_octets r"
| "pack_octets r = []"

definition list_bits :: bit_ops where
  "list_bits =
     \<lparr>peekField = \<lambda>b i n. map_option bits_val (segment b i n),
      fillField = \<lambda>b i v n. overwrite b i (val_bits n v),
      peekFieldReversed = \<lambda>b i n. map_option (bits_val \<circ> rev) (segment b i n),
      fillFieldReversed = \<lambda>b i v n. overwrite b i (rev (val_bits n v)),
      getBit = \<lambda>b i. (if i < length b then Some (b ! i) else None),
      setBit = \<lambda>b i v. overwrite b i [v],
      fillBits = \<lambda>b v i n. overwrite b i (replicate n v),
      newBits = \<lambda>n. replicate n False,
      resizeBits = \<lambda>b n. replicate n False,
      segmentCopyTo = \<lambda>a b i n. segment a i n,
      copyToSegment = \<lambda>a b i n. overwrite b i (take n a),
      copyTo = \<lambda>a b. overwrite b 0 a,
      LSB8MSB = reverse_octets,
      unpackBytes = \<lambda>b s. concat (map (\<lambda>c. val_bits 8 (of_char c)) s),
      packBytes = pack_octets\<rparr>"

definition time1 :: time_ops where
  "time1 =
     (let epoch = \<lparr>tm_year = 70, tm_mon = 0, tm_mday = 1, tm_hour = 0, tm_min = 0, tm_sec = 0,
                   tm_gmtoff = 0\<rparr>
      in \<lparr>timeval_sec = \<lambda>t. 0, localtime_r = \<lambda>t. epoch, gmtime_r = \<lambda>t. epoch, timegm = \<lambda>t. 0\<rparr>)"

text \<open>
  Datagrams that begin with R are answers with the code 200, those that begin with N answers with
  the code 404; every other one is the request.  Setters leave the message as it is.
\<close>

definition lib1 :: lib_ops where
  "lib1 =
     \<lparr>osip_init_ok = True, osip_message_init = Some sip_request,
      osip_message_parse = \<lambda>s n. (case s of
          Some (c # _) \<Rightarrow> Some (if c = CHR ''R'' then sip_response 200
                               else if c = CHR ''N'' then sip_response 404 else sip_request)
        | _ \<Rightarrow> None),
      osip_message_to_str = \<lambda>p. Some (if p_status_code p = 0 then ''MESSAGE'' else ''RESPONSE''),
      MSG_IS_REQUEST = \<lambda>p. p_status_code p = 0, MSG_IS_RESPONSE = \<lambda>p. p_status_code p \<noteq> 0,
      osip_uri_parse = \<lambda>u s. uri1 ''17074700741'',
      osip_call_id_parse = \<lambda>c s. c\<lparr>ci_number := Some s\<rparr>,
      osip_call_id_to_str = ci_number,
      osip_set_cseq = \<lambda>p s. p, osip_set_from = \<lambda>p s. p, osip_set_to = \<lambda>p s. p,
      osip_set_contact = \<lambda>p s. p, osip_set_content_type = \<lambda>p s. p, osip_set_body = \<lambda>p s. p,
      osip_append_via = \<lambda>p s. p, osip_set_allow = \<lambda>p s. p, osip_set_accept = \<lambda>p s. p,
      bit_lib = list_bits, time_lib = time1, decodeToString = \<lambda>d n e. take n d,
      encodeToString = \<lambda>d n e. take n d\<rparr>"

definition net1 :: net_world where
  "net1 =
     \<lparr>getaddrinfo = \<lambda>t h p. Some [\<lparr>ai_family = 2, ai_socktype = SOCK_DGRAM, ai_protocol = 17,
                                   ai_addr = ''peer'', ai_addrlen = 4\<rparr>],
      sendto = \<lambda>t f s a. int (length s), poll_rc = \<lambda>t fds ms. (1, map (\<lambda>x. x\<lparr>revents := POLLIN\<rparr>) fds),
      recvfrom = \<lambda>t f. (7, ''MESSAGE'', ''peer''), sys_socket = \<lambda>t a b c. 3, sys_bind = \<lambda>t f a. 0,
      getsockname = \<lambda>t f. ''me'', getnameinfo = \<lambda>t a n. Some (''10.0.0.9'', ''5062''),
      inet_ntop = \<lambda>t a. Some ''10.0.0.9'', open_urandom = \<lambda>t. 4, read_urandom = \<lambda>t. Some 4711\<rparr>"

text \<open>The clock stands at 10 seconds; one number and one IMSI are known.\<close>

definition world1 :: world where
  "world1 =
     \<lparr>w_net = net1, w_clock = \<lambda>t. (10, 0), w_time = \<lambda>t. 10, w_ctime = \<lambda>t. ''Thu Jan  1 00:00:10 1970'',
      getIMSI2 = \<lambda>t n. (if n = Some ''17074700741'' then Some ''IMSI001010000000002'' else None),
      getCLIDLocal = \<lambda>t n. (if n = Some ''IMSI001010000000001'' then Some ''5551'' else None),
      getRegistrationIP = \<lambda>t n. Some ''10.0.0.7:5063'', mapCLIDGlobal = \<lambda>t n. None,
      addUser = \<lambda>t i n. HLR_SUCCESS, w_elapsed = \<lambda>t0 t. 100000, w_random = \<lambda>t. 5,
      email_match = \<lambda>s. False, w_popen = \<lambda>t c. True, w_pclose = \<lambda>t. 0, w_fopen = \<lambda>t f. True,
      w_readfile = \<lambda>t f. None\<rparr>"

definition config1 :: config where
  "config1 =
     \<lparr>getStr = \<lambda>k. (if k = ''Bounce.Code'' then ''101'' else if k = ''SIP.Default.BTSPort'' then ''5062''
                  else []),
      getNum = \<lambda>k. (if k = ''SMS.MaxRetries'' then 2 else if k = ''SIP.Timeout.ACKedMessageResend'' then 30
                  else 0),
      getBool = \<lambda>k. False, defines_key = \<lambda>k. k = ''SIP.Timeout.ACKedMessageResend''\<rparr>"

definition msg1 :: "nat \<Rightarrow> sm_state \<Rightarrow> int \<Rightarrow> short_msg_pending" where
  "msg1 i s t =
     (short_msg_pending0 i)\<lparr>text_length := 7, msg_text := Some ''MESSAGE'', parsed_is_valid := True,
        parsed := Some sip_request, content_type := TEXT_PLAIN, state := s, next_action_time := t,
        qtag := Some ''1--abc'', qtaghash := taghash_of ''1--abc'', srcaddr := ''peer'',
        srcaddrlen := 4\<rparr>"

definition resp1 :: "nat \<Rightarrow> int \<Rightarrow> int \<Rightarrow> short_msg_pending" where
  "resp1 i code t =
     (msg1 i INITIAL_STATE t)\<lparr>msg_text := Some ''RESPONSE'', text_length := 8,
        parsed := Some (sip_response code), content_type := UNSUPPORTED_CONTENT\<rparr>"

definition queue1 :: "short_msg_pending list \<Rightarrow> smq" where
  "queue1 ms = SMq0\<lparr>time_sorted_list := ms, next_mid := 10, my_ipaddress := ''10.0.0.1'',
                    my_udp_port := ''5063'',
                    my_network := SMnet0\<lparr>sockets := [\<lparr>fd = 3, pevents = POLLIN, revents = 0\<rparr>],
                      sockinfo := [\<lparr>addrfam = 2, socktype = SOCK_DGRAM, protofam = 17, saddr = ''me'',
                                    addrlen = 4\<rparr>], allocsockets := 10\<rparr>\<rparr>"

text \<open>A call that evaluates to a result.\<close>

lemma defined_the: "\<not> Option.is_none x \<Longrightarrow> x = Some (the x)"
  by (cases x) simp_all

lemma defined_3:
  "\<not> Option.is_none x \<Longrightarrow> x = Some (fst (the x), fst (snd (the x)), snd (snd (the x)))"
  by (cases x) simp_all

lemma defined_4:
  "\<not> Option.is_none x
     \<Longrightarrow> x = Some (fst (the x), fst (snd (the x)), fst (snd (snd (the x))), snd (snd (snd (the x))))"
  by (cases x) simp_all

lemma defined_2: "\<not> Option.is_none x \<Longrightarrow> x = Some (fst (the x), snd (the x))"
  by (cases x) simp_all

lemma msg1_fields [simp]:
  "mid (msg1 i s t) = i" "state (msg1 i s t) = s" "next_action_time (msg1 i s t) = t"
  "parsed (msg1 i s t) = Some sip_request" "parsed_is_valid (msg1 i s t)"
  "content_type (msg1 i s t) = TEXT_PLAIN" "qtag (msg1 i s t) = Some ''1--abc''"
  "qtaghash (msg1 i s t) = 49"
  by (simp_all add: msg1_def short_msg_pending0_def short_msg_pending.defs short_msg.defs
      short_msg0_def taghash_of_def code_of_def)

lemma resp1_fields [simp]:
  "mid (resp1 i c t) = i" "state (resp1 i c t) = INITIAL_STATE" "next_action_time (resp1 i c t) = t"
  "parsed (resp1 i c t) = Some (sip_response c)" "qtag (resp1 i c t) = Some ''1--abc''"
  "qtaghash (resp1 i c t) = 49"
  by (simp_all add: resp1_def)

lemma sip_fields [simp]:
  "p_status_code (sip_response c) = c" "p_status_code sip_request = 0"
  "from_username sip_request = Some (Some ''IMSI001010000000001'')"
  "to_username sip_request = Some (Some ''17074700741'')"
  by (simp_all add: sip_response_def sip_request_def from_username_def to_username_def addr1_def
      uri1_def)

lemma queue1_fields [simp]:
  "time_sorted_list (queue1 ms) = ms" "next_mid (queue1 ms) = 10" "tick (queue1 ms) = 0"
  "timeouts (queue1 ms) = timeouts_table" "saved_files (queue1 ms) = []"
  by (simp_all add: queue1_def SMq0_def)

lemma deref_queue1 [simp]:
  "deref i (queue1 []) = None"
  "deref i (queue1 (m # ms)) = (if mid m = i then Some m else deref i (queue1 ms))"
  by (simp_all add: deref_def)

lemma clock1 [simp]: "clock world1 q = 10000"
  by (simp add: clock_def world1_def ms_of_timespec_def)

end
