(* ===== verification/Queue_Properties.thy ===== *)
theory Queue_Properties
  imports Smq_Example
begin

text \<open>
  What the operations of the queue promise: where \<open>set_state\<close> puts a message, and which message
  the search by tag finds.
\<close>

text \<open>
  C20: \<open>SMq::set_state\<close> gives the message the new state and the current time plus the timeout of
  the transition, puts it where the order of times asks for it, leaves every other message
  untouched (the lists differ, as multisets, in that message only), and keeps an ordered list ordered.
\<close>

theorem set_state_requeues:
  assumes "set_state W i s q = Some q'" and "wf q" and "deref i q = Some m"
    and "m' = m\<lparr>next_action_time := clock W q + timeouts q (state m) s, state := s\<rparr>"
  shows "mset (time_sorted_list q') + {#m#} = mset (time_sorted_list q) + {#m'#}
    \<and> time_sorted_list q' = insort_key next_action_time m' (remove_mid i (time_sorted_list q))
    \<and> (sorted (map next_action_time (time_sorted_list q))
         \<longrightarrow> sorted (map next_action_time (time_sorted_list q')))"
proof -
  note m = deref_SomeD [OF assms(3)]
  have q': "time_sorted_list q' = queue_insert m' (remove_mid i (time_sorted_list q))"
    using assms(1,3,4) by (auto simp: set_state_eq smp_set_state_def)
  have "distinct (map mid (time_sorted_list q))" using assms(2) by (simp add: wf_def)
  from smq_list.requeue_others [OF this m(1), of m'] m(2) q' have
    "mset (time_sorted_list q') + {#m#} = mset (time_sorted_list q) + {#m'#}" by simp
  moreover have "sorted (map next_action_time (time_sorted_list q))
      \<longrightarrow> sorted (map next_action_time (time_sorted_list q'))"
    unfolding q' by (blast intro: smq_list.requeue_sorted)
  ultimately show ?thesis by (simp add: q' queue_insert_def insert_by_insort)
qed

theorem set_state_requeues_witness:
  "let q = queue1 [msg1 0 REQUEST_MSG_DELIVERY 0, msg1 1 NO_STATE 5];
       q' = the (set_state world1 0 ASKED_FOR_MSG_DELIVERY q)
   in map mid (time_sorted_list q') = [1, 0]
      \<and> sorted (map next_action_time (time_sorted_list q'))"
proof -
  let ?q = "queue1 [msg1 0 REQUEST_MSG_DELIVERY 0, msg1 1 NO_STATE 5]"
  let ?q' = "the (set_state world1 0 ASKED_FOR_MSG_DELIVERY ?q)"
  let ?m = "the (deref 0 ?q)"
  have "set_state world1 0 ASKED_FOR_MSG_DELIVERY ?q = Some ?q'" by (rule defined_the) code_simp
  moreover have "wf ?q" by code_simp
  moreover have "deref 0 ?q = Some ?m" by (rule defined_the) code_simp
  ultimately have "sorted (map next_action_time (time_sorted_list ?q))
      \<longrightarrow> sorted (map next_action_time (time_sorted_list ?q'))"
    using set_state_requeues by blast
  moreover have "sorted (map next_action_time (time_sorted_list ?q))" by code_simp
  moreover have "map mid (time_sorted_list ?q') = [1, 0]" by code_simp
  ultimately show ?thesis by (simp add: Let_def)
qed

section \<open>Tags\<close>

lemma code_of_0: "code_of c = 0 \<longleftrightarrow> c = CHR 0x00"
proof
  assume "code_of c = 0"
  then have "of_char c = (0 :: nat)" by (simp add: code_of_def)
  then have "c = char_of (0 :: nat)" by (metis char_of_char)
  also have "\<dots> = CHR 0x00" by (simp add: char_of_def)
  finally show "c = CHR 0x00" .
qed (simp add: code_of_def)

lemma taghash_nonzero: "tag \<noteq> [] \<Longrightarrow> CHR 0x00 \<notin> set tag \<Longrightarrow> taghash_of tag \<noteq> 0"
proof (cases tag)
  case (Cons c cs)
  assume "CHR 0x00 \<notin> set tag"
  with Cons have "code_of c \<noteq> 0" using code_of_0 [of c] by auto
  moreover have "code_of c < 256" by (simp add: code_of_def)
  ultimately show ?thesis using Cons by (simp add: taghash_of_def)
qed simp

lemma find_by_tag_find:
  assumes "\<forall>m \<in> set ms. tag_ok m" and "tag \<noteq> []" and "CHR 0x00 \<notin> set tag"
  shows "find_by_tag tag (taghash_of tag) ms = Some (map_option mid (find (\<lambda>m. qtag m = Some tag) ms))"
  using assms(1)
proof (induction ms)
  case Nil
  then show ?case by simp
next
  case (Cons m ms)
  with taghash_nonzero [OF assms(2,3)] assms(3) show ?case
    by (cases "qtag m") (auto simp: tag_ok_def)
qed

text \<open>
  C21: The search by tag compares the tags only where the hashes agree, and is equivalent to the
  plain search for the first message with the tag: in a queue of the daemon (where every hash is
  that of the tag, C1) it overlooks no message and never compares with a missing tag.
\<close>

theorem find_by_tag_is_find:
  assumes "wf q" and "tag \<noteq> []" and "CHR 0x00 \<notin> set tag"
  shows "find_queued_msg_by_tag tag q =
    Some (map_option mid (find (\<lambda>m. qtag m = Some tag) (time_sorted_list q)))"
  using assms
  by (simp add: find_queued_msg_by_tag_def find_queued_msg_by_tag_hash_def find_by_tag_find wf_def)

theorem find_by_tag_is_find_witness:
  "find_queued_msg_by_tag ''1--abc'' (queue1 [(msg1 3 NO_STATE 5)\<lparr>qtag := None, qtaghash := 0\<rparr>,
      msg1 1 NO_STATE 5, msg1 2 NO_STATE 6]) = Some (Some 1)"
proof -
  let ?q = "queue1 [(msg1 3 NO_STATE 5)\<lparr>qtag := None, qtaghash := 0\<rparr>,
      msg1 1 NO_STATE 5, msg1 2 NO_STATE 6]"
  have "wf ?q" by code_simp
  from find_by_tag_is_find [OF this, of "''1--abc''"] show ?thesis by simp
qed

end
