(* ===== verification/Response_Properties.thy ===== *)
theory Response_Properties
  imports Smq_Example
begin

text \<open>
  What \<open>handle_response\<close> does with the message a response answers, for every class of status code.
\<close>

section \<open>Responses\<close>

text \<open>
  A response whose tag no queued message has is taken out of the queue and has no other
  effect.
\<close>

theorem unmatched_response_ignored:
  assumes "deref i q = Some m" and "qtag m = Some tag"
    and "\<forall>x \<in> set (time_sorted_list q). mid x \<noteq> i \<longrightarrow> qtaghash x = qtaghash m
           \<longrightarrow> (\<exists>t. qtag x = Some t \<and> t \<noteq> tag)"
  shows "handle_response L W C i q
     = Some (q\<lparr>time_sorted_list := filter (\<lambda>x. mid x \<noteq> i) (time_sorted_list q)\<rparr>)"
proof -
  have "find_by_tag tag h xs = Some None"
    if "\<forall>x \<in> set xs. qtaghash x = h \<longrightarrow> (\<exists>t. qtag x = Some t \<and> t \<noteq> tag)" for h and xs
    using that by (induction xs) auto
  then have "find_by_tag tag (qtaghash m) (remove_mid i (time_sorted_list q)) = Some None"
    using assms(3) by (simp add: remove_mid_def)
  with assms(1,2) show ?thesis
    by (simp add: handle_response_def splice_out_def find_queued_msg_by_tag_hash_def remove_mid_def)
qed

theorem unmatched_response_ignored_witness:
  "handle_response lib1 world1 config1 0 (queue1 [resp1 0 200 0])
     = Some ((queue1 [resp1 0 200 0])\<lparr>time_sorted_list := []\<rparr>)"
proof -
  let ?q = "queue1 [resp1 0 200 0]"
  have "deref 0 ?q = Some (resp1 0 200 0)"
    by (simp add: deref_def queue1_def resp1_def msg1_def short_msg_pending0_def
        short_msg_pending.defs short_msg.defs short_msg0_def)
  moreover have "qtag (resp1 0 200 0) = Some ''1--abc''" by code_simp
  moreover have "mid (resp1 0 200 0) = 0" by code_simp
  ultimately show ?thesis
    using unmatched_response_ignored [of 0 ?q "resp1 0 200 0" "''1--abc''" lib1 world1 config1]
    by (simp add: queue1_def)
qed

text \<open>
  C22: An interim answer (1xx), a server failure (5xx) and the answers 480 and 486 leave the message
  they answer where it is in the queue and in its state; only the time of its next action moves,
  to now plus the acknowledgement timeout.
\<close>

theorem deferred_response:
  assumes "p_status_code p div 100 \<in> {1, 5} \<or> p_status_code p \<in> {480, 486}"
    and "deref j q = Some m"
  shows "response_action L W C j p q
     = Some (put_msg (m\<lparr>next_action_time := clock W q + acked_timeout C\<rparr>) (q\<lparr>tick := tick q + 1\<rparr>))"
proof -
  have "response_action L W C j p q = increase_acked_msg_timeout W C j q"
    using assms(1) by (auto simp: response_action_def Let_def)
  with assms(2) show ?thesis
    by (simp add: increase_acked_msg_timeout_def msgettime_eq smp_set_state_at_def)
qed

theorem deferred_response_witness:
  "response_action lib1 world1 config1 0 (sip_response 486) (queue1 [msg1 0 ASKED_FOR_MSG_DELIVERY 5])
     = Some (put_msg ((msg1 0 ASKED_FOR_MSG_DELIVERY 5)\<lparr>next_action_time := 10030\<rparr>)
               ((queue1 [msg1 0 ASKED_FOR_MSG_DELIVERY 5])\<lparr>tick := 1\<rparr>))"
proof -
  let ?q = "queue1 [msg1 0 ASKED_FOR_MSG_DELIVERY 5]"
  have "clock world1 ?q + acked_timeout config1 = 10030" "tick ?q + 1 = 1" by code_simp+
  then show ?thesis
    using deferred_response [of "sip_response 486" 0 ?q "msg1 0 ASKED_FOR_MSG_DELIVERY 5" lib1 world1
        config1] by simp
qed

lemma rerun_linked_fields:
  assumes "rerun_linked_sms W j q = Some q'"
  shows "mids q' = mids q \<and> next_mid q' = next_mid q \<and> cdr_lines q' = cdr_lines q
    \<and> gCDRFile q' = gCDRFile q"
proof -
  have tick: "mids (q\<lparr>tick := t\<rparr>) = mids q" for t by (simp add: mids_def)
  have put: "cdr_lines (put_msg x p) = cdr_lines p" "gCDRFile (put_msg x p) = gCDRFile p" for x p
    by (simp_all add: put_msg_def)
  from assms obtain found where f: "get_link j q = Some found"
    by (auto simp: rerun_linked_sms_def elim!: bind_SomeE)
  show ?thesis
  proof (cases found)
    case None
    with assms f show ?thesis by (auto simp: rerun_linked_sms_def)
  next
    case (Some k)
    with assms f obtain old where "deref k q = Some old"
      by (auto simp: rerun_linked_sms_def elim!: bind_SomeE)
    with assms f Some show ?thesis
      by (auto simp: rerun_linked_sms_def msgettime_eq tick put split: if_split_asm)
  qed
qed

text \<open>
  C23: A success (2xx) takes the message it answers out of the queue, and only that one; for a
  MESSAGE a line goes to the billing file when that is open, for a REGISTER none.
\<close>

theorem success_deletes:
  assumes "p_status_code p div 100 = 2" and "wf q" and "deref j q = Some m" and "parsed_is_valid m"
    and "response_action L W C j p q = Some q'"
  shows "mids q' = mids q - {j} \<and> next_mid q' = next_mid q
    \<and> length (cdr_lines q') = length (cdr_lines q)
        + (if gCDRFile q \<and> sip_method_is ''MESSAGE'' m then 1 else 0)"
proof -
  have put: "put_msg m q = q"
    by (rule put_msg_id [OF assms(2,3)])
  from assms(1,3,4,5) obtain q2 q3 m3 where
    q1: "(if sip_method_is ''REGISTER'' m then rerun_linked_sms W j (put_msg m q)
          else Some (put_msg m q)) = Some q2"
    and q3: "(if sip_method_is ''MESSAGE'' m then write_cdr W j q2 else Some q2) = Some q3"
    and out: "splice_out j q3 = Some (m3, q')"
    by (auto simp: response_action_def response_success_def parse_def Let_def elim!: bind_SomeE)
  note q2 = q1 [unfolded put]
  have "mids q2 = mids q \<and> next_mid q2 = next_mid q \<and> cdr_lines q2 = cdr_lines q \<and> gCDRFile q2 = gCDRFile q"
    using q2 rerun_linked_fields [of W j q q2] by (auto split: if_split_asm)
  moreover have "mids q3 = mids q2 \<and> next_mid q3 = next_mid q2 \<and> length (cdr_lines q3) = length (cdr_lines q2)
        + (if gCDRFile q2 \<and> sip_method_is ''MESSAGE'' m then 1 else 0)"
    using q3
    by (auto simp: write_cdr_def ask_def mids_def Let_def elim!: bind_SomeE split: if_split_asm)
  ultimately show ?thesis
    using splice_out_mids [OF out] splice_out_SomeD(2) [OF out] by simp
qed

theorem success_deletes_witness:
  "mids (the (response_action lib1 world1 config1 0 (sip_response 200)
      (queue1 [msg1 0 ASKED_FOR_MSG_DELIVERY 5, msg1 1 NO_STATE 6]))) = {1}"
proof -
  let ?q = "queue1 [msg1 0 ASKED_FOR_MSG_DELIVERY 5, msg1 1 NO_STATE 6]"
  have d: "response_action lib1 world1 config1 0 (sip_response 200) ?q
      = Some (the (response_action lib1 world1 config1 0 (sip_response 200) ?q))"
    by (rule defined_the) code_simp
  have w: "wf ?q" and ids: "mids ?q - {0} = {1}" by code_simp+
  from success_deletes [OF _ w _ _ d, of "msg1 0 ASKED_FOR_MSG_DELIVERY 5"] ids show ?thesis
    by simp
qed

text \<open>
  A redirection (3xx) or a global failure (6xx) sends the message it answers back to the lookup
  of its destination, with the timeout of that transition, in its place in the queue.
\<close>

theorem redirected_response:
  assumes "p_status_code p div 100 \<in> {3, 6}" and "deref j q = Some m"
  shows "response_action L W C j p q
     = Some (put_msg (m\<lparr>next_action_time := clock W q + timeouts q (state m) REQUEST_DESTINATION_IMSI,
                        state := REQUEST_DESTINATION_IMSI\<rparr>) (q\<lparr>tick := tick q + 1\<rparr>))"
  using assms by (auto simp: response_action_def Let_def smp_set_state_q_def msgettime_eq smp_set_state_def)

theorem redirected_response_witness:
  "response_action lib1 world1 config1 0 (sip_response 302) (queue1 [msg1 0 ASKED_FOR_MSG_DELIVERY 5])
     = Some (put_msg ((msg1 0 ASKED_FOR_MSG_DELIVERY 5)\<lparr>next_action_time := 3010000,
                        state := REQUEST_DESTINATION_IMSI\<rparr>)
               ((queue1 [msg1 0 ASKED_FOR_MSG_DELIVERY 5])\<lparr>tick := 1\<rparr>))"
proof -
  have "timeouts_table ASKED_FOR_MSG_DELIVERY REQUEST_DESTINATION_IMSI = 3000000" by code_simp
  then show ?thesis
    using redirected_response [of "sip_response 302" 0 "queue1 [msg1 0 ASKED_FOR_MSG_DELIVERY 5]"
        "msg1 0 ASKED_FOR_MSG_DELIVERY 5" lib1 world1 config1] by simp
qed



text \<open>
  Bounces do not loop: a message that comes from the address bounces are sent from is not
  bounced; nothing is queued for it and it ends as an error.
\<close>

theorem bounce_not_bounced:
  assumes "deref i q = Some m" and "parsed m = Some p" and "to_username p = Some u"
    and "get_text L m = Some t" and "from_username p = Some (Some (getStr C ''Bounce.Code''))"
  shows "bounce_message L W C i err q = Some (NO_STATE, q)"
  using assms by (simp add: bounce_message_def)

theorem bounce_not_bounced_witness:
  "bounce_message lib1 world1 (config1\<lparr>getStr := \<lambda>k. ''IMSI001010000000001''\<rparr>) 0 ''no''
     (queue1 [msg1 0 ASKED_FOR_MSG_DELIVERY 5])
   = Some (NO_STATE, queue1 [msg1 0 ASKED_FOR_MSG_DELIVERY 5])"
proof -
  have "get_text lib1 (msg1 0 ASKED_FOR_MSG_DELIVERY 5) = Some ''hi''" by code_simp
  then show ?thesis
    by (intro bounce_not_bounced [where m = "msg1 0 ASKED_FOR_MSG_DELIVERY 5" and p = sip_request
          and u = "Some ''17074700741''" and t = "''hi''"]) simp_all
qed

end
