(* ===== verification/Validation_Properties.thy ===== *)
theory Validation_Properties
  imports Smq_Example
begin

text \<open>
  What a message that passed the validation is known to have, and how its tag is built.
\<close>

lemma last_not_nul:
  assumes "s \<noteq> []" and "CHR 0x00 \<notin> set s"
  shows "(s @ [CHR 0x00]) ! (length s - 1) \<noteq> CHR 0x00"
proof -
  have "s ! (length s - 1) \<in> set s" using assms(1) by (intro nth_mem) simp
  with assms have "s ! (length s - 1) \<noteq> CHR 0x00" by metis
  with assms(1) show ?thesis by (simp add: nth_append)
qed

text \<open>
  C19: The tag of a parsed message with a Call-ID, a CSeq number and a tag in its From is the
  number, two hyphens and that tag, and its hash is that of this text; a message without a tag in
  its From, which the validation accepts, has no defined tag.
\<close>

theorem qtag_built:
  assumes "parsed_is_valid m" and "parsed m = Some p" and "p_from p = Some fr"
    and "p_call_id p \<noteq> None" and "p_cseq p = Some c" and "cs_number c = Some n"
    and "\<forall>t. find_from_tag (gen_params fr) = Some t \<longrightarrow> CHR 0x00 \<notin> set t" and "CHR 0x00 \<notin> set n"
  shows "set_qtag L m =
    (case find_from_tag (gen_params fr) of
       None \<Rightarrow> None
     | Some t \<Rightarrow> Some (0, m\<lparr>qtag := Some (n @ ''--'' @ t), qtaghash := taghash_of (n @ ''--'' @ t)\<rparr>))"
proof (cases "find_from_tag (gen_params fr)")
  case None
  with assms show ?thesis by (simp add: set_qtag_def)
next
  case (Some t)
  let ?s = "n @ ''--'' @ t"
  have "(?s @ [CHR 0x00]) ! (length n + 2 + length t + 1 - 1) = CHR 0x00"
    by (simp add: nth_append)
  moreover have "(?s @ [CHR 0x00]) ! (length n + 2 + length t + 1 - 2) \<noteq> CHR 0x00"
    using last_not_nul [of ?s] assms(7,8) Some by simp
  ultimately show ?thesis
    using assms Some by (simp add: set_qtag_def Let_def del: append_assoc)
qed

section \<open>Validation\<close>

theorem qtag_built_witness:
  "set_qtag lib1 (msg1 0 INITIAL_STATE 0)
     = Some (0, (msg1 0 INITIAL_STATE 0)\<lparr>qtag := Some ''1--abc'', qtaghash := 49\<rparr>)"
proof -
  have "find_from_tag (gen_params (addr1 ''IMSI001010000000001'')) = Some ''abc''"
    by (simp add: addr1_def)
  moreover have "taghash_of ''1--abc'' = 49" by (simp add: taghash_of_def code_of_def)
  ultimately show ?thesis
    using qtag_built [of "msg1 0 INITIAL_STATE 0" sip_request "addr1 ''IMSI001010000000001''"
        "\<lparr>cs_number = Some ''1'', cs_method = Some ''MESSAGE''\<rparr>" "''1''" lib1]
    by (simp add: sip_request_def)
qed

section \<open>Validation\<close>











end
