(* ===== verification/Delivery_Properties.thy ===== *)
theory Delivery_Properties
  imports Smq_Example
begin

text \<open>
  The attempts at delivering a message: the limit of retries and the rate limit.
\<close>

section \<open>Delivery\<close>

text \<open>
  A message over the limit of attempts is not sent again: it is marked for deletion, whatever
  the network and the rate limit would allow.
\<close>

theorem max_retries_drops:
  assumes "deref i q = Some m" and "getNum C ''SMS.MaxRetries'' \<noteq> 0"
    and "getNum C ''SMS.MaxRetries'' \<le> retries m"
    and "pack_sms_for_delivery L W C (m\<lparr>retries := retries m + 1\<rparr>) q = Some (True, m1, q1)"
  shows "step_delivery L W C i q = set_state W i DELETE_ME_STATE (put_msg m1 q1)"
proof -
  have "retries m1 = retries m + 1"
    using pack_sms_same(1) [OF assms(4)] by (simp add: same_pend_def)
  with assms show ?thesis by (simp add: step_delivery_def max_retries_exceeded_def)
qed

text \<open>A message whose text needs no packing, after its third attempt.\<close>

definition msg2 :: short_msg_pending where
  "msg2 = (msg1 0 REQUEST_MSG_DELIVERY 5)\<lparr>retries := 2, need_repack := False\<rparr>"

lemma pack_msg2:
  "pack_sms_for_delivery L W C (msg2\<lparr>retries := n\<rparr>) q = Some (True, msg2\<lparr>retries := n\<rparr>, q)"
  by (simp add: pack_sms_for_delivery_def msg2_def)

lemma msg2_fields [simp]: "mid msg2 = 0" "retries msg2 = 2" "next_action_time msg2 = 5"
  "state msg2 = REQUEST_MSG_DELIVERY"
  by (simp_all add: msg2_def)

theorem max_retries_drops_witness:
  "step_delivery lib1 world1 config1 0 (queue1 [msg2])
     = set_state world1 0 DELETE_ME_STATE (put_msg (msg2\<lparr>retries := 3\<rparr>) (queue1 [msg2]))"
proof -
  have "getNum config1 ''SMS.MaxRetries'' = 2" by code_simp
  with max_retries_drops [OF _ _ _ pack_msg2, of 0 "queue1 [msg2]" config1] show ?thesis
    by simp
qed



end
