(* ===== verification/Savefile_Properties.thy ===== *)
theory Savefile_Properties
  imports Smq_Example
begin

text \<open>
  Writing the queue to a file and reading it back.
\<close>

section \<open>The save file\<close>







lemma save_loop_records:
  assumes "save_loop L W xs acc q = Some (out, q')"
    and "\<forall>x \<in> set xs. \<not> parsed_is_better x \<and> deref (mid x) q = Some x" and "wf q"
  shows "\<exists>addrs. length addrs = length xs \<and> (\<forall>x \<in> set xs. msg_text x \<noteq> None)
    \<and> out = acc @ concat (map2 (\<lambda>a x. queue_record a x (the (msg_text x))) addrs xs)
    \<and> time_sorted_list q' = time_sorted_list q \<and> saved_files q' = saved_files q"
  using assms
proof (induction xs arbitrary: acc q)
  case Nil
  then show ?case by simp
next
  case (Cons x xs)
  have t: "make_text_valid L x = Some x" using Cons.prems(2) by (simp add: make_text_valid_def)
  have "deref (mid x) q = Some x" using Cons.prems(2) by simp
  then have put: "put_msg x q = q" by (rule put_msg_id [OF Cons.prems(3)])
  from Cons.prems(1) t put obtain a s where s: "msg_text x = Some s"
    and rest: "save_loop L W xs (acc @ queue_record a x s) (q\<lparr>tick := tick q + 1\<rparr>) = Some (out, q')"
    by (auto simp: ask_def elim!: bind_SomeE)
  have "wf (q\<lparr>tick := tick q + 1\<rparr>)" using Cons.prems(3) by (simp add: wf_def mids_def)
  moreover have "\<forall>x \<in> set xs. \<not> parsed_is_better x \<and> deref (mid x) (q\<lparr>tick := tick q + 1\<rparr>) = Some x"
    using Cons.prems(2) by (simp add: deref_def)
  ultimately obtain addrs where "length addrs = length xs" "\<forall>x \<in> set xs. msg_text x \<noteq> None"
    "out = (acc @ queue_record a x s) @ concat (map2 (\<lambda>a x. queue_record a x (the (msg_text x))) addrs xs)"
    "time_sorted_list q' = time_sorted_list q" "saved_files q' = saved_files q"
    using Cons.IH [OF rest] by auto
  with s show ?case by (intro exI [of _ "a # addrs"]) auto
qed

text \<open>
  C27: Saving writes one record for each message, from the last to the first, with the text of the
  message as it is, and changes nothing but the file when all texts are valid.
\<close>

theorem save_writes_all:
  assumes "save_queue_to_file L W f q = Some (True, q')" and "wf q"
    and "\<forall>x \<in> set (time_sorted_list q). \<not> parsed_is_better x"
  shows "\<exists>addrs. length addrs = length (time_sorted_list q)
    \<and> saved_files q' = saved_files q @ [(f, concat (map2 (\<lambda>a x. queue_record a x (the (msg_text x)))
         addrs (rev (time_sorted_list q))))]
    \<and> time_sorted_list q' = time_sorted_list q"
proof -
  let ?q = "q\<lparr>tick := tick q + 1\<rparr>"
  from assms(1) obtain out q2 where
    l: "save_loop L W (rev (time_sorted_list q)) [] ?q = Some (out, q2)"
    and q': "q' = q2\<lparr>saved_files := saved_files q2 @ [(f, out)]\<rparr>"
    by (auto simp: save_queue_to_file_def ask_def split: if_splits elim!: bind_SomeE)
  have "wf ?q" using assms(2) by (simp add: wf_def mids_def)
  moreover have "\<forall>x \<in> set (rev (time_sorted_list q)). \<not> parsed_is_better x \<and> deref (mid x) ?q = Some x"
    using assms(3) deref_mem [OF assms(2)] by (auto simp: deref_def)
  ultimately obtain addrs where "length addrs = length (rev (time_sorted_list q))"
    "out = concat (map2 (\<lambda>a x. queue_record a x (the (msg_text x))) addrs (rev (time_sorted_list q)))"
    "time_sorted_list q2 = time_sorted_list q" "saved_files q2 = saved_files q"
    using save_loop_records [OF l] by auto
  then show ?thesis by (auto simp: q')
qed

theorem save_writes_all_witness:
  "\<exists>addrs. length addrs = 2
     \<and> saved_files (snd (the (save_queue_to_file lib1 world1 ''f''
          (queue1 [msg1 0 NO_STATE 1, msg1 1 NO_STATE 2]))))
       = [(''f'', concat (map2 (\<lambda>a x. queue_record a x (the (msg_text x))) addrs
            [msg1 1 NO_STATE 2, msg1 0 NO_STATE 1]))]"
proof -
  let ?q = "queue1 [msg1 0 NO_STATE 1, msg1 1 NO_STATE 2]"
  let ?r = "save_queue_to_file lib1 world1 ''f'' ?q"
  have r: "?r = Some (fst (the ?r), snd (the ?r))" by (rule defined_2) code_simp
  have b: "fst (the ?r) = True" by code_simp
  have w: "wf ?q" by code_simp
  have p: "\<forall>x \<in> set (time_sorted_list ?q). \<not> parsed_is_better x" by code_simp
  from save_writes_all [OF r [unfolded b] w p]
  obtain addrs where "length addrs = length (time_sorted_list ?q)"
    "saved_files (snd (the ?r)) = saved_files ?q @ [(''f'', concat (map2
       (\<lambda>a x. queue_record a x (the (msg_text x))) addrs (rev (time_sorted_list ?q))))]"
    by blast
  then show ?thesis unfolding queue1_fields by (intro exI [of _ addrs]) simp
qed

subsection \<open>Reading one record\<close>



















end
