(* ===== verification/Codec_Properties.thy ===== *)
theory Codec_Properties
  imports Smq_Example
begin

text \<open>
  The codec writes what it can read back: numbers in both address formats, text in septets, and
  validity periods; and where it does not: international numbers with an even number of digits,
  and time stamps.
\<close>

section \<open>Fields of a bit vector\<close>

text \<open>
  What \<open>BitVector\<close> documents of a field access: a field inside the vector can be written, is read
  back as written when it fields_fit, and no other field changes.
\<close>

definition field_law ::
  "(bits \<Rightarrow> nat \<Rightarrow> nat \<Rightarrow> nat option) \<Rightarrow> (bits \<Rightarrow> nat \<Rightarrow> nat \<Rightarrow> nat \<Rightarrow> bits option) \<Rightarrow> bool" where
  "field_law peek fill \<longleftrightarrow>
     (\<forall>b i v n. i + n \<le> length b \<longrightarrow>
        (\<exists>b'. fill b i v n = Some b' \<and> length b' = length b
           \<and> (v < 2 ^ n \<longrightarrow> peek b' i n = Some v)
           \<and> (\<forall>j k. j + k \<le> i \<or> i + n \<le> j \<longrightarrow> peek b' j k = peek b j k)))"

definition bit_laws :: "bit_ops \<Rightarrow> bool" where
  "bit_laws B \<longleftrightarrow>
     field_law (peekField B) (fillField B)
     \<and> field_law (peekFieldReversed B) (fillFieldReversed B)
     \<and> (\<forall>b i v n b' j k. fillField B b i v n = Some b' \<longrightarrow> j + k \<le> i
          \<longrightarrow> peekFieldReversed B b' j k = peekFieldReversed B b j k)
     \<and> (\<forall>b n. length (resizeBits B b n) = n)"

definition wrote :: "(bits \<Rightarrow> nat \<Rightarrow> nat \<Rightarrow> nat option) \<Rightarrow> bits \<Rightarrow> bits \<Rightarrow> nat \<Rightarrow> nat \<Rightarrow> bool" where
  "wrote peek dest d wp n \<longleftrightarrow> length d = length dest
     \<and> (\<forall>j k. j + k \<le> wp \<or> wp + n \<le> j \<longrightarrow> peek d j k = peek dest j k)"

fun holds :: "(bits \<Rightarrow> nat \<Rightarrow> nat \<Rightarrow> nat option) \<Rightarrow> bits \<Rightarrow> nat \<Rightarrow> (nat \<times> nat) list \<Rightarrow> bool" where
  "holds peek d p [] = True"
| "holds peek d p ((v, n) # fs) = (peek d p n = Some v \<and> holds peek d (p + n) fs)"

definition fields_width :: "(nat \<times> nat) list \<Rightarrow> nat" where
  "fields_width fs = sum_list (map snd fs)"

definition fields_fit :: "(nat \<times> nat) list \<Rightarrow> bool" where
  "fields_fit fs \<longleftrightarrow> (\<forall>(v, n) \<in> set fs. v < 2 ^ n)"

lemma width_simps [simp]: "fields_width [] = 0" "fields_width ((v, n) # fs) = n + fields_width fs"
  "fields_width (fs @ gs) = fields_width fs + fields_width gs"
  by (simp_all add: fields_width_def)

lemma fits_simps [simp]: "fields_fit []" "fields_fit ((v, n) # fs) \<longleftrightarrow> v < 2 ^ n \<and> fields_fit fs"
  "fields_fit (fs @ gs) \<longleftrightarrow> fields_fit fs \<and> fields_fit gs"
  by (auto simp: fields_fit_def)

lemma holds_append [simp]: "holds peek d p (fs @ gs) \<longleftrightarrow> holds peek d p fs \<and> holds peek d (p + fields_width fs) gs"
  by (induction peek d p fs rule: holds.induct) (auto simp: add.assoc)

lemma wrote_refl [simp]: "wrote peek d d p n"
  by (simp add: wrote_def)

lemma wrote_trans:
  assumes "wrote peek a b p n" and "wrote peek b c (p + n) m"
  shows "wrote peek a c p (n + m)"
  using assms unfolding wrote_def by (metis add.assoc add_leD1 le_add1 order_trans)

lemma holds_kept:
  assumes "wrote peek a b p n" and "p' + fields_width fs \<le> p \<or> p + n \<le> p'"
  shows "holds peek b p' fs = holds peek a p' fs"
  using assms
proof (induction fs arbitrary: p')
  case Nil
  then show ?case by simp
next
  case (Cons f fs)
  obtain v k where f: "f = (v, k)" by (cases f)
  have "peek b p' k = peek a p' k" using Cons.prems by (auto simp: f wrote_def)
  moreover have "holds peek b (p' + k) fs = holds peek a (p' + k) fs"
    using Cons.prems by (intro Cons.IH) (auto simp: f)
  ultimately show ?case by (simp add: f)
qed

lemma holds_prefix:
  assumes "p + fields_width fs \<le> i" and "\<forall>j k. j + k \<le> i \<longrightarrow> peek b j k = peek a j k"
  shows "holds peek b p fs = holds peek a p fs"
  using assms(1) by (induction fs arbitrary: p) (auto simp: assms(2))

lemma bit_laws_field: "bit_laws B \<Longrightarrow> field_law (peekField B) (fillField B)"
  by (simp add: bit_laws_def)

lemma write_fields:
  assumes "bit_laws B" and "fields_fit fs" and "wp + fields_width fs \<le> length dest"
  shows "\<exists>d. writeFields B dest wp fs = cret (d, wp + fields_width fs)
    \<and> wrote (peekField B) dest d wp (fields_width fs) \<and> holds (peekField B) d wp fs"
  using assms(2,3)
proof (induction fs arbitrary: dest wp)
  case Nil
  then show ?case by (intro exI [of _ dest]) simp
next
  case (Cons f fs)
  obtain v k where f: "f = (v, k)" by (cases f)
  from Cons.prems have "wp + k \<le> length dest" and v: "v < 2 ^ k" by (simp_all add: f)
  with bit_laws_field [OF assms(1)] obtain d1 where d1: "fillField B dest wp v k = Some d1"
    and w1: "wrote (peekField B) dest d1 wp k" and p1: "peekField B d1 wp k = Some v"
    unfolding field_law_def wrote_def by blast
  from Cons.prems w1 have "(wp + k) + fields_width fs \<le> length d1" and "fields_fit fs"
    by (simp_all add: f wrote_def)
  with Cons.IH obtain d where d: "writeFields B d1 (wp + k) fs = cret (d, wp + k + fields_width fs)"
    and w2: "wrote (peekField B) d1 d (wp + k) (fields_width fs)" and h: "holds (peekField B) d (wp + k) fs"
    by blast
  have "peekField B d wp k = Some v"
    using w2 p1 unfolding wrote_def by (metis order_refl)
  with d1 d h wrote_trans [OF w1 w2] show ?case
    by (intro exI [of _ d]) (simp add: f writeField_def add.assoc)
qed

lemma read_fields: "holds (peekField B) d p fs
  \<Longrightarrow> readFields B d p (map snd fs) = cret (map fst fs, p + fields_width fs)"
  by (induction "peekField B" d p fs rule: holds.induct) (simp_all add: readField_def add.assoc)

lemma writeFields_append:
  "writeFields B d p (fs @ gs) = cbind (writeFields B d p fs) (\<lambda>(d, p). writeFields B d p gs)"
proof (induction fs arbitrary: d p)
  case Nil
  then show ?case by simp
next
  case (Cons f fs)
  obtain v k where f: "f = (v, k)" by (cases f)
  show ?case by (cases "fillField B d p v k") (simp_all add: f writeField_def Cons)
qed

section \<open>Numbers\<close>

text \<open>The fields of a string of digits: pairs of nibbles in swapped order, the last one filled up.\<close>

fun digit_fields :: "string \<Rightarrow> (nat \<times> nat) list" where
  "digit_fields [] = []"
| "digit_fields [c] = [(15, 4), (bcd_encode c, 4)]"
| "digit_fields (c # d # cs) = [(bcd_encode d, 4), (bcd_encode c, 4)] @ digit_fields cs"

definition bcd_digit :: "char \<Rightarrow> bool" where
  "bcd_digit c \<longleftrightarrow> isdigit c \<or> c = CHR ''*'' \<or> c = CHR ''#''"

lemma bcd_digit_cases:
  "bcd_digit c \<Longrightarrow> bcd_encode c < 12 \<and> bcd_char (bcd_encode c) = c"
  by (auto simp: bcd_digit_def bcd_encode_def bcd_char_def isdigit_def code_of_def)

lemma bcd_write_fields: "bcd_write_loop B d p cs = writeFields B d p (digit_fields cs)"
proof (induction cs arbitrary: d p rule: digit_fields.induct)
  case (3 c e cs)
  then show ?case by (simp only: bcd_write_loop.simps digit_fields.simps writeFields_append)
qed simp_all

lemma digit_fields_width: "fields_width (digit_fields cs) = 8 * ((length cs + 1) div 2)"
  by (induction cs rule: digit_fields.induct) simp_all

lemma digit_fields_fit: "fields_fit (digit_fields cs)"
proof -
  have "bcd_encode c < 16" for c by (auto simp: bcd_encode_def isdigit_def)
  then show ?thesis by (induction cs rule: digit_fields.induct) simp_all
qed

lemma bcd_parse_digits:
  assumes "holds (peekField B) d p (digit_fields cs)" and "\<forall>c \<in> set cs. bcd_digit c"
    and "length acc + length cs \<le> maxDigits"
  shows "bcd_parse_loop B d p ((length cs + 1) div 2) acc
    = cret (acc @ cs, p + fields_width (digit_fields cs))"
  using assms
proof (induction cs arbitrary: p acc rule: digit_fields.induct)
  case 1
  then show ?case by simp
next
  case (2 c)
  then show ?case by (simp add: readField_def put_digit_def bcd_digit_cases add.commute)
next
  case (3 c e cs)
  have n: "(length (c # e # cs) + 1) div 2 = Suc ((length cs + 1) div 2)" by simp
  have "bcd_encode e \<noteq> 15" "bcd_char (bcd_encode e) = e" "bcd_char (bcd_encode c) = c"
    using 3 bcd_digit_cases [of e] bcd_digit_cases [of c] by simp_all
  with 3 show ?case unfolding n
    by (simp add: readField_def put_digit_def add.assoc)
qed

lemma digits_read_back:
  assumes "bit_laws B" and "\<forall>c \<in> set cs. bcd_digit c"
    and "length cs \<le> (if international then 19 else 20)"
    and "holds (peekField B) d p (digit_fields cs)"
  shows "L3BCDDigits_parse B d p ((length cs + 1) div 2) international
    = cret ((if international then ''+'' else []) @ cs, p + fields_width (digit_fields cs))"
proof -
  have "bcd_parse_loop B d p ((length cs + 1) div 2) (if international then ''+'' else [])
    = cret ((if international then ''+'' else []) @ cs, p + fields_width (digit_fields cs))"
    using assms by (intro bcd_parse_digits) (auto simp: maxDigits_def)
  with assms(3) show ?thesis
    by (simp add: L3BCDDigits_parse_def put_digit_def maxDigits_def split: if_splits)
qed


text \<open>A number the two formats of an address can carry.\<close>

definition number_valid :: "bcd_number \<Rightarrow> bool" where
  "number_valid a \<longleftrightarrow> mType a < 8 \<and> mPlan a < 16 \<and> length (mDigits a) \<le> maxDigits
     \<and> (\<forall>c \<in> set (strip_plus (mDigits a)). bcd_digit c) \<and> strip_plus (mDigits a) \<noteq> []
     \<and> (mType a = InternationalNumber \<longleftrightarrow> take 1 (mDigits a) = ''+'')"

lemma plus_split:
  assumes "number_valid a"
  shows "mDigits a = (if mType a = InternationalNumber then ''+'' else []) @ strip_plus (mDigits a)"
    and "length (strip_plus (mDigits a)) \<le> (if mType a = InternationalNumber then 19 else 20)"
proof -
  show e: "mDigits a = (if mType a = InternationalNumber then ''+'' else []) @ strip_plus (mDigits a)"
    using assms by (cases "mDigits a") (auto simp: number_valid_def strip_plus_def)
  have "length (mDigits a) \<le> 20" using assms by (simp add: number_valid_def maxDigits_def)
  then show "length (strip_plus (mDigits a)) \<le> (if mType a = InternationalNumber then 19 else 20)"
    by (subst (asm) e) (simp split: if_splits)
qed

lemma lengthV_octets: "L3BCDDigits_lengthV ds = (length (strip_plus ds) + 1) div 2"
  by (simp add: L3BCDDigits_lengthV_def Let_def) presburger

definition number_fields :: "bcd_number \<Rightarrow> (nat \<times> nat) list" where
  "number_fields a = [(1, 1), (mType a, 3), (mPlan a, 4)] @ digit_fields (strip_plus (mDigits a))"

lemma number_fields_width: "fields_width (number_fields a) = 8 * (1 + L3BCDDigits_lengthV (mDigits a))"
  by (simp add: number_fields_def digit_fields_width lengthV_octets)

lemma number_fields_fit: "number_valid a \<Longrightarrow> fields_fit (number_fields a)"
  by (simp add: number_fields_def digit_fields_fit number_valid_def)

lemma writeV_fields: "bcd_number_writeV B d p a = writeFields B d p (number_fields a)"
  unfolding bcd_number_writeV_def number_fields_def writeFields_append L3BCDDigits_write_def
    bcd_write_fields ..

lemma number_eq: "e\<lparr>mType := mType a, mPlan := mPlan a, mDigits := mDigits a\<rparr> = (a :: bcd_number)"
  by (cases a; cases e) simp

lemma parseV_reads:
  assumes "bit_laws B" and "number_valid a" and "holds (peekField B) d p (number_fields a)"
  shows "bcd_number_parseV B d p (1 + L3BCDDigits_lengthV (mDigits a)) e
    = cret (a, p + fields_width (number_fields a))"
proof -
  have h: "peekField B d p 1 = Some 1" "peekField B d (p + 1) 3 = Some (mType a)"
    "peekField B d (p + 4) 4 = Some (mPlan a)"
    "holds (peekField B) d (p + 8) (digit_fields (strip_plus (mDigits a)))"
    using assms(3) by (simp_all add: number_fields_def add.commute)
  have d: "\<forall>c \<in> set (strip_plus (mDigits a)). bcd_digit c"
    using assms(2) by (simp add: number_valid_def)
  note b = digits_read_back [OF assms(1) d plus_split(2) [OF assms(2)] h(4)]
  from h b show ?thesis
    by (simp add: bcd_number_parseV_def readField_def lengthV_octets number_fields_def
        plus_split(1) [OF assms(2), symmetric] number_eq ac_simps)
qed

text \<open>
  C30: An address of the relay layer that is written in the LV format is parsed back as it was, with
  the position after it: for national and international numbers of 1 to 20 characters, digits,
  stars and hashes.
\<close>

theorem relay_address_roundtrip:
  assumes "bit_laws B" and "number_valid a"
    and "wp + 8 * (1 + bcd_number_lengthV a) \<le> length dest"
  shows "\<exists>d. writeLV B bcd_number_lengthV (bcd_number_writeV B) dest wp a
        = cret (d, wp + 8 * (1 + bcd_number_lengthV a))
    \<and> length d = length dest
    \<and> parseLV B (bcd_number_parseV B) d wp e
        = cret (a, wp + 8 * (1 + bcd_number_lengthV a))"
proof -
  have pos: "0 < L3BCDDigits_lengthV (mDigits a)" "L3BCDDigits_lengthV (mDigits a) \<le> 10"
    using assms(2) plus_split(2) [OF assms(2)]
    by (auto simp: lengthV_octets number_valid_def Suc_le_eq split: if_splits)
  then have l: "bcd_number_lengthV a = 1 + L3BCDDigits_lengthV (mDigits a)"
    by (simp add: bcd_number_lengthV_def)
  let ?fs = "(bcd_number_lengthV a, 8) # number_fields a"
  have w: "fields_width ?fs = 8 * (1 + bcd_number_lengthV a)"
    by (simp add: number_fields_width l)
  have "fields_fit ?fs" using pos number_fields_fit [OF assms(2)] by (simp add: l)
  with assms(1,3) w obtain d where d: "writeFields B dest wp ?fs = cret (d, wp + fields_width ?fs)"
    and k: "wrote (peekField B) dest d wp (fields_width ?fs)" and h: "holds (peekField B) d wp ?fs"
    using write_fields [of B ?fs wp dest] by auto
  have "writeLV B bcd_number_lengthV (bcd_number_writeV B) dest wp a = writeFields B dest wp ?fs"
    using l by (simp add: writeLV_def writeV_fields Let_def)
  moreover have "parseLV B (bcd_number_parseV B) d wp e
      = cret (a, wp + 8 * (1 + bcd_number_lengthV a))"
    using h parseV_reads [OF assms(1,2), of d "wp + 8" e] w
    by (simp add: parseLV_def readField_def l number_fields_width add.assoc)
  ultimately show ?thesis using d k w by (intro exI [of _ d]) (simp add: wrote_def)
qed


text \<open>
  C31: An address of the transfer layer that is written is parsed back as it was, with the position
  after it, for every national number, and for an international one with an odd number of digits.
\<close>

theorem transfer_address_roundtrip:
  assumes "bit_laws B" and "number_valid a"
    and "mType a = InternationalNumber \<longrightarrow> odd (length (strip_plus (mDigits a)))"
    and "wp + 8 * TLAddress_length a \<le> length dest"
  shows "\<exists>d. TLAddress_write B dest wp a = cret (d, wp + 8 * TLAddress_length a)
    \<and> length d = length dest
    \<and> TLAddress_parse B d wp e = cret (a, wp + 8 * TLAddress_length a)"
proof -
  let ?n = "length (mDigits a)" and ?s = "strip_plus (mDigits a)"
  let ?fs = "(?n, 8) # number_fields a"
  have n: "?n \<le> 20" using assms(2) by (simp add: number_valid_def maxDigits_def)
  have half: "k div 2 + k mod 2 = (k + 1) div 2" for k :: nat by presburger
  have o: "?n div 2 + ?n mod 2 = (length ?s + 1) div 2"
    unfolding half using assms(3) arg_cong [OF plus_split(1) [OF assms(2)], of length]
    by (auto split: if_splits)
  have w: "fields_width ?fs = 8 * TLAddress_length a"
    by (simp add: number_fields_width TLAddress_length_def)
  have "fields_fit ?fs" using n number_fields_fit [OF assms(2)] by simp
  with assms(1,4) w obtain d where d: "writeFields B dest wp ?fs = cret (d, wp + fields_width ?fs)"
    and k: "wrote (peekField B) dest d wp (fields_width ?fs)" and h: "holds (peekField B) d wp ?fs"
    using write_fields [of B ?fs wp dest] by auto
  have "?fs = [(?n, 8), (1, 1), (mType a, 3), (mPlan a, 4)] @ digit_fields ?s"
    by (simp add: number_fields_def)
  then have wr: "TLAddress_write B dest wp a = writeFields B dest wp ?fs"
    by (simp only: TLAddress_write_def L3BCDDigits_write_def bcd_write_fields writeFields_append)
  have f: "peekField B d wp 8 = Some ?n" "peekField B d (wp + 8) 1 = Some 1"
    "peekField B d (wp + 9) 3 = Some (mType a)" "peekField B d (wp + 12) 4 = Some (mPlan a)"
    "holds (peekField B) d (wp + 16) (digit_fields ?s)"
    using h by (simp_all add: number_fields_def add.commute)
  have s: "\<forall>c \<in> set ?s. bcd_digit c" using assms(2) by (simp add: number_valid_def)
  note b = digits_read_back [OF assms(1) s plus_split(2) [OF assms(2)] f(5)]
  from f b have "TLAddress_parse B d wp e = cret (a, wp + 8 * TLAddress_length a)"
    by (simp add: TLAddress_parse_def readField_def o Let_def plus_split(1) [OF assms(2), symmetric]
        number_eq digit_fields_width TLAddress_length_def lengthV_octets ac_simps)
  with d k w wr show ?thesis by (intro exI [of _ d]) (simp add: wrote_def)
qed


lemma bcd_parse_end:
  "bcd_parse_loop B d p n acc = Some (Inr (ds, r)) \<Longrightarrow> r = p + 8 * n"
proof (induction n arbitrary: p acc)
  case 0
  then show ?case by (simp add: cret_def)
next
  case (Suc n)
  from Suc.prems show ?case
    by (cases "peekField B d p 4"; cases "peekField B d (p + 4) 4")
       (auto simp: readField_def cbind_def clift_def cret_def cthrow_def dest!: Suc.IH
          split: if_splits option.splits sum.splits prod.splits)
qed

text \<open>
  The length octet of a transfer-layer address counts the plus sign as well: an international
  number with an even number of digits is written with a length for which the parser, if it accepts
  the address, has read one octet too many.
\<close>

theorem international_length_off:
  assumes "bit_laws B" and "number_valid a" and "mType a = InternationalNumber"
    and "even (length (strip_plus (mDigits a)))"
    and "wp + 8 * TLAddress_length a \<le> length dest"
  shows "\<exists>d w. TLAddress_write B dest wp a = cret (d, w)
    \<and> (\<forall>a' r. TLAddress_parse B d wp e = cret (a', r) \<longrightarrow> r = w + 8)"
proof -
  let ?n = "length (mDigits a)" and ?s = "strip_plus (mDigits a)"
  let ?fs = "[(?n, 8), (1, 1), (mType a, 3), (mPlan a, 4)] @ digit_fields ?s"
  have n: "?n \<le> 20" using assms(2) by (simp add: number_valid_def maxDigits_def)
  define k where "k = (length ?s + 1) div 2 + 1"
  have o: "?n div 2 + ?n mod 2 = k"
    using assms(3,4) arg_cong [OF plus_split(1) [OF assms(2)], of length] by (auto simp: k_def)
  have w: "fields_width ?fs = 8 * TLAddress_length a"
    by (simp add: digit_fields_width lengthV_octets TLAddress_length_def)
  have "fields_fit ?fs" using n assms(2) by (simp add: digit_fields_fit number_valid_def)
  with assms(1,5) w obtain d where d: "writeFields B dest wp ?fs = cret (d, wp + fields_width ?fs)"
    and h: "holds (peekField B) d wp ?fs"
    using write_fields [of B ?fs wp dest] by auto
  have f: "peekField B d wp 8 = Some ?n" "peekField B d (wp + 8) 1 = Some 1"
    "peekField B d (wp + 9) 3 = Some (mType a)" "peekField B d (wp + 12) 4 = Some (mPlan a)"
    using h by (simp_all add: add.commute)
  have "r = wp + fields_width ?fs + 8" if "TLAddress_parse B d wp e = cret (a', r)" for a' r
  proof -
    from that f obtain ds where
      "bcd_parse_loop B d (wp + 16) k ''+'' = Some (Inr (ds, r))"
      by (auto simp: TLAddress_parse_def readField_def o Let_def L3BCDDigits_parse_def assms(3)
          add.commute [of wp] cbind_def cret_def cthrow_def clift_def split: option.splits sum.splits if_splits)
    from bcd_parse_end [OF this] show ?thesis by (simp add: k_def digit_fields_width)
  qed
  moreover have "TLAddress_write B dest wp a = writeFields B dest wp ?fs"
    by (simp only: TLAddress_write_def L3BCDDigits_write_def bcd_write_fields writeFields_append)
  ultimately show ?thesis
    using d by (intro exI [of _ d] exI [of _ "wp + fields_width ?fs"]) (simp only: simp_thms, blast)
qed

section \<open>Text in septets\<close>

text \<open>What is left of a character: itself when the alphabet has it, an at sign when not.\<close>

definition gsm_text :: "char \<Rightarrow> char" where
  "gsm_text c = (if code_of c \<in> set gGSMAlphabet then c else CHR ''@'')"

lemma encode_char:
  assumes "c \<noteq> CHR 0x00"
  shows "encodeGSMChar (code_of c) < 128"
    and "char_of (decodeGSMChar (encodeGSMChar (code_of c))) = gsm_text c"
proof -
  have byte: "code_of c < 256" by (simp add: code_of_def)
  have c: "char_of (code_of c) = c" by (simp add: code_of_def)
  have at: "char_of (gGSMAlphabet ! 0) = CHR ''@''" and nul: "gGSMAlphabet ! 128 = 0" by code_simp+
  have "char_of (0 :: nat) = CHR 0x00" by code_simp
  then have nz: "code_of c \<noteq> 0" using assms c by metis
  show "encodeGSMChar (code_of c) < 128"
    using decode_encode_gsm [of "code_of c"] encode_gsm_unmapped [OF _ byte] nz nul
    by (cases "code_of c \<in> set gGSMAlphabet") (auto simp: decodeGSMChar_def less_Suc_eq numeral_eq_Suc)
  show "char_of (decodeGSMChar (encodeGSMChar (code_of c))) = gsm_text c"
    using decode_encode_gsm [of "code_of c"] encode_gsm_unmapped [OF _ byte] c at
    by (auto simp: gsm_text_def decodeGSMChar_def)
qed

definition septets :: "string \<Rightarrow> (nat \<times> nat) list" where
  "septets cs = map (\<lambda>c. (encodeGSMChar (code_of c), 7)) cs"

lemma septets_width [simp]: "fields_width (septets cs) = 7 * length cs"
  by (induction cs) (simp_all add: septets_def)

lemma write_septets:
  assumes "bit_laws B" and "\<forall>c \<in> set cs. c \<noteq> CHR 0x00" and "wp + 7 * length cs \<le> length raw"
  shows "\<exists>d. foldl (\<lambda>acc c. cbind acc (\<lambda>(raw, wp).
        writeFieldReversed B raw wp (encodeGSMChar (code_of c)) 7)) (cret (raw, wp)) cs
      = cret (d, wp + 7 * length cs)
    \<and> wrote (peekFieldReversed B) raw d wp (7 * length cs)
    \<and> holds (peekFieldReversed B) d wp (septets cs)"
  using assms(2,3)
proof (induction cs arbitrary: raw wp)
  case Nil
  then show ?case by (intro exI [of _ raw]) (simp add: septets_def)
next
  case (Cons c cs)
  have f: "field_law (peekFieldReversed B) (fillFieldReversed B)"
    using assms(1) by (simp add: bit_laws_def)
  from Cons.prems have "wp + 7 \<le> length raw" and "encodeGSMChar (code_of c) < 2 ^ 7"
    using encode_char(1) [of c] by simp_all
  with f obtain d1 where d1: "fillFieldReversed B raw wp (encodeGSMChar (code_of c)) 7 = Some d1"
    and w1: "wrote (peekFieldReversed B) raw d1 wp 7"
    and p1: "peekFieldReversed B d1 wp 7 = Some (encodeGSMChar (code_of c))"
    unfolding field_law_def wrote_def by blast
  from Cons.prems w1 have "(wp + 7) + 7 * length cs \<le> length d1" and "\<forall>c \<in> set cs. c \<noteq> CHR 0x00"
    by (simp_all add: wrote_def)
  with Cons.IH obtain d where
    d: "foldl (\<lambda>acc c. cbind acc (\<lambda>(raw, wp).
        writeFieldReversed B raw wp (encodeGSMChar (code_of c)) 7)) (cret (d1, wp + 7)) cs
      = cret (d, wp + 7 + 7 * length cs)"
    and w2: "wrote (peekFieldReversed B) d1 d (wp + 7) (7 * length cs)"
    and h: "holds (peekFieldReversed B) d (wp + 7) (septets cs)"
    by blast
  have "peekFieldReversed B d wp 7 = Some (encodeGSMChar (code_of c))"
    using w2 p1 unfolding wrote_def by (metis order_refl)
  with d1 d h wrote_trans [OF w1 w2] show ?case
    by (intro exI [of _ d]) (simp add: writeFieldReversed_def septets_def add.assoc)
qed

lemma read_septets:
  "holds (peekFieldReversed B) d p (septets cs) \<Longrightarrow> \<forall>c \<in> set cs. c \<noteq> CHR 0x00
    \<Longrightarrow> decode7bit_loop B d p (length cs) = cret (map gsm_text cs)"
  by (induction cs arbitrary: p) (simp_all add: septets_def readFieldReversed_def encode_char(2))

text \<open>
  C29: A text that is encoded into septets decodes to itself, up to the characters the alphabet of
  GSM does not have, which come back as at signs; the septets fill whole octets.
\<close>

theorem text_roundtrip:
  assumes "bit_laws B" and "CHR 0x00 \<notin> set text"
  shows "\<exists>u. TLUserData_of_text B text = cret u \<and> TLUserData_decode B u = cret (map gsm_text text)
    \<and> mLength u = length text \<and> length (mRawData u) = (length text * 7 + 7) div 8 * 8"
proof -
  let ?n = "length text" and ?l = "(length text * 7 + 7) div 8 * 8"
  let ?raw = "resizeBits B [] ?l"
  have len: "length ?raw = ?l" using assms(1) by (simp add: bit_laws_def)
  have le: "7 * ?n \<le> ?l" by presburger
  have nz: "\<forall>c \<in> set text. c \<noteq> CHR 0x00" using assms(2) by auto
  obtain d where d: "foldl (\<lambda>acc c. cbind acc (\<lambda>(raw, wp).
        writeFieldReversed B raw wp (encodeGSMChar (code_of c)) 7)) (cret (?raw, 0)) text
      = cret (d, 7 * ?n)"
    and w: "wrote (peekFieldReversed B) ?raw d 0 (7 * ?n)"
    and h: "holds (peekFieldReversed B) d 0 (septets text)"
    using write_septets [OF assms(1) nz, of 0 ?raw] le len by auto
  have "length d = ?l" using w len by (simp add: wrote_def)
  moreover have "7 * ?n + encode7bit_filler ?n = ?l"
    using le by (simp add: encode7bit_filler_def mult.commute)
  ultimately have "7 * ?n + encode7bit_filler ?n \<le> length d" by simp
  with bit_laws_field [OF assms(1)] obtain d2 where
    d2: "fillField B d (7 * ?n) 0 (encode7bit_filler ?n) = Some d2" "length d2 = length d"
    unfolding field_law_def by blast
  have "\<forall>j k. j + k \<le> 7 * ?n \<longrightarrow> peekFieldReversed B d2 j k = peekFieldReversed B d j k"
    using assms(1) d2(1) by (simp add: bit_laws_def)
  with h have h2: "holds (peekFieldReversed B) d2 0 (septets text)"
    using holds_prefix [of 0 "septets text" "7 * ?n" "peekFieldReversed B" d2 d] by simp
  have u: "TLUserData_of_text B text
      = cret \<lparr>mDCS = 0, udUDHI = False, mLength = ?n, mRawData = d2\<rparr>"
    using d d2 by (simp add: TLUserData_of_text_def encode7bit_def writeField_def Let_def)
  moreover have "TLUserData_decode B \<lparr>mDCS = 0, udUDHI = False, mLength = ?n, mRawData = d2\<rparr>
      = cret (map gsm_text text)"
    using read_septets [OF h2 nz] d2(2) \<open>length d = ?l\<close> le
    by (simp add: TLUserData_decode_def mult.commute)
  ultimately show ?thesis using d2(2) \<open>length d = ?l\<close>
    by (intro exI [of _ "\<lparr>mDCS = 0, udUDHI = False, mLength = ?n, mRawData = d2\<rparr>"]) simp
qed

subsection \<open>Bits in a list\<close>

lemma bits_val_snoc: "bits_val (xs @ [b]) = 2 * bits_val xs + (if b then 1 else 0)"
  by (simp add: bits_val_def)

lemma val_bits_Suc: "val_bits (Suc n) v = val_bits n (v div 2) @ [odd v]"
proof -
  have "[0..<Suc n] = 0 # map Suc [0..<n]" by (simp add: upt_conv_Cons map_Suc_upt del: upt_Suc)
  then show ?thesis by (simp add: val_bits_def rev_map div_mult2_eq del: upt_Suc)
qed

lemma val_bits_length [simp]: "length (val_bits n v) = n"
  by (simp add: val_bits_def)

lemma bits_val_bits: "v < 2 ^ n \<Longrightarrow> bits_val (val_bits n v) = v"
proof (induction n arbitrary: v)
  case 0
  then show ?case by (simp add: val_bits_def bits_val_def)
next
  case (Suc n)
  then show ?case by (simp add: val_bits_Suc bits_val_snoc less_mult_imp_div_less)
qed

lemma segment_written:
  assumes "overwrite b i x = Some b'"
  shows "segment b' i (length x) = Some x"
    and "j + k \<le> i \<or> i + length x \<le> j \<Longrightarrow> segment b' j k = segment b j k"
    and "length b' = length b"
proof -
  have b': "b' = take i b @ x @ drop (i + length x) b" and le: "i + length x \<le> length b"
    using assms by (auto simp: overwrite_def split: if_splits)
  show "segment b' i (length x) = Some x" using le by (simp add: b' segment_def)
  show l: "length b' = length b" using le by (simp add: b')
  show "segment b' j k = segment b j k" if "j + k \<le> i \<or> i + length x \<le> j"
  proof -
    have "take k (drop j b') = take k (drop j b)" if "j + k \<le> length b"
      using \<open>j + k \<le> i \<or> i + length x \<le> j\<close>
    proof
      assume "j + k \<le> i"
      with le show ?thesis by (simp add: b' drop_take)
    next
      assume "i + length x \<le> j"
      with le show ?thesis by (simp add: b')
    qed
    with l show ?thesis by (simp add: segment_def)
  qed
qed

lemma list_field_law:
  assumes "\<And>n v. length (put n v) = n" and "\<And>n v. v < 2 ^ n \<Longrightarrow> get (put n v) = v"
  shows "field_law (\<lambda>b i n. map_option get (segment b i n)) (\<lambda>b i v n. overwrite b i (put n v))"
  unfolding field_law_def
proof (intro allI impI)
  fix b :: bits and i v n :: nat assume "i + n \<le> length b"
  then obtain b' where b': "overwrite b i (put n v) = Some b'" by (simp add: overwrite_def assms(1))
  from segment_written [OF this] show "\<exists>b'. overwrite b i (put n v) = Some b' \<and> length b' = length b
      \<and> (v < 2 ^ n \<longrightarrow> map_option get (segment b' i n) = Some v)
      \<and> (\<forall>j k. j + k \<le> i \<or> i + n \<le> j
           \<longrightarrow> map_option get (segment b' j k) = map_option get (segment b j k))"
    by (simp add: b' assms)
qed

lemma list_bits_laws: "bit_laws list_bits"
proof -
  have "field_law (peekField list_bits) (fillField list_bits)"
    unfolding list_bits_def bit_ops.simps by (rule list_field_law) (simp_all add: bits_val_bits)
  moreover have "field_law (peekFieldReversed list_bits) (fillFieldReversed list_bits)"
    unfolding list_bits_def bit_ops.simps by (rule list_field_law) (simp_all add: bits_val_bits)
  moreover have "peekFieldReversed list_bits b' j k = peekFieldReversed list_bits b j k"
    if "fillField list_bits b i v n = Some b'" and "j + k \<le> i" for b i v n b' j k
    using segment_written(2) that by (simp add: list_bits_def)
  moreover have "length (resizeBits list_bits b n) = n" for b n by (simp add: list_bits_def)
  ultimately show ?thesis by (simp add: bit_laws_def)
qed

theorem relay_address_roundtrip_witness:
  "\<exists>d. writeLV list_bits bcd_number_lengthV (bcd_number_writeV list_bits) (replicate 80 False) 8
        (L3CalledPartyBCDNumber ''+1707'') = cret (d, 40)
    \<and> parseLV list_bits (bcd_number_parseV list_bits) d 8 L3CalledPartyBCDNumber0
        = cret (L3CalledPartyBCDNumber ''+1707'', 40)"
proof -
  let ?a = "L3CalledPartyBCDNumber ''+1707''"
  have v: "number_valid ?a" by code_simp
  have l: "bcd_number_lengthV ?a = 3" by code_simp
  have "8 + 8 * (1 + bcd_number_lengthV ?a) \<le> length (replicate 80 False)" by (simp add: l)
  from relay_address_roundtrip [OF list_bits_laws v this] show ?thesis by (auto simp: l)
qed

theorem transfer_address_roundtrip_witness:
  "\<exists>d. TLAddress_write list_bits (replicate 80 False) 8 (TLAddress_of ''5551'') = cret (d, 40)
    \<and> TLAddress_parse list_bits d 8 L3CalledPartyBCDNumber0 = cret (TLAddress_of ''5551'', 40)"
proof -
  let ?a = "TLAddress_of ''5551''"
  have v: "number_valid ?a" by code_simp
  have l: "TLAddress_length ?a = 4" by code_simp
  have i: "mType ?a = InternationalNumber \<longrightarrow> odd (length (strip_plus (mDigits ?a)))" by code_simp
  have "8 + 8 * TLAddress_length ?a \<le> length (replicate 80 False)" by (simp add: l)
  from transfer_address_roundtrip [OF list_bits_laws v i this] show ?thesis by (auto simp: l)
qed

theorem international_length_off_witness:
  "\<exists>d w. TLAddress_write list_bits (replicate 80 False) 8 (TLAddress_of ''+1707'') = cret (d, w)
    \<and> (\<forall>a r. TLAddress_parse list_bits d 8 L3CalledPartyBCDNumber0 = cret (a, r) \<longrightarrow> r = w + 8)"
proof -
  let ?a = "TLAddress_of ''+1707''"
  have v: "number_valid ?a" by code_simp
  have l: "TLAddress_length ?a = 4" by code_simp
  have i: "mType ?a = InternationalNumber" "even (length (strip_plus (mDigits ?a)))" by code_simp+
  have "8 + 8 * TLAddress_length ?a \<le> length (replicate 80 False)" by (simp add: l)
  from international_length_off [OF list_bits_laws v i this] show ?thesis by blast
qed

theorem text_roundtrip_witness:
  "\<exists>u. TLUserData_of_text list_bits ''Hi ~'' = cret u \<and> TLUserData_decode list_bits u = cret ''Hi @''
    \<and> length (mRawData u) = 32"
proof -
  have "CHR 0x00 \<notin> set ''Hi ~''" by simp
  moreover have "map gsm_text ''Hi ~'' = ''Hi @''" by code_simp
  ultimately show ?thesis using text_roundtrip [OF list_bits_laws, of "''Hi ~''"] by auto
qed

section \<open>Validity periods\<close>

text \<open>The scale of the octet, and where a number of minutes lies on it.\<close>

lemma vp_scale:
  "n < 144 \<Longrightarrow> vp_minutes n = 5 * n + 5"
  "n < 24 \<Longrightarrow> vp_minutes (143 + n) = 720 + 30 * n"
  "1 \<le> n \<Longrightarrow> n < 30 \<Longrightarrow> vp_minutes (166 + n) = 1440 * n"
  "4 \<le> n \<Longrightarrow> vp_minutes (192 + n) = (if n = 4 then 43200 else 10080 * n)"
  by (simp_all add: vp_minutes_def)

lemma on_scale:
  assumes "0 \<le> x" and "0 < d"
  obtains n where "x div d = int n" and "d * int n \<le> x" and "x < d * int n + d"
proof -
  have "0 \<le> x div d" using assms by (simp add: pos_imp_zdiv_nonneg_iff)
  then obtain n where n: "x div d = int n" using nonneg_int_cases by blast
  have "x = d * (x div d) + x mod d" by simp
  moreover have "0 \<le> x mod d" "x mod d < d" using assms by simp_all
  ultimately show thesis using that [OF n] n by simp
qed

lemma validity_hours:
  assumes "1 \<le> m" and "m \<le> 720"
  shows "m \<le> int (vp_minutes (nat (minutes_vp m))) \<and> int (vp_minutes (nat (minutes_vp m))) < m + 5"
proof -
  obtain n where n: "(m - 1) div 5 = int n" "5 * int n \<le> m - 1" "m - 1 < 5 * int n + 5"
    using on_scale [of "m - 1" 5] assms by auto
  then have "minutes_vp m = int n" and "n < 144" using assms by (simp_all add: minutes_vp_def)
  with n show ?thesis by (simp add: vp_scale(1))
qed

lemma validity_halves:
  assumes "720 < m" and "m < 1440"
  shows "m - 30 < int (vp_minutes (nat (minutes_vp m))) \<and> int (vp_minutes (nat (minutes_vp m))) \<le> m"
proof -
  obtain n where n: "(m - 720) div 30 = int n" "30 * int n \<le> m - 720" "m - 720 < 30 * int n + 30"
    using on_scale [of "m - 720" 30] assms by auto
  then have "minutes_vp m = int (143 + n)" and "n < 24" using assms by (simp_all add: minutes_vp_def)
  with n show ?thesis by (simp only: nat_int vp_scale(2)) simp
qed

lemma validity_days:
  assumes "1440 \<le> m" and "m < 43200"
  shows "m - 1440 < int (vp_minutes (nat (minutes_vp m))) \<and> int (vp_minutes (nat (minutes_vp m))) \<le> m"
proof -
  obtain n where n: "m div 1440 = int n" "1440 * int n \<le> m" "m < 1440 * int n + 1440"
    using on_scale [of m 1440] assms by auto
  then have "minutes_vp m = int (166 + n)" and "1 \<le> n" "n < 30"
    using assms by (simp_all add: minutes_vp_def)
  with n show ?thesis by (simp only: nat_int vp_scale(3)) simp
qed

lemma validity_weeks:
  assumes "43200 \<le> m" and "m < 645120"
  shows "m - 10080 < int (vp_minutes (nat (minutes_vp m))) \<and> int (vp_minutes (nat (minutes_vp m))) \<le> m"
proof -
  obtain n where n: "m div 10080 = int n" "10080 * int n \<le> m" "m < 10080 * int n + 10080"
    using on_scale [of m 10080] assms by auto
  then have "minutes_vp m = int (192 + n)" and "4 \<le> n"
    using assms by (simp_all add: minutes_vp_def)
  with n assms show ?thesis by (simp only: nat_int vp_scale(4)) simp
qed

lemma validity_longest:
  assumes "645120 \<le> m"
  shows "vp_minutes (nat (minutes_vp m)) = 635040"
proof -
  obtain n where "m div 10080 = int n" "10080 * int n \<le> m" "m < 10080 * int n + 10080"
    using on_scale [of m 10080] assms by auto
  with assms have "minutes_vp m = 255" by (simp add: minutes_vp_def)
  then show ?thesis by (simp add: vp_minutes_def)
qed

text \<open>
  The octet of a relative validity period survives conversion to minutes and back; a number of
  minutes that is converted to an octet is rounded to a step of the scale, up by less than 5 minutes
  within the first twelve hours, and from there on down by less than half an hour, a day or a week,
  up to the longest period of 63 weeks.
\<close>

theorem validity_roundtrip:
  "(v < 256 \<longrightarrow> minutes_vp (int (vp_minutes v)) = int v)
   \<and> (let w = int (vp_minutes (nat (minutes_vp m))) in
        (1 \<le> m \<and> m \<le> 720 \<longrightarrow> m \<le> w \<and> w < m + 5)
      \<and> (720 < m \<and> m < 1440 \<longrightarrow> m - 30 < w \<and> w \<le> m)
      \<and> (1440 \<le> m \<and> m < 43200 \<longrightarrow> m - 1440 < w \<and> w \<le> m)
      \<and> (43200 \<le> m \<and> m < 645120 \<longrightarrow> m - 10080 < w \<and> w \<le> m)
      \<and> (645120 \<le> m \<longrightarrow> w = 635040))"
proof -
  have "minutes_vp (int (vp_minutes v)) = int v" if "v < 256"
    using that by (auto simp: vp_minutes_def minutes_vp_def Let_def)
  then show ?thesis
    by (simp add: Let_def validity_hours validity_halves validity_days validity_weeks validity_longest)
qed

section \<open>Time stamps\<close>

lemma readFields_end: "readFields B src rp ls = cret (vs, r) \<Longrightarrow> r = rp + sum_list ls"
proof (induction ls arbitrary: rp vs)
  case Nil
  then show ?case by (simp add: cret_def)
next
  case (Cons n ls)
  then show ?case
    by (cases "peekField B src rp n")
       (fastforce simp: readField_def cbind_def cret_def split: option.splits sum.splits)+
qed

lemma writeFields_end: "writeFields B d p fs = cret (d', w) \<Longrightarrow> w = p + fields_width fs"
proof (induction fs arbitrary: d p)
  case Nil
  then show ?case by (simp add: cret_def)
next
  case (Cons f fs)
  obtain v k where f: "f = (v, k)" by (cases f)
  from Cons.prems obtain d1 where "writeFields B d1 (p + k) fs = cret (d', w)"
    by (cases "fillField B d p v k") (auto simp: f writeField_def cret_def)
  from Cons.IH [OF this] show ?case by (simp add: f)
qed

text \<open>
  A time stamp is written as the 7 octets its length says, but the parser reads one bit more:
  after it, every later field of the message is read one bit too late.
\<close>

theorem timestamp_misread:
  "(\<forall>d w. L3TimeZoneAndTime_writeV B T dest p t = cret (d, w)
       \<longrightarrow> w = p + 8 * L3TimeZoneAndTime_lengthV)
   \<and> (\<forall>t' r. L3TimeZoneAndTime_parseV B T src p t = cret (t', r)
       \<longrightarrow> r = p + 8 * L3TimeZoneAndTime_lengthV + 1)"
proof (intro conjI allI impI)
  fix d w assume "L3TimeZoneAndTime_writeV B T dest p t = cret (d, w)"
  then show "w = p + 8 * L3TimeZoneAndTime_lengthV"
    unfolding L3TimeZoneAndTime_writeV_def Let_def
    by (drule_tac writeFields_end) (simp add: bcd2_def L3TimeZoneAndTime_lengthV_def)
next
  fix t' r assume "L3TimeZoneAndTime_parseV B T src p t = cret (t', r)"
  then obtain vs where "readFields B src p [4, 4, 4, 4, 4, 4, 4, 4, 4, 4, 4, 4, 4, 1, 4] = cret (vs, r)"
    unfolding L3TimeZoneAndTime_parseV_def
    by (cases "readFields B src p [4, 4, 4, 4, 4, 4, 4, 4, 4, 4, 4, 4, 4, 1, 4]")
       (auto simp: cbind_def cret_def Let_def simp del: readFields.simps
          split: sum.splits prod.splits)
  from readFields_end [OF this] show "r = p + 8 * L3TimeZoneAndTime_lengthV + 1"
    by (simp add: L3TimeZoneAndTime_lengthV_def)
qed

definition stamp1 :: L3TimeZoneAndTime where
  "stamp1 = \<lparr>mTime = Timeval_now, mTimeType = LOCAL_TIME\<rparr>"

lemma cret_the: "(case x of Some (Inr _) \<Rightarrow> True | _ \<Rightarrow> False)
  \<Longrightarrow> x = cret (fst (projr (the x)), snd (projr (the x)))"
  by (auto simp: cret_def split: option.splits sum.splits)

theorem timestamp_misread_witness:
  "snd (projr (the (L3TimeZoneAndTime_writeV list_bits time1 (replicate 60 False) 0 stamp1))) = 56
   \<and> snd (projr (the (L3TimeZoneAndTime_parseV list_bits time1 (replicate 60 False) 0 stamp1))) = 57"
proof -
  let ?w = "L3TimeZoneAndTime_writeV list_bits time1 (replicate 60 False) 0 stamp1"
  let ?p = "L3TimeZoneAndTime_parseV list_bits time1 (replicate 60 False) 0 stamp1"
  note m = timestamp_misread [of list_bits time1 "replicate 60 False" 0 stamp1 "replicate 60 False"]
  have "?w = cret (fst (projr (the ?w)), snd (projr (the ?w)))"
    by (rule cret_the) code_simp
  with m have "snd (projr (the ?w)) = 0 + 8 * L3TimeZoneAndTime_lengthV" by blast
  moreover have "?p = cret (fst (projr (the ?p)), snd (projr (the ?p)))"
    by (rule cret_the) code_simp
  with m have "snd (projr (the ?p)) = 0 + 8 * L3TimeZoneAndTime_lengthV + 1" by blast
  ultimately show ?thesis by (simp only: L3TimeZoneAndTime_lengthV_def) simp
qed

theorem validity_roundtrip_witness:
  "minutes_vp (int (vp_minutes 200)) = 200 \<and> int (vp_minutes (nat (minutes_vp 1000))) \<le> 1000"
  using validity_roundtrip [of 200 1000] by (simp add: Let_def)

end
