(* ===== verification/Command_Properties.thy ===== *)
theory Command_Properties
  imports Smq_Example
begin

text \<open>
  What the short codes promise: which numbers a handset can register, and what zapping does.
\<close>

section \<open>Registration by short code\<close>

text \<open>The characters a number may be written with.\<close>

definition reg_char :: "char \<Rightarrow> bool" where
  "reg_char c \<longleftrightarrow> isdigit c
     \<or> c \<in> {CHR ''+'', CHR '' '', CHR ''('', CHR '')'', CHR 0x0D, CHR 0x0A, CHR ''!''}"

text \<open>The number a text asks for: its digits, and a plus sign in front of them.\<close>

definition valid_number :: "config \<Rightarrow> string \<Rightarrow> string \<Rightarrow> bool" where
  "valid_number C w num \<longleftrightarrow>
     (\<exists>ds. (num = ds \<or> num = CHR ''+'' # ds) \<and> ds = filter isdigit w
        \<and> num = filter (\<lambda>c. isdigit c \<or> c = CHR ''+'') w
        \<and> (\<forall>c \<in> set w. reg_char c)
        \<and> (getNum C ''SC.Register.Digits.Min'' \<le> int (length ds)
             \<and> int (length ds) \<le> getNum C ''SC.Register.Digits.Max''
           \<or> getBool C ''SC.Register.Digits.Override'' \<and> count_list w CHR ''!'' = 3))"

lemma plus_no_digit [simp]: "\<not> isdigit CHR ''+''" "\<not> isdigit CHR ''!''" "\<not> isdigit CHR '' ''"
  "\<not> isdigit CHR ''(''" "\<not> isdigit CHR '')''" "\<not> isdigit CHR 0x0D" "\<not> isdigit CHR 0x0A"
  by (simp_all add: isdigit_def code_of_def)

definition scan_good :: "string \<Rightarrow> reg_scan \<Rightarrow> bool" where
  "scan_good w r \<longleftrightarrow>
     (phonenum r = filter isdigit w \<or> phonenum r = CHR ''+'' # filter isdigit w)
     \<and> phonenum r = filter (\<lambda>c. isdigit c \<or> c = CHR ''+'') w
     \<and> seendig r = length (filter isdigit w)
     \<and> (seenplus r \<longleftrightarrow> CHR ''+'' \<in> set w)
     \<and> exclaim r = count_list w CHR ''!''
     \<and> (\<forall>c \<in> set w. reg_char c)"

lemma scan_good_step:
  assumes "scan_good w r" and "\<not> badnum (reg_step c r)" and "\<not> badnum r"
  shows "scan_good (w @ [c]) (reg_step c r)"
proof -
  have no: "filter (\<lambda>c. isdigit c \<or> c = CHR ''+'') w = []"
    if "filter isdigit w = []" "CHR ''+'' \<notin> set w"
    using that by (auto simp: filter_empty_conv)
  consider "isdigit c" | "c = CHR ''+''" | "c \<in> {CHR '' '', CHR ''('', CHR '')'', CHR 0x0D, CHR 0x0A}"
    | "c = CHR ''!''"
    using assms(2) by (auto simp: reg_step_def split: if_splits)
  then show ?thesis
  proof cases
    case 1
    then have "c \<noteq> CHR ''+''" "c \<noteq> CHR ''!''" by auto
    with 1 assms(1) show ?thesis by (simp add: scan_good_def reg_step_def reg_char_def) metis
  next
    case 2
    with assms(2,3) have "seendig r = 0" "\<not> seenplus r"
      by (simp_all add: reg_step_def split: if_splits)
    with 2 assms(1) no show ?thesis by (simp add: scan_good_def reg_step_def reg_char_def)
  next
    case 3
    then have c: "\<not> isdigit c" "c \<noteq> CHR ''+''" "c \<noteq> CHR ''!''" by auto
    with 3 have "reg_step c r = r" by (simp add: reg_step_def)
    moreover have "filter isdigit (w @ [c]) = filter isdigit w"
      "filter (\<lambda>c. isdigit c \<or> c = CHR ''+'') (w @ [c]) = filter (\<lambda>c. isdigit c \<or> c = CHR ''+'') w"
      "count_list (w @ [c]) CHR ''!'' = count_list w CHR ''!''"
      "CHR ''+'' \<in> set (w @ [c]) \<longleftrightarrow> CHR ''+'' \<in> set w"
      using c by simp_all
    moreover have "\<forall>d \<in> set (w @ [c]). reg_char d"
      using 3 assms(1) by (auto simp: scan_good_def reg_char_def)
    ultimately show ?thesis using assms(1) unfolding scan_good_def by metis
  next
    case 4
    with assms(1) show ?thesis by (simp add: scan_good_def reg_step_def reg_char_def) metis
  qed
qed

lemma scan_loop_good:
  assumes "scan_good prev r" and "\<not> badnum r" and "CHR 0x00 \<notin> set w"
    and "\<not> badnum (reg_scan_loop w r)"
  shows "scan_good (prev @ w) (reg_scan_loop w r)"
  using assms
proof (induction w arbitrary: prev r)
  case Nil
  then show ?case by simp
next
  case (Cons c cs)
  have loop: "reg_scan_loop (c # cs) r = reg_scan_loop cs (reg_step c r)" using Cons.prems by auto
  have good: "\<not> badnum (reg_step c r)"
  proof
    assume "badnum (reg_step c r)"
    then have "reg_scan_loop cs (reg_step c r) = reg_step c r" by (cases cs) auto
    with \<open>badnum (reg_step c r)\<close> Cons.prems(4) loop show False by simp
  qed
  with Cons.IH [OF scan_good_step [OF Cons.prems(1) good]] Cons.prems loop show ?case by simp
qed

lemma reg_number_valid:
  assumes "\<not> badnum (reg_number C w)" and "CHR 0x00 \<notin> set w"
  shows "valid_number C w (phonenum (reg_number C w))"
proof -
  let ?r = "reg_scan_loop w reg_scan0"
  have b: "\<not> badnum ?r" "reg_number C w = ?r"
    and range: "getBool C ''SC.Register.Digits.Override'' \<and> exclaim ?r = 3
      \<or> \<not> (getNum C ''SC.Register.Digits.Max'' < int (seendig ?r)
             \<or> int (seendig ?r) < getNum C ''SC.Register.Digits.Min'')"
    using assms(1) by (auto simp: reg_number_def reg_check_length_def split: if_splits)
  have "scan_good [] reg_scan0" by (simp add: scan_good_def reg_scan0_def)
  from scan_loop_good [OF this _ assms(2) b(1)] have "scan_good w ?r" by (simp add: reg_scan0_def)
  with range show ?thesis unfolding b(2)
    by (auto simp: scan_good_def valid_number_def)
qed

text \<open>
  C32: The register short code asks the subscriber registry for a new number only when the text
  spells one: digits with at most a plus sign in front, of a permitted length (or with the override
  of three exclamation marks), when the handset has no number yet and nobody owns this one.
  Otherwise the sender gets a reply.
\<close>

theorem register_only_free_numbers:
  assumes "shortcode_register W C imsi w q = Some (a, reply, q')" and "a \<noteq> SCA_REPLY"
    and "CHR 0x00 \<notin> set w"
  shows "\<exists>num. valid_number C w num \<and> getCLIDLocal W (tick q) imsi = None
    \<and> getIMSI2 W (tick q + 1) (Some num) = None
    \<and> (a, addUser W (tick q + 2) imsi num)
        \<in> {(SCA_REGISTER, HLR_SUCCESS), (SCA_AWAIT_REGISTER, HLR_DELAYED),
           (SCA_RETRY_AFTER_DELAY, HLR_TRYAGAIN)}
    \<and> reply = None \<and> q' = q\<lparr>tick := tick q + 3\<rparr>"
proof -
  let ?r = "reg_number C w"
  have "\<not> badnum ?r" using assms(1,2) by (auto simp: shortcode_register_def Let_def)
  with reg_number_valid [OF this assms(3)] assms(1,2) show ?thesis
    by (intro exI [of _ "phonenum ?r"])
       (auto simp: shortcode_register_def Let_def ask_def split: option.splits if_splits
          hlr_status.splits)
qed

theorem register_only_free_numbers_witness:
  "\<exists>num. valid_number (config1\<lparr>getNum := \<lambda>k. if k = ''SC.Register.Digits.Max'' then 10 else 7\<rparr>)
       ''+1 (707) 555'' num
     \<and> getIMSI2 world1 1 (Some num) = None"
proof -
  let ?C = "config1\<lparr>getNum := \<lambda>k. if k = ''SC.Register.Digits.Max'' then 10 else 7\<rparr>"
  let ?s = "shortcode_register world1 ?C (Some ''IMSI001010000000009'') ''+1 (707) 555'' (queue1 [])"
  have s: "?s = Some (fst (the ?s), fst (snd (the ?s)), snd (snd (the ?s)))"
    by (rule defined_3) code_simp
  have a: "fst (the ?s) \<noteq> SCA_REPLY" by code_simp
  have n: "CHR 0x00 \<notin> set ''+1 (707) 555''" by simp
  from register_only_free_numbers [OF s a n] show ?thesis by auto
qed

section \<open>Zapping\<close>

lemma zap_loop_eq:
  "zap_loop toolate xs =
     (if \<exists>x \<in> set xs. state x = NO_STATE \<or> toolate \<le> next_action_time x then None else Some 0)"
  by (induction xs) auto

text \<open>
  C33: The password of the zap short code never removes a message: it answers that none was removed
  when no message qualifies, and as soon as one does, the program has no defined behaviour (the
  message is freed and the next one is looked for in it).
\<close>

theorem zap_by_password:
  assumes "getStr C ''SC.ZapQueued.Password'' = msgtext" and "take 1 msgtext \<noteq> ''-''"
  shows "shortcode_zap_queued W C msgtext q
    = (if \<exists>x \<in> set (time_sorted_list q). state x = NO_STATE
            \<or> LONGDELETMS + clock W q \<le> next_action_time x
       then None
       else Some (SCA_REPLY, Some ''Removed 0 messages.'', q\<lparr>tick := tick q + 1\<rparr>))"
proof -
  have "show_nat 0 = ''0''" by code_simp
  with assms show ?thesis
    by (simp add: shortcode_zap_queued_def msgettime_eq zap_loop_eq)
qed

theorem zap_by_password_witness:
  "shortcode_zap_queued world1 (config1\<lparr>getStr := \<lambda>k. ''pw''\<rparr>) ''pw'' (queue1 [msg1 0 NO_STATE 5]) = None"
  using zap_by_password [of "config1\<lparr>getStr := \<lambda>k. ''pw''\<rparr>" "''pw''" world1 "queue1 [msg1 0 NO_STATE 5]"]
  by simp

end
