(* ===== verification/Network_Properties.thy ===== *)
theory Network_Properties
  imports Smq_Example
begin

text \<open>
  Where datagrams go out, what is accepted from the kernel, and the call numbers of new messages.
\<close>

section \<open>Sending\<close>

lemma deliver_sockets_out:
  assumes "deliver_sockets W t s ap socks i = (k, out, t')" and "(f, d, a) \<in> set out"
  shows "(\<exists>x si. (x, si) \<in> set socks \<and> sock_matches ap si \<and> f = fd x) \<and> a = ai_addr ap
    \<and> (\<exists>n. d = take n s)"
  using assms
  by (induction W t s ap socks i arbitrary: k out t' rule: deliver_sockets.induct)
     (fastforce simp: Let_def split: if_splits prod.splits)+

lemma deliver_sockets_sent:
  assumes "deliver_sockets W t s ap socks i = (k, out, t')" and "out = []" and "0 < k"
  shows "0 < i"
  using assms
  by (induction W t s ap socks i arbitrary: k out t' rule: deliver_sockets.induct)
     (auto simp: Let_def split: if_splits prod.splits)

text \<open>
  C34: What delivery puts on the network goes, as a prefix of the text, to an address the resolver gave,
  through a socket of the table whose family, type, protocol and address size are those of that
  address; and when delivery reports success, something was sent.
\<close>

theorem delivers_on_matching_sockets:
  assumes "deliver_addrs W t s socks aps = (r, out, t')"
  shows "(\<forall>(f, d, a) \<in> set out. \<exists>ap \<in> set aps. a = ai_addr ap \<and> (\<exists>n. d = take n s)
      \<and> (\<exists>x si. (x, si) \<in> set socks \<and> sock_matches ap si \<and> f = fd x))
    \<and> (r \<longrightarrow> out \<noteq> [])"
  using assms
proof (induction W t s socks aps arbitrary: r out t' rule: deliver_addrs.induct)
  case (1 W t s socks)
  then show ?case by simp
next
  case (2 W t s socks ap aps)
  obtain i o1 t1 where d: "deliver_sockets W t s ap socks 0 = (i, o1, t1)"
    by (cases "deliver_sockets W t s ap socks 0")
  have here: "a = ai_addr ap \<and> (\<exists>n. y = take n s)
      \<and> (\<exists>x si. (x, si) \<in> set socks \<and> sock_matches ap si \<and> f = fd x)"
    if "(f, y, a) \<in> set o1" for f y a
    using deliver_sockets_out [OF d that] by blast
  show ?case
  proof (cases "i \<le> 0")
    case True
    obtain r2 o2 t2 where e: "deliver_addrs W t1 s socks aps = (r2, o2, t2)"
      by (cases "deliver_addrs W t1 s socks aps")
    with True d 2(2) have "r = r2" "out = o1 @ o2" by auto
    moreover note 2(1) [OF d [symmetric] _ _ True e] here
    ultimately show ?thesis by fastforce
  next
    case False
    with d 2(2) have "r" "out = o1" by auto
    with here deliver_sockets_sent [OF d] False show ?thesis by fastforce
  qed
qed

section \<open>Receiving\<close>

lemma next_dgram_fits:
  assumes "get_next_dgram_loop W t n ss net = Some (len, buf, net', t')" and "0 < len"
  shows "nat len \<le> n \<and> recvaddrlen net' \<le> sizeof_src_addr
    \<and> (\<exists>x \<in> set ss. recvfrom W t (fd x) = (len, buf, src_addr net'))"
  using assms
  by (induction ss)
     (auto simp: Let_def recv_length_def split: if_splits prod.splits)

text \<open>
  C35: A datagram that is handed on fits into the buffer it was received in, and its source address
  into the array for it; it was read from one of the sockets that were polled.
\<close>

theorem received_fits:
  assumes "get_next_dgram W t n ms net = Some (len, buf, net', t')" and "0 < len"
  shows "nat len \<le> n \<and> recvaddrlen net' \<le> sizeof_src_addr
    \<and> (\<exists>x \<in> set (snd (poll_rc W t (sockets net) (if ms < 0 then - 1 else ms))).
         recvfrom W (t + 1) (fd x) = (len, buf, src_addr net'))"
proof -
  from assms(1,2) obtain ss where p: "snd (poll_rc W t (sockets net) (if ms < 0 then - 1 else ms)) = ss"
    and l: "get_next_dgram_loop W (t + 1) n ss (net\<lparr>sockets := ss\<rparr>) = Some (len, buf, net', t')"
    by (auto simp: get_next_dgram_def poll_sockets_def Let_def split: if_splits prod.splits)
  from next_dgram_fits [OF l assms(2)] p show ?thesis by simp
qed

section \<open>Call numbers\<close>

lemma new_random_positive:
  assumes "new_random_loop W t net = Some r"
  shows "0 < sint (fst r)"
  apply (rule new_random_loop.raw_induct [where P = "\<lambda>W t net r. 0 < sint (fst r)", OF _ assms])
  apply (auto simp: Let_def split: if_splits prod.splits)
  done

lemma sint_neg_pos:
  assumes "(v :: 32 word) \<noteq> 0" and "v \<noteq> 0x80000000"
  shows "0 < (if sint v < 0 then sint (- v) else sint v)"
proof -
  have "sint (0x80000000 :: 32 word) = - (2 ^ 31)" by simp
  with assms(2) have "sint v \<noteq> - (2 ^ 31)" by (metis signed_word_eqI)
  moreover have "- (2 ^ 31) \<le> sint v" using sint_ge [of v] by simp
  ultimately have "sint (- v) = - sint v" if "sint v < 0"
    using that by (simp add: signed_take_bit_int_eq_self sint_word_ariths)
  moreover have "sint v \<noteq> 0" using assms(1) by (metis signed_word_eqI signed_0)
  ultimately show ?thesis by auto
qed

lemma l64a_digits: "set (l64a n) \<subseteq> set a64_digits"
proof (induction n rule: l64a.induct)
  case (1 n)
  have "length a64_digits = 64" by (simp add: a64_digits_def)
  then have "a64_digits ! (n mod 64) \<in> set a64_digits" by simp
  with 1 show ?case by (subst l64a.simps) auto
qed

text \<open>
  A new call number is one to six digits of radix 64, made from a positive random number, and is
  remembered as the last one; with a working source of random numbers it is found in one round,
  unless the number read is 0 or the smallest integer.
\<close>

theorem call_number_wellformed:
  "(new_call_number W t net = Some (s, net', t')
      \<longrightarrow> s \<noteq> [] \<and> length s \<le> 6 \<and> set s \<subseteq> set a64_digits \<and> random_string net' = Some s)
   \<and> (0 < random_fd net \<and> read_urandom W t = Some v \<and> v \<noteq> 0 \<and> v \<noteq> 0x80000000
      \<longrightarrow> new_call_number W t net \<noteq> None)"
proof (intro conjI impI)
  assume "new_call_number W t net = Some (s, net', t')"
  then obtain r net1 where n: "new_random_number W t net = Some (r, net1, t')"
    and s: "s = take 6 (l64a (unat r))" and net': "net' = net1\<lparr>random_string := Some s\<rparr>"
    by (auto simp: new_call_number_def Let_def split: option.splits)
  have "0 < sint r"
    using n new_random_positive by (fastforce simp: new_random_number_def split: if_splits)
  then have "unat r \<noteq> 0" by (auto simp: unat_eq_0)
  then have "s \<noteq> []" unfolding s by (subst l64a.simps) simp
  with s net' l64a_digits [of "unat r"]
  show "s \<noteq> []" and "length s \<le> 6" and "set s \<subseteq> set a64_digits" and "random_string net' = Some s"
    using set_take_subset by (auto, fastforce)
next
  assume v: "0 < random_fd net \<and> read_urandom W t = Some v \<and> v \<noteq> 0 \<and> v \<noteq> 0x80000000"
  have "0 < sint (if sint v < 0 then - v else v)"
    using v sint_neg_pos [of v] by auto
  with v have "new_random_loop W t net = Some (if sint v < 0 then - v else v, net, t + 1)"
    unfolding new_random_loop.simps [of W t net]
    by (cases "sint v < 0") (simp_all add: Let_def)
  with v have "new_random_number W t net = Some (if sint v < 0 then - v else v, net, t + 1)"
    by (simp add: new_random_number_def)
  then show "new_call_number W t net \<noteq> None" by (simp add: new_call_number_def Let_def)
qed


theorem call_number_wellformed_witness:
  "\<exists>s net' t'. new_call_number net1 0 (SMnet0\<lparr>random_fd := 4\<rparr>) = Some (s, net', t')
     \<and> length s \<le> 6 \<and> set s \<subseteq> set a64_digits"
proof -
  have r: "read_urandom net1 0 = Some 4711" by (simp add: net1_def)
  have "new_call_number net1 0 (SMnet0\<lparr>random_fd := 4\<rparr>) \<noteq> None"
    using call_number_wellformed [of net1 0 "SMnet0\<lparr>random_fd := 4\<rparr>" _ _ _ 4711] r by simp
  then obtain s net' t' where "new_call_number net1 0 (SMnet0\<lparr>random_fd := 4\<rparr>) = Some (s, net', t')"
    by auto
  with call_number_wellformed [of net1 0 "SMnet0\<lparr>random_fd := 4\<rparr>" s net' t'] show ?thesis by blast
qed

theorem received_fits_witness:
  "nat (fst (the (get_next_dgram net1 0 5000 100 (my_network (queue1 []))))) \<le> 5000"
proof -
  let ?g = "get_next_dgram net1 0 5000 100 (my_network (queue1 []))"
  have g: "?g = Some (fst (the ?g), fst (snd (the ?g)), fst (snd (snd (the ?g))), snd (snd (snd (the ?g))))"
    by (rule defined_4) code_simp
  have "0 < fst (the ?g)" by code_simp
  from received_fits [OF g this] show ?thesis by simp
qed

theorem delivers_on_matching_sockets_witness:
  "\<exists>x si. (x, si) \<in> set (zip (sockets (my_network (queue1 []))) (sockinfo (my_network (queue1 []))))
     \<and> fd x = 3 \<and> socktype si = SOCK_DGRAM"
proof -
  let ?s = "zip (sockets (my_network (queue1 []))) (sockinfo (my_network (queue1 [])))"
  let ?a = "the (getaddrinfo net1 0 None ''5062'')"
  let ?d = "deliver_addrs net1 0 ''hi'' ?s ?a"
  have d: "?d = (fst ?d, fst (snd ?d), snd (snd ?d))" by simp
  have "fst (snd ?d) = [(3, ''hi'', ''peer'')]" by code_simp
  then have "(3, ''hi'', ''peer'') \<in> set (fst (snd ?d))" by simp
  with delivers_on_matching_sockets [OF d] obtain ap x si where "ap \<in> set ?a" "(x, si) \<in> set ?s"
    "sock_matches ap si" "fd x = 3" by fastforce
  moreover from this(1) have "ai_socktype ap = SOCK_DGRAM" by (simp add: net1_def)
  ultimately show ?thesis by (auto simp: sock_matches_def)
qed

end
