(* ===== verification/Smq_Config.thy ===== *)
theory Smq_Config
  imports Smq_Prelude
begin

text \<open>
  The configuration keys the daemon declares (\<open>getConfigurationKeys\<close> at the end of
  \<open>smqueue/smqueue.cpp\<close>), with the default, the type and the accepted values of each key.
  \<open>key_default_ok\<close> is the specification: the default of a key is one of the values that the
  declaration of the key accepts.
\<close>

section \<open>Declarations\<close>












section \<open>Accepted values\<close>










section \<open>Lemmas\<close>










section \<open>Defaults\<close>




end
