(* ===== verification/Gsm_Frames.thy ===== *)
theory Gsm_Frames
  imports Gsm_Codec
begin

text \<open>
  Layer-3 frames and the formats of their elements: the frame classes (\<open>GSM/GSMTransfer\<close>,
  \<open>SMS/SMSTransfer.h\<close>), the header of layer-3 messages and the TV and TLV formats
  (\<open>GSM/GSML3Message\<close>), calling-party numbers (\<open>GSM/GSML3CCElements\<close>), and the printable names
  and timers of \<open>GSM/GSMCommon\<close>.
\<close>

section \<open>Primitives and frames\<close>

datatype Primitive = ESTABLISH | RELEASE | DATA | UNIT_DATA | ERROR | HARDRELEASE

fun show_Primitive :: "Primitive \<Rightarrow> string" where
  "show_Primitive ESTABLISH = ''ESTABLISH''"
| "show_Primitive RELEASE = ''RELEASE''"
| "show_Primitive DATA = ''DATA''"
| "show_Primitive UNIT_DATA = ''UNIT_DATA''"
| "show_Primitive ERROR = ''ERROR''"
| "show_Primitive HARDRELEASE = ''HARDRELEASE''"

record L3Frame =
  l3_bits :: bits
  l3_primitive :: Primitive
  l3_L2Length :: nat

definition L3Frame_empty :: "bit_ops \<Rightarrow> Primitive \<Rightarrow> nat \<Rightarrow> L3Frame" where
  "L3Frame_empty B wPrimitive len =
     \<lparr>l3_bits = newBits B len, l3_primitive = wPrimitive, l3_L2Length = len\<rparr>"

definition L3Frame_of_bits :: "bits \<Rightarrow> Primitive \<Rightarrow> L3Frame" where
  "L3Frame_of_bits source wPrimitive =
     \<lparr>l3_bits = source, l3_primitive = wPrimitive,
      l3_L2Length = length source div 8 + (if length source mod 8 \<noteq> 0 then 1 else 0)\<rparr>"

definition L3Frame_concat :: "L3Frame \<Rightarrow> L3Frame \<Rightarrow> L3Frame" where
  "L3Frame_concat f1 f2 =
     \<lparr>l3_bits = l3_bits f1 @ l3_bits f2, l3_primitive = DATA,
      l3_L2Length = l3_L2Length f1 + l3_L2Length f2\<rparr>"

text \<open>
  \<open>writeField(wp, v, 4)\<close> with an \<open>int\<close> that is converted to the 64 bits of the parameter; \<open>char\<close> is
  signed.
\<close>

definition field_of_int :: "int \<Rightarrow> nat" where
  "field_of_int v = nat (v mod 2 ^ 64)"

definition schar :: "char \<Rightarrow> int" where
  "schar c = (if code_of c < 128 then int (code_of c) else int (code_of c) - 256)"

definition hex_nibble :: "char \<Rightarrow> int" where
  "hex_nibble c = (let v = schar c - 48 in if 9 < v then schar c - 97 + 10 else v)"

definition L3Frame_of_hex :: "bit_ops \<Rightarrow> string \<Rightarrow> L3Frame codec" where
  "L3Frame_of_hex B hexString =
     (let len = length hexString in
      cbind (writeFields B (resizeBits B [] (len * 4)) 0
               (map (\<lambda>c. (field_of_int (hex_nibble c), 4)) hexString)) (\<lambda>(b, wp).
      cret \<lparr>l3_bits = b, l3_primitive = DATA, l3_L2Length = len div 2\<rparr>))"

definition L3Frame_of_binary :: "bit_ops \<Rightarrow> string \<Rightarrow> L3Frame codec" where
  "L3Frame_of_binary B binary =
     (let len = length binary in
      cbind (writeFields B (resizeBits B [] (len * 8)) 0
               (map (\<lambda>c. (field_of_int (schar c), 8)) binary)) (\<lambda>(b, wp).
      cret \<lparr>l3_bits = b, l3_primitive = DATA, l3_L2Length = len\<rparr>))"

text \<open>The header fields of the frames of the three layers.\<close>

definition L3Frame_PD :: "bit_ops \<Rightarrow> bits \<Rightarrow> nat option" where
  "L3Frame_PD B f = peekField B f 4 4"

definition L3Frame_MTI :: "bit_ops \<Rightarrow> bits \<Rightarrow> nat option" where
  "L3Frame_MTI B f = peekField B f 8 8"

definition L3Frame_TI :: "bit_ops \<Rightarrow> bits \<Rightarrow> nat option" where
  "L3Frame_TI B f = peekField B f 0 4"

definition L3Frame_length :: "bits \<Rightarrow> nat" where
  "L3Frame_length f = length f div 8"

definition RLFrame_MTI :: "bit_ops \<Rightarrow> bits \<Rightarrow> nat option" where
  "RLFrame_MTI B f = peekField B f 5 3"

definition RLFrame_reference :: "bit_ops \<Rightarrow> bits \<Rightarrow> nat option" where
  "RLFrame_reference B f = peekField B f 8 8"

definition TLFrame_MTI :: "bit_ops \<Rightarrow> bits \<Rightarrow> nat option" where
  "TLFrame_MTI B f = peekField B f 6 2"

text \<open>Rest octets: the bits H and L relative to the fill pattern.\<close>

definition fillPattern :: "nat list" where
  "fillPattern = [0, 0, 1, 0, 1, 0, 1, 1]"

definition writeH :: "bit_ops \<Rightarrow> bits \<Rightarrow> nat \<Rightarrow> (bits \<times> nat) codec" where
  "writeH B dest wp = writeField B dest wp (if fillPattern ! (wp mod 8) = 0 then 1 else 0) 1"

definition writeL :: "bit_ops \<Rightarrow> bits \<Rightarrow> nat \<Rightarrow> (bits \<times> nat) codec" where
  "writeL B dest wp = writeField B dest wp (fillPattern ! (wp mod 8)) 1"

section \<open>Layer-3 messages\<close>

text \<open>
  The virtual functions of the class are arguments: the lengths of the body, the protocol
  discriminator, the message type, and the functions for the body.
\<close>

record L3Message =
  l3m_l2BodyLength :: nat
  l3m_fullBodyLength :: nat
  l3m_PD :: nat
  l3m_MTI :: nat

definition L3Message_L2Length :: "L3Message \<Rightarrow> nat" where
  "L3Message_L2Length m = l3m_l2BodyLength m + 2"

definition L3Message_FullLength :: "L3Message \<Rightarrow> nat" where
  "L3Message_FullLength m = l3m_fullBodyLength m + 2"

definition L3Message_bitsNeeded :: "L3Message \<Rightarrow> nat" where
  "L3Message_bitsNeeded m = 8 * L3Message_FullLength m"

definition L3Message_parse ::
  "(bits \<Rightarrow> nat \<Rightarrow> 'e \<Rightarrow> ('e \<times> nat) codec) \<Rightarrow> bits \<Rightarrow> 'e \<Rightarrow> 'e codec" where
  "L3Message_parse parseBody source e = cbind (parseBody source 16 e) (\<lambda>(e, rp). cret e)"

definition L3Message_write ::
  "bit_ops \<Rightarrow> L3Message \<Rightarrow> (bits \<Rightarrow> nat \<Rightarrow> (bits \<times> nat) codec) \<Rightarrow> L3Frame \<Rightarrow> L3Frame codec" where
  "L3Message_write B m writeBody dest =
     (let l3len = L3Message_bitsNeeded m;
          b = (if length (l3_bits dest) \<noteq> l3len then resizeBits B (l3_bits dest) l3len
               else l3_bits dest)
      in cbind (writeFields B b 0 [(0, 4), (l3m_PD m, 4), (l3m_MTI m, 8)]) (\<lambda>(b, wp).
         cbind (writeBody b wp) (\<lambda>(b, wp).
         cret (dest\<lparr>l3_bits := b, l3_L2Length := L3Message_L2Length m\<rparr>))))"

definition L3Message_frame ::
  "bit_ops \<Rightarrow> L3Message \<Rightarrow> (bits \<Rightarrow> nat \<Rightarrow> (bits \<times> nat) codec) \<Rightarrow> Primitive \<Rightarrow> L3Frame codec" where
  "L3Message_frame B m writeBody prim =
     L3Message_write B m writeBody (L3Frame_empty B prim (L3Message_bitsNeeded m))"

section \<open>Element formats\<close>

definition skipLV :: "bit_ops \<Rightarrow> bits \<Rightarrow> nat \<Rightarrow> (nat \<times> nat) codec" where
  "skipLV B source rp =
     (if rp = length source then cret (0, rp)
      else cbind (readField B source rp 8) (\<lambda>(n, rp').
           cret (rp' + 8 * n - rp, rp' + 8 * n)))"

definition skipTLV :: "bit_ops \<Rightarrow> nat \<Rightarrow> bits \<Rightarrow> nat \<Rightarrow> (nat \<times> nat) codec" where
  "skipTLV B IEI source rp =
     (if rp = length source then cret (0, rp)
      else cbind (clift (peekField B source rp 8)) (\<lambda>thisIEI.
           if thisIEI \<noteq> IEI then cret (0, rp)
           else cbind (readField B source (rp + 8) 8) (\<lambda>(n, rp').
                cret (rp' + 8 * n - rp, rp' + 8 * n))))"

definition skipTV :: "bit_ops \<Rightarrow> nat \<Rightarrow> nat \<Rightarrow> bits \<Rightarrow> nat \<Rightarrow> (nat \<times> nat) codec" where
  "skipTV B IEI numBits source rp =
     (if rp = length source then cret (0, rp)
      else let IEISize = (if 4 < numBits then 8 else 4) in
           cbind (clift (peekField B source rp IEISize)) (\<lambda>thisIEI.
           if thisIEI \<noteq> IEI then cret (0, rp)
           else cret (IEISize + numBits, rp + IEISize + numBits)))"

text \<open>The lengths of the formats in octets, from the length of the value.\<close>

definition lengthTV :: "nat \<Rightarrow> nat" where
  "lengthTV lengthV = lengthV + 1"

definition lengthLV :: "nat \<Rightarrow> nat" where
  "lengthLV lengthV = lengthV + 1"

definition lengthTLV :: "nat \<Rightarrow> nat" where
  "lengthTLV lengthV = lengthLV lengthV + 1"

text \<open>\<open>parseV(src, rp)\<close> is the parser of a value of fixed length, \<open>parseLV\<close> the one above.\<close>

definition parseTV ::
  "bit_ops \<Rightarrow> nat \<Rightarrow> (bits \<Rightarrow> nat \<Rightarrow> 'e \<Rightarrow> ('e \<times> nat) codec) \<Rightarrow> nat \<Rightarrow> bits \<Rightarrow> nat \<Rightarrow> 'e
     \<Rightarrow> (bool \<times> 'e \<times> nat) codec" where
  "parseTV B lengthV parseV IEI source rp e =
     (if rp = length source then cret (False, e, rp)
      else let n = (if lengthV = 0 then 4 else 8) in
           cbind (clift (peekField B source rp n)) (\<lambda>thisIEI.
           if thisIEI \<noteq> IEI then cret (False, e, rp)
           else cbind (parseV source (rp + n) e) (\<lambda>(e, rp). cret (True, e, rp))))"

definition parseTLV ::
  "bit_ops \<Rightarrow> (bits \<Rightarrow> nat \<Rightarrow> nat \<Rightarrow> 'e \<Rightarrow> ('e \<times> nat) codec) \<Rightarrow> nat \<Rightarrow> bits \<Rightarrow> nat \<Rightarrow> 'e
     \<Rightarrow> (bool \<times> 'e \<times> nat) codec" where
  "parseTLV B parseV IEI source rp e =
     (if rp = length source then cret (False, e, rp)
      else cbind (clift (peekField B source rp 8)) (\<lambda>thisIEI.
           if thisIEI \<noteq> IEI then cret (False, e, rp)
           else cbind (parseLV B parseV source (rp + 8) e) (\<lambda>(e, rp). cret (True, e, rp))))"

definition writeTLV ::
  "bit_ops \<Rightarrow> ('e \<Rightarrow> nat) \<Rightarrow> (bits \<Rightarrow> nat \<Rightarrow> 'e \<Rightarrow> (bits \<times> nat) codec) \<Rightarrow> nat \<Rightarrow> bits \<Rightarrow> nat \<Rightarrow> 'e
     \<Rightarrow> (bits \<times> nat) codec" where
  "writeTLV B lengthV writeV IEI dest wp e =
     cbind (writeField B dest wp IEI 8) (\<lambda>(dest, wp). writeLV B lengthV writeV dest wp e)"

definition writeTV ::
  "bit_ops \<Rightarrow> ('e \<Rightarrow> nat) \<Rightarrow> (bits \<Rightarrow> nat \<Rightarrow> 'e \<Rightarrow> (bits \<times> nat) codec) \<Rightarrow> nat \<Rightarrow> bits \<Rightarrow> nat \<Rightarrow> 'e
     \<Rightarrow> (bits \<times> nat) codec" where
  "writeTV B lengthV writeV IEI dest wp e =
     cbind (writeField B dest wp IEI (if lengthV e = 0 then 4 else 8)) (\<lambda>(dest, wp).
     writeV dest wp e)"

text \<open>The loop over extension bits ends where a read aborts, or at the bit that is set.\<close>

partial_function (option) skipExtended_loop :: "bit_ops \<Rightarrow> bits \<Rightarrow> nat \<Rightarrow> nat option" where
  "skipExtended_loop B source rp =
     Option.bind (peekField B source rp 1) (\<lambda>endbit.
     if endbit \<noteq> 0 then Some (rp + 8) else skipExtended_loop B source (rp + 8))"

declare skipExtended_loop.simps [code]

definition skipExtendedOctets :: "bit_ops \<Rightarrow> bits \<Rightarrow> nat \<Rightarrow> nat codec" where
  "skipExtendedOctets B source rp =
     (if rp = length source then cret rp else clift (skipExtended_loop B source rp))"

section \<open>Printable names\<close>

definition show_unknown :: "nat \<Rightarrow> string" where
  "show_unknown n = ''?'' @ show_nat n @ ''?''"

definition show_TypeOfNumber :: "TypeOfNumber \<Rightarrow> string" where
  "show_TypeOfNumber ty =
     (if ty = 0 then ''unknown''
      else if ty = 1 then ''international''
      else if ty = 2 then ''national''
      else if ty = 3 then ''network-specific''
      else if ty = 4 then ''short code''
      else show_unknown ty)"

definition show_NumberingPlan :: "NumberingPlan \<Rightarrow> string" where
  "show_NumberingPlan plan =
     (if plan = 0 then ''unknown''
      else if plan = 1 then ''E.164/ISDN''
      else if plan = 3 then ''X.121/data''
      else if plan = 4 then ''F.69/Telex''
      else if plan = 8 then ''national''
      else if plan = 9 then ''private''
      else show_unknown plan)"

datatype MobileIDType = NoIDType | IMSIType | IMEIType | IMEISVType | TMSIType

fun show_MobileIDType :: "MobileIDType \<Rightarrow> string" where
  "show_MobileIDType NoIDType = ''None''"
| "show_MobileIDType IMSIType = ''IMSI''"
| "show_MobileIDType IMEIType = ''IMEI''"
| "show_MobileIDType TMSIType = ''TMSI''"
| "show_MobileIDType IMEISVType = ''IMEISV''"

definition called_number_text :: "bcd_number \<Rightarrow> string" where
  "called_number_text a =
     ''type='' @ show_TypeOfNumber (mType a) @ '' plan='' @ show_NumberingPlan (mPlan a)
     @ '' digits='' @ mDigits a"

text \<open>The protocol discriminator is a field of four bits; the default prints it in hexadecimal.\<close>

definition show_L3PD :: "nat \<Rightarrow> string" where
  "show_L3PD val =
     (if val = 3 then ''Call Control''
      else if val = 5 then ''Mobility Management''
      else if val = 6 then ''Radio Resource''
      else ''0x'' @ [if val < 10 then char_of (48 + val) else char_of (87 + val)])"

definition L3Message_text :: "L3Message \<Rightarrow> string" where
  "L3Message_text m = ''PD='' @ show_L3PD (l3m_PD m) @ '' MTI='' @ show_nat (l3m_MTI m)"

section \<open>Calling-party numbers\<close>

text \<open>
  Octet 3a with its indicators is optional; no constructor initialises the two indicators, so that
  they are \<open>None\<close> until they are parsed.
\<close>

record calling_number = bcd_number +
  mHaveOctet3a :: bool
  mPresentationIndicator :: "nat option"
  mScreeningIndicator :: "nat option"

definition L3CallingPartyBCDNumber0 :: calling_number where
  "L3CallingPartyBCDNumber0 =
     \<lparr>mType = UnknownTypeOfNumber, mPlan = UnknownPlan, mDigits = [], mHaveOctet3a = False,
      mPresentationIndicator = None, mScreeningIndicator = None\<rparr>"

definition L3CallingPartyBCDNumber :: "string \<Rightarrow> calling_number" where
  "L3CallingPartyBCDNumber wDigits =
     \<lparr>mType = (if take 1 wDigits = ''+'' then InternationalNumber else NationalNumber),
      mPlan = E164Plan, mDigits = L3BCDDigits_of wDigits, mHaveOctet3a = False,
      mPresentationIndicator = None, mScreeningIndicator = None\<rparr>"

text \<open>The explicit conversion to a called-party number.\<close>

definition called_of_calling :: "calling_number \<Rightarrow> bcd_number" where
  "called_of_calling a =
     \<lparr>mType = mType a, mPlan = mPlan a, mDigits = L3BCDDigits_of (mDigits a)\<rparr>"

definition calling_number_lengthV :: "calling_number \<Rightarrow> nat" where
  "calling_number_lengthV a =
     1 + (if mHaveOctet3a a then 1 else 0) + L3BCDDigits_lengthV (mDigits a)"

text \<open>Octet 3a as it is written: 1 + 2 + 3 + 2 bits.\<close>

definition octet_3a :: "nat \<Rightarrow> nat \<Rightarrow> (nat \<times> nat) list" where
  "octet_3a presentation screening = [(1, 1), (presentation, 2), (0, 3), (screening, 2)]"

definition calling_number_writeV ::
  "bit_ops \<Rightarrow> bits \<Rightarrow> nat \<Rightarrow> calling_number \<Rightarrow> (bits \<times> nat) codec" where
  "calling_number_writeV B dest wp a =
     cbind (writeFields B dest wp
              [(if mHaveOctet3a a then 0 else 1, 1), (mType a, 3), (mPlan a, 4)]) (\<lambda>(dest, wp).
     cbind (if mHaveOctet3a a then
              cbind (clift (mPresentationIndicator a)) (\<lambda>p.
              cbind (clift (mScreeningIndicator a)) (\<lambda>s.
              writeFields B dest wp (octet_3a p s)))
            else cret (dest, wp)) (\<lambda>(dest, wp).
     L3BCDDigits_write B dest wp (mDigits a)))"

text \<open>
  Octet 3a as it is parsed: 1 + 3 + 3 + 4 bits.  \<open>remainingLength\<close> is unsigned and wraps where the
  element ends before octet 3a.
\<close>

definition parse_octet_3a ::
  "bit_ops \<Rightarrow> bits \<Rightarrow> nat \<Rightarrow> calling_number \<Rightarrow> (calling_number \<times> nat) codec" where
  "parse_octet_3a B src rp a =
     cbind (readField B src rp 1) (\<lambda>(ext, rp).
     if ext \<noteq> 1 then cthrow L3ReadError else
     cbind (readField B src rp 3) (\<lambda>(p, rp).
     cbind (readField B src rp 3) (\<lambda>(spare, rp).
     cbind (readField B src rp 4) (\<lambda>(s, rp).
     cret (a\<lparr>mPresentationIndicator := Some p, mScreeningIndicator := Some s\<rparr>, rp)))))"

definition calling_number_parseV ::
  "bit_ops \<Rightarrow> bits \<Rightarrow> nat \<Rightarrow> nat \<Rightarrow> calling_number \<Rightarrow> (calling_number \<times> nat) codec" where
  "calling_number_parseV B src rp expectedLength a =
     cbind (readField B src rp 1) (\<lambda>(ext, rp).
     cbind (readField B src rp 3) (\<lambda>(ty, rp).
     cbind (readField B src rp 4) (\<lambda>(plan, rp).
     let a = a\<lparr>mHaveOctet3a := (ext = 0), mType := ty, mPlan := plan\<rparr>;
         remaining = of_nat expectedLength - 1 :: 64 word;
         remaining' = (if ext = 0 then remaining - 1 else remaining)
     in cbind (if ext = 0 then parse_octet_3a B src rp a else cret (a, rp)) (\<lambda>(a, rp).
        cbind (L3BCDDigits_parse B src rp (unat remaining') (ty = InternationalNumber))
          (\<lambda>(ds, rp). cret (a\<lparr>mDigits := ds\<rparr>, rp))))))"

definition calling_number_text :: "calling_number \<Rightarrow> string option" where
  "calling_number_text a =
     do {
       octet \<leftarrow> (if mHaveOctet3a a then
                  do { p \<leftarrow> mPresentationIndicator a; s \<leftarrow> mScreeningIndicator a;
                       Some ('' presentation='' @ show_nat p @ '' screening='' @ show_nat s) }
                else Some []);
       Some (''type='' @ show_TypeOfNumber (mType a) @ '' plan='' @ show_NumberingPlan (mPlan a)
             @ octet @ '' digits='' @ mDigits a) }"

section \<open>Timers\<close>

text \<open>
  \<open>Z100Timer\<close> over the class \<open>Timeval\<close> of CommonLibs, a parameter: the time a given number of
  milliseconds from now, whether a time has passed and what remains to it, each at a tick of the
  clock.  \<open>Timeval()\<close> is \<open>tv_in\<close> of 0 milliseconds.
\<close>

record 't clock_ops =
  tv_in :: "nat \<Rightarrow> int \<Rightarrow> 't"
  tv_passed :: "nat \<Rightarrow> 't \<Rightarrow> bool"
  tv_remaining :: "nat \<Rightarrow> 't \<Rightarrow> int"

record 't Z100Timer =
  mEndTime :: 't
  mLimitTime :: int
  mActive :: bool

definition Z100Timer_new :: "'t clock_ops \<Rightarrow> nat \<Rightarrow> int \<Rightarrow> 't Z100Timer" where
  "Z100Timer_new K t wLimitTime =
     \<lparr>mEndTime = tv_in K t 0, mLimitTime = wLimitTime, mActive = False\<rparr>"

definition Z100Timer0 :: "'t clock_ops \<Rightarrow> nat \<Rightarrow> 't Z100Timer" where
  "Z100Timer0 K t = Z100Timer_new K t 0"

definition timer_expired :: "'t clock_ops \<Rightarrow> nat \<Rightarrow> 't Z100Timer \<Rightarrow> bool option" where
  "timer_expired K t z =
     (if mLimitTime z = 0 then None
      else if \<not> mActive z then Some False
      else Some (tv_passed K t (mEndTime z)))"

definition timer_set :: "'t clock_ops \<Rightarrow> nat \<Rightarrow> 't Z100Timer \<Rightarrow> 't Z100Timer option" where
  "timer_set K t z =
     (if mLimitTime z = 0 then None
      else Some (z\<lparr>mEndTime := tv_in K t (mLimitTime z), mActive := True\<rparr>))"

definition timer_set_limit ::
  "'t clock_ops \<Rightarrow> nat \<Rightarrow> int \<Rightarrow> 't Z100Timer \<Rightarrow> 't Z100Timer option" where
  "timer_set_limit K t wLimitTime z = timer_set K t (z\<lparr>mLimitTime := wLimitTime\<rparr>)"

definition timer_expire :: "'t clock_ops \<Rightarrow> nat \<Rightarrow> 't Z100Timer \<Rightarrow> 't Z100Timer" where
  "timer_expire K t z = z\<lparr>mEndTime := tv_in K t 0, mActive := True\<rparr>"

definition timer_reset :: "'t Z100Timer \<Rightarrow> 't Z100Timer option" where
  "timer_reset z = (if mLimitTime z = 0 then None else Some (z\<lparr>mActive := False\<rparr>))"

definition timer_remaining :: "'t clock_ops \<Rightarrow> nat \<Rightarrow> 't Z100Timer \<Rightarrow> int" where
  "timer_remaining K t z = (if \<not> mActive z then 0 else max 0 (tv_remaining K t (mEndTime z)))"

text \<open>
  \<open>wait\<close>: the clock is read for \<open>expired\<close> and for \<open>remaining\<close>, then the thread sleeps; the result
  is the tick at which it goes on.  \<open>sleep\<close> gives the tick after sleeping that many milliseconds.
\<close>

partial_function (option) timer_wait ::
  "'t clock_ops \<Rightarrow> (nat \<Rightarrow> int \<Rightarrow> nat) \<Rightarrow> 't Z100Timer \<Rightarrow> nat \<Rightarrow> nat option" where
  "timer_wait K sleep z t =
     Option.bind (timer_expired K t z) (\<lambda>e.
     if e then Some (t + 1)
     else timer_wait K sleep z (sleep (t + 2) (timer_remaining K (t + 1) z)))"

declare timer_wait.simps [code]

text \<open>The tick at which the loop tests the timer for the \<open>n\<close>-th time.\<close>

fun wait_tick :: "'t clock_ops \<Rightarrow> (nat \<Rightarrow> int \<Rightarrow> nat) \<Rightarrow> 't Z100Timer \<Rightarrow> nat \<Rightarrow> nat \<Rightarrow> nat" where
  "wait_tick K sleep z t 0 = t"
| "wait_tick K sleep z t (Suc n) =
     wait_tick K sleep z (sleep (t + 2) (timer_remaining K (t + 1) z)) n"

lemma timer_wait_ends:
  assumes "timer_expired K (wait_tick K sleep z t n) z = Some True" and "mLimitTime z \<noteq> 0"
  shows "\<exists>t'. timer_wait K sleep z t = Some t'"
  using assms(1)
proof (induction n arbitrary: t)
  case 0
  then show ?case by (subst timer_wait.simps) simp
next
  case (Suc n)
  have "timer_expired K t z \<noteq> None" using assms(2)
    by (simp add: timer_expired_def del: not_None_eq)
  then obtain e where "timer_expired K t z = Some e" by blast
  with Suc show ?case by (subst timer_wait.simps) simp
qed

lemma timer_wait_ended:
  assumes "timer_wait K sleep z t = Some t'"
  shows "\<exists>n. timer_expired K (wait_tick K sleep z t n) z = Some True"
proof (rule timer_wait.raw_induct
    [where P = "\<lambda>K sleep z t t'. \<exists>n. timer_expired K (wait_tick K sleep z t n) z = Some True",
     OF _ assms])
  fix wait :: "'a clock_ops \<Rightarrow> (nat \<Rightarrow> int \<Rightarrow> nat) \<Rightarrow> 'a Z100Timer \<Rightarrow> nat \<Rightarrow> nat option"
  fix K sleep z t t'
  assume hyp: "\<And>K sleep z t t'. wait K sleep z t = Some t'
      \<Longrightarrow> \<exists>n. timer_expired K (wait_tick K sleep z t n) z = Some True"
    and step: "Option.bind (timer_expired K t z) (\<lambda>e. if e then Some (t + 1)
      else wait K sleep z (sleep (t + 2) (timer_remaining K (t + 1) z))) = Some t'"
  let ?t = "sleep (t + 2) (timer_remaining K (t + 1) z)"
  from step consider "timer_expired K t z = Some True" | "wait K sleep z ?t = Some t'"
    by (cases "timer_expired K t z") (auto split: if_splits)
  then show "\<exists>n. timer_expired K (wait_tick K sleep z t n) z = Some True"
  proof cases
    case 1
    then show ?thesis by (intro exI [of _ 0]) simp
  next
    case 2
    from hyp [OF 2] obtain n where
      "timer_expired K (wait_tick K sleep z ?t n) z = Some True" by blast
    then show ?thesis by (intro exI [of _ "Suc n"]) simp
  qed
qed

text \<open>
  Waiting for a timer comes to an end exactly when the timer is running and its time has
  passed at one of the moments the loop looks at the clock; for a timer that is not running, where
  the header file promises an immediate return, it never ends.
\<close>

theorem timer_wait_returns:
  assumes "mLimitTime z \<noteq> 0"
  shows "(\<exists>t'. timer_wait K sleep z t = Some t')
    \<longleftrightarrow> mActive z \<and> (\<exists>n. tv_passed K (wait_tick K sleep z t n) (mEndTime z))"
proof -
  have "timer_expired K t z = Some True \<longleftrightarrow> mActive z \<and> tv_passed K t (mEndTime z)" for t
    using assms by (simp add: timer_expired_def)
  with timer_wait_ends [OF _ assms] timer_wait_ended show ?thesis by metis
qed

definition clock1 :: "int clock_ops" where
  "clock1 = \<lparr>tv_in = \<lambda>t ms. int t + ms, tv_passed = \<lambda>t e. e \<le> int t, tv_remaining = \<lambda>t e. e - int t\<rparr>"

definition timer1 :: "int Z100Timer" where
  "timer1 = Z100Timer_new clock1 0 20"

definition timer2 :: "int Z100Timer" where
  "timer2 = the (timer_set clock1 0 timer1)"

theorem timer_wait_returns_witness:
  "timer_wait clock1 (\<lambda>t ms. t + nat ms) timer1 5 = None
   \<and> timer_wait clock1 (\<lambda>t ms. t + nat ms) timer2 5 \<noteq> None"
proof -
  let ?s = "\<lambda>t ms. t + nat ms"
  have z: "mLimitTime timer1 \<noteq> 0" "mLimitTime timer2 \<noteq> 0" "\<not> mActive timer1" "mActive timer2"
    by (simp_all add: timer1_def timer2_def Z100Timer_new_def timer_set_def)
  have "tv_passed clock1 (wait_tick clock1 ?s timer2 5 (Suc 0)) (mEndTime timer2)"
    by (simp add: timer1_def timer2_def Z100Timer_new_def timer_set_def clock1_def timer_remaining_def)
  then have "\<exists>t'. timer_wait clock1 ?s timer2 5 = Some t'"
    unfolding timer_wait_returns [OF z(2)] using z(4) by (intro conjI exI [of _ "Suc 0"])
  moreover have "\<not> (\<exists>t'. timer_wait clock1 ?s timer1 5 = Some t')"
    unfolding timer_wait_returns [OF z(1)] using z(3) by simp
  ultimately show ?thesis by simp
qed

end
