(* ===== verification/Sms_Control.thy ===== *)
theory Sms_Control
  imports Sms_Codec Gsm_Frames
begin

text \<open>
  The other messages of \<open>SMS/SMSMessages\<close>: RP-ACK and RP-ERROR next to RP-DATA, the messages of the
  CM layer (CP-DATA, CP-ACK, CP-ERROR) with their parser, the header bits of transfer-layer
  messages, and the printed form of messages and primitives (\<open>SMS/SMSTransfer.cpp\<close>).
\<close>

section \<open>Primitives and message types\<close>

datatype SMSPrimitive =
    SM_RL_DATA_REQ | SM_RL_DATA_IND | SM_RL_MEMORY_AVAIL_IND | SM_RL_REPORT_REQ | SM_RL_REPORT_IND
  | MNSMS_ABORT_REQ | MNSMS_DATA_IND | MNSMS_DATA_REQ | MNSMS_EST_REQ | MNSMS_EST_IND
  | MNSMS_ERROR_IND | MNSMS_REL_REQ | UNDEFINED_PRIMITIVE

fun show_SMSPrimitive :: "SMSPrimitive \<Rightarrow> string" where
  "show_SMSPrimitive SM_RL_DATA_REQ = '' SM-RL-DATA-REQ''"
| "show_SMSPrimitive SM_RL_DATA_IND = '' SM-RL-DATA-IND''"
| "show_SMSPrimitive SM_RL_MEMORY_AVAIL_IND = '' SM-RL-MEMORY-AVAIL-IND''"
| "show_SMSPrimitive SM_RL_REPORT_REQ = '' SM-RL-REPORT-REQ''"
| "show_SMSPrimitive SM_RL_REPORT_IND = '' SM-RL-REPORT-IND''"
| "show_SMSPrimitive MNSMS_ABORT_REQ = '' MNSMS-ABORT-REQ''"
| "show_SMSPrimitive MNSMS_DATA_IND = '' MNSMS-DATA-IND''"
| "show_SMSPrimitive MNSMS_DATA_REQ = ''MNSMS-DATA-REQ ''"
| "show_SMSPrimitive MNSMS_EST_REQ = ''MNSMS-EST-REQ ''"
| "show_SMSPrimitive MNSMS_EST_IND = ''MNSMS-EST-IND ''"
| "show_SMSPrimitive MNSMS_ERROR_IND = ''MNSMS-ERROR-IND ''"
| "show_SMSPrimitive MNSMS_REL_REQ = ''MNSMS-REL-REQ ''"
| "show_SMSPrimitive UNDEFINED_PRIMITIVE = ''undefined ''"

definition hex_digit :: "nat \<Rightarrow> char" where
  "hex_digit d = (if d < 10 then char_of (48 + d) else char_of (87 + d))"

fun show_hex :: "nat \<Rightarrow> string" where
  "show_hex n = (if n < 16 then [hex_digit n] else show_hex (n div 16) @ [hex_digit (n mod 16)])"

declare show_hex.simps [simp del]

definition CP_DATA :: nat where "CP_DATA = 1"
definition CP_ACK :: nat where "CP_ACK = 4"
definition CP_ERROR :: nat where "CP_ERROR = 16"

definition RP_Data :: nat where "RP_Data = 0"
definition RP_Ack :: nat where "RP_Ack = 2"
definition RP_Error :: nat where "RP_Error = 4"
definition RP_SMMA :: nat where "RP_SMMA = 6"

definition show_CP_type :: "nat \<Rightarrow> string" where
  "show_CP_type val =
     (if val = CP_DATA then ''CP-DATA'' else if val = CP_ACK then ''CP-ACK''
      else if val = CP_ERROR then ''CP-ERROR'' else ''0x'' @ show_hex val)"

definition show_RP_type :: "nat \<Rightarrow> string" where
  "show_RP_type val =
     (if val = RP_Data then ''RP-DATA'' else if val = RP_Ack then ''RP-ACK''
      else if val = RP_Error then ''RP-ERROR'' else if val = RP_SMMA then ''RP-SMMA''
      else ''0x'' @ show_hex val)"

definition show_TL_type :: "nat \<Rightarrow> string" where
  "show_TL_type val =
     (if val = MTI_DELIVER then ''SMS-DELIVER/REPORT''
      else if val = MTI_STATUS_REPORT then ''SMS-STATUS-REPORT/COMMAND''
      else if val = MTI_SUBMIT then ''SMS-SUBMIT/REPORT'' else ''0x'' @ show_hex val)"

section \<open>Header bits of transfer-layer messages\<close>

definition writeMMS :: "bit_ops \<Rightarrow> TLHeader \<Rightarrow> bits \<Rightarrow> bits option" where
  "writeMMS B m fm = setBit B fm 5 (mMMS m)"

definition parseMMS :: "bit_ops \<Rightarrow> bits \<Rightarrow> TLHeader \<Rightarrow> TLHeader option" where
  "parseMMS B fm m = map_option (\<lambda>b. m\<lparr>mMMS := b\<rparr>) (getBit B fm 5)"

definition writeRD :: "bit_ops \<Rightarrow> TLHeader \<Rightarrow> bits \<Rightarrow> bits option" where
  "writeRD B m fm = setBit B fm 5 (mRD m)"

definition writeVPF :: "bit_ops \<Rightarrow> TLHeader \<Rightarrow> bits \<Rightarrow> bits option" where
  "writeVPF B m fm = fillField B fm 3 (mVPF m) 2"

definition writeSRR :: "bit_ops \<Rightarrow> TLHeader \<Rightarrow> bits \<Rightarrow> bits option" where
  "writeSRR B m fm = setBit B fm 2 (mSRR m)"

definition parseSRI :: "bit_ops \<Rightarrow> bits \<Rightarrow> TLHeader \<Rightarrow> TLHeader option" where
  "parseSRI B fm m = map_option (\<lambda>b. m\<lparr>mSRI := b\<rparr>) (getBit B fm 2)"

definition writeSRQ :: "bit_ops \<Rightarrow> TLHeader \<Rightarrow> bits \<Rightarrow> bits option" where
  "writeSRQ B m fm = setBit B fm 2 (mSRQ m)"

definition parseSRQ :: "bit_ops \<Rightarrow> bits \<Rightarrow> TLHeader \<Rightarrow> TLHeader option" where
  "parseSRQ B fm m = map_option (\<lambda>b. m\<lparr>mSRQ := b\<rparr>) (getBit B fm 2)"

definition TLSubmit_l2BodyLength :: "TLSubmit \<Rightarrow> nat option" where
  "TLSubmit_l2BodyLength m =
     do { vp \<leftarrow> TLValidityPeriod_length (mVP m); ud \<leftarrow> TLUserData_length (sUD m);
          Some (1 + TLAddress_length (mDA m) + 1 + 1 + vp + ud) }"

definition TLSubmitReport_l2BodyLength :: nat where
  "TLSubmitReport_l2BodyLength = 1 + 1 + 7"

section \<open>Relay layer\<close>

text \<open>
  The classes that can be instantiated: RP-SMMA has no body functions and stays abstract.  A
  diagnostics field after the cause is skipped by the length of the element.
\<close>

datatype RPMessage = RPM_Data RPData | RPM_Ack nat | RPM_Error nat nat

definition RPCause_lengthV :: "nat \<Rightarrow> nat" where
  "RPCause_lengthV cause = 1"

definition RPCause_writeV :: "bit_ops \<Rightarrow> bits \<Rightarrow> nat \<Rightarrow> nat \<Rightarrow> (bits \<times> nat) codec" where
  "RPCause_writeV B dest wp cause = writeField B dest wp cause 8"

definition RPCause_parseV :: "bit_ops \<Rightarrow> bits \<Rightarrow> nat \<Rightarrow> nat \<Rightarrow> nat \<Rightarrow> (nat \<times> nat) codec" where
  "RPCause_parseV B src rp expectedLength cause =
     cbind (clift (peekField B src rp 8)) (\<lambda>v. cret (v, rp + 8 * expectedLength))"

fun RPMessage_MTI :: "RPMessage \<Rightarrow> nat" where
  "RPMessage_MTI (RPM_Data d) = RP_Data"
| "RPMessage_MTI (RPM_Ack ref) = RP_Ack"
| "RPMessage_MTI (RPM_Error ref cause) = RP_Error"

fun RPMessage_reference :: "RPMessage \<Rightarrow> nat" where
  "RPMessage_reference (RPM_Data d) = mReference d"
| "RPMessage_reference (RPM_Ack ref) = ref"
| "RPMessage_reference (RPM_Error ref cause) = ref"

fun RPMessage_l2BodyLength :: "RPMessage \<Rightarrow> nat" where
  "RPMessage_l2BodyLength (RPM_Data d) = RPData_l2BodyLength d"
| "RPMessage_l2BodyLength (RPM_Ack ref) = 0"
| "RPMessage_l2BodyLength (RPM_Error ref cause) = RPCause_lengthV cause + 1"

definition RPMessage_length :: "RPMessage \<Rightarrow> nat" where
  "RPMessage_length m = RPMessage_l2BodyLength m + 2"

definition RPMessage_bitsNeeded :: "RPMessage \<Rightarrow> nat" where
  "RPMessage_bitsNeeded m = RPMessage_length m * 8"

fun RPMessage_writeBody :: "bit_ops \<Rightarrow> bits \<Rightarrow> nat \<Rightarrow> RPMessage \<Rightarrow> (bits \<times> nat) codec" where
  "RPMessage_writeBody B dest wp (RPM_Data d) = RPData_writeBody B dest wp d"
| "RPMessage_writeBody B dest wp (RPM_Ack ref) = cret (dest, wp)"
| "RPMessage_writeBody B dest wp (RPM_Error ref cause) =
     writeLV B RPCause_lengthV (RPCause_writeV B) dest wp cause"

text \<open>The written message type is one more than that of the class: the direction to the handset.\<close>

definition RPMessage_write :: "bit_ops \<Rightarrow> bits \<Rightarrow> RPMessage \<Rightarrow> bits codec" where
  "RPMessage_write B dest m =
     (let dest = resizeBits B dest (RPMessage_bitsNeeded m) in
      cbind (writeFields B dest 0
               [(0, 5), (RPMessage_MTI m + 1, 3), (RPMessage_reference m, 8)]) (\<lambda>(dest, wp).
      cbind (RPMessage_writeBody B dest wp m) (\<lambda>(dest, wp). cret dest)))"

text \<open>The type in the frame is not looked at: the object decides how the body is parsed.\<close>

fun RPMessage_parse :: "bit_ops \<Rightarrow> bits \<Rightarrow> RPMessage \<Rightarrow> RPMessage codec" where
  "RPMessage_parse B frame (RPM_Data d) =
     cbind (readField B frame 8 8) (\<lambda>(ref, rp).
     cbind (RPData_parseBody B frame rp (d\<lparr>mReference := ref\<rparr>)) (\<lambda>(d, rp). cret (RPM_Data d)))"
| "RPMessage_parse B frame (RPM_Ack _) =
     cbind (readField B frame 8 8) (\<lambda>(ref, rp). cret (RPM_Ack ref))"
| "RPMessage_parse B frame (RPM_Error _ cause) =
     cbind (readField B frame 8 8) (\<lambda>(ref, rp).
     cbind (parseLV B (RPCause_parseV B) frame rp cause) (\<lambda>(cause, rp). cret (RPM_Error ref cause)))"

section \<open>CM layer\<close>

text \<open>The transaction identifier with the relay-layer frame, nothing, or the cause.\<close>

datatype CPMessage = CPM_Data nat bits | CPM_Ack nat | CPM_Error nat nat

fun CPMessage_TI :: "CPMessage \<Rightarrow> nat" where
  "CPMessage_TI (CPM_Data ti rpdu) = ti"
| "CPMessage_TI (CPM_Ack ti) = ti"
| "CPMessage_TI (CPM_Error ti cause) = ti"

fun CPMessage_set_TI :: "nat \<Rightarrow> CPMessage \<Rightarrow> CPMessage" where
  "CPMessage_set_TI ti (CPM_Data _ rpdu) = CPM_Data ti rpdu"
| "CPMessage_set_TI ti (CPM_Ack _) = CPM_Ack ti"
| "CPMessage_set_TI ti (CPM_Error _ cause) = CPM_Error ti cause"

definition CPUserData_of :: "bit_ops \<Rightarrow> RPMessage \<Rightarrow> bits codec" where
  "CPUserData_of B m = RPMessage_write B (newBits B (RPMessage_bitsNeeded m)) m"

definition CPData_of :: "bit_ops \<Rightarrow> nat \<Rightarrow> RPMessage \<Rightarrow> CPMessage codec" where
  "CPData_of B wTI m = cbind (CPUserData_of B m) (\<lambda>rpdu. cret (CPM_Data wTI rpdu))"

definition CPUserData_lengthV :: "bits \<Rightarrow> nat" where
  "CPUserData_lengthV rpdu = length rpdu div 8"

definition CPUserData_parseV ::
  "bit_ops \<Rightarrow> bits \<Rightarrow> nat \<Rightarrow> nat \<Rightarrow> bits \<Rightarrow> (bits \<times> nat) codec" where
  "CPUserData_parseV B src rp expectedLength rpdu =
     (let numBits = expectedLength * 8;
          rpdu = resizeBits B rpdu numBits
      in if length src < rp + numBits then cthrow L3ReadError
         else cbind (clift (segmentCopyTo B src rpdu rp numBits)) (\<lambda>rpdu.
              cret (rpdu, rp + numBits)))"

definition CPUserData_writeV :: "bit_ops \<Rightarrow> bits \<Rightarrow> nat \<Rightarrow> bits \<Rightarrow> (bits \<times> nat) codec" where
  "CPUserData_writeV B dest wp rpdu =
     cbind (clift (copyToSegment B rpdu dest wp (length rpdu))) (\<lambda>dest.
     cret (dest, wp + length rpdu))"

fun CPMessage_MTI :: "CPMessage \<Rightarrow> nat" where
  "CPMessage_MTI (CPM_Data ti rpdu) = CP_DATA"
| "CPMessage_MTI (CPM_Ack ti) = CP_ACK"
| "CPMessage_MTI (CPM_Error ti cause) = CP_ERROR"

fun CPMessage_l2BodyLength :: "CPMessage \<Rightarrow> nat" where
  "CPMessage_l2BodyLength (CPM_Data ti rpdu) = CPUserData_lengthV rpdu + 1"
| "CPMessage_l2BodyLength (CPM_Ack ti) = 0"
| "CPMessage_l2BodyLength (CPM_Error ti cause) = 1"

text \<open>The virtual functions of the layer-3 message; the protocol discriminator is \<open>L3SMSPD\<close>.\<close>

definition CPMessage_header :: "CPMessage \<Rightarrow> L3Message" where
  "CPMessage_header m =
     \<lparr>l3m_l2BodyLength = CPMessage_l2BodyLength m, l3m_fullBodyLength = CPMessage_l2BodyLength m,
      l3m_PD = 9, l3m_MTI = CPMessage_MTI m\<rparr>"

fun CPMessage_writeBody :: "bit_ops \<Rightarrow> bits \<Rightarrow> nat \<Rightarrow> CPMessage \<Rightarrow> (bits \<times> nat) codec" where
  "CPMessage_writeBody B dest wp (CPM_Data ti rpdu) =
     writeLV B CPUserData_lengthV (CPUserData_writeV B) dest wp rpdu"
| "CPMessage_writeBody B dest wp (CPM_Ack ti) = cret (dest, wp)"
| "CPMessage_writeBody B dest wp (CPM_Error ti cause) = writeField B dest wp cause 8"

text \<open>\<open>CPError::parseBody\<close> is \<open>assert(0)\<close>.\<close>

fun CPMessage_parseBody :: "bit_ops \<Rightarrow> bits \<Rightarrow> nat \<Rightarrow> CPMessage \<Rightarrow> (CPMessage \<times> nat) codec" where
  "CPMessage_parseBody B src rp (CPM_Data ti rpdu) =
     cbind (parseLV B (CPUserData_parseV B) src rp rpdu) (\<lambda>(rpdu, rp). cret (CPM_Data ti rpdu, rp))"
| "CPMessage_parseBody B src rp (CPM_Ack ti) = cret (CPM_Ack ti, rp)"
| "CPMessage_parseBody B src rp (CPM_Error ti cause) = None"

definition CPMessage_write :: "bit_ops \<Rightarrow> bits \<Rightarrow> CPMessage \<Rightarrow> bits codec" where
  "CPMessage_write B dest m =
     (let h = CPMessage_header m;
          dest = resizeBits B dest (L3Message_bitsNeeded h)
      in cbind (writeFields B dest 0 [(CPMessage_TI m, 4), (l3m_PD h, 4), (l3m_MTI h, 8)])
           (\<lambda>(dest, wp).
         cbind (CPMessage_writeBody B dest wp m) (\<lambda>(dest, wp). cret dest)))"

definition CPFactory :: "nat \<Rightarrow> CPMessage option" where
  "CPFactory val =
     (if val = CP_DATA then Some (CPM_Data 7 [])
      else if val = CP_ACK then Some (CPM_Ack 7)
      else if val = CP_ERROR then Some (CPM_Error 7 127)
      else None)"

definition parseSMS :: "bit_ops \<Rightarrow> bits \<Rightarrow> CPMessage option codec" where
  "parseSMS B frame =
     cbind (clift (L3Frame_MTI B frame)) (\<lambda>mti.
     case CPFactory mti of
       None \<Rightarrow> cret None
     | Some m \<Rightarrow>
         cbind (clift (L3Frame_TI B frame)) (\<lambda>ti.
         cbind (L3Message_parse (CPMessage_parseBody B) frame (CPMessage_set_TI ti m)) (\<lambda>m.
         cret (Some m))))"

section \<open>Printed messages\<close>

text \<open>\<open>BitVector::hex\<close> and \<open>Timeval::isoTime\<close> are in CommonLibs.\<close>

record text_ops =
  hex_of :: "bits \<Rightarrow> string"
  isoTime :: "int \<Rightarrow> string"

definition show_flag :: "bool \<Rightarrow> string" where
  "show_flag b = (if b then ''1'' else ''0'')"

definition RLFrame_text :: "text_ops \<Rightarrow> SMSPrimitive \<Rightarrow> bits \<Rightarrow> string" where
  "RLFrame_text X prim f =
     ''primitive='' @ show_SMSPrimitive prim @ '' data=('' @ hex_of X f @ '')''"

definition L3Frame_text :: "text_ops \<Rightarrow> L3Frame \<Rightarrow> string" where
  "L3Frame_text X f =
     ''primitive='' @ show_Primitive (l3_primitive f) @ '' raw=('' @ hex_of X (l3_bits f) @ '')''"

definition RPMessage_text :: "RPMessage \<Rightarrow> string" where
  "RPMessage_text m = show_nat (RPMessage_MTI m) @ '' ref='' @ show_nat (RPMessage_reference m)"

definition RPData_text :: "text_ops \<Rightarrow> RPData \<Rightarrow> string" where
  "RPData_text X d =
     RPMessage_text (RPM_Data d) @ '' origSMSC=('' @ called_number_text (mOriginator d)
     @ '') destSMSC=('' @ called_number_text (mDestination d)
     @ '') TPDU=('' @ RLFrame_text X UNDEFINED_PRIMITIVE (mTPDU d) @ '')''"

definition RPError_text :: "nat \<Rightarrow> nat \<Rightarrow> string" where
  "RPError_text ref cause =
     RPMessage_text (RPM_Error ref cause) @ '' cause=(0x'' @ show_hex cause @ '')''"

definition TLAddress_text :: "TLAddress \<Rightarrow> string" where
  "TLAddress_text a =
     ''type='' @ show_TypeOfNumber (mType a) @ '' plan='' @ show_NumberingPlan (mPlan a)
     @ '' digits='' @ mDigits a"

definition TLValidityPeriod_text :: "text_ops \<Rightarrow> time_ops \<Rightarrow> TLValidityPeriod \<Rightarrow> string" where
  "TLValidityPeriod_text X T vp =
     ''expiration=('' @ isoTime X (timeval_sec T (mExpiration vp)) @ '')''"

definition L3TimeZoneAndTime_text :: "text_ops \<Rightarrow> time_ops \<Rightarrow> L3TimeZoneAndTime \<Rightarrow> string" where
  "L3TimeZoneAndTime_text X T t = isoTime X (timeval_sec T (mTime t)) @ '' (local)''"

definition TLUserData_text :: "text_ops \<Rightarrow> TLUserData \<Rightarrow> string" where
  "TLUserData_text X u =
     ''DCS='' @ show_nat (mDCS u) @ '' UDHI='' @ show_flag (udUDHI u)
     @ '' UDLength='' @ show_nat (mLength u) @ '' UD=('' @ hex_of X (mRawData u) @ '')''"

definition TLSubmit_text :: "text_ops \<Rightarrow> time_ops \<Rightarrow> TLSubmit \<Rightarrow> string" where
  "TLSubmit_text X T m =
     ''MTI='' @ show_nat MTI_SUBMIT @ '' RD='' @ show_flag (mRD m) @ '' VPF='' @ show_nat (mVPF m)
     @ '' RP='' @ show_flag (mRP m) @ '' UDHI='' @ show_flag (udUDHI (sUD m))
     @ '' SRR='' @ show_flag (mSRR m) @ '' MR='' @ show_nat (mMR m)
     @ '' DA=('' @ TLAddress_text (mDA m) @ '') PI='' @ show_nat (mPI m)
     @ '' DCS='' @ show_nat (sDCS m) @ '' VP=('' @ TLValidityPeriod_text X T (mVP m)
     @ '') UD='' @ [CHR 0x22] @ TLUserData_text X (sUD m) @ [CHR 0x22]"

definition TLDeliver_text :: "text_ops \<Rightarrow> time_ops \<Rightarrow> TLDeliver \<Rightarrow> string" where
  "TLDeliver_text X T m =
     ''MTI='' @ show_nat MTI_DELIVER @ '' OriginatingAddress=('' @ TLAddress_text (mOA m)
     @ '') SCTimeStamp=('' @ L3TimeZoneAndTime_text X T (mSCTS m)
     @ '') DataCodingScheme='' @ show_nat (mDCS (dUD m))
     @ '' UserData=('' @ TLUserData_text X (dUD m) @ '')''"

end
