(* ===== verification/Control_Properties.thy ===== *)
theory Control_Properties
  imports Codec_Properties Sms_Control
begin

text \<open>
  Messages of the relay and of the CM layer are read back as they were written, alone and one
  inside the other; CP-ERROR is the message that can be written and not parsed; and octet 3a of a
  calling-party number is longer for the parser than for the writer.
\<close>

section \<open>Segments of a bit vector\<close>

text \<open>
  What \<open>BitVector\<close> documents of copying: a vector that is copied into a segment is what the segment
  holds, and nothing outside of it changes.
\<close>

definition segment_laws :: "bit_ops \<Rightarrow> bool" where
  "segment_laws B \<longleftrightarrow>
     (\<forall>a b t i. i + length a \<le> length b \<longrightarrow> length t = length a \<longrightarrow>
        (\<exists>b'. copyToSegment B a b i (length a) = Some b' \<and> length b' = length b
           \<and> segmentCopyTo B b' t i (length a) = Some a
           \<and> (\<forall>j k. j + k \<le> i \<longrightarrow> peekField B b' j k = peekField B b j k)))"

lemma list_segment_laws: "segment_laws list_bits"
proof -
  have "\<exists>b'. overwrite b i a = Some b' \<and> length b' = length b \<and> segment b' i (length a) = Some a
      \<and> (\<forall>j k. j + k \<le> i \<longrightarrow> map_option bits_val (segment b' j k) = map_option bits_val (segment b j k))"
    if "i + length a \<le> length b" for a b i
  proof -
    from that obtain b' where "overwrite b i a = Some b'" by (simp add: overwrite_def)
    with segment_written [OF this] show ?thesis by auto
  qed
  then show ?thesis by (simp add: segment_laws_def list_bits_def)
qed

text \<open>An octet string in the LV format, as the last part of a frame: its fields and its segment.\<close>

lemma segment_kept:
  assumes "segment_laws B" and "i + length a \<le> length b"
  shows "\<exists>b'. copyToSegment B a b i (length a) = Some b' \<and> length b' = length b
    \<and> (\<forall>t. length t = length a \<longrightarrow> segmentCopyTo B b' t i (length a) = Some a)
    \<and> (\<forall>p fs. p + fields_width fs \<le> i \<longrightarrow> holds (peekField B) b' p fs = holds (peekField B) b p fs)"
proof -
  from assms obtain b' where b': "copyToSegment B a b i (length a) = Some b'" "length b' = length b"
    and keep: "\<forall>j k. j + k \<le> i \<longrightarrow> peekField B b' j k = peekField B b j k"
    unfolding segment_laws_def by blast
  moreover have "segmentCopyTo B b' t i (length a) = Some a" if "length t = length a" for t
    using assms that b' unfolding segment_laws_def by (metis option.inject)
  ultimately show ?thesis using holds_prefix [OF _ keep] by blast
qed

section \<open>The CM layer\<close>

definition cp_fields :: "CPMessage \<Rightarrow> (nat \<times> nat) list" where
  "cp_fields m = [(CPMessage_TI m, 4), (9, 4), (CPMessage_MTI m, 8)]"

definition cp_valid :: "CPMessage \<Rightarrow> bool" where
  "cp_valid m \<longleftrightarrow> CPMessage_TI m < 16
     \<and> (case m of CPM_Data ti rpdu \<Rightarrow> length rpdu mod 8 = 0 \<and> length rpdu < 8 * 256
        | CPM_Ack ti \<Rightarrow> True
        | CPM_Error ti cause \<Rightarrow> cause < 256)"

lemma cp_fields_simps:
  "fields_width (cp_fields m) = 16"
  "cp_valid m \<Longrightarrow> fields_fit (cp_fields m)"
  by (cases m; simp add: cp_fields_def cp_valid_def CP_DATA_def CP_ACK_def CP_ERROR_def)+

lemma CPMessage_write_fields:
  "CPMessage_write B dest m =
     cbind (writeFields B (resizeBits B dest (8 * (CPMessage_l2BodyLength m + 2))) 0 (cp_fields m))
       (\<lambda>(dest, wp). cbind (CPMessage_writeBody B dest wp m) (\<lambda>(dest, wp). cret dest))"
  by (simp add: CPMessage_write_def CPMessage_header_def L3Message_bitsNeeded_def
      L3Message_FullLength_def cp_fields_def Let_def)

lemma cbind_writeFields:
  "cbind (cbind (writeFields B d p fs) (\<lambda>(d, w). f d w)) g
     = cbind (writeFields B d p fs) (\<lambda>(d, w). cbind (f d w) g)"
  by (cases "writeFields B d p fs") (auto simp: cbind_def split: sum.splits)

lemma write_one: "writeField B d w v n = writeFields B d w [(v, n)]"
  by (simp add: cbind_def cret_def split: option.splits sum.splits)

lemma octets_written:
  assumes "bit_laws B" and "segment_laws B" and "fields_fit fs" and "length a mod 8 = 0"
    and "length a < 8 * 256" and "fields_width fs + 8 + length a \<le> length dest"
    and "lenV a = length a div 8" and "\<And>d w. wrV d w a =
       cbind (clift (copyToSegment B a d w (length a))) (\<lambda>d. cret (d, w + length a))"
  shows "\<exists>d. cbind (writeFields B dest 0 fs) (\<lambda>(d, w). writeLV B lenV wrV d w a)
        = cret (d, fields_width fs + 8 + length a)
    \<and> length d = length dest \<and> holds (peekField B) d 0 (fs @ [(length a div 8, 8)])
    \<and> (a \<noteq> [] \<longrightarrow> (\<forall>t. length t = length a
          \<longrightarrow> segmentCopyTo B d t (fields_width fs + 8) (length a) = Some a))"
proof -
  let ?fs = "fs @ [(length a div 8, 8)]"
  have fit: "fields_fit ?fs" and w: "0 + fields_width ?fs \<le> length dest"
    using assms(3,5,6) by simp_all
  obtain d where d: "writeFields B dest 0 ?fs = cret (d, fields_width ?fs)"
    and k: "wrote (peekField B) dest d 0 (fields_width ?fs)" and h: "holds (peekField B) d 0 ?fs"
    using write_fields [OF assms(1) fit w] by auto
  have len: "length d = length dest" using k by (simp add: wrote_def)
  have wr: "cbind (writeFields B dest 0 fs) (\<lambda>(d, w). writeLV B lenV wrV d w a)
      = cbind (writeFields B dest 0 ?fs) (\<lambda>(d, w). if length a div 8 = 0 then cret (d, w) else wrV d w a)"
    unfolding writeFields_append cbind_writeFields
    by (simp add: writeLV_def assms(7) Let_def writeField_def cbind_def clift_def cret_def
        split: option.splits sum.splits cong: if_cong)
  show ?thesis
  proof (cases "a = []")
    case True
    with d wr len h show ?thesis by (intro exI [of _ d]) simp
  next
    case False
    then have "length a div 8 \<noteq> 0" using assms(4) by (metis length_0_conv mod_mult_div_eq mult_0_right add_0)
    moreover obtain d' where d': "copyToSegment B a d (fields_width fs + 8) (length a) = Some d'"
      "length d' = length d"
      "\<forall>t. length t = length a \<longrightarrow> segmentCopyTo B d' t (fields_width fs + 8) (length a) = Some a"
      "\<forall>p gs. p + fields_width gs \<le> fields_width fs + 8
         \<longrightarrow> holds (peekField B) d' p gs = holds (peekField B) d p gs"
      using segment_kept [OF assms(2), of "fields_width fs + 8" a d] assms(6) len by auto
    moreover have "holds (peekField B) d' 0 ?fs" using d'(4) [rule_format, of 0 ?fs] h by (simp del: holds_append)
    ultimately show ?thesis
      using d wr len assms(8) by (intro exI [of _ d']) simp
  qed
qed

text \<open>
  A message of the CM layer that is written is parsed back as it was; except CP-ERROR, on which the
  parser aborts.
\<close>

lemma cp_roundtrip:
  assumes "bit_laws B" and "segment_laws B" and "cp_valid m"
  shows "\<exists>d. CPMessage_write B dest m = cret d
    \<and> length d = 8 * (CPMessage_l2BodyLength m + 2)
    \<and> parseSMS B d = (case m of CPM_Error ti cause \<Rightarrow> None | _ \<Rightarrow> cret (Some m))"
proof -
  let ?fs = "cp_fields m" and ?d0 = "resizeBits B dest (8 * (CPMessage_l2BodyLength m + 2))"
  have l0: "length ?d0 = 8 * (CPMessage_l2BodyLength m + 2)" using assms(1) by (simp add: bit_laws_def)
  note fit = cp_fields_simps(2) [OF assms(3)]
  show ?thesis
  proof (cases m)
    case (CPM_Data ti a)
    have a: "length a mod 8 = 0" "length a < 8 * 256" using assms(3) by (simp_all add: CPM_Data cp_valid_def)
    have o: "length a div 8 * 8 = length a" using a(1) by auto
    then have "fields_width ?fs + 8 + length a \<le> length ?d0"
      unfolding l0 by (simp add: CPM_Data cp_fields_simps CPUserData_lengthV_def)
    from octets_written [OF assms(1,2) fit a this, of CPUserData_lengthV "CPUserData_writeV B"]
    obtain d where d: "cbind (writeFields B ?d0 0 ?fs)
        (\<lambda>(d, w). writeLV B CPUserData_lengthV (CPUserData_writeV B) d w a) = cret (d, 24 + length a)"
      "length d = length ?d0" and h: "holds (peekField B) d 0 (?fs @ [(length a div 8, 8)])"
      and seg: "a \<noteq> [] \<longrightarrow> (\<forall>t. length t = length a \<longrightarrow> segmentCopyTo B d t 24 (length a) = Some a)"
      by (auto simp: CPUserData_lengthV_def CPUserData_writeV_def cp_fields_simps)
    have wr: "CPMessage_write B dest m = cret d"
      unfolding CPMessage_write_fields using arg_cong [OF d(1), of "\<lambda>x. cbind x (\<lambda>(d, w). cret d)"]
      by (simp add: CPM_Data cbind_writeFields)
    have f: "peekField B d 0 4 = Some ti" "peekField B d 8 8 = Some CP_DATA"
      "peekField B d 16 8 = Some (length a div 8)"
      using h by (simp_all add: CPM_Data cp_fields_def)
    have len: "length d = 24 + length a" using o l0 by (simp add: d(2) CPM_Data CPUserData_lengthV_def)
    have rs: "length (resizeBits B [] n) = n" for n using assms(1) by (simp add: bit_laws_def)
    have "parseLV B (CPUserData_parseV B) d 16 [] = cret (a, 24 + length a)"
    proof (cases "a = []")
      case True
      then show ?thesis by (simp add: parseLV_def readField_def f)
    next
      case False
      then have "length a div 8 \<noteq> 0" using o by (metis length_0_conv mult_0)
      with False f o len seg rs show ?thesis
        by (simp add: parseLV_def readField_def CPUserData_parseV_def Let_def mult.commute [of 8])
    qed
    then have "parseSMS B d = cret (Some m)"
      by (simp add: parseSMS_def L3Frame_MTI_def L3Frame_TI_def f CPFactory_def CP_DATA_def
          L3Message_parse_def CPM_Data)
    with wr d(2) l0 show ?thesis by (intro exI [of _ d]) (simp add: CPM_Data)
  next
    case (CPM_Ack ti)
    from write_fields [OF assms(1) fit, of 0 ?d0] l0 obtain d where
      d: "writeFields B ?d0 0 ?fs = cret (d, 16)" and k: "wrote (peekField B) ?d0 d 0 16"
      and h: "holds (peekField B) d 0 ?fs"
      by (auto simp: cp_fields_simps)
    have "CPMessage_write B dest m = cret d"
      unfolding CPMessage_write_fields d by (simp add: CPM_Ack)
    moreover have "parseSMS B d = cret (Some m)"
      using h by (simp add: parseSMS_def L3Frame_MTI_def L3Frame_TI_def cp_fields_def CPFactory_def
          CP_DATA_def CP_ACK_def L3Message_parse_def CPM_Ack)
    ultimately show ?thesis
      using k l0 by (intro exI [of _ d]) (simp add: CPM_Ack wrote_def)
  next
    case (CPM_Error ti cause)
    let ?gs = "?fs @ [(cause, 8)]"
    have "fields_fit ?gs" and "0 + fields_width ?gs \<le> length ?d0"
      using fit assms(3) unfolding l0 by (simp_all add: cp_fields_simps CPM_Error cp_valid_def)
    from write_fields [OF assms(1) this] obtain d where
      d: "writeFields B ?d0 0 ?gs = cret (d, 24)" and k: "wrote (peekField B) ?d0 d 0 24"
      and h: "holds (peekField B) d 0 ?gs"
      by (auto simp: cp_fields_simps)
    have "CPMessage_write B dest m = cret d"
      unfolding CPMessage_write_fields
      using arg_cong [OF d [unfolded writeFields_append], of "\<lambda>x. cbind x (\<lambda>(d, w). cret d)"]
      by (simp only: CPM_Error cbind_writeFields CPMessage_writeBody.simps write_one) simp
    moreover have "parseSMS B d = None"
      using h by (simp add: parseSMS_def L3Frame_MTI_def L3Frame_TI_def cp_fields_def CPFactory_def
          CP_DATA_def CP_ACK_def CP_ERROR_def L3Message_parse_def CPM_Error)
    ultimately show ?thesis
      using k l0 by (intro exI [of _ d]) (simp add: CPM_Error wrote_def)
  qed
qed

section \<open>The relay layer\<close>

text \<open>
  An address is a valid number or the empty one that an RP-DATA leaves out in one direction.
\<close>

definition address_ok :: "bcd_number \<Rightarrow> bool" where
  "address_ok a \<longleftrightarrow> number_valid a \<or> a = L3CalledPartyBCDNumber0"

definition address_fields :: "bcd_number \<Rightarrow> (nat \<times> nat) list" where
  "address_fields a =
     (bcd_number_lengthV a, 8) # (if bcd_number_lengthV a = 0 then [] else number_fields a)"

lemma empty_number_length: "bcd_number_lengthV L3CalledPartyBCDNumber0 = 0"
  by code_simp

lemma number_length:
  assumes "number_valid a"
  shows "bcd_number_lengthV a = 1 + L3BCDDigits_lengthV (mDigits a)" "bcd_number_lengthV a \<le> 11"
proof -
  have "0 < L3BCDDigits_lengthV (mDigits a)" "L3BCDDigits_lengthV (mDigits a) \<le> 10"
    using assms plus_split(2) [OF assms]
    by (auto simp: lengthV_octets number_valid_def Suc_le_eq split: if_splits)
  then show "bcd_number_lengthV a = 1 + L3BCDDigits_lengthV (mDigits a)" "bcd_number_lengthV a \<le> 11"
    by (simp_all add: bcd_number_lengthV_def)
qed

lemma address_fields_props:
  assumes "address_ok a"
  shows "fields_width (address_fields a) = 8 * (bcd_number_lengthV a + 1)"
    and "fields_fit (address_fields a)"
  using assms number_length [of a] number_fields_fit [of a]
  by (auto simp: address_ok_def address_fields_def number_fields_width empty_number_length)

lemma write_address:
  "writeLV B bcd_number_lengthV (bcd_number_writeV B) d w a = writeFields B d w (address_fields a)"
  by (simp add: writeLV_def address_fields_def writeV_fields Let_def cbind_def writeField_def
      split: option.splits sum.splits)

lemma parse_address:
  assumes "bit_laws B" and "address_ok a" and "holds (peekField B) d p (address_fields a)"
  shows "parseLV B (bcd_number_parseV B) d p L3CalledPartyBCDNumber0
    = cret (a, p + fields_width (address_fields a))"
proof (cases "number_valid a")
  case True
  note l = number_length [OF True]
  have h: "peekField B d p 8 = Some (bcd_number_lengthV a)"
    "holds (peekField B) d (p + 8) (number_fields a)"
    using assms(3) l(1) by (simp_all add: address_fields_def)
  show ?thesis
    using h(1) parseV_reads [OF assms(1) True h(2)] l(1)
    by (simp add: parseLV_def readField_def address_fields_def number_fields_width add.assoc)
next
  case False
  with assms(2,3) show ?thesis
    by (simp add: address_ok_def parseLV_def readField_def address_fields_def empty_number_length)
qed

definition rp_head :: "RPMessage \<Rightarrow> (nat \<times> nat) list" where
  "rp_head m = [(0, 5), (RPMessage_MTI m + 1, 3), (RPMessage_reference m, 8)]"

definition rp_valid :: "RPMessage \<Rightarrow> bool" where
  "rp_valid m \<longleftrightarrow> RPMessage_reference m < 256 \<and> RPMessage_length m < 256
     \<and> (case m of RPM_Data d \<Rightarrow> address_ok (mOriginator d) \<and> address_ok (mDestination d)
            \<and> length (mTPDU d) mod 8 = 0
        | RPM_Ack ref \<Rightarrow> True
        | RPM_Error ref cause \<Rightarrow> cause < 256)"

text \<open>The object that the parser is called on.\<close>

fun blank :: "RPMessage \<Rightarrow> RPMessage" where
  "blank (RPM_Data d) = RPM_Data RPData0"
| "blank (RPM_Ack ref) = RPM_Ack 0"
| "blank (RPM_Error ref cause) = RPM_Error 0 0"

lemma rp_head_props:
  "fields_width (rp_head m) = 16" "rp_valid m \<Longrightarrow> fields_fit (rp_head m)"
  by (cases m; simp add: rp_head_def rp_valid_def RP_Data_def RP_Ack_def RP_Error_def)+

lemma RPMessage_write_fields:
  "RPMessage_write B dest m =
     cbind (writeFields B (resizeBits B dest (8 * RPMessage_length m)) 0 (rp_head m))
       (\<lambda>(dest, wp). cbind (RPMessage_writeBody B dest wp m) (\<lambda>(dest, wp). cret dest))"
  by (simp add: RPMessage_write_def RPMessage_bitsNeeded_def rp_head_def Let_def mult.commute)

lemma write_cause:
  "writeLV B RPCause_lengthV (RPCause_writeV B) d w cause = writeFields B d w [(1, 8), (cause, 8)]"
  by (simp add: writeLV_def RPCause_lengthV_def RPCause_writeV_def Let_def cbind_def cret_def
      split: option.splits sum.splits)

lemma RPData_eta:
  "\<lparr>mReference = mReference x, mOriginator = mOriginator x, mDestination = mDestination x,
    mTPDU = mTPDU x\<rparr> = (x :: RPData)"
  by (cases x) simp

lemma rp_data_roundtrip:
  assumes "bit_laws B" and "segment_laws B" and "rp_valid (RPM_Data x)"
  shows "\<exists>d. RPMessage_write B dest (RPM_Data x) = cret d
    \<and> length d = 8 * RPMessage_length (RPM_Data x)
    \<and> RPMessage_parse B d (RPM_Data RPData0) = cret (RPM_Data x)"
proof -
  let ?m = "RPM_Data x" and ?og = "address_fields (mOriginator x)"
  let ?ds = "address_fields (mDestination x)" and ?a = "mTPDU x"
  let ?fs = "(rp_head ?m @ ?og) @ ?ds" and ?d0 = "resizeBits B dest (8 * RPMessage_length ?m)"
  have ok: "address_ok (mOriginator x)" "address_ok (mDestination x)" "length ?a mod 8 = 0"
    using assms(3) by (simp_all add: rp_valid_def)
  have o: "length ?a div 8 * 8 = length ?a" using ok(3) by auto
  have lenV: "RPUserData_lengthV ?a = length ?a div 8" using ok(3) by (simp add: RPUserData_lengthV_def)
  have rs: "length (resizeBits B b n) = n" for b n using assms(1) by (simp add: bit_laws_def)
  have w: "fields_width ?fs + 8 + length ?a = 8 * RPMessage_length ?m"
    using o by (simp add: rp_head_props address_fields_props [OF ok(1)] address_fields_props [OF ok(2)]
        RPMessage_length_def RPData_l2BodyLength_def lenV algebra_simps)
  have fit: "fields_fit ?fs"
    using rp_head_props(2) [OF assms(3)] address_fields_props [OF ok(1)] address_fields_props [OF ok(2)]
    by simp
  have "length ?a < 8 * 256" using assms(3) w by (simp add: rp_valid_def)
  with octets_written [OF assms(1,2) fit ok(3), of ?d0 RPUserData_lengthV "RPUserData_writeV B"] w
  obtain d where d: "cbind (writeFields B ?d0 0 ?fs)
      (\<lambda>(d, w). writeLV B RPUserData_lengthV (RPUserData_writeV B) d w ?a)
        = cret (d, fields_width ?fs + 8 + length ?a)"
    "length d = length ?d0" and h: "holds (peekField B) d 0 (?fs @ [(length ?a div 8, 8)])"
    and seg: "?a \<noteq> [] \<longrightarrow> (\<forall>t. length t = length ?a
        \<longrightarrow> segmentCopyTo B d t (fields_width ?fs + 8) (length ?a) = Some ?a)"
    by (auto simp: lenV RPUserData_writeV_def rs simp del: holds_append width_simps)
  have "RPMessage_write B dest ?m = cbind (cbind (writeFields B ?d0 0 ?fs)
      (\<lambda>(d, w). writeLV B RPUserData_lengthV (RPUserData_writeV B) d w ?a)) (\<lambda>(d, w). cret d)"
    unfolding RPMessage_write_fields
    by (simp add: writeFields_append RPData_writeBody_def write_address cbind_def
        split: option.splits sum.splits)
  with d have wr: "RPMessage_write B dest ?m = cret d" by simp
  have hd: "holds (peekField B) d 16 ?og" "holds (peekField B) d (16 + fields_width ?og) ?ds"
    "peekField B d 8 8 = Some (mReference x)" "peekField B d (fields_width ?fs) 8 = Some (length ?a div 8)"
    using h by (simp_all add: rp_head_props) (simp_all add: rp_head_def add.assoc)
  let ?e = "16 + fields_width ?og + fields_width ?ds"
  have e: "fields_width ?fs = ?e" by (simp add: rp_head_props)
  have hd4: "peekField B d ?e 8 = Some (length ?a div 8)" using hd(4) unfolding e .
  have tp: "parseLV B (RPUserData_parseV B) d ?e [] = cret (?a, ?e + 8 + length ?a)"
  proof (cases "?a = []")
    case True
    then show ?thesis using hd4 by (simp add: parseLV_def readField_def)
  next
    case False
    then have "length ?a div 8 \<noteq> 0" using o by (metis length_0_conv mult_0)
    moreover have "?e + 8 + length ?a = length d" using w d(2) rs unfolding e by simp
    moreover have "segmentCopyTo B d (resizeBits B [] (length ?a)) (?e + 8) (length ?a) = Some ?a"
      using seg False rs unfolding e by simp
    ultimately show ?thesis using o hd4
      by (simp add: parseLV_def readField_def RPUserData_parseV_def Let_def mult.commute [of 8])
  qed
  have "RPMessage_parse B d (RPM_Data RPData0) = cret ?m"
    using hd(3) parse_address [OF assms(1) ok(1) hd(1)] parse_address [OF assms(1) ok(2) hd(2)] tp
    by (simp add: readField_def RPData_parseBody_def RPData0_def RPData_eta)
  with wr d(2) rs show ?thesis by (intro exI [of _ d]) simp
qed

lemma rp_message_roundtrip:
  assumes "bit_laws B" and "segment_laws B" and "rp_valid m"
  shows "\<exists>d. RPMessage_write B dest m = cret d \<and> length d = 8 * RPMessage_length m
    \<and> RPMessage_parse B d (blank m) = cret m"
proof -
  let ?d0 = "resizeBits B dest (8 * RPMessage_length m)"
  have rs: "length (resizeBits B b n) = n" for b n using assms(1) by (simp add: bit_laws_def)
  note fit = rp_head_props(2) [OF assms(3)]
  show ?thesis
  proof (cases m)
    case (RPM_Data x)
    with rp_data_roundtrip [of B x] assms show ?thesis by simp
  next
    case (RPM_Ack ref)
    from write_fields [OF assms(1) fit, of 0 ?d0] obtain d where
      "writeFields B ?d0 0 (rp_head m) = cret (d, 16)" "wrote (peekField B) ?d0 d 0 16"
      "holds (peekField B) d 0 (rp_head m)"
      by (auto simp: rs rp_head_props RPMessage_length_def)
    moreover from this(1) have "RPMessage_write B dest m = cret d"
      unfolding RPMessage_write_fields by (simp add: RPM_Ack)
    ultimately show ?thesis
      by (intro exI [of _ d]) (simp add: RPM_Ack rp_head_def readField_def wrote_def rs)
  next
    case (RPM_Error ref cause)
    let ?gs = "rp_head m @ [(1, 8), (cause, 8)]"
    have "fields_fit ?gs" and "0 + fields_width ?gs \<le> length ?d0"
      using fit assms(3)
      by (simp_all add: rp_head_props rs RPM_Error rp_valid_def RPMessage_length_def RPCause_lengthV_def)
    from write_fields [OF assms(1) this] obtain d where
      d: "writeFields B ?d0 0 ?gs = cret (d, 32)" "wrote (peekField B) ?d0 d 0 32"
      "holds (peekField B) d 0 ?gs"
      by (auto simp: rp_head_props)
    have "RPMessage_write B dest m = cret d"
      unfolding RPMessage_write_fields
      using arg_cong [OF d(1) [unfolded writeFields_append], of "\<lambda>x. cbind x (\<lambda>(d, w). cret d)"]
      by (simp only: RPM_Error cbind_writeFields RPMessage_writeBody.simps write_cause) simp
    with d(2,3) show ?thesis
      by (intro exI [of _ d]) (simp add: RPM_Error rp_head_def readField_def wrote_def rs parseLV_def RPCause_parseV_def)
  qed
qed

text \<open>
  C39: A relay-layer message that is packed into CP-DATA comes out of the parser of the CM layer with
  its transaction identifier, and its frame is parsed back into the message: RP-DATA with both
  addresses and its transfer-layer frame, RP-ACK, and RP-ERROR with its cause.
\<close>

theorem relay_in_control_roundtrip:
  assumes "bit_laws B" and "segment_laws B" and "rp_valid m" and "ti < 16"
  shows "\<exists>rpdu d. CPData_of B ti m = cret (CPM_Data ti rpdu)
    \<and> CPMessage_write B dest (CPM_Data ti rpdu) = cret d
    \<and> parseSMS B d = cret (Some (CPM_Data ti rpdu))
    \<and> RPMessage_parse B rpdu (blank m) = cret m"
proof -
  obtain rpdu where rpdu: "CPUserData_of B m = cret rpdu" "length rpdu = 8 * RPMessage_length m"
    "RPMessage_parse B rpdu (blank m) = cret m"
    unfolding CPUserData_of_def using rp_message_roundtrip [OF assms(1-3)] by blast
  then have "cp_valid (CPM_Data ti rpdu)"
    using assms(3,4) by (simp add: cp_valid_def rp_valid_def)
  from cp_roundtrip [OF assms(1,2) this, of dest] obtain d where
    "CPMessage_write B dest (CPM_Data ti rpdu) = cret d"
    "parseSMS B d = cret (Some (CPM_Data ti rpdu))"
    by auto
  with rpdu show ?thesis by (intro exI [of _ rpdu] exI [of _ d]) (simp add: CPData_of_def)
qed

definition rp1 :: RPData where
  "rp1 = RPData0\<lparr>mReference := 5, mOriginator := L3CalledPartyBCDNumber ''+1707'',
                 mTPDU := replicate 16 True\<rparr>"

theorem relay_in_control_roundtrip_witness:
  "\<exists>rpdu d. CPMessage_write list_bits [] (CPM_Data 3 rpdu) = cret d
     \<and> parseSMS list_bits d = cret (Some (CPM_Data 3 rpdu))
     \<and> RPMessage_parse list_bits rpdu (RPM_Data RPData0) = cret (RPM_Data rp1)"
proof -
  have "rp_valid (RPM_Data rp1)" by code_simp
  from relay_in_control_roundtrip [OF list_bits_laws list_segment_laws this, of 3 "[]"]
  have "\<exists>rpdu d. CPData_of list_bits 3 (RPM_Data rp1) = cret (CPM_Data 3 rpdu)
      \<and> CPMessage_write list_bits [] (CPM_Data 3 rpdu) = cret d
      \<and> parseSMS list_bits d = cret (Some (CPM_Data 3 rpdu))
      \<and> RPMessage_parse list_bits rpdu (RPM_Data RPData0) = cret (RPM_Data rp1)"
    unfolding blank.simps by simp
  then show ?thesis by (elim exE conjE) (intro exI conjI)
qed

section \<open>Calling-party numbers\<close>

definition calling_fields :: "calling_number \<Rightarrow> nat \<Rightarrow> nat \<Rightarrow> (nat \<times> nat) list" where
  "calling_fields a p s =
     ([(0, 1), (mType a, 3), (mPlan a, 4)] @ octet_3a p s) @ digit_fields (strip_plus (mDigits a))"

lemma calling_writeV_fields:
  assumes "mHaveOctet3a a" and "mPresentationIndicator a = Some p" and "mScreeningIndicator a = Some s"
  shows "calling_number_writeV B d w a = writeFields B d w (calling_fields a p s)"
  unfolding calling_fields_def writeFields_append cbind_writeFields
  by (simp add: calling_number_writeV_def L3BCDDigits_write_def bcd_write_fields assms)

lemma cbind_cretE:
  assumes "cbind m f = cret y"
  obtains x where "m = cret x" and "f x = cret y"
  using assms by (auto simp: cbind_def cret_def split: option.splits sum.splits)

lemma readField_cret [simp]:
  "readField B d p n = cret (v, r) \<longleftrightarrow> peekField B d p n = Some v \<and> r = p + n"
  by (auto simp: readField_def cbind_def clift_def cret_def split: option.splits)

lemma cret_inject [simp]: "cret x = cret y \<longleftrightarrow> x = y" "cthrow e \<noteq> cret y"
  by (simp_all add: cret_def cthrow_def)

lemma octet_3a_end: "parse_octet_3a B d rp a = cret (a', r) \<Longrightarrow> r = rp + 11"
  unfolding parse_octet_3a_def by (auto elim!: cbind_cretE split: if_splits)

lemma digits_end: "L3BCDDigits_parse B d rp n x = cret (ds, r) \<Longrightarrow> r = rp + 8 * n"
  unfolding L3BCDDigits_parse_def
  by (auto elim!: cbind_cretE dest!: bcd_parse_end [folded cret_def])

lemma calling_parse_end:
  assumes "calling_number_parseV B d rp n e = cret (e', r)" and "peekField B d rp 1 = Some 0"
    and "2 \<le> n" and "n < 256"
  shows "r = rp + 8 * n + 3"
proof -
  have "(of_nat n - 2 :: 64 word) = of_nat (n - 2)" using assms(3) by (simp add: of_nat_diff)
  moreover have "unat (of_nat (n - 2) :: 64 word) = n - 2" using assms(4) by (simp add: unat_of_nat)
  ultimately have u: "unat (of_nat n - 2 :: 64 word) = n - 2" by simp
  from assms(1,2) obtain a a' r' x ds where o: "parse_octet_3a B d (8 + rp) a = cret (a', r')"
    and l: "L3BCDDigits_parse B d r' (unat (of_nat n - 2 :: 64 word)) x = cret (ds, r)"
    unfolding calling_number_parseV_def Let_def
    by (auto elim!: cbind_cretE)
  from octet_3a_end [OF o] digits_end [OF l] assms(3) u show ?thesis by simp
qed

text \<open>
  A calling-party number that is written with octet 3a cannot be parsed back from the LV format:
  the octet is written as eight bits and read as eleven, so that the parser never ends where the
  element does.
\<close>

theorem calling_octet_3a_misread:
  assumes "bit_laws B" and "mHaveOctet3a a" and "mType a < 8" and "mPlan a < 16"
    and "mPresentationIndicator a = Some p" and "mScreeningIndicator a = Some s" and "p < 4" and "s < 4"
    and "length (mDigits a) \<le> maxDigits" and "wp + 8 * (1 + calling_number_lengthV a) \<le> length dest"
  shows "\<exists>d. writeLV B calling_number_lengthV (calling_number_writeV B) dest wp a
        = cret (d, wp + 8 * (1 + calling_number_lengthV a))
    \<and> (\<forall>e e' r. parseLV B (calling_number_parseV B) d wp e \<noteq> cret (e', r))"
proof -
  let ?n = "calling_number_lengthV a" and ?ds = "strip_plus (mDigits a)"
  let ?fs = "(?n, 8) # calling_fields a p s"
  have "length ?ds \<le> 20"
    using assms(9) by (auto simp: strip_plus_def maxDigits_def)
  then have n: "?n = 2 + (length ?ds + 1) div 2" "2 \<le> ?n" "?n < 256"
    using assms(2) by (simp_all add: calling_number_lengthV_def lengthV_octets)
  have w: "fields_width ?fs = 8 * (1 + ?n)"
    by (simp add: calling_fields_def octet_3a_def digit_fields_width n(1))
  have fit: "fields_fit ?fs"
    using assms n by (simp add: calling_fields_def octet_3a_def digit_fields_fit)
  from write_fields [OF assms(1) fit, of wp dest] assms(10) w obtain d where
    d: "writeFields B dest wp ?fs = cret (d, wp + 8 * (1 + ?n))"
    and h: "holds (peekField B) d wp ?fs" by auto
  have "writeLV B calling_number_lengthV (calling_number_writeV B) dest wp a = writeFields B dest wp ?fs"
    using n(2) by (simp add: writeLV_def calling_writeV_fields [OF assms(2,5,6)] Let_def)
  moreover have "parseLV B (calling_number_parseV B) d wp e \<noteq> cret (e', r)" for e e' r
  proof
    assume "parseLV B (calling_number_parseV B) d wp e = cret (e', r)"
    moreover have "peekField B d wp 8 = Some ?n" "peekField B d (wp + 8) 1 = Some 0"
      using h by (simp_all add: calling_fields_def)
    ultimately obtain r' where "calling_number_parseV B d (wp + 8) ?n e = cret (e', r')"
      and "wp + 8 + 8 * ?n = r'"
      using n(2) unfolding parseLV_def by (auto elim!: cbind_cretE split: if_splits)
    with calling_parse_end [OF _ \<open>peekField B d (wp + 8) 1 = Some 0\<close> n(2,3)] show False by fastforce
  qed
  ultimately show ?thesis using d by (intro exI [of _ d]) simp
qed

definition calling1 :: calling_number where
  "calling1 = (L3CallingPartyBCDNumber ''1707'')\<lparr>mHaveOctet3a := True,
     mPresentationIndicator := Some 1, mScreeningIndicator := Some 3\<rparr>"

theorem calling_octet_3a_misread_witness:
  "\<exists>d w. writeLV list_bits calling_number_lengthV (calling_number_writeV list_bits)
          (replicate 80 False) 8 calling1 = cret (d, w)
     \<and> parseLV list_bits (calling_number_parseV list_bits) d 8 calling1 \<noteq> cret (calling1, w)"
proof -
  have f: "mHaveOctet3a calling1" "mType calling1 < 8" "mPlan calling1 < 16"
    "mPresentationIndicator calling1 = Some 1" "mScreeningIndicator calling1 = Some 3"
    "length (mDigits calling1) \<le> maxDigits"
    "8 + 8 * (1 + calling_number_lengthV calling1) \<le> length (replicate 80 False)"
    by code_simp+
  from calling_octet_3a_misread [OF list_bits_laws f(1-5) _ _ f(6,7)] show ?thesis by auto
qed

end
