(* ===== verification/Smq_Threads.thy ===== *)
theory Smq_Threads
  imports Smq_Daemon
begin

text \<open>
  The threads and their message queues: the clock helpers of \<open>SmqGlobals.cpp\<close>, the class
  \<open>SmqMessageHandler\<close> over the POSIX message queues, the message headers of \<open>QueuedMsgHdrs\<close>, the loop
  of the writer thread (\<open>SmqWriter.cpp\<close>) and \<open>main\<close>.

  The kernel is the parameter \<open>mq_world\<close>; each of its answers may differ from call to call, so that
  a call takes the number of external calls made so far.  What travels through the queue of the
  writer is the field \<open>writer_queue\<close> of the daemon: a receive with a positive length takes its first
  message, the oldest one.
\<close>

section \<open>Clock helpers\<close>

type_synonym timespec = "int \<times> int"

definition NS_IN_SEC :: int where
  "NS_IN_SEC = 1000000000"

definition getCurrentSeconds :: "timespec \<Rightarrow> int" where
  "getCurrentSeconds tv = fst tv + snd tv div 1000000000"

definition getMSFromtimespec :: "timespec \<Rightarrow> int" where
  "getMSFromtimespec tv = fst tv * 1000 + snd tv div 1000000"

definition getCurrentMS :: "timespec \<Rightarrow> int" where
  "getCurrentMS tv = fst tv * 1000 + snd tv div 1000000"

definition addTimespec :: "timespec \<Rightarrow> timespec \<Rightarrow> timespec" where
  "addTimespec tv1 tv2 =
     (let sec = fst tv1 + fst tv2; nsec = snd tv1 + snd tv2 in
      if NS_IN_SEC \<le> nsec then (sec + 1, nsec - NS_IN_SEC) else (sec, nsec))"

text \<open>Division and remainder of C, towards zero.\<close>

definition cdiv :: "int \<Rightarrow> int \<Rightarrow> int" where
  "cdiv a b = (if a < 0 then - ((- a) div b) else a div b)"

definition cmod :: "int \<Rightarrow> int \<Rightarrow> int" where
  "cmod a b = a - cdiv a b * b"

definition timespec_of_ms :: "int \<Rightarrow> timespec" where
  "timespec_of_ms TimeoutMS = (cdiv TimeoutMS 1000, cmod TimeoutMS 1000 * 1000000)"

section \<open>Message queues\<close>

record mq_attr =
  mq_flags :: int
  mq_maxmsg :: int
  mq_msgsize :: int
  mq_curmsgs :: int

record mq_world =
  mq_open :: "nat \<Rightarrow> string \<Rightarrow> mq_attr \<Rightarrow> int"
  mq_send :: "nat \<Rightarrow> int \<Rightarrow> int"
  mq_timedreceive :: "nat \<Rightarrow> int \<Rightarrow> timespec \<Rightarrow> int \<times> int"
  mq_getattr :: "nat \<Rightarrow> int \<Rightarrow> int \<times> mq_attr"
  mq_clock :: "nat \<Rightarrow> timespec"

definition MQ_MESSAGE_MAX_SIZE :: int where "MQ_MESSAGE_MAX_SIZE = 1100"
definition MQ_MAX_NUM_OF_MESSAGES :: int where "MQ_MAX_NUM_OF_MESSAGES = 100"
definition ETIMEDOUT :: int where "ETIMEDOUT = 110"

text \<open>The descriptor and the times are not initialised by the constructor.\<close>

record SmqMessageHandler =
  mqdes :: "int option"
  attr :: mq_attr
  msg_prio :: nat
  currenttime_before :: "timespec option"
  abs_timeout :: "timespec option"
  mqueueName :: string
  mqueueOpened :: bool

definition SmqMessageHandler_new :: "string \<Rightarrow> SmqMessageHandler" where
  "SmqMessageHandler_new queueName =
     \<lparr>mqdes = None,
      attr = \<lparr>mq_flags = 0, mq_maxmsg = MQ_MAX_NUM_OF_MESSAGES,
              mq_msgsize = MQ_MESSAGE_MAX_SIZE, mq_curmsgs = 0\<rparr>,
      msg_prio = 0, currenttime_before = None, abs_timeout = None,
      mqueueName = queueName, mqueueOpened = False\<rparr>"

definition SmqInitReceiver ::
  "mq_world \<Rightarrow> SmqMessageHandler \<Rightarrow> nat \<Rightarrow> bool \<times> SmqMessageHandler \<times> nat" where
  "SmqInitReceiver K h t =
     (let des = mq_open K t (mqueueName h) (attr h); h = h\<lparr>mqdes := Some des\<rparr> in
      if des \<noteq> - 1 then (True, h\<lparr>mqueueOpened := True\<rparr>, t + 1) else (False, h, t + 1))"

text \<open>
  The loops that open the queue before it is used.  The sender sleeps after every attempt, the
  successful one too; the receiver after those that failed.
\<close>

partial_function (option) open_to_send ::
  "mq_world \<Rightarrow> SmqMessageHandler \<Rightarrow> nat \<Rightarrow> (SmqMessageHandler \<times> nat) option" where
  "open_to_send K h t =
     (if mqueueOpened h then Some (h, t)
      else let (ok, h, t) = SmqInitReceiver K h t
           in open_to_send K (h\<lparr>mqueueOpened := ok\<rparr>) (t + 1))"

partial_function (option) open_to_receive ::
  "mq_world \<Rightarrow> SmqMessageHandler \<Rightarrow> nat \<Rightarrow> (SmqMessageHandler \<times> nat) option" where
  "open_to_receive K h t =
     (if mqueueOpened h then Some (h, t)
      else let (ok, h, t) = SmqInitReceiver K h t; h = h\<lparr>mqueueOpened := ok\<rparr>
           in if ok then Some (h, t) else open_to_receive K h (t + 1))"

declare open_to_send.simps [code] open_to_receive.simps [code]

definition SmqSendMessage ::
  "mq_world \<Rightarrow> SmqMessageHandler \<Rightarrow> nat \<Rightarrow> (int \<times> SmqMessageHandler \<times> nat) option" where
  "SmqSendMessage K h t =
     do {
       (h, t) \<leftarrow> open_to_send K h t;
       des \<leftarrow> mqdes h;
       Some (if mq_send K t des \<noteq> 0 then - 1 else 0, h, t + 1) }"

definition SmqWaitforMessage ::
  "mq_world \<Rightarrow> int \<Rightarrow> SmqMessageHandler \<Rightarrow> nat \<Rightarrow> (int \<times> SmqMessageHandler \<times> nat) option" where
  "SmqWaitforMessage K TimeoutMS h t =
     do {
       (h, t) \<leftarrow> open_to_receive K h t;
       let before = mq_clock K t;
       let deadline = addTimespec before (timespec_of_ms TimeoutMS);
       let h = h\<lparr>currenttime_before := Some before, abs_timeout := Some deadline\<rparr>;
       des \<leftarrow> mqdes h;
       let (msgLength, errno) = mq_timedreceive K (t + 1) des deadline;
       Some (if msgLength < 0 \<and> errno = ETIMEDOUT then 0 else msgLength, h, t + 2) }"

definition getMessageQueueSize :: "mq_world \<Rightarrow> SmqMessageHandler \<Rightarrow> nat \<Rightarrow> int option" where
  "getMessageQueueSize K h t =
     do { des \<leftarrow> mqdes h;
          let (err, a) = mq_getattr K t des;
          Some (if err = 0 then mq_curmsgs a else - 1) }"

section \<open>Sending a datagram\<close>

text \<open>
  \<open>WriteUDPMessage\<close>, which the daemon does not call: the address of \<open>inet_pton\<close> is replaced by what
  \<open>resolveAddress\<close> of CommonLibs makes of it, whether that succeeded or not.  The result is that of
  \<open>sendto\<close>, and what was sent.  \<open>None\<close>: the length exceeds the buffer.
\<close>

record udp_world =
  udp_socket :: bool
  inet_address :: "string \<Rightarrow> int \<Rightarrow> string"
  resolveAddress :: "string \<Rightarrow> string \<Rightarrow> int \<Rightarrow> bool \<times> string"
  udp_sendto :: "string \<Rightarrow> string \<Rightarrow> int"

definition WriteUDPMessage ::
  "udp_world \<Rightarrow> string \<Rightarrow> nat \<Rightarrow> string \<Rightarrow> int \<Rightarrow> (int \<times> (string \<times> string) option) option" where
  "WriteUDPMessage U Buffer BufferSize IPAddress portNum =
     (if \<not> udp_socket U then Some (-1, None)
      else let saddr = inet_address U IPAddress portNum;
               (okay, saddr) = resolveAddress U saddr IPAddress portNum
        in if length Buffer < BufferSize then None
           else Some (udp_sendto U (take BufferSize Buffer) saddr,
                      Some (take BufferSize Buffer, saddr)))"

section \<open>Message headers\<close>

text \<open>The enumeration of message types, and the header of each class.\<close>

datatype MessageType =
  TestMessageType | SIPAckMsgType | SendResponseType | ProcessIncommingMsgType

definition MessageType_code :: "MessageType \<Rightarrow> int" where
  "MessageType_code ty =
     (case ty of TestMessageType \<Rightarrow> 1 | SIPAckMsgType \<Rightarrow> 2 | SendResponseType \<Rightarrow> 3
      | ProcessIncommingMsgType \<Rightarrow> 4)"

record QueuedMsgHdrs =
  msgType :: MessageType
  qh_smp :: "nat option"

fun queued_header :: "queued_msg \<Rightarrow> QueuedMsgHdrs" where
  "queued_header (SIPAckMessage err smp netaddrlen) = \<lparr>msgType = SIPAckMsgType, qh_smp = Some smp\<rparr>"
| "queued_header (TestMessage msg) = \<lparr>msgType = TestMessageType, qh_smp = None\<rparr>"
| "queued_header ProcessIncommingMsg = \<lparr>msgType = ProcessIncommingMsgType, qh_smp = None\<rparr>"

text \<open>\<open>strcpy\<close> into the 50 bytes of a test message.\<close>

definition TestMessage_new :: "string \<Rightarrow> string option" where
  "TestMessage_new sMsg = (if length (c_str sMsg) < 50 then Some (c_str sMsg) else None)"

section \<open>The writer thread\<close>

definition reader_handler :: SmqMessageHandler where
  "reader_handler = SmqMessageHandler_new ''/SmqReader''"

definition writer_handler :: SmqMessageHandler where
  "writer_handler = SmqMessageHandler_new ''/SmqWriter''"

text \<open>One turn of the loop: wait for 200 milliseconds, then act on what was received.\<close>

definition writer_turn ::
  "lib_ops \<Rightarrow> world \<Rightarrow> config \<Rightarrow> mq_world \<Rightarrow> SmqMessageHandler \<Rightarrow> int \<Rightarrow> smq
     \<Rightarrow> (SmqMessageHandler \<times> int \<times> smq) option" where
  "writer_turn L W C K h lastRunSeconds q =
     do {
       (bytesRead, h, t) \<leftarrow> SmqWaitforMessage K 200 h (tick q);
       let currentSeconds = getCurrentSeconds (mq_clock K t);
       let q = q\<lparr>tick := t + 1\<rparr>;
       if bytesRead < 0 then Some (h, lastRunSeconds, q)
       else if bytesRead = 0 then
         do { (lastRunSeconds, q) \<leftarrow> writer_timeout L W C currentSeconds lastRunSeconds q;
              Some (h, lastRunSeconds, q) }
       else if writer_queue q = [] then None
       else do { q \<leftarrow> writer_step L W C q; Some (h, lastRunSeconds, q) } }"

partial_function (option) writer_loop ::
  "lib_ops \<Rightarrow> world \<Rightarrow> config \<Rightarrow> mq_world \<Rightarrow> SmqMessageHandler \<Rightarrow> int \<Rightarrow> smq \<Rightarrow> smq option" where
  "writer_loop L W C K h lastRunSeconds q =
     (if stop_main_loop q then Some q
      else Option.bind (writer_turn L W C K h lastRunSeconds q)
             (\<lambda>(h, lastRunSeconds, q). writer_loop L W C K h lastRunSeconds q))"

declare writer_loop.simps [code]

definition SmqWriterThread :: "lib_ops \<Rightarrow> world \<Rightarrow> config \<Rightarrow> mq_world \<Rightarrow> smq \<Rightarrow> smq option" where
  "SmqWriterThread L W C K q =
     writer_loop L W C K writer_handler (getCurrentSeconds (mq_clock K (tick q))) (q\<lparr>tick := tick q + 1\<rparr>)"

text \<open>The reader thread: set-up, the loop around \<open>main_loop\<close>, and the clean-up that saves the queue.\<close>

partial_function (option) reader_loop :: "lib_ops \<Rightarrow> world \<Rightarrow> config \<Rightarrow> smq \<Rightarrow> smq option" where
  "reader_loop L W C q =
     (if stop_main_loop q then Some q
      else Option.bind (main_loop L W C 60000 q) (reader_loop L W C))"

declare reader_loop.simps [code]

definition SmqReaderThread ::
  "lib_ops \<Rightarrow> world \<Rightarrow> config \<Rightarrow> read_vars \<Rightarrow> smq \<Rightarrow> smq option" where
  "SmqReaderThread L W C v0 q =
     do {
       q \<leftarrow> InitBeforeMainLoop L W C v0 q;
       q \<leftarrow> reader_loop L W C (InitInsideReaderLoop C q);
       CleaupAfterMainreaderLoop L W q }"

section \<open>The command line\<close>

datatype main_action = PrintVersion | PrintSQL string | PrintTeX string

definition option_actions :: "string \<Rightarrow> string \<Rightarrow> main_action list" where
  "option_actions prog arg =
     (if arg = ''--version'' \<or> arg = ''-v'' then [PrintVersion] else [])
     @ (if arg = ''--gensql'' then [PrintSQL prog] else [])
     @ (if arg = ''--gentex'' then [PrintTeX prog] else [])"

text \<open>With any argument the program only prints; \<open>None\<close>: it starts its threads.\<close>

definition main_actions :: "string list \<Rightarrow> main_action list option" where
  "main_actions argv =
     (if 1 < length argv then Some (concat (map (option_actions (hd argv)) argv)) else None)"

section \<open>Lemmas\<close>

definition ns_of :: "timespec \<Rightarrow> int" where
  "ns_of tv = fst tv * NS_IN_SEC + snd tv"

definition normal :: "timespec \<Rightarrow> bool" where
  "normal tv \<longleftrightarrow> 0 \<le> snd tv \<and> snd tv < NS_IN_SEC"

lemma add_timespec:
  assumes "normal a" and "normal b"
  shows "normal (addTimespec a b)" and "ns_of (addTimespec a b) = ns_of a + ns_of b"
  using assms by (auto simp: normal_def ns_of_def addTimespec_def NS_IN_SEC_def Let_def)

lemma timespec_ms:
  assumes "0 \<le> ms"
  shows "normal (timespec_of_ms ms)" and "ns_of (timespec_of_ms ms) = ms * 1000000"
proof -
  have "cmod ms 1000 = ms mod 1000" "cdiv ms 1000 = ms div 1000"
    using assms by (simp_all add: cmod_def cdiv_def minus_div_mult_eq_mod)
  moreover have "ms div 1000 * 1000 + ms mod 1000 = ms" by simp
  ultimately show "normal (timespec_of_ms ms)" "ns_of (timespec_of_ms ms) = ms * 1000000"
    by (simp_all add: timespec_of_ms_def normal_def ns_of_def NS_IN_SEC_def) presburger
qed

text \<open>The tick at which the sender tries to open the queue for the \<open>n\<close>-th time, and its success.\<close>

definition opens_at :: "mq_world \<Rightarrow> SmqMessageHandler \<Rightarrow> nat \<Rightarrow> nat \<Rightarrow> bool" where
  "opens_at K h t n \<longleftrightarrow> mq_open K (t + 2 * n) (mqueueName h) (attr h) \<noteq> - 1"

lemma init_receiver_same:
  assumes "SmqInitReceiver K h t = (ok, h', t')"
  shows "mqueueName h' = mqueueName h" "attr h' = attr h" "t' = t + 1"
    "ok \<longleftrightarrow> mq_open K t (mqueueName h) (attr h) \<noteq> - 1"
    "mqdes h' = Some (mq_open K t (mqueueName h) (attr h))"
  using assms by (auto simp: SmqInitReceiver_def Let_def split: if_splits)

lemma open_to_send_ends:
  assumes "opens_at K h t n"
  shows "\<exists>h' t'. open_to_send K h t = Some (h', t')"
  using assms
proof (induction n arbitrary: h t)
  case 0
  show ?case
  proof (cases "mqueueOpened h")
    case True
    then show ?thesis by (subst open_to_send.simps) simp
  next
    case False
    with 0 show ?thesis
      by (subst open_to_send.simps, subst open_to_send.simps)
         (simp add: SmqInitReceiver_def opens_at_def Let_def)
  qed
next
  case (Suc n)
  obtain ok h1 t1 where i: "SmqInitReceiver K h t = (ok, h1, t1)" by (cases "SmqInitReceiver K h t")
  have "opens_at K (h1\<lparr>mqueueOpened := ok\<rparr>) (t1 + 1) n"
    using Suc.prems init_receiver_same [OF i] by (simp add: opens_at_def)
  from Suc.IH [OF this] i show ?case by (subst open_to_send.simps) auto
qed

lemma open_to_send_ended:
  assumes "open_to_send K h t = Some r"
  shows "mqueueOpened h \<or> (\<exists>n. opens_at K h t n)"
proof (rule open_to_send.raw_induct
    [where P = "\<lambda>K h t r. mqueueOpened h \<or> (\<exists>n. opens_at K h t n)", OF _ assms])
  fix loop :: "mq_world \<Rightarrow> SmqMessageHandler \<Rightarrow> nat \<Rightarrow> (SmqMessageHandler \<times> nat) option"
  fix K h t r
  assume hyp: "\<And>K h t r. loop K h t = Some r \<Longrightarrow> mqueueOpened h \<or> (\<exists>n. opens_at K h t n)"
    and step: "(if mqueueOpened h then Some (h, t)
      else let (ok, h, t) = SmqInitReceiver K h t in loop K (h\<lparr>mqueueOpened := ok\<rparr>) (t + 1)) = Some r"
  show "mqueueOpened h \<or> (\<exists>n. opens_at K h t n)"
  proof (cases "mqueueOpened h \<or> opens_at K h t 0")
    case True
    then show ?thesis by blast
  next
    case False
    obtain ok h1 t1 where i: "SmqInitReceiver K h t = (ok, h1, t1)" by (cases "SmqInitReceiver K h t")
    note same = init_receiver_same [OF i]
    from False same(4) have "\<not> ok" by (simp add: opens_at_def)
    with hyp [of K "h1\<lparr>mqueueOpened := ok\<rparr>" "t1 + 1" r] step False i
    obtain n where "opens_at K (h1\<lparr>mqueueOpened := ok\<rparr>) (t1 + 1) n" by auto
    then have "opens_at K h t (Suc n)" using same by (simp add: opens_at_def)
    then show ?thesis by blast
  qed
qed

text \<open>Sending ends exactly when the queue is open or an attempt to open it succeeds.\<close>

lemma open_to_send_iff:
  "(\<exists>r. open_to_send K h t = Some r) \<longleftrightarrow> mqueueOpened h \<or> (\<exists>n. opens_at K h t n)"
proof
  assume "mqueueOpened h \<or> (\<exists>n. opens_at K h t n)"
  then show "\<exists>r. open_to_send K h t = Some r"
  proof
    assume "mqueueOpened h"
    then show ?thesis by (subst open_to_send.simps) simp
  qed (use open_to_send_ends in blast)
qed (use open_to_send_ended in blast)

end
