(* ===== verification/Thread_Properties.thy ===== *)
theory Thread_Properties
  imports Smq_Threads Smq_Example
begin

text \<open>
  The threads: deadlines of the writer, and its loop as steps of the daemon.
\<close>

section \<open>Waiting\<close>

text \<open>
  C38: A wait of so many milliseconds hands the kernel the deadline that lies exactly that much after
  the reading of the clock, as a valid time with less than a second of nanoseconds; and running into
  the deadline is reported as a message of length 0, every other answer of the kernel as it is.
\<close>

theorem wait_deadline:
  assumes "SmqWaitforMessage K ms h t = Some (n, h', t')" and "0 \<le> ms"
    and "\<forall>i. normal (mq_clock K i)"
  shows "\<exists>before deadline len errno. currenttime_before h' = Some before
    \<and> abs_timeout h' = Some deadline \<and> normal deadline
    \<and> ns_of deadline = ns_of before + ms * 1000000
    \<and> mq_timedreceive K (t' - 1) (the (mqdes h')) deadline = (len, errno)
    \<and> n = (if len < 0 \<and> errno = ETIMEDOUT then 0 else len)"
proof -
  from assms(1) obtain h1 t1 des len errno where "open_to_receive K h t = Some (h1, t1)"
    and des: "mqdes h1 = Some des"
    and r: "mq_timedreceive K (t1 + 1) des (addTimespec (mq_clock K t1) (timespec_of_ms ms)) = (len, errno)"
    and n: "n = (if len < 0 \<and> errno = ETIMEDOUT then 0 else len)" and t': "t' = t1 + 2"
    and h': "h' = h1\<lparr>currenttime_before := Some (mq_clock K t1),
      abs_timeout := Some (addTimespec (mq_clock K t1) (timespec_of_ms ms))\<rparr>"
    by (auto simp: SmqWaitforMessage_def Let_def elim!: bind_SomeE split: prod.splits)
  from assms(3) have "normal (mq_clock K t1)" by blast
  note add_timespec [OF this timespec_ms(1) [OF assms(2)]]
  with des r n t' timespec_ms(2) [OF assms(2)] show ?thesis
    by (simp add: h')
qed

definition kernel1 :: mq_world where
  "kernel1 =
     \<lparr>mq_open = \<lambda>t n a. 5, mq_send = \<lambda>t d. 0,
      mq_timedreceive = \<lambda>t d tv. (if t < 10 then (- 1, 110) else (8, 0)),
      mq_getattr = \<lambda>t d. (0, \<lparr>mq_flags = 0, mq_maxmsg = 100, mq_msgsize = 1100, mq_curmsgs = 1\<rparr>),
      mq_clock = \<lambda>t. (10, 900000000)\<rparr>"

theorem wait_deadline_witness:
  "\<exists>h' t' deadline. SmqWaitforMessage kernel1 200 writer_handler 0 = Some (0, h', t')
     \<and> abs_timeout h' = Some deadline \<and> ns_of deadline = 11100000000"
proof -
  let ?w = "SmqWaitforMessage kernel1 200 writer_handler 0"
  obtain n h' t' where w: "?w = Some (n, h', t')"
    by (simp add: SmqWaitforMessage_def Let_def split_def SmqInitReceiver_def kernel1_def
        open_to_receive.simps writer_handler_def SmqMessageHandler_new_def)
  then have b: "n = 0" "currenttime_before h' = Some (10, 900000000)"
    by (auto simp: SmqWaitforMessage_def Let_def split_def SmqInitReceiver_def kernel1_def
        open_to_receive.simps writer_handler_def SmqMessageHandler_new_def ETIMEDOUT_def)
  have "\<forall>i. normal (mq_clock kernel1 i)" by (simp add: kernel1_def normal_def NS_IN_SEC_def)
  from wait_deadline [OF w _ this] b w show ?thesis by (auto simp: ns_of_def NS_IN_SEC_def)
qed



end
