(* ===== verification/Receive_Properties.thy ===== *)
theory Receive_Properties
  imports Smq_Example
begin

text \<open>
  Properties of what becomes of a received datagram: accepted messages, rejected ones, responses,
  and the acknowledgements that are ordered for them.
\<close>

section \<open>Receiving\<close>

lemma short_msg_pending0_fields [simp]:
  "mid (short_msg_pending0 i) = i" "state (short_msg_pending0 i) = NO_STATE"
  by (simp_all add: short_msg_pending0_def short_msg_pending.defs short_msg.defs short_msg0_def)

lemma received_message_queue:
  assumes "received_message b len q = Some (m, q1)"
  shows "q1 = q\<lparr>next_mid := next_mid q + 1\<rparr>" and "mid m = next_mid q" and "state m = NO_STATE"
proof -
  from assms obtain m1 where
    i: "initialize len (Some b) False (short_msg_pending0 (next_mid q)) = Some m1"
    and m: "mid m = mid m1" "state m = state m1" and q1: "q1 = q\<lparr>next_mid := next_mid q + 1\<rparr>"
    by (auto simp: received_message_def new_message_def Let_def elim!: bind_SomeE)
  from initialize_same [OF i] m show "mid m = next_mid q" and "state m = NO_STATE"
    by (simp_all add: same_pend_def)
  from q1 show "q1 = q\<lparr>next_mid := next_mid q + 1\<rparr>" .
qed

text \<open>
  C15: The acknowledgement of a datagram that is rejected is never sent: the order for it names a
  message that was freed with the order, no message ever gets its identity again, and carrying the
  order out, in whatever state the daemon has reached by then, reads that freed message.
\<close>

theorem rejected_ack_dangles:
  assumes "get_next_dgram (w_net W) (tick q) sizeof_buffer ms (my_network q) = Some (len, buf, net, t)"
    and "0 < len" and "received_message buf len (q\<lparr>my_network := net, tick := t\<rparr>) = Some (m, q1)"
    and "validate_short_msg L W C True m q1 = Some (e, m', q2)" and "e \<noteq> 0" and "wf q"
  shows "\<exists>q'. main_loop L W C ms q = Some q' \<and> time_sorted_list q' = time_sorted_list q
    \<and> writer_queue q' = writer_queue q2 @ [SIPAckMessage e (next_mid q) (srcaddrlen m')]
    \<and> (\<forall>q''. reachable L W C q' q''
          \<longrightarrow> ProcessMessage L W C (SIPAckMessage e (next_mid q) (srcaddrlen m')) q'' = None)"
proof -
  let ?q' = "queue_respond_sip_ack e (mid m') (srcaddrlen m') q2"
  note r = received_message_queue [OF assms(3)]
  note v = validate_same [OF assms(4)]
  have i: "mid m' = next_mid q" using same_pend_mid [OF v(1)] r(2) by simp
  have "main_loop L W C ms q = Some ?q'"
    using assms(1-5) by (simp add: main_loop_def)
  moreover have list: "time_sorted_list ?q' = time_sorted_list q" "next_mid ?q' = next_mid q + 1"
    using v(2) r(1) by (simp_all add: queue_respond_sip_ack_def SendWriterMsg_def same_list_def)
  moreover have "writer_queue ?q' = writer_queue q2 @ [SIPAckMessage e (next_mid q) (srcaddrlen m')]"
    by (simp add: queue_respond_sip_ack_def SendWriterMsg_def i)
  moreover have "ProcessMessage L W C (SIPAckMessage e (next_mid q) (srcaddrlen m')) q'' = None"
    if "reachable L W C ?q' q''" for q''
  proof -
    have w: "wf ?q'" using assms(6) list by (auto simp: wf_def mids_def)
    then have "mids q'' \<subseteq> mids q \<union> {next_mid q + 1..<next_mid q''}"
      using reachable_evolves [OF that] list by (simp add: evolves_def mids_def)
    moreover have "next_mid q \<notin> mids q" using assms(6) by (auto simp: wf_def)
    ultimately have "deref (next_mid q) q'' = None" by (auto simp: deref_None_iff)
    then show ?thesis by (simp add: ProcessMessage_def respond_sip_ack_def)
  qed
  ultimately show ?thesis by blast
qed

text \<open>A library for which the datagrams are not SIP 2.0.\<close>

definition lib2 :: lib_ops where
  "lib2 = lib1\<lparr>osip_message_parse := \<lambda>s n. Some (sip_request\<lparr>p_sip_version := None\<rparr>)\<rparr>"

theorem rejected_ack_dangles_witness:
  "\<exists>q'. main_loop lib2 world1 config1 100 (queue1 [msg1 0 NO_STATE 5]) = Some q'
     \<and> ProcessMessage lib2 world1 config1 (SIPAckMessage 400 10 4) q' = None"
proof -
  let ?q = "queue1 [msg1 0 NO_STATE 5]"
  let ?g = "get_next_dgram (w_net world1) (tick ?q) sizeof_buffer 100 (my_network ?q)"
  let ?n = "fst (snd (snd (the ?g)))" and ?t = "snd (snd (snd (the ?g)))"
  let ?r = "received_message (fst (snd (the ?g))) (fst (the ?g)) (?q\<lparr>my_network := ?n, tick := ?t\<rparr>)"
  let ?v = "validate_short_msg lib2 world1 config1 True (fst (the ?r)) (snd (the ?r))"
  have g: "?g = Some (fst (the ?g), fst (snd (the ?g)), ?n, ?t)" by (rule defined_4) code_simp
  have len: "0 < fst (the ?g)" by code_simp
  have r: "?r = Some (fst (the ?r), snd (the ?r))" by (rule defined_2) code_simp
  have v: "?v = Some (fst (the ?v), fst (snd (the ?v)), snd (snd (the ?v)))"
    by (rule defined_3) code_simp
  have e: "fst (the ?v) = 400" and n: "srcaddrlen (fst (snd (the ?v))) = 4" by code_simp+
  have e0: "fst (the ?v) \<noteq> 0" unfolding e by simp
  have w: "wf ?q" by code_simp
  obtain q' where "main_loop lib2 world1 config1 100 ?q = Some q'"
    and "\<forall>q''. reachable lib2 world1 config1 q' q'' \<longrightarrow>
           ProcessMessage lib2 world1 config1 (SIPAckMessage (fst (the ?v)) (next_mid ?q)
             (srcaddrlen (fst (snd (the ?v))))) q'' = None"
    using rejected_ack_dangles [OF g len r v e0 w] by (elim exE conjE)
  with reachable.refl show ?thesis unfolding e n queue1_fields(2) by blast
qed

text \<open>What \<open>main_loop\<close> does with a datagram it accepts.\<close>

lemma make_text_valid_parsed: "make_text_valid L m = Some m' \<Longrightarrow> parsed m' = parsed m"
  by (auto simp: make_text_valid_def Let_def split: if_splits elim!: bind_SomeE)

lemma accepted_front:
  assumes "get_next_dgram (w_net W) (tick q) sizeof_buffer ms (my_network q) = Some (len, buf, net, t)"
    and "0 < len" and "received_message buf len (q\<lparr>my_network := net, tick := t\<rparr>) = Some (m, q1)"
    and "validate_short_msg L W C True m q1 = Some (0, m', q2)" and "main_loop L W C ms q = Some q'"
  shows "\<exists>f rest. time_sorted_list q' = f # rest \<and> mid f = next_mid q \<and> state f = INITIAL_STATE
    \<and> next_action_time f = clock W q2 + timeouts q2 NO_STATE INITIAL_STATE
    \<and> parsed f = parsed m' \<and> list_all2 same_pend (time_sorted_list q) rest
    \<and> writer_queue q' = writer_queue q2
         @ [ProcessIncommingMsg, SIPAckMessage 202 (next_mid q) (srcaddrlen m')]"
proof -
  note r = received_message_queue [OF assms(3)]
  note v = validate_same [OF assms(4)]
  have m': "mid m' = next_mid q" "state m' = NO_STATE"
    using v(1) r by (simp_all add: same_pend_def)
  from assms obtain q3 where ins: "insert_new_message_state L W m' INITIAL_STATE q2 = Some q3"
    and q': "q' = queue_respond_sip_ack 202 (mid m') (srcaddrlen m') q3"
    by (auto simp: main_loop_def insert_new_message_def elim!: bind_SomeE)
  let ?f = "smp_set_state (timeouts q2) (clock W q2) INITIAL_STATE m'"
  have front: "same_all (?f # time_sorted_list q2) (time_sorted_list q')"
    using insert_state_front [OF ins]
    by (simp add: put_in_front_def q' queue_respond_sip_ack_def SendWriterMsg_def)
  have "time_sorted_list q2 = time_sorted_list q"
    using v(2) r(1) by (simp add: same_list_def)
  with front obtain f rest where fr: "time_sorted_list q' = f # rest" "same_pend ?f f"
    "list_all2 same_pend (time_sorted_list q) rest"
    by (auto simp: same_all_def list_all2_Cons1)
  have "writer_queue q3 = writer_queue q2 @ [ProcessIncommingMsg]"
    using ins
    by (auto simp: insert_new_message_state_def debug_dump_def msgettime_def ProcessReceivedMsg_def
        SendWriterMsg_def Let_def elim!: bind_SomeE)
  moreover have "parsed f = parsed m'"
  proof -
    have "make_text_valid L ?f = Some f"
      using ins fr(1)
      by (auto simp: insert_new_message_state_def debug_dump_def msgettime_eq clock_def
          ProcessReceivedMsg_def SendWriterMsg_def q' queue_respond_sip_ack_def
          split: option.splits elim!: bind_SomeE)
    from make_text_valid_parsed [OF this] show ?thesis by (simp add: smp_set_state_def)
  qed
  ultimately show ?thesis using fr m'
    by (auto simp: q' queue_respond_sip_ack_def SendWriterMsg_def same_pend_def)
qed

text \<open>
  C14: An accepted datagram is the new front of the queue, in the initial state and with the time
  of its arrival plus the timeout for new messages; the others keep their order, and the writer is
  told to look at the queue and then to acknowledge the message with 202.
\<close>

theorem accepted_goes_first:
  assumes "get_next_dgram (w_net W) (tick q) sizeof_buffer ms (my_network q) = Some (len, buf, net, t)"
    and "0 < len" and "received_message buf len (q\<lparr>my_network := net, tick := t\<rparr>) = Some (m, q1)"
    and "validate_short_msg L W C True m q1 = Some (0, m', q2)" and "main_loop L W C ms q = Some q'"
  shows "\<exists>f rest. time_sorted_list q' = f # rest \<and> mid f = next_mid q \<and> state f = INITIAL_STATE
    \<and> next_action_time f = clock W q2 + timeouts q2 NO_STATE INITIAL_STATE
    \<and> list_all2 same_pend (time_sorted_list q) rest
    \<and> writer_queue q' = writer_queue q2
         @ [ProcessIncommingMsg, SIPAckMessage 202 (next_mid q) (srcaddrlen m')]"
  using accepted_front [OF assms] by blast

theorem accepted_goes_first_witness:
  "map mid (time_sorted_list (the (main_loop lib1 world1 config1 100 (queue1 [msg1 0 NO_STATE 5]))))
     = [10, 0]"
proof -
  let ?q = "queue1 [msg1 0 NO_STATE 5]"
  let ?g = "get_next_dgram (w_net world1) (tick ?q) sizeof_buffer 100 (my_network ?q)"
  let ?n = "fst (snd (snd (the ?g)))" and ?t = "snd (snd (snd (the ?g)))"
  let ?r = "received_message (fst (snd (the ?g))) (fst (the ?g)) (?q\<lparr>my_network := ?n, tick := ?t\<rparr>)"
  let ?v = "validate_short_msg lib1 world1 config1 True (fst (the ?r)) (snd (the ?r))"
  have g: "?g = Some (fst (the ?g), fst (snd (the ?g)), ?n, ?t)" by (rule defined_4) code_simp
  have len: "0 < fst (the ?g)" by code_simp
  have r: "?r = Some (fst (the ?r), snd (the ?r))" by (rule defined_2) code_simp
  have v0: "?v = Some (fst (the ?v), fst (snd (the ?v)), snd (snd (the ?v)))"
    by (rule defined_3) code_simp
  have e: "fst (the ?v) = 0" by code_simp
  have v: "?v = Some (0, fst (snd (the ?v)), snd (snd (the ?v)))" using v0 unfolding e .
  have m: "main_loop lib1 world1 config1 100 ?q = Some (the (main_loop lib1 world1 config1 100 ?q))"
    by (rule defined_the) code_simp
  from accepted_goes_first [OF g len r v m] obtain f rest where
    "time_sorted_list (the (main_loop lib1 world1 config1 100 ?q)) = f # rest" "mid f = 10"
    "list_all2 same_pend [msg1 0 NO_STATE 5] rest"
    unfolding queue1_fields(1,2) by (elim exE conjE)
  then show ?thesis by (auto simp: list_all2_Cons1 same_pend_def)
qed






end
