(* ===== verification/Mutex_Interface.thy ===== *)
theory Mutex_Interface
  imports Smq_Prelude
begin

text \<open>
  The contract of a recursive mutex: what its users rely on, whatever its representation.
\<close>

locale recursive_mutex =
  fixes acquire :: "'t \<Rightarrow> 'm \<Rightarrow> 'm option"
    and release :: "'t \<Rightarrow> 'm \<Rightarrow> 'm"
    and holds :: "'t \<Rightarrow> 'm \<Rightarrow> nat"
    and ok :: "'m \<Rightarrow> bool"
  assumes acquire_holds: "acquire t m = Some m'
      \<Longrightarrow> holds u m' = (if u = t then holds t m + 1 else holds u m)"
    and acquire_ok: "ok m \<Longrightarrow> acquire t m = Some m' \<Longrightarrow> ok m'"
    and release_holds: "ok m \<Longrightarrow> holds u (release t m) = (if u = t then holds t m - 1 else holds u m)"
    and release_ok: "ok m \<Longrightarrow> ok (release t m)"
    and release_acquire: "ok m \<Longrightarrow> acquire t m = Some m' \<Longrightarrow> release t m' = m"
    and exclusive: "ok m \<Longrightarrow> 0 < holds t m \<Longrightarrow> 0 < holds u m \<Longrightarrow> u = t"
    and waits: "ok m \<Longrightarrow> acquire t m = None \<longleftrightarrow> (\<exists>u. u \<noteq> t \<and> 0 < holds u m)"
begin

text \<open>The owner never waits.\<close>

lemma owner_acquires:
  assumes "ok m" and "0 < holds t m"
  obtains m' where "acquire t m = Some m'"
proof (cases "acquire t m")
  case None
  then obtain u where u: "u \<noteq> t" "0 < holds u m" unfolding waits [OF assms(1)] by (elim exE conjE)
  from exclusive [OF assms u(2)] u(1) show thesis by (elim notE)
qed (rule that)

text \<open>A thread that could acquire the mutex, or does not wait, can go on acquiring it.\<close>

lemma acquired_again:
  assumes "ok m" and "acquire t m = Some m'"
  obtains m'' where "acquire t m' = Some m''"
proof (rule owner_acquires [of m' t])
  show "ok m'" by (rule acquire_ok [OF assms])
  show "0 < holds t m'" by (simp add: acquire_holds [OF assms(2)])
qed

text \<open>While one thread holds the mutex another one that asks for it waits.\<close>

lemma others_wait:
  assumes "ok m" and "0 < holds t m" and "u \<noteq> t"
  shows "acquire u m = None"
  unfolding waits [OF assms(1)] using assms(2,3) by (intro exI [of _ t] conjI) auto

text \<open>Acquiring it any number of times and releasing it as often leaves it as it was.\<close>

fun nested :: "nat \<Rightarrow> 't \<Rightarrow> 'm \<Rightarrow> 'm option" where
  "nested 0 t m = Some m"
| "nested (Suc n) t m =
     Option.bind (acquire t m) (\<lambda>m. map_option (release t) (nested n t m))"

lemma nested_neutral:
  assumes "ok m" and "acquire t m \<noteq> None"
  shows "nested n t m = Some m"
  using assms
proof (induction n arbitrary: m)
  case (Suc n)
  from Suc.prems(2) obtain m' where a: "acquire t m = Some m'" by auto
  have "acquire t m' \<noteq> None" by (rule acquired_again [OF Suc.prems(1) a]) simp
  from Suc.IH [OF acquire_ok [OF Suc.prems(1) a] this] a release_acquire [OF Suc.prems(1) a]
  show ?case by simp
qed simp

end

end
