(* ===== verification/Smq_Mutex.thy ===== *)
theory Smq_Mutex
  imports Smq_Threads Mutex_Interface
begin

text \<open>
  Synchronisation: the recursive mutex of the queue (\<open>lockSortedList\<close>, \<open>unlockSortedList\<close>) and the
  bounded kernel queue of the writer thread, and the control skeletons of the functions that use
  them.  A skeleton keeps the locking, the accesses to the list of messages and the orders to the
  writer thread of a function, in the order of the code, and leaves open which branch is taken and
  how often a loop runs; what the functions compute is modelled in the other theories.
\<close>

section \<open>The recursive mutex\<close>

datatype thread = Reader | Writer

text \<open>\<open>PTHREAD_MUTEX_RECURSIVE\<close>: the owner and the number of its locks.\<close>

type_synonym mutex = "(thread \<times> nat) option"

text \<open>\<open>None\<close>: the thread has to wait.\<close>

fun lockSortedList :: "thread \<Rightarrow> mutex \<Rightarrow> mutex option" where
  "lockSortedList t None = Some (Some (t, 1))"
| "lockSortedList t (Some (u, n)) = (if u = t then Some (Some (u, n + 1)) else None)"

text \<open>The call fails without an effect when the thread does not own the mutex.\<close>

fun unlockSortedList :: "thread \<Rightarrow> mutex \<Rightarrow> mutex" where
  "unlockSortedList t None = None"
| "unlockSortedList t (Some (u, n)) =
     (if u \<noteq> t then Some (u, n) else if n \<le> 1 then None else Some (u, n - 1))"

fun held :: "thread \<Rightarrow> mutex \<Rightarrow> nat" where
  "held t None = 0"
| "held t (Some (u, n)) = (if u = t then n else 0)"

definition mutex_ok :: "mutex \<Rightarrow> bool" where
  "mutex_ok m \<longleftrightarrow> (\<forall>u n. m = Some (u, n) \<longrightarrow> 0 < n)"

lemma lock_held:
  assumes "lockSortedList t m = Some m'"
  shows "held u m' = (if u = t then held t m + 1 else held u m)" and "mutex_ok m'"
proof -
  consider "m = None" | n where "m = Some (t, n)"
    using assms by (cases m) (auto split: if_splits)
  then show "held u m' = (if u = t then held t m + 1 else held u m)" "mutex_ok m'"
    using assms by (cases; simp add: mutex_ok_def; force)+
qed

lemma unlock_held:
  assumes "mutex_ok m"
  shows "held u (unlockSortedList t m) = (if u = t then held t m - 1 else held u m)"
    and "mutex_ok (unlockSortedList t m)"
  using assms by (cases m; auto simp: mutex_ok_def split: if_splits)+

lemma held_owner: "0 < held t m \<Longrightarrow> \<exists>n. m = Some (t, n)"
  by (cases m) (auto split: if_splits)

interpretation list_mutex: recursive_mutex lockSortedList unlockSortedList held mutex_ok
proof unfold_locales
  fix t u :: thread and m m' :: mutex
  show "lockSortedList t m = Some m' \<Longrightarrow> held u m' = (if u = t then held t m + 1 else held u m)"
    by (rule lock_held(1))
  show "lockSortedList t m = Some m' \<Longrightarrow> mutex_ok m'" by (rule lock_held(2))
  show "mutex_ok m \<Longrightarrow> held u (unlockSortedList t m) = (if u = t then held t m - 1 else held u m)"
    by (rule unlock_held(1))
  show "mutex_ok m \<Longrightarrow> mutex_ok (unlockSortedList t m)" by (rule unlock_held(2))
  show "mutex_ok m \<Longrightarrow> lockSortedList t m = Some m' \<Longrightarrow> unlockSortedList t m' = m"
    by (cases m) (auto simp: mutex_ok_def split: if_splits)
  show "mutex_ok m \<Longrightarrow> 0 < held t m \<Longrightarrow> 0 < held u m \<Longrightarrow> u = t"
    by (auto dest!: held_owner)
  show "mutex_ok m \<Longrightarrow> lockSortedList t m = None \<longleftrightarrow> (\<exists>u. u \<noteq> t \<and> 0 < held u m)"
    by (cases m) (auto simp: mutex_ok_def split: if_splits)
qed

section \<open>Control skeletons\<close>

text \<open>
  \<open>Touch\<close>: the list or a message in it is read or written; \<open>Peek\<close>: the same at one of the three
  places where the code does so without the mutex (the acknowledgement, the argument of the order
  for it, the size of the list that the writer logs); \<open>Post\<close>: an order goes into the kernel
  queue; \<open>Await\<close>: the writer waits for the next order, and acts on it.
\<close>

datatype code =
    Lock | Unlock | Touch | Peek | Post MessageType | Await
  | Block "code list" | Alt "code list" | Loop code

definition find_tag_code :: code where
  "find_tag_code =
     Block [Lock, Loop Touch, Alt [Block [Touch, Unlock], Unlock]]"

definition set_state_code :: code where
  "set_state_code = Block [Lock, Touch, Unlock]"

definition set_state_at_code :: code where
  "set_state_at_code = Block [Lock, Touch, Unlock]"

definition debug_dump_code :: code where
  "debug_dump_code = Block [Lock, Loop Touch, Unlock]"

definition ProcessReceivedMsg_code :: code where
  "ProcessReceivedMsg_code = Post ProcessIncommingMsgType"

definition queue_respond_sip_ack_code :: code where
  "queue_respond_sip_ack_code = Post SIPAckMsgType"

definition insert_new_message_code :: code where
  "insert_new_message_code = Block [Lock, Touch, Unlock, debug_dump_code, ProcessReceivedMsg_code]"

definition insert_state_code :: code where
  "insert_state_code = Block [Lock, Touch, Unlock, debug_dump_code, ProcessReceivedMsg_code]"

definition insert_at_code :: code where
  "insert_at_code = Block [Lock, Touch, Unlock, debug_dump_code, ProcessReceivedMsg_code]"

definition save_queue_code :: code where
  "save_queue_code = Alt [Block [], Block [Lock, Loop Touch, Unlock]]"

text \<open>Messages the daemon makes: the new message is inserted when it is valid.\<close>

definition originate_sm_code :: code where
  "originate_sm_code = Alt [Block [], insert_state_code]"

definition bounce_message_code :: code where
  "bounce_message_code = Block [Touch, Alt [originate_sm_code, Block []]]"

definition register_handset_code :: code where
  "register_handset_code =
     Alt [Block [], Block [Touch, Alt [Block [], insert_state_code]]]"

definition get_link_code :: code where
  "get_link_code = Block [Touch, Alt [Block [], find_tag_code]]"

text \<open>The seven functions of the short codes.\<close>

definition short_func_code :: code where
  "short_func_code =
     Alt [Block [],
          save_queue_code,
          debug_dump_code,
          Touch,
          Block [Lock, Loop Touch, Unlock, Touch],
          Block [Lock, Alt [Block [Touch, Loop Touch],
                            Block [find_tag_code, Alt [Block [], Touch]]], Unlock]]"

definition handle_short_code_code :: code where
  "handle_short_code_code =
     Block [Touch, Alt [Block [],
       Block [Touch, short_func_code,
              Alt [Block [Touch, originate_sm_code], Touch, register_handset_code, Block []]]]]"

definition handle_response_code :: code where
  "handle_response_code =
     Block [Lock, Touch, find_tag_code,
       Alt [Unlock,
            Block [Touch,
              Alt [Touch,
                   Block [Touch, Alt [Block [get_link_code, Alt [Touch, Block []]], Block []],
                          Alt [Touch, Block []], Touch],
                   Block [bounce_message_code, Touch],
                   Block []],
              Unlock]]]"

text \<open>The branches of the \<open>switch\<close> on the state, those that do the same once.\<close>

definition process_timeout_code :: code where
  "process_timeout_code =
     Block [Lock, Touch,
       Alt [Unlock,
            Block [Touch, Unlock],
            Block [Touch,
              Alt [Block [Touch, Alt [handle_short_code_code, Block []], set_state_code],
                   handle_response_code,
                   Touch,
                   Block [Touch, set_state_code],
                   Block [set_state_code, Touch, set_state_code],
                   Block [Alt [set_state_code, Block []], Touch, Alt [set_state_code, Touch]],
                   set_state_code,
                   Block [Touch, Alt [set_state_code,
                     Block [set_state_code, register_handset_code, set_state_code]]],
                   Block [register_handset_code, set_state_code]],
              Unlock]]]"

text \<open>The message that is acknowledged is parsed without the mutex.\<close>

definition respond_sip_ack_code :: code where
  "respond_sip_ack_code = Block [Peek, Alt [Block [], Block [Peek]]]"

definition main_loop_code :: code where
  "main_loop_code =
     Alt [Block [],
          Block [insert_new_message_code, Peek, queue_respond_sip_ack_code],
          queue_respond_sip_ack_code]"

definition read_queue_code :: code where
  "read_queue_code = Alt [Block [], Loop (Alt [Block [], insert_at_code])]"

definition reader_code :: code where
  "reader_code = Block [read_queue_code, Loop main_loop_code, save_queue_code]"

text \<open>\<open>ProcessMessage\<close> of the orders; the base class does nothing.\<close>

fun order_code :: "MessageType \<Rightarrow> code" where
  "order_code ProcessIncommingMsgType = process_timeout_code"
| "order_code SIPAckMsgType = respond_sip_ack_code"
| "order_code TestMessageType = Block []"
| "order_code SendResponseType = Block []"

text \<open>The wait of the writer ended without a message; the size of the list is read unlocked.\<close>

definition writer_timeout_code :: code where
  "writer_timeout_code = Block [process_timeout_code, Alt [Block [Peek, save_queue_code], Block []]]"

definition writer_code :: code where
  "writer_code = Loop Await"

section \<open>Two threads\<close>

record sync =
  owner :: mutex
  orders :: "MessageType list"
  todo :: "thread \<Rightarrow> code list"

text \<open>
  One step of a thread.  \<open>cap\<close> is the capacity of the kernel queue: a send to a full queue waits.
  A receive takes the first order at once; it ends with a timeout only when there is none, and may
  fail for another reason at any time.
\<close>

inductive thread_step ::
  "nat \<Rightarrow> thread \<Rightarrow> mutex \<times> MessageType list \<times> code list \<Rightarrow> mutex \<times> MessageType list \<times> code list \<Rightarrow> bool"
  for cap :: nat and t :: thread where
  lock: "lockSortedList t m = Some m' \<Longrightarrow> thread_step cap t (m, q, Lock # k) (m', q, k)"
| unlock: "thread_step cap t (m, q, Unlock # k) (unlockSortedList t m, q, k)"
| touch: "thread_step cap t (m, q, Touch # k) (m, q, k)"
| peek: "thread_step cap t (m, q, Peek # k) (m, q, k)"
| post: "length q < cap \<Longrightarrow> thread_step cap t (m, q, Post x # k) (m, q @ [x], k)"
| await_order: "thread_step cap t (m, x # q, Await # k) (m, q, order_code x # k)"
| await_timeout: "thread_step cap t (m, [], Await # k) (m, [], writer_timeout_code # k)"
| await_error: "thread_step cap t (m, q, Await # k) (m, q, k)"
| block: "thread_step cap t (m, q, Block cs # k) (m, q, cs @ k)"
| alt: "c \<in> set cs \<Longrightarrow> thread_step cap t (m, q, Alt cs # k) (m, q, c # k)"
| loop_end: "thread_step cap t (m, q, Loop c # k) (m, q, k)"
| loop_more: "thread_step cap t (m, q, Loop c # k) (m, q, c # Loop c # k)"

inductive_cases thread_stepE [elim!]:
  "thread_step cap t (m, q, []) s"
  "thread_step cap t (m, q, Lock # k) s"
  "thread_step cap t (m, q, Unlock # k) s"
  "thread_step cap t (m, q, Touch # k) s"
  "thread_step cap t (m, q, Peek # k) s"
  "thread_step cap t (m, q, Post x # k) s"
  "thread_step cap t (m, q, Await # k) s"
  "thread_step cap t (m, q, Block cs # k) s"
  "thread_step cap t (m, q, Alt cs # k) s"
  "thread_step cap t (m, q, Loop c # k) s"

inductive sync_step :: "nat \<Rightarrow> sync \<Rightarrow> sync \<Rightarrow> bool" for cap :: nat where
  "thread_step cap t (owner s, orders s, todo s t) (m, q, k)
     \<Longrightarrow> sync_step cap s (s\<lparr>owner := m, orders := q, todo := (todo s)(t := k)\<rparr>)"

inductive_cases sync_stepE: "sync_step cap s s'"

definition sync0 :: sync where
  "sync0 = \<lparr>owner = None, orders = [],
            todo = (\<lambda>t. case t of Reader \<Rightarrow> [reader_code] | Writer \<Rightarrow> [writer_code])\<rparr>"

inductive sync_reachable :: "nat \<Rightarrow> sync \<Rightarrow> sync \<Rightarrow> bool" for cap :: nat where
  sync_refl: "sync_reachable cap s s"
| sync_more: "sync_reachable cap s s' \<Longrightarrow> sync_step cap s' s'' \<Longrightarrow> sync_reachable cap s s''"

lemma sync_trans:
  assumes "sync_reachable cap b c" and "sync_reachable cap a b"
  shows "sync_reachable cap a c"
  using assms by (induction rule: sync_reachable.induct) (auto intro: sync_more)

section \<open>Checking the locking of a skeleton\<close>

text \<open>
  The number of locks a thread holds after a skeleton, when it is the same on every path; a thread
  may touch the list only while it holds the mutex, the reader posts orders only while it does not,
  the writer only while it does, and only the writer waits for orders, without the mutex.
\<close>

fun depth :: "thread \<Rightarrow> code \<Rightarrow> nat \<Rightarrow> nat option"
  and depth_list :: "thread \<Rightarrow> code list \<Rightarrow> nat \<Rightarrow> nat option"
  and depth_alt :: "thread \<Rightarrow> code list \<Rightarrow> nat \<Rightarrow> nat option"
where
  "depth t Lock d = Some (d + 1)"
| "depth t Unlock d = (if 0 < d then Some (d - 1) else None)"
| "depth t Touch d = (if 0 < d then Some d else None)"
| "depth t Peek d = Some d"
| "depth t (Post x) d = (if (t = Writer) = (0 < d) then Some d else None)"
| "depth t Await d = (if t = Writer \<and> d = 0 then Some d else None)"
| "depth t (Block cs) d = depth_list t cs d"
| "depth t (Alt cs) d = depth_alt t cs d"
| "depth t (Loop c) d = (if depth t c d = Some d then Some d else None)"
| "depth_list t [] d = Some d"
| "depth_list t (c # cs) d = Option.bind (depth t c d) (depth_list t cs)"
| "depth_alt t [] d = None"
| "depth_alt t (c # cs) d =
     (if cs = [] \<or> depth_alt t cs d = depth t c d then depth t c d else None)"

lemma depth_alt_mem: "depth_alt t cs d = Some e \<Longrightarrow> c \<in> set cs \<Longrightarrow> depth t c d = Some e"
  by (induction cs) (auto split: if_splits)

lemma depth_append: "depth_list t (xs @ ys) d = Option.bind (depth_list t xs d) (depth_list t ys)"
proof (induction xs arbitrary: d)
  case (Cons x xs)
  then show ?case by (cases "depth t x d") simp_all
qed simp

lemma depth_alt_nonempty: "depth_alt t cs d = Some e \<Longrightarrow> cs \<noteq> []"
  by auto

text \<open>Every path of every function leaves the mutex as it found it.\<close>

lemmas skeletons =
  find_tag_code_def set_state_code_def set_state_at_code_def debug_dump_code_def
  ProcessReceivedMsg_code_def queue_respond_sip_ack_code_def insert_new_message_code_def
  insert_state_code_def insert_at_code_def save_queue_code_def originate_sm_code_def
  bounce_message_code_def register_handset_code_def get_link_code_def short_func_code_def
  handle_short_code_code_def handle_response_code_def process_timeout_code_def
  respond_sip_ack_code_def main_loop_code_def read_queue_code_def reader_code_def
  writer_timeout_code_def writer_code_def

lemma order_code_depth: "depth Writer (order_code x) 0 = Some 0"
  by (cases x) (simp_all add: skeletons)

lemma timeout_code_depth: "depth Writer writer_timeout_code 0 = Some 0"
  by (simp add: skeletons)

lemma thread_code_depth: "depth Reader reader_code 0 = Some 0" "depth Writer writer_code 0 = Some 0"
  by (simp_all add: skeletons)

lemmas code_depths [simp] = order_code_depth timeout_code_depth thread_code_depth

definition sync_ok :: "sync \<Rightarrow> bool" where
  "sync_ok s \<longleftrightarrow> mutex_ok (owner s) \<and> (\<forall>t. depth_list t (todo s t) (held t (owner s)) = Some 0)"

lemma thread_step_depth:
  assumes "thread_step cap t (m, q, k) (m', q', k')" and "mutex_ok m"
    and "depth_list t k (held t m) = Some 0"
  shows "mutex_ok m'" and "depth_list t k' (held t m') = Some 0"
    and "u \<noteq> t \<Longrightarrow> held u m' = held u m"
  using assms
  by (cases; auto simp: list_mutex.acquire_holds list_mutex.release_holds depth_append depth_alt_mem
      intro: list_mutex.acquire_ok list_mutex.release_ok split: if_splits elim!: bind_SomeE)+

lemma sync_step_ok:
  assumes "sync_step cap s s'" and "sync_ok s"
  shows "sync_ok s'"
proof -
  obtain t m q k where st: "thread_step cap t (owner s, orders s, todo s t) (m, q, k)"
    and s': "s' = s\<lparr>owner := m, orders := q, todo := (todo s)(t := k)\<rparr>"
    using assms(1) by (auto elim: sync_stepE)
  have "mutex_ok (owner s)" "depth_list t (todo s t) (held t (owner s)) = Some 0"
    using assms(2) by (simp_all add: sync_ok_def)
  note d = thread_step_depth [OF st this]
  have "depth_list u (todo s u) (held u m) = Some 0" if "u \<noteq> t" for u
    using assms(2) d(3) [OF that] by (simp add: sync_ok_def)
  with d(1,2) s' show ?thesis by (simp add: sync_ok_def)
qed

lemma sync0_ok: "sync_ok sync0"
  by (auto simp: sync_ok_def sync0_def mutex_ok_def split: thread.split)

lemma sync_reachable_ok: "sync_reachable cap s s' \<Longrightarrow> sync_ok s \<Longrightarrow> sync_ok s'"
  by (induction rule: sync_reachable.induct) (auto intro: sync_step_ok)

lemma sync_okD:
  assumes "sync_ok s"
  shows "mutex_ok (owner s)" and "depth_list t (todo s t) (held t (owner s)) = Some 0"
  using assms by (simp_all add: sync_ok_def)

section \<open>Schedules\<close>

text \<open>
  A schedule names the thread of each step, with the branch it takes or whether a loop goes on
  (1) or ends (0); for a wait, 0 is the next order or a timeout, anything else an error.
\<close>

fun run_thread ::
  "nat \<Rightarrow> thread \<Rightarrow> nat \<Rightarrow> mutex \<times> MessageType list \<times> code list
     \<Rightarrow> (mutex \<times> MessageType list \<times> code list) option"
where
  "run_thread cap t n (m, q, []) = None"
| "run_thread cap t n (m, q, Lock # k) = map_option (\<lambda>m'. (m', q, k)) (lockSortedList t m)"
| "run_thread cap t n (m, q, Unlock # k) = Some (unlockSortedList t m, q, k)"
| "run_thread cap t n (m, q, Touch # k) = Some (m, q, k)"
| "run_thread cap t n (m, q, Peek # k) = Some (m, q, k)"
| "run_thread cap t n (m, q, Post x # k) = (if length q < cap then Some (m, q @ [x], k) else None)"
| "run_thread cap t n (m, q, Await # k) =
     (if n \<noteq> 0 then Some (m, q, k)
      else case q of [] \<Rightarrow> Some (m, [], writer_timeout_code # k)
                   | x # q' \<Rightarrow> Some (m, q', order_code x # k))"
| "run_thread cap t n (m, q, Block cs # k) = Some (m, q, cs @ k)"
| "run_thread cap t n (m, q, Alt cs # k) =
     (if n < length cs then Some (m, q, cs ! n # k) else None)"
| "run_thread cap t n (m, q, Loop c # k) =
     Some (m, q, if n = 0 then k else c # Loop c # k)"

lemma run_thread_step: "run_thread cap t n s = Some s' \<Longrightarrow> thread_step cap t s s'"
  by (induction cap t n s rule: run_thread.induct)
     (auto intro: thread_step.intros split: if_splits list.splits)

fun run_schedule :: "nat \<Rightarrow> (thread \<times> nat) list \<Rightarrow> sync \<Rightarrow> sync option" where
  "run_schedule cap [] s = Some s"
| "run_schedule cap ((t, n) # ns) s =
     (case run_thread cap t n (owner s, orders s, todo s t) of
        None \<Rightarrow> None
      | Some (m, q, k) \<Rightarrow>
          run_schedule cap ns (s\<lparr>owner := m, orders := q, todo := (todo s)(t := k)\<rparr>))"

lemma run_schedule_reachable: "run_schedule cap ns s = Some s' \<Longrightarrow> sync_reachable cap s s'"
proof (induction cap ns s rule: run_schedule.induct)
  case (1 cap s)
  then show ?case by (simp add: sync_refl)
next
  case (2 cap t n ns s)
  then obtain m q k where r: "run_thread cap t n (owner s, orders s, todo s t) = Some (m, q, k)"
    and more: "run_schedule cap ns (s\<lparr>owner := m, orders := q, todo := (todo s)(t := k)\<rparr>) = Some s'"
    by (auto split: option.splits)
  have "sync_step cap s (s\<lparr>owner := m, orders := q, todo := (todo s)(t := k)\<rparr>)"
    by (rule sync_step.intros [OF run_thread_step [OF r]])
  from sync_more [OF sync_refl this] 2(1) [OF r HOL.refl HOL.refl more] show ?case
    by (blast intro: sync_trans)
qed

end
