(* ===== verification/Sync_Properties.thy ===== *)
theory Sync_Properties
  imports Smq_Mutex
begin

text \<open>
  Properties of the synchronisation of the two threads: the mutex protects the list of messages,
  the ways the daemon can come to a standstill, and the two faults of the scheme (the writer thread
  blocks on its own full queue, the acknowledged message is read without the mutex).
\<close>

section \<open>Mutual exclusion\<close>





section \<open>Standstill\<close>

text \<open>A thread that cannot go on, in a state with the invariant.\<close>

lemma stuck_thread:
  assumes "\<nexists>s'. thread_step cap t (m, q, k) s'" and "depth_list t k d = Some 0" and "mutex_ok m"
  shows "k = [] \<or> (\<exists>k'. k = Lock # k') \<and> (\<exists>u. u \<noteq> t \<and> 0 < held u m)
    \<or> (\<exists>x k'. k = Post x # k') \<and> cap \<le> length q"
proof (cases k)
  case (Cons c k')
  have no: "\<not> thread_step cap t (m, q, c # k') s'" for s'
    using assms(1) Cons by blast
  show ?thesis
  proof (cases c)
    case Lock
    have "lockSortedList t m = None"
      using no [unfolded Lock] thread_step.lock by (metis not_None_eq)
    with Cons Lock show ?thesis by (simp add: list_mutex.waits [OF assms(3)])
  next
    case (Post x)
    have "\<not> length q < cap" using no thread_step.post [of q cap] unfolding Post by blast
    with Cons Post show ?thesis by simp
  next
    case (Alt cs)
    then have "hd cs \<in> set cs" using assms(2) Cons by (cases cs) auto
    then show ?thesis using no [unfolded Alt] thread_step.alt by blast
  next
    case Unlock
    then show ?thesis using no thread_step.unlock by blast
  next
    case Touch
    then show ?thesis using no thread_step.touch by blast
  next
    case Peek
    then show ?thesis using no thread_step.peek by blast
  next
    case Await
    then show ?thesis using no thread_step.await_error by blast
  next
    case (Block cs)
    then show ?thesis using no thread_step.block by blast
  next
    case (Loop c)
    then show ?thesis using no thread_step.loop_end by blast
  qed
qed simp

lemma stuck_threads:
  assumes "\<nexists>s'. sync_step cap s s'"
  shows "\<nexists>s'. thread_step cap t (owner s, orders s, todo s t) s'"
  using assms sync_step.intros [of cap t s] by (metis prod.exhaust)

text \<open>
  C9: The daemon comes to a standstill in three ways only: both threads have ended; the queue of
  orders is full and the writer thread, its only receiver, itself waits to send to it; or the queue
  is full, the writer has ended, and the reader waits to send.  In particular the mutex alone never
  stops both threads.
\<close>

theorem standstill_only_on_full_queue:
  assumes "sync_reachable cap sync0 s" and "\<nexists>s'. sync_step cap s s'"
  shows "todo s Reader = [] \<and> todo s Writer = []
    \<or> cap \<le> length (orders s) \<and> (\<exists>x k. todo s Writer = Post x # k)
    \<or> cap \<le> length (orders s) \<and> todo s Writer = [] \<and> (\<exists>x k. todo s Reader = Post x # k)"
proof -
  note ok = sync_reachable_ok [OF assms(1) sync0_ok]
  have stuck: "todo s t = [] \<or> (\<exists>k. todo s t = Lock # k) \<and> (\<exists>u. u \<noteq> t \<and> 0 < held u (owner s))
      \<or> (\<exists>x k. todo s t = Post x # k) \<and> cap \<le> length (orders s)" for t
    by (rule stuck_thread [OF stuck_threads [OF assms(2)] sync_okD(2,1) [OF ok]])
  have free: "held t (owner s) = 0" if "todo s t = []" for t
    using sync_okD(2) [OF ok, of t] that by simp
  have post: "held Reader (owner s) = 0" if "todo s Reader = Post x # k" for x k
    using sync_okD(2) [OF ok, of Reader] that by (auto split: if_splits)
  show ?thesis
    using stuck [of Writer]
  proof (elim disjE)
    assume w: "todo s Writer = []"
    from stuck [of Reader] show ?thesis
    proof (elim disjE)
      assume "(\<exists>k. todo s Reader = Lock # k) \<and> (\<exists>u. u \<noteq> Reader \<and> 0 < held u (owner s))"
      then have "0 < held Writer (owner s)" by (metis thread.exhaust)
      with free [OF w] show ?thesis by simp
    qed (use w in auto)
  next
    assume "(\<exists>k. todo s Writer = Lock # k) \<and> (\<exists>u. u \<noteq> Writer \<and> 0 < held u (owner s))"
    then have r: "0 < held Reader (owner s)" by (metis thread.exhaust)
    have "\<not> 0 < held u (owner s)" if "u \<noteq> Reader" for u
      using list_mutex.exclusive [OF sync_okD(1) [OF ok] r, of u] that by blast
    with r stuck [of Reader] free [of Reader] post show ?thesis by auto
  qed auto
qed

theorem standstill_only_on_full_queue_witness:
  "\<exists>s. sync_reachable 100 sync0 s \<and> todo s Reader = [] \<and> todo s Writer = []"
proof -
  let ?ns = "map (Pair Reader) [0, 0, 0, 0, 0, 0] @ [(Writer, 0)]"
  obtain s where run: "run_schedule 100 ?ns sync0 = Some s"
    and s: "todo s Reader = []" "todo s Writer = []"
    by (simp add: sync0_def skeletons)
  have stop: "\<nexists>s'. sync_step 100 s s'"
    using s by (auto elim!: sync_stepE) (metis s thread.exhaust thread_stepE(1))
  have r: "sync_reachable 100 sync0 s" by (rule run_schedule_reachable [OF run])
  show ?thesis using standstill_only_on_full_queue [OF r stop] r s by auto
qed

section \<open>The writer thread blocks on its own queue\<close>








section \<open>The acknowledged message is read without the mutex\<close>


end
