(* ===== verification/Attempt_Properties.thy ===== *)
theory Attempt_Properties
  imports Smq_Example
begin

text \<open>
  The attempts to deliver a message, counted over a run of the two threads: there are no more than
  the configuration allows.
\<close>

section \<open>One attempt\<close>

text \<open>
  In the step from \<open>q\<close> to \<open>q'\<close> the message \<open>j\<close>, which is at the front, due and to be delivered, is
  handed to the network: nothing else takes it to \<open>ASKED_FOR_MSG_DELIVERY\<close>.
\<close>

definition attempt :: "world \<Rightarrow> nat \<Rightarrow> smq \<Rightarrow> smq \<Rightarrow> bool" where
  "attempt W j q q' \<longleftrightarrow>
     (\<exists>m ms m'. time_sorted_list q = m # ms \<and> mid m = j \<and> next_action_time m \<le> clock W q
        \<and> state m \<in> {REQUEST_MSG_DELIVERY, AWAITING_TRY_MSG_DELIVERY}
        \<and> deref j q' = Some m' \<and> state m' = ASKED_FOR_MSG_DELIVERY)"

text \<open>What an attempt does to the counter of the message.\<close>

definition counted :: "config \<Rightarrow> short_msg_pending \<Rightarrow> short_msg_pending \<Rightarrow> bool" where
  "counted C m m' \<longleftrightarrow> retries m' = retries m + 1
     \<and> (getNum C ''SMS.MaxRetries'' \<noteq> 0 \<longrightarrow> retries m' \<le> getNum C ''SMS.MaxRetries'')"

lemma deref_wf_evolves:
  assumes "evolves X Y q q'" and "wf q" and "deref j q = Some m" and "j \<notin> X \<union> Y"
  shows "\<exists>m'. deref j q' = Some m' \<and> same_pend m m'"
proof -
  have "kept j q q'" using assms deref_mids [OF assms(3)] by (simp add: evolves_def)
  with assms(3) show ?thesis by (auto simp: kept_def)
qed

lemma grows_deref:
  assumes "grows q q'" and "wf q" and "deref j q = Some m" and "deref j q' = Some m'"
  shows "same_pend m m'"
  using deref_wf_evolves [OF assms(1-3)] assms(4) by auto

lemma step_delivery_counted:
  assumes "step_delivery L W C i q = Some q'" and "wf q" and "deref i q = Some m"
    and "deref i q' = Some m'" and "state m' \<notin> {NO_STATE, DELETE_ME_STATE}"
  shows "counted C m m' \<and> state m' \<in> {state m, ASKED_FOR_MSG_DELIVERY}"
proof -
  from assms(1,3) obtain ok m1 q1 where
    pack: "pack_sms_for_delivery L W C (m\<lparr>retries := retries m + 1\<rparr>) q = Some (ok, m1, q1)"
    by (auto simp: step_delivery_def Let_def elim!: bind_SomeE)
  let ?q = "put_msg m1 q1"
  have m1: "mid m1 = i" "state m1 = state m" "retries m1 = retries m + 1"
    using pack_sms_same(1) [OF pack] deref_SomeD(2) [OF assms(3)] by (simp_all add: same_pend_def)
  have "same_object m m1"
    using same_pend_object [OF pack_sms_same(1) [OF pack]] by (simp add: same_object_def)
  then have g: "evolves {} {i} q ?q"
    by (rule change_touches [OF assms(3) _ pack_sms_same(2) [OF pack]])
  have d: "deref i ?q = Some m1"
    using assms(3) m1(1) same_list_deref [OF pack_sms_same(2) [OF pack]] by (simp add: deref_put_same)
  have other: False if "set_state W i s ?q = Some q'" "s \<in> {NO_STATE, DELETE_ME_STATE}" for s
    using set_state_state [OF that(1) evolves_wf [OF g assms(2)]] assms(4,5) that(2) by auto
  have held: "retries m' = retries m1 \<and> state m' = state m"
    if "q' = put_msg (m1\<lparr>next_action_time := t\<rparr>) q2" "same_list ?q q2" for t q2
  proof -
    have "deref i q' = Some (m1\<lparr>next_action_time := t\<rparr>)"
      using d same_list_deref [OF that(2)] m1(1) by (simp add: that(1) deref_put_same)
    with assms(4) m1(2) show ?thesis by auto
  qed
  have sent: "retries m' = retries m1 \<and> state m' = ASKED_FOR_MSG_DELIVERY"
    if "same_list ?q q2" "deliver_msg_datagram L W i q2 = Some (r, q3)"
      "set_state W i ASKED_FOR_MSG_DELIVERY q3 = Some q'" for q2 r q3
  proof -
    have g3: "grows ?q q3"
      by (rule same_msgs_grows
          [OF same_msgs_trans [OF same_list_msgs [OF that(1)] deliver_msg_datagram_msgs [OF that(2)]]])
    note w = evolves_wf [OF g assms(2)]
    from deref_wf_evolves [OF g3 w d] obtain m3 where m3: "deref i q3 = Some m3" "same_pend m1 m3"
      by auto
    from set_state_props(5) [OF that(3) evolves_wf [OF g3 w]] m3 assms(4) show ?thesis
      by (auto simp: smp_set_state_def same_pend_def)
  qed
  from assms(1,3) pack have "\<not> max_retries_exceeded C m1 \<and> retries m' = retries m1
      \<and> state m' \<in> {state m, ASKED_FOR_MSG_DELIVERY}"
    by (auto simp: step_delivery_def Let_def elim!: bind_SomeE split: if_split_asm prod.splits
        dest: other held sent dest!: rate_limit_list)
  then show ?thesis using m1(3) by (auto simp: counted_def max_retries_exceeded_def)
qed

text \<open>One run of the machine on a message that is to be delivered, or that awaits its answer.\<close>

abbreviation delivered :: "sm_state set" where
  "delivered \<equiv> {REQUEST_MSG_DELIVERY, ASKED_FOR_MSG_DELIVERY, AWAITING_TRY_MSG_DELIVERY}"

lemma delivery_turn:
  assumes "process_timeout L W C q = Some q'" and "wf q"
    and "time_sorted_list q = m # ms" and "next_action_time m \<le> clock W q"
    and "state m \<in> delivered" and "deref (mid m) q' = Some m'" and "state m' \<in> delivered"
  shows "if state m = ASKED_FOR_MSG_DELIVERY
         then state m' = AWAITING_TRY_MSG_DELIVERY \<and> retries m' = retries m
         else counted C m m'"
proof -
  let ?q = "q\<lparr>tick := tick q + 1\<rparr>"
  have run: "dispatch L W C (mid m) (state m) ?q = Some q'"
    using assms(1,3,4) by (simp add: process_timeout_def msgettime_eq)
  have w: "wf ?q" using assms(2) by (simp add: wf_def mids_def)
  have d: "deref (mid m) ?q = Some m" using assms(3) by (simp add: deref_def)
  consider "state m = REQUEST_MSG_DELIVERY" | "state m = ASKED_FOR_MSG_DELIVERY"
    | "state m = AWAITING_TRY_MSG_DELIVERY"
    using assms(5) by auto
  then show ?thesis
  proof cases
    case 1
    with run have "step_delivery L W C (mid m) ?q = Some q'" by (simp add: dispatch_def)
    from step_delivery_counted [OF this w d assms(6)] assms(7) 1 show ?thesis by auto
  next
    case 2
    with run have "set_state W (mid m) AWAITING_TRY_MSG_DELIVERY ?q = Some q'"
      by (simp add: dispatch_def)
    from set_state_props(5) [OF this w] d assms(6) 2 show ?thesis by (auto simp: smp_set_state_def)
  next
    case 3
    with run obtain q1 where st: "set_state W (mid m) REQUEST_MSG_DELIVERY ?q = Some q1"
      and sd: "step_delivery L W C (mid m) q1 = Some q'"
      by (auto simp: dispatch_def elim!: bind_SomeE)
    from set_state_props(5) [OF st w] d obtain m1 where m1: "deref (mid m) q1 = Some m1"
      "retries m1 = retries m"
      by (auto simp: smp_set_state_def)
    from step_delivery_counted [OF sd set_state_props(1) [OF st w] m1(1) assms(6)] assms(7) m1(2) 3
    show ?thesis by (auto simp: counted_def)
  qed
qed

lemma process_timeout_attempt:
  assumes "process_timeout L W C q = Some q'" and "wf q" and "attempt W j q q'"
  shows "\<exists>m m'. deref j q = Some m \<and> deref j q' = Some m' \<and> counted C m m'"
proof -
  from assms(3) obtain m ms m' where m: "time_sorted_list q = m # ms" "mid m = j"
    "next_action_time m \<le> clock W q" "state m \<in> {REQUEST_MSG_DELIVERY, AWAITING_TRY_MSG_DELIVERY}"
    and m': "deref j q' = Some m'" "state m' = ASKED_FOR_MSG_DELIVERY"
    by (auto simp: attempt_def)
  have "counted C m m'"
    using delivery_turn [OF assms(1,2) m(1,3), of m'] m m' by (auto split: if_splits)
  with m(1,2) m'(1) show ?thesis by (auto simp: deref_def)
qed

text \<open>An operation that only adds messages is no attempt.\<close>

lemma grows_no_attempt:
  assumes "grows q q'" and "wf q"
  shows "\<not> attempt W j q q'"
proof
  assume "attempt W j q q'"
  then obtain m ms m' where m: "time_sorted_list q = m # ms" "mid m = j"
    "state m \<in> {REQUEST_MSG_DELIVERY, AWAITING_TRY_MSG_DELIVERY}"
    and m': "deref j q' = Some m'" "state m' = ASKED_FOR_MSG_DELIVERY"
    by (auto simp: attempt_def)
  have "deref j q = Some m" using m(1,2) by (simp add: deref_def)
  from grows_deref [OF assms this m'(1)] m(3) m'(2) show False by (auto simp: same_pend_def)
qed

lemma attempt_popped: "attempt W j (q\<lparr>writer_queue := xs\<rparr>) q' = attempt W j q q'"
  by (simp add: attempt_def clock_def)

lemma deref_popped: "deref j (q\<lparr>writer_queue := xs\<rparr>) = deref j q" "wf (q\<lparr>writer_queue := xs\<rparr>) = wf q"
  by (simp_all add: deref_def wf_def mids_def)

lemma daemon_step_attempt:
  assumes "daemon_step L W C q q'" and "wf q" and "attempt W j q q'"
  shows "\<exists>m m'. deref j q = Some m \<and> deref j q' = Some m' \<and> counted C m m'"
  using assms(1)
proof cases
  case reader
  from grows_no_attempt [OF main_loop_grows [OF reader(2)] assms(2)] assms(3) show ?thesis by simp
next
  case writer_msg
  then obtain msg xs where "ProcessMessage L W C msg (q\<lparr>writer_queue := xs\<rparr>) = Some q'"
    by (auto simp: writer_step_def split: list.splits)
  then consider "process_timeout L W C (q\<lparr>writer_queue := xs\<rparr>) = Some q'"
    | "grows (q\<lparr>writer_queue := xs\<rparr>) q'"
    by (auto simp: ProcessMessage_def split: queued_msg.splits
        dest: respond_sip_ack_msgs same_msgs_grows)
  then show ?thesis
  proof cases
    case 1
    from process_timeout_attempt [OF this, of j] assms(2,3) show ?thesis
      by (simp add: deref_popped attempt_popped)
  next
    case 2
    from grows_no_attempt [OF this, of W j] assms(2,3) show ?thesis
      by (simp add: deref_popped attempt_popped)
  qed
next
  case (writer_idle now last_run r)
  from writer_idle(2) obtain q1 where p: "process_timeout L W C q = Some q1"
    and "q' = q1 \<or> same_msgs (InitInsideReaderLoop C q1) q'"
    by (auto simp: writer_timeout_def Let_def elim!: bind_SomeE split: if_split_asm
        dest!: save_queue_msgs)
  then have g: "grows q1 q'"
    by (auto intro: grows_first [OF same_list_grows [OF InitInside_list]] same_msgs_grows)
  obtain i k l where "evolves {i, k} {i, l} q q1" using process_timeout_evolves [OF p] by blast
  then have w: "wf q1" and ids: "mids q1 \<subseteq> mids q \<union> {next_mid q..<next_mid q1}"
    using assms(2) by (simp_all add: evolves_def)
  from assms(3) obtain m ms m' where m: "time_sorted_list q = m # ms" "mid m = j"
    "next_action_time m \<le> clock W q" "state m \<in> {REQUEST_MSG_DELIVERY, AWAITING_TRY_MSG_DELIVERY}"
    and m': "deref j q' = Some m'" "state m' = ASKED_FOR_MSG_DELIVERY"
    by (auto simp: attempt_def)
  have "j < next_mid q1"
    using assms(2) m(1,2) \<open>evolves {i, k} {i, l} q q1\<close> by (auto simp: evolves_def wf_def mids_def)
  then have "j \<in> mids q1" using g w deref_mids [OF m'(1)] by (auto simp: evolves_def)
  then obtain m1 where m1: "deref j q1 = Some m1" using mids_deref by blast
  have s: "same_pend m1 m'" by (rule grows_deref [OF g w m1 m'(1)])
  then have "attempt W j q q1" using m m' m1 by (auto simp: attempt_def same_pend_def)
  from process_timeout_attempt [OF p assms(2) this] m1 s m'(1) show ?thesis
    by (auto simp: counted_def same_pend_def)
qed

section \<open>The attempts of a run\<close>

text \<open>A run from \<open>q\<close> to \<open>q'\<close> with \<open>n\<close> attempts to deliver \<open>j\<close>.\<close>

inductive attempts :: "lib_ops \<Rightarrow> world \<Rightarrow> config \<Rightarrow> nat \<Rightarrow> smq \<Rightarrow> nat \<Rightarrow> smq \<Rightarrow> bool"
  for L :: lib_ops and W :: world and C :: config and j :: nat and q :: smq where
  attempts_none: "attempts L W C j q 0 q"
| attempts_step: "attempts L W C j q n q' \<Longrightarrow> daemon_step L W C q' q''
    \<Longrightarrow> attempts L W C j q (if attempt W j q' q'' then n + 1 else n) q''"

lemma attempts_reachable: "attempts L W C j q n q' \<Longrightarrow> reachable L W C q q'"
  by (induction rule: attempts.induct) (auto intro: reachable.intros)

lemma attempts_counted:
  assumes "attempts L W C j q n q'" and "wf q" and "deref j q = Some m"
  shows "(\<forall>m'. deref j q' = Some m' \<longrightarrow> retries m + int n \<le> retries m')
    \<and> (n = 0 \<or> getNum C ''SMS.MaxRetries'' = 0 \<or> retries m + int n \<le> getNum C ''SMS.MaxRetries'')"
  using assms
proof (induction rule: attempts.induct)
  case attempts_none
  then show ?case by simp
next
  case (attempts_step n q' q'')
  have r: "evolves UNIV UNIV q q'"
    by (rule reachable_evolves [OF attempts_reachable [OF attempts_step(1)]])
  then have w: "wf q'" and n: "next_mid q \<le> next_mid q'"
    using attempts_step(4) by (simp_all add: evolves_def)
  obtain i k l where e: "evolves {i, k} {i, l} q' q''"
    using daemon_step_evolves [OF attempts_step(2)] by blast
  have j: "j < next_mid q'"
    using deref_mids [OF attempts_step(5)] attempts_step(4) n by (auto simp: wf_def)
  note ih = attempts_step(3) [OF attempts_step(4,5)]
  show ?case
  proof (cases "attempt W j q' q''")
    case True
    from daemon_step_attempt [OF attempts_step(2) w True] ih show ?thesis
      using True by (auto simp: counted_def)
  next
    case False
    have "retries m + int n \<le> retries m''" if m'': "deref j q'' = Some m''" for m''
    proof -
      have "j \<in> mids q'" using deref_mids [OF m''] e w j by (auto simp: evolves_def)
      then obtain m' where m': "deref j q' = Some m'" using mids_deref by blast
      with ih have "retries m + int n \<le> retries m'" by blast
      moreover have "aged j q' q''" by (rule evolves_aged [OF e w \<open>j \<in> mids q'\<close>])
      ultimately show ?thesis using m' m'' by (fastforce simp: aged_def)
    qed
    with ih False show ?thesis by simp
  qed
qed

text \<open>
  C5: Over any run of the two threads a message is handed to the network at most as often as the
  configuration allows: from a state in which it has been tried \<open>retries m\<close> times there are no more
  attempts than are left.
\<close>

theorem attempts_bounded:
  assumes "attempts L W C j q n q'" and "wf q" and "deref j q = Some m"
    and "getNum C ''SMS.MaxRetries'' \<noteq> 0"
  shows "n = 0 \<or> retries m + int n \<le> getNum C ''SMS.MaxRetries''"
  using attempts_counted [OF assms(1-3)] assms(4) by blast

definition msg3 :: short_msg_pending where
  "msg3 = (msg1 0 REQUEST_MSG_DELIVERY 5)\<lparr>need_repack := False\<rparr>"

theorem attempts_bounded_witness:
  "\<exists>q'. attempts lib1 world1 config1 0 (queue1 [msg3]) 1 q' \<and> retries msg3 + 1 \<le> 2"
proof -
  let ?q = "queue1 [msg3]"
  let ?t = "writer_timeout lib1 world1 config1 0 0 ?q"
  let ?q' = "snd (the ?t)"
  have t: "?t = Some (fst (the ?t), ?q')" by (rule defined_2) code_simp
  have run: "\<not> stop_main_loop ?q" by code_simp
  have s: "map_option state (deref 0 ?q') = Some ASKED_FOR_MSG_DELIVERY" by code_simp
  have m: "mid msg3 = 0" "next_action_time msg3 = 5" "state msg3 = REQUEST_MSG_DELIVERY"
    by (simp_all add: msg3_def)
  have "attempt world1 0 ?q ?q'"
    using s m by (auto simp: attempt_def)
  with attempts_step [OF attempts_none daemon_step.writer_idle [OF run t], of 0]
  have a: "attempts lib1 world1 config1 0 ?q 1 ?q'" by simp
  have w: "wf ?q" by code_simp
  have d: "deref 0 ?q = Some msg3" by (simp add: m)
  have max: "getNum config1 ''SMS.MaxRetries'' = 2" by code_simp
  from attempts_bounded [OF a w d] a show ?thesis unfolding max by auto
qed

section \<open>The delivery of a message ends\<close>

text \<open>
  \<open>n\<close> runs of the machine on the message \<open>j\<close> while it is being delivered; in between anything may
  happen that leaves \<open>j\<close> as it is, the passing of time above all.
\<close>

inductive turns :: "lib_ops \<Rightarrow> world \<Rightarrow> config \<Rightarrow> nat \<Rightarrow> smq \<Rightarrow> nat \<Rightarrow> smq \<Rightarrow> bool"
  for L :: lib_ops and W :: world and C :: config and j :: nat and q :: smq where
  turns_none: "turns L W C j q 0 q"
| turns_other: "turns L W C j q n q' \<Longrightarrow> kept j q' q'' \<Longrightarrow> wf q'' \<Longrightarrow> turns L W C j q n q''"
| turns_step: "turns L W C j q n q' \<Longrightarrow> time_sorted_list q' = m # ms \<Longrightarrow> mid m = j
    \<Longrightarrow> state m \<in> delivered \<Longrightarrow> next_action_time m \<le> clock W q'
    \<Longrightarrow> process_timeout L W C q' = Some q'' \<Longrightarrow> turns L W C j q (n + 1) q''"

definition is_delivered :: "nat \<Rightarrow> smq \<Rightarrow> bool" where
  "is_delivered j q \<longleftrightarrow> (\<exists>m. deref j q = Some m \<and> state m \<in> delivered)"

text \<open>Two turns for every attempt that is left, and one for an answer that is awaited.\<close>

definition turns_left :: "config \<Rightarrow> short_msg_pending \<Rightarrow> nat" where
  "turns_left C m =
     2 * nat (getNum C ''SMS.MaxRetries'' + 1 - retries m)
     + (if state m = ASKED_FOR_MSG_DELIVERY then 1 else 0)"

lemma turns_left_decreases:
  assumes "process_timeout L W C q = Some q'" and "wf q"
    and "time_sorted_list q = m # ms" and "next_action_time m \<le> clock W q"
    and "state m \<in> delivered" and "deref (mid m) q' = Some m'" and "state m' \<in> delivered"
    and "getNum C ''SMS.MaxRetries'' \<noteq> 0"
  shows "turns_left C m' < turns_left C m"
  using delivery_turn [OF assms(1-7)] assms(8)
  by (auto simp: turns_left_def counted_def split: if_splits)

lemma turns_counted:
  assumes "turns L W C j q n q'" and "wf q" and "deref j q = Some m" and "state m \<in> delivered"
    and "getNum C ''SMS.MaxRetries'' \<noteq> 0"
  shows "wf q' \<and> (if is_delivered j q' then n + turns_left C (the (deref j q')) \<le> turns_left C m
                   else n \<le> turns_left C m + 1)"
  using assms(1)
proof (induction rule: turns.induct)
  case turns_none
  then show ?case using assms(2-4) by (simp add: is_delivered_def)
next
  case (turns_other n q' q'')
  then have "is_delivered j q'' = is_delivered j q'"
    "is_delivered j q' \<Longrightarrow> turns_left C (the (deref j q'')) = turns_left C (the (deref j q'))"
    by (auto simp: kept_def is_delivered_def same_pend_def turns_left_def)
  with turns_other show ?case by (auto split: if_splits)
next
  case (turns_step n q' mj ms q'')
  have w: "wf q'" using turns_step(7) by simp
  have d: "deref j q' = Some mj" using turns_step(2,3) by (simp add: deref_def)
  with turns_step(4,7) have n: "n + turns_left C mj \<le> turns_left C m"
    by (auto simp: is_delivered_def split: if_splits)
  obtain i k l where "evolves {i, k} {i, l} q' q''"
    using process_timeout_evolves [OF turns_step(6)] by blast
  then have "wf q''" using w by (simp add: evolves_def)
  moreover have "n + 1 + turns_left C m'' \<le> turns_left C m"
    if "deref j q'' = Some m''" "state m'' \<in> delivered" for m''
    using turns_left_decreases [OF turns_step(6) w turns_step(2,5,4) _ that(2) assms(5)] that(1) n
      turns_step(3) by simp
  ultimately show ?case using n by (auto simp: is_delivered_def split: if_splits)
qed

text \<open>
  C6: The delivery of a message ends.  While nothing but the machine changes it (no answer arrives,
  it is not zapped), the machine runs on it at most as often as \<open>turns_left\<close> says, twice for every
  attempt that is left, and once more, after which it is being delivered no longer.
\<close>

theorem delivery_ends:
  assumes "turns L W C j q n q'" and "wf q" and "deref j q = Some m" and "state m \<in> delivered"
    and "getNum C ''SMS.MaxRetries'' \<noteq> 0"
  shows "n \<le> turns_left C m + 1 \<and> (n = turns_left C m + 1 \<longrightarrow> \<not> is_delivered j q')"
  using turns_counted [OF assms] by (auto split: if_splits)

theorem delivery_ends_witness:
  "\<exists>q'. turns lib1 world1 config1 0 (queue1 [msg3]) 1 q' \<and> 1 \<le> turns_left config1 msg3 + 1"
proof -
  let ?q = "queue1 [msg3]"
  let ?p = "process_timeout lib1 world1 config1 ?q"
  have p: "?p = Some (the ?p)" by (rule defined_the) code_simp
  have m: "mid msg3 = 0" "next_action_time msg3 = 5" "state msg3 = REQUEST_MSG_DELIVERY"
    by (simp_all add: msg3_def)
  have t: "turns lib1 world1 config1 0 ?q 1 (the ?p)"
    using turns_step [OF turns_none _ _ _ _ p, of msg3 "[]" 0] m by simp
  have w: "wf ?q" by code_simp
  have d: "deref 0 ?q = Some msg3" by (simp add: m)
  have max: "getNum config1 ''SMS.MaxRetries'' \<noteq> 0" by code_simp
  from delivery_ends [OF t w d _ max] m t show ?thesis by auto
qed

end
