(* ===== verification/Smq_Orders.thy ===== *)
theory Smq_Orders
  imports Smq_Steps
begin

text \<open>
  The orders that the operations of the daemon send to the writer thread: most send none, and a step
  of the state machine sends at most one, to look at the list again.
\<close>

section \<open>Operations that send no order\<close>

named_theorems quiet

lemma put_msg_quiet [simp]: "writer_queue (put_msg m q) = writer_queue q"
  by (simp add: put_msg_def)

lemma ask_quiet [quiet]: "ask f q = (x, q') \<Longrightarrow> writer_queue q' = writer_queue q"
  by (auto simp: ask_def)

lemma msgettime_quiet [quiet]: "msgettime W q = (x, q') \<Longrightarrow> writer_queue q' = writer_queue q"
  by (auto simp: msgettime_def)

lemma splice_out_quiet [quiet]: "splice_out i q = Some (m, q') \<Longrightarrow> writer_queue q' = writer_queue q"
  by (drule splice_out_SomeD(2)) simp

lemma set_state_quiet [quiet]: "set_state W i s q = Some q' \<Longrightarrow> writer_queue q' = writer_queue q"
  by (auto simp: set_state_eq split: option.splits)

lemma new_message_quiet [quiet]: "new_message q = (m, q') \<Longrightarrow> writer_queue q' = writer_queue q"
  by (auto simp: new_message_def)

lemma debug_dump_quiet [quiet]: "debug_dump L W q = Some q' \<Longrightarrow> writer_queue q' = writer_queue q"
  by (auto simp: debug_dump_def Let_def elim!: bind_SomeE dest!: quiet split: prod.splits)

lemma to_is_deliverable_quiet [quiet]:
  "to_is_deliverable W u q = (d, q') \<Longrightarrow> writer_queue q' = writer_queue q"
  by (auto simp: to_is_deliverable_def ask_def split: if_splits)

lemma early_check_quiet [quiet]:
  "early_check L W C b p m q = (r, q') \<Longrightarrow> writer_queue q' = writer_queue q"
  by (auto simp: early_check_def ask_def Let_def split: if_splits)

lemma validate_quiet [quiet]:
  "validate_short_msg L W C b m q = Some (e, m', q') \<Longrightarrow> writer_queue q' = writer_queue q"
  by (auto simp: validate_unfold Let_def split: if_splits option.splits prod.splits
      elim!: bind_SomeE dest!: quiet)

lemma call_number_quiet [quiet]:
  "new_call_number_q W q = Some (x, q') \<Longrightarrow> writer_queue q' = writer_queue q"
  "new_random_number_q W q = Some (y, q') \<Longrightarrow> writer_queue q' = writer_queue q"
  by (auto simp: new_call_number_q_def new_random_number_q_def elim!: bind_SomeE)

lemma half_sm_call_id_quiet [quiet]:
  "half_sm_call_id L W meth q = Some (c, q') \<Longrightarrow> writer_queue q' = writer_queue q"
  by (auto simp: half_sm_call_id_def Let_def split: if_splits option.splits elim!: bind_SomeE
      dest!: quiet)

lemma half_sm_cseq_quiet [quiet]:
  "half_sm_cseq W meth q = Some (c, q') \<Longrightarrow> writer_queue q' = writer_queue q"
  by (auto simp: half_sm_cseq_def Let_def split: if_splits elim!: bind_SomeE dest!: quiet)

lemma originate_half_quiet [quiet]:
  "originate_half_sm L W meth q = Some (h, q') \<Longrightarrow> writer_queue q' = writer_queue q"
  by (auto simp: originate_half_sm_def Let_def elim!: bind_SomeE
      split: prod.splits option.splits dest!: quiet)

lemma finish_sm_quiet [quiet]:
  "finish_sm L W C m q = Some (e, m', q') \<Longrightarrow> writer_queue q' = writer_queue q"
  by (auto simp: finish_sm_def elim!: bind_SomeE dest!: quiet)

lemma set_linktag_quiet [quiet]:
  "set_linktag L r i q = Some (r', q') \<Longrightarrow> writer_queue q' = writer_queue q"
  by (auto simp: set_linktag_def elim!: bind_SomeE)

lemma ready_to_register_quiet [quiet]:
  "ready_to_register L W i q = Some (b, q') \<Longrightarrow> writer_queue q' = writer_queue q"
  by (auto simp: ready_to_register_def ask_def Let_def elim!: bind_SomeE split: option.splits)

lemma lookup_from_address_quiet [quiet]:
  "lookup_from_address L W i q = Some (s, q') \<Longrightarrow> writer_queue q' = writer_queue q"
  by (auto simp: lookup_from_address_def ask_def Let_def elim!: bind_SomeE
      split: if_splits option.splits)

lemma find_hostport_quiet [quiet]:
  "find_hostport W C u m q = (hp, m', q') \<Longrightarrow> writer_queue q' = writer_queue q"
  by (auto simp: find_hostport_def ask_def Let_def split: if_splits)

lemma lookup_uri_hostport_quiet [quiet]:
  "lookup_uri_hostport L W C i q = Some (s, q') \<Longrightarrow> writer_queue q' = writer_queue q"
  by (auto simp: lookup_uri_hostport_def Let_def elim!: bind_SomeE
      split: option.splits prod.splits dest!: quiet)

lemma pack_quiet:
  "create_sms_delivery L W C b UD m q = Some (m', q') \<Longrightarrow> writer_queue q' = writer_queue q"
  by (auto simp: create_sms_delivery_def Let_def ask_def elim!: bind_SomeE)

lemma pack_sms_quiet [quiet]:
  "pack_sms_for_delivery L W C m q = Some (ok, m', q') \<Longrightarrow> writer_queue q' = writer_queue q"
  by (auto simp: pack_sms_for_delivery_def pack_converted_def pack_text_to_tpdu_def recode_tpdu_def
      elim!: bind_SomeE split: if_splits ContentType.splits option.splits TLMessage.splits
      dest!: pack_quiet)

lemma deliver_msg_datagram_quiet [quiet]:
  "deliver_msg_datagram L W i q = Some (r, q') \<Longrightarrow> writer_queue q' = writer_queue q"
  by (auto simp: deliver_msg_datagram_def Let_def ask_def elim!: bind_SomeE
      split: option.splits prod.splits if_splits)

lemma rate_limit_quiet [quiet]: "rate_limit W C q = (b, q') \<Longrightarrow> writer_queue q' = writer_queue q"
  by (auto simp: rate_limit_def Let_def ask_def split: if_splits)

section \<open>Short codes and responses that send no order\<close>

lemma save_loop_quiet [quiet]:
  "save_loop L W xs acc q = Some (out, q') \<Longrightarrow> writer_queue q' = writer_queue q"
  by (induction xs arbitrary: acc q) (auto elim!: bind_SomeE split: prod.splits simp: ask_def)

lemma save_queue_quiet [quiet]:
  "save_queue_to_file L W f q = Some (r, q') \<Longrightarrow> writer_queue q' = writer_queue q"
  by (auto simp: save_queue_to_file_def Let_def elim!: bind_SomeE split: prod.splits if_splits
      dest!: quiet)

lemma whiplash_quit_quiet [quiet]:
  "whiplash_quit L W C t q = Some (a, r, q') \<Longrightarrow> writer_queue q' = writer_queue q"
  by (auto simp: whiplash_quit_def Let_def split: if_splits elim!: bind_SomeE dest!: quiet)

lemma four_one_one_quiet [quiet]:
  "shortcode_four_one_one L W C t i q = Some (a, r, q') \<Longrightarrow> writer_queue q' = writer_queue q"
  by (auto simp: shortcode_four_one_one_def Let_def ask_def elim!: bind_SomeE split: if_splits)

lemma zap_queued_quiet [quiet]:
  "shortcode_zap_queued W C t q = Some (a, r, q') \<Longrightarrow> writer_queue q' = writer_queue q"
  by (auto simp: shortcode_zap_queued_def Let_def elim!: bind_SomeE
      split: if_splits option.splits prod.splits dest!: quiet)

lemma shortcode_register_quiet [quiet]:
  "shortcode_register W C imsi t q = Some (a, r, q') \<Longrightarrow> writer_queue q' = writer_queue q"
  by (auto simp: shortcode_register_def Let_def ask_def
      split: if_splits option.splits hlr_status.splits)

lemma send_quiet [quiet]:
  "sendHTTP W C d t q = Some (a, q') \<Longrightarrow> writer_queue q' = writer_queue q"
  "sendEMail W d t sub q = Some (a, q') \<Longrightarrow> writer_queue q' = writer_queue q"
  by (auto simp: sendHTTP_def sendEMail_def Let_def ask_def elim!: bind_SomeE split: if_splits)

lemma submitSMS_quiet [quiet]:
  "submitSMS W C imsi sub t m q = Some (a, m', q') \<Longrightarrow> writer_queue q' = writer_queue q"
  by (auto simp: submitSMS_def Let_def elim!: bind_SomeE split: if_splits prod.splits dest!: quiet)

lemma shortcode_smsc_quiet [quiet]:
  "shortcode_smsc W C imsi t m q = Some (a, m', q') \<Longrightarrow> writer_queue q' = writer_queue q"
  by (auto simp: shortcode_smsc_def elim!: bind_SomeE
      split: ContentType.splits option.splits TLMessage.splits dest!: quiet)

lemma call_short_func_quiet [quiet]:
  "call_short_func L W C f imsi t i q = Some (a, r, q') \<Longrightarrow> writer_queue q' = writer_queue q"
  by (auto simp: call_short_func_def shortcode_debug_dump_def shortcode_quick_chk_def
      elim!: bind_SomeE split: short_func.splits dest!: quiet)

lemma increase_acked_quiet [quiet]:
  "increase_acked_msg_timeout W C j q = Some q' \<Longrightarrow> writer_queue q' = writer_queue q"
  by (auto simp: increase_acked_msg_timeout_def msgettime_def elim!: bind_SomeE)

lemma smp_set_state_q_quiet [quiet]:
  "smp_set_state_q W j s q = Some q' \<Longrightarrow> writer_queue q' = writer_queue q"
  by (auto simp: smp_set_state_q_def msgettime_def elim!: bind_SomeE)

lemma rerun_linked_quiet [quiet]:
  "rerun_linked_sms W j q = Some q' \<Longrightarrow> writer_queue q' = writer_queue q"
  by (auto simp: rerun_linked_sms_def msgettime_def Let_def elim!: bind_SomeE
      split: option.splits if_splits)

lemma write_cdr_quiet [quiet]: "write_cdr W j q = Some q' \<Longrightarrow> writer_queue q' = writer_queue q"
  by (auto simp: write_cdr_def Let_def ask_def elim!: bind_SomeE split: if_splits)

lemma response_success_quiet [quiet]:
  "response_success L W j q = Some q' \<Longrightarrow> writer_queue q' = writer_queue q"
  by (auto simp: response_success_def Let_def elim!: bind_SomeE split: if_splits dest!: quiet)

section \<open>Operations that may queue a message of the daemon's own\<close>

definition orders_look :: "smq \<Rightarrow> smq \<Rightarrow> bool" where
  "orders_look q q' \<longleftrightarrow>
     (\<exists>xs \<in> {[], [ProcessIncommingMsg]}. writer_queue q' = writer_queue q @ xs)"

lemma insert_state_orders:
  "insert_new_message_state L W m s q = Some q'
     \<Longrightarrow> writer_queue q' = writer_queue q @ [ProcessIncommingMsg]"
  by (auto simp: insert_new_message_state_def Let_def ProcessReceivedMsg_def SendWriterMsg_def
      elim!: bind_SomeE split: prod.splits dest!: quiet)

named_theorems orders

lemma originate_sm_orders [orders]:
  "originate_sm L W C fr to txt s q = Some (e, q') \<Longrightarrow> orders_look q q'"
  by (auto simp: originate_sm_def orders_look_def Let_def elim!: bind_SomeE
      split: option.splits if_splits dest!: quiet insert_state_orders)

lemma bounce_message_orders [orders]:
  "bounce_message L W C i err q = Some (s, q') \<Longrightarrow> orders_look q q'"
  by (auto simp: bounce_message_def elim!: bind_SomeE split: if_splits
      simp: orders_look_def dest!: orders)

lemma register_handset_orders [orders]:
  "register_handset L W C i q = Some (s, q') \<Longrightarrow> orders_look q q'"
  by (auto simp: register_handset_def orders_look_def Let_def elim!: bind_SomeE
      split: option.splits prod.splits if_splits dest!: quiet insert_state_orders)

lemma route_unknown_orders [orders]:
  "route_unknown L W C i m q = Some (s, q') \<Longrightarrow> orders_look q q'"
  by (auto simp: route_unknown_def Let_def elim!: bind_SomeE split: if_splits prod.splits
      dest!: quiet orders simp: orders_look_def)

lemma lookup_uri_imsi_orders [orders]:
  "lookup_uri_imsi L W C i q = Some (s, q') \<Longrightarrow> orders_look q q'"
  by (auto simp: lookup_uri_imsi_def Let_def elim!: bind_SomeE dest!: quiet
      split: if_splits option.splits prod.splits dest!: orders
      simp: orders_look_def)

lemma short_code_reply_orders [orders]:
  "short_code_reply L W C i r q = Some (s, q') \<Longrightarrow> orders_look q q'"
  by (auto simp: short_code_reply_def elim!: bind_SomeE dest!: orders)

lemma short_code_next_orders [orders]:
  "short_code_next L W C i sca r q = Some (s, q') \<Longrightarrow> orders_look q q'"
  by (auto simp: short_code_next_def elim!: bind_SomeE split: short_code_action.splits
      dest!: orders simp: orders_look_def)

lemma handle_short_code_orders [orders]:
  "handle_short_code L W C i q = Some (s, q') \<Longrightarrow> orders_look q q'"
  by (auto simp: handle_short_code_def elim!: bind_SomeE split: option.splits
      dest!: quiet dest!: orders simp: orders_look_def)

lemma response_reject_orders [orders]:
  "response_reject L W C j p q = Some q' \<Longrightarrow> orders_look q q'"
  by (auto simp: response_reject_def Let_def elim!: bind_SomeE dest!: orders quiet
      simp: orders_look_def)

lemma response_action_orders [orders]:
  "response_action L W C j p q = Some q' \<Longrightarrow> orders_look q q'"
  by (auto simp: response_action_def Let_def split: if_splits dest!: quiet orders
      simp: orders_look_def)

lemma handle_response_orders [orders]:
  "handle_response L W C i q = Some q' \<Longrightarrow> orders_look q q'"
  by (auto simp: handle_response_def elim!: bind_SomeE split: option.splits
      dest!: quiet dest!: orders simp: orders_look_def)

section \<open>A step of the machine\<close>

lemma step_initial_orders [orders]:
  "step_initial L W C i q = Some q' \<Longrightarrow> orders_look q q'"
  by (auto simp: step_initial_def elim!: bind_SomeE split: if_splits dest!: quiet dest!: orders
      simp: orders_look_def)

lemma step_delivery_quiet [quiet]:
  "step_delivery L W C i q = Some q' \<Longrightarrow> writer_queue q' = writer_queue q"
  by (auto simp: step_delivery_def Let_def elim!: bind_SomeE split: if_splits prod.splits
      dest!: quiet)

lemma step_quiet [quiet]:
  "step_delete i q = Some q' \<Longrightarrow> writer_queue q' = writer_queue q"
  "step_no_state L i q = Some q' \<Longrightarrow> writer_queue q' = writer_queue q"
  "step_lookup_from L W i q = Some q' \<Longrightarrow> writer_queue q' = writer_queue q"
  by (auto simp: step_delete_def step_no_state_def step_lookup_from_def elim!: bind_SomeE
      dest!: quiet)

lemma step_register_orders [orders]:
  "step_register L W C i q = Some q' \<Longrightarrow> orders_look q q'"
  by (auto simp: step_register_def elim!: bind_SomeE dest!: quiet dest!: orders
      simp: orders_look_def)

lemma step_await_register_orders [orders]:
  "step_await_register L W C i q = Some q' \<Longrightarrow> orders_look q q'"
  by (auto simp: step_await_register_def elim!: bind_SomeE split: if_splits dest!: quiet
      dest!: orders simp: orders_look_def)

lemma step_imsi_orders:
  assumes "do { (s', q) \<leftarrow> lookup_uri_imsi L W C i q; set_state W i s' q } = Some q'"
  shows "orders_look q q'"
  using assms
  by (auto elim!: bind_SomeE dest!: quiet dest!: orders simp: orders_look_def)

lemma dispatch_orders [orders]:
  "dispatch L W C i s q = Some q' \<Longrightarrow> orders_look q q'"
  unfolding dispatch_def
  by (cases s; auto elim!: bind_SomeE dest!: quiet dest!: orders step_imsi_orders
      simp: orders_look_def)

lemma process_timeout_orders [orders]:
  "process_timeout L W C q = Some q' \<Longrightarrow> orders_look q q'"
  by (auto simp: process_timeout_def Let_def split: prod.splits list.splits if_splits
      dest!: quiet dest!: orders simp: orders_look_def)

section \<open>The threads\<close>

lemma respond_sip_ack_quiet [quiet]:
  "respond_sip_ack L W e i n q = Some q' \<Longrightarrow> writer_queue q' = writer_queue q"
  by (auto simp: respond_sip_ack_def Let_def elim!: bind_SomeE split: if_splits prod.splits)

lemma received_message_quiet [quiet]:
  "received_message buf len q = Some (m, q') \<Longrightarrow> writer_queue q' = writer_queue q"
  by (auto simp: received_message_def Let_def elim!: bind_SomeE split: prod.splits dest!: quiet)

lemma main_loop_orders:
  assumes "main_loop L W C ms q = Some q'"
  shows "\<exists>e i n. \<exists>xs \<in> {[], [ProcessIncommingMsg, SIPAckMessage e i n], [SIPAckMessage e i n]}.
           writer_queue q' = writer_queue q @ xs"
proof -
  from assms obtain len buffer net t where
    "get_next_dgram (w_net W) (tick q) sizeof_buffer ms (my_network q) = Some (len, buffer, net, t)"
    by (auto simp: main_loop_def Let_def elim!: bind_SomeE)
  with assms show ?thesis
    by (auto simp: main_loop_def Let_def insert_new_message_def queue_respond_sip_ack_def
        SendWriterMsg_def elim!: bind_SomeE split: if_splits dest!: quiet insert_state_orders)
qed

text \<open>Each record of the save file that is restored is an order to look at the list.\<close>

lemma insert_at_orders:
  "insert_new_message_at L W m s t q = Some q'
     \<Longrightarrow> writer_queue q' = writer_queue q @ [ProcessIncommingMsg]"
  by (auto simp: insert_new_message_at_def Let_def ProcessReceivedMsg_def SendWriterMsg_def
      elim!: bind_SomeE dest!: quiet)

lemma restore_message_orders [orders]:
  "restore_message L W C v txt q = Some q' \<Longrightarrow> orders_look q q'"
  by (auto simp: restore_message_def Let_def orders_look_def elim!: bind_SomeE
      split: prod.splits if_splits option.splits dest!: quiet insert_at_orders)

lemma read_loop_orders:
  assumes "read_loop L W C v s q = Some q'"
  shows "\<exists>n. writer_queue q' = writer_queue q @ replicate n ProcessIncommingMsg"
proof (rule read_loop.raw_induct [where P = "\<lambda>L W C v s q q'.
      \<exists>n. writer_queue q' = writer_queue q @ replicate n ProcessIncommingMsg", OF _ assms])
  fix loop :: "lib_ops \<Rightarrow> world \<Rightarrow> config \<Rightarrow> read_vars \<Rightarrow> istream \<Rightarrow> smq \<Rightarrow> smq option"
  fix L W C v s q q'
  let ?more = "\<lambda>q q'. \<exists>n. writer_queue q' = writer_queue q @ replicate n ProcessIncommingMsg"
  assume ih: "\<And>L W C v s q q'. loop L W C v s q = Some q' \<Longrightarrow> ?more q q'"
    and run: "(if is_eof s then Some q
      else let (v, s) = read_header v s in
        if v_equals v \<noteq> ''==='' \<or> is_eof s then Some q
        else let (msgtext, v, s) = read_rest v s in
          Option.bind (restore_message L W C v msgtext q) (loop L W C v s)) = Some q'"
  from run consider "q' = q"
    | v' b q1 v2 s2 where "restore_message L W C v' b q = Some q1" "loop L W C v2 s2 q1 = Some q'"
    by (auto simp: Let_def split: if_splits prod.splits elim!: bind_SomeE)
  then show "?more q q'"
  proof cases
    case 1
    then show ?thesis by (auto intro!: exI [of _ 0])
  next
    case 2
    from ih [OF 2(2)] obtain n where "writer_queue q' = writer_queue q1 @ replicate n ProcessIncommingMsg" ..
    with restore_message_orders [OF 2(1)] show ?thesis
      by (auto simp: orders_look_def intro: exI [of _ n] exI [of _ "Suc n"])
  qed
qed

lemma read_queue_orders:
  assumes "read_queue_from_file L W C v f q = Some (b, q')"
  shows "\<exists>n. writer_queue q' = writer_queue q @ replicate n ProcessIncommingMsg"
proof -
  from assms consider "writer_queue q' = writer_queue q"
    | s q1 where "writer_queue q1 = writer_queue q" "read_loop L W C v s q1 = Some q'"
    by (auto simp: read_queue_from_file_def Let_def elim!: bind_SomeE
        split: prod.splits option.splits dest!: quiet)
  then show ?thesis
  proof cases
    case 1
    then show ?thesis by (auto intro!: exI [of _ 0])
  next
    case 2
    with read_loop_orders [OF 2(2)] show ?thesis by simp
  qed
qed

end
