(* ===== verification/Order_Properties.thy ===== *)
theory Order_Properties
  imports Smq_Orders Smq_Mutex Smq_Example
begin

text \<open>
  The two models of the threads agree: what a thread does in one transition of the detailed model is
  a run of its control skeleton from idle to idle, which sends the same orders.
\<close>

section \<open>The daemon between two transitions\<close>

definition threads :: "thread \<Rightarrow> code list" where
  "threads t =
     (case t of Reader \<Rightarrow> [Loop main_loop_code, save_queue_code] | Writer \<Rightarrow> [writer_code])"

definition order_types :: "queued_msg list \<Rightarrow> MessageType list" where
  "order_types xs = map (msgType \<circ> queued_header) xs"


lemma order_types_simps [simp]:
  "order_types [] = []" "order_types (xs @ ys) = order_types xs @ order_types ys"
  "order_types (x # xs) = msgType (queued_header x) # order_types xs"
  "length (order_types xs) = length xs"
  by (simp_all add: order_types_def)



section \<open>Runs of the skeletons\<close>

lemma threads_upd [simp]:
  "threads(Reader := [Loop main_loop_code, save_queue_code]) = threads"
  "threads(Writer := [Loop Await]) = threads"
  by (auto simp: fun_eq_iff threads_def writer_code_def split: thread.split)

lemma threads_simps [simp]:
  "threads Reader = [Loop main_loop_code, save_queue_code]" "threads Writer = [Loop Await]"
  by (simp_all add: threads_def writer_code_def)









section \<open>The simulation\<close>










end
