(* ===== verification/Smq_Main.thy ===== *)
theory Smq_Main
  imports Smq_Threads Smq_Orders
begin

text \<open>
  The program as a whole (\<open>main\<close>): it starts the two threads and waits for the flag that stops
  them; when it returns, the process ends with all its threads.  The reader thread saves the queue
  after its loop, and may replace the process by a new run of the program.
\<close>

section \<open>The process\<close>

datatype phase = Starting | Looping | Leaving | Ended

text \<open>
  \<open>smq_argv\<close>: the member \<open>argv\<close> of the object \<open>smq\<close>, null at first.  \<open>executed\<close>: the arguments of an
  \<open>execvp\<close> that succeeded.
\<close>

record process =
  smq_argv :: "string list option"
  daemon :: smq
  reader_phase :: phase
  writer_phase :: phase
  exit_code :: "int option"
  executed :: "string list option"

definition live :: "process \<Rightarrow> bool" where
  "live p \<longleftrightarrow> exit_code p = None \<and> executed p = None"

text \<open>
  With arguments the program prints what is asked for (\<open>main_actions\<close>), stores the arguments and
  returns; without, the threads are started, and the arguments are not stored.
\<close>

definition main_start :: "string list \<Rightarrow> smq \<Rightarrow> process" where
  "main_start argv q =
     (let q = q\<lparr>stop_main_loop := False\<rparr> in
      if 1 < length argv then
        \<lparr>smq_argv = Some argv, daemon = q, reader_phase = Ended, writer_phase = Ended,
         exit_code = Some 0, executed = None\<rparr>
      else
        \<lparr>smq_argv = None, daemon = q, reader_phase = Starting, writer_phase = Looping,
         exit_code = None, executed = None\<rparr>)"

text \<open>
  The end of the clean-up, when the flag was set: the arguments of \<open>execvp\<close>, read through the pointer
  (\<open>None\<close>: it is null).
\<close>

definition exec_args :: "process \<Rightarrow> smq \<Rightarrow> string list option option" where
  "exec_args p q = (if please_re_exec q then map_option Some (smq_argv p) else Some None)"

text \<open>
  One transition.  The first rules are the reader (\<open>SmqReaderThread\<close>) with the end of its clean-up, where
  \<open>execvp\<close> replaces the process or fails and returns, then the writer (\<open>SmqWriterThread\<close>); the
  last is the return of \<open>main\<close>, whose loop looks at nothing but the flag.
\<close>

inductive process_step ::
  "lib_ops \<Rightarrow> world \<Rightarrow> config \<Rightarrow> read_vars \<Rightarrow> process \<Rightarrow> process \<Rightarrow> bool"
  for L :: lib_ops and W :: world and C :: config and v0 :: read_vars where
  reader_starts: "live p \<Longrightarrow> reader_phase p = Starting
    \<Longrightarrow> InitBeforeMainLoop L W C v0 (daemon p) = Some q
    \<Longrightarrow> process_step L W C v0 p (p\<lparr>daemon := InitInsideReaderLoop C q, reader_phase := Looping\<rparr>)"
| reader_turns: "live p \<Longrightarrow> reader_phase p = Looping \<Longrightarrow> \<not> stop_main_loop (daemon p)
    \<Longrightarrow> main_loop L W C 60000 (daemon p) = Some q \<Longrightarrow> process_step L W C v0 p (p\<lparr>daemon := q\<rparr>)"
| reader_leaves: "live p \<Longrightarrow> reader_phase p = Looping \<Longrightarrow> stop_main_loop (daemon p)
    \<Longrightarrow> process_step L W C v0 p (p\<lparr>reader_phase := Leaving\<rparr>)"
| reader_ends: "live p \<Longrightarrow> reader_phase p = Leaving
    \<Longrightarrow> CleaupAfterMainreaderLoop L W (daemon p) = Some q \<Longrightarrow> exec_args p q = Some None
    \<Longrightarrow> process_step L W C v0 p (p\<lparr>daemon := q, reader_phase := Ended\<rparr>)"
| reader_execs: "live p \<Longrightarrow> reader_phase p = Leaving
    \<Longrightarrow> CleaupAfterMainreaderLoop L W (daemon p) = Some q \<Longrightarrow> exec_args p q = Some (Some argv)
    \<Longrightarrow> process_step L W C v0 p (p\<lparr>daemon := q, executed := Some argv\<rparr>)"
| reader_exec_fails: "live p \<Longrightarrow> reader_phase p = Leaving
    \<Longrightarrow> CleaupAfterMainreaderLoop L W (daemon p) = Some q \<Longrightarrow> exec_args p q = Some (Some argv)
    \<Longrightarrow> process_step L W C v0 p (p\<lparr>daemon := q, reader_phase := Ended\<rparr>)"
| writer_works: "live p \<Longrightarrow> writer_phase p = Looping \<Longrightarrow> \<not> stop_main_loop (daemon p)
    \<Longrightarrow> writer_queue (daemon p) \<noteq> [] \<Longrightarrow> writer_step L W C (daemon p) = Some q
    \<Longrightarrow> process_step L W C v0 p (p\<lparr>daemon := q\<rparr>)"
| writer_idles: "live p \<Longrightarrow> writer_phase p = Looping \<Longrightarrow> \<not> stop_main_loop (daemon p)
    \<Longrightarrow> writer_timeout L W C now last_run (daemon p) = Some (r, q)
    \<Longrightarrow> process_step L W C v0 p (p\<lparr>daemon := q\<rparr>)"
| writer_ends: "live p \<Longrightarrow> writer_phase p = Looping \<Longrightarrow> stop_main_loop (daemon p)
    \<Longrightarrow> process_step L W C v0 p (p\<lparr>writer_phase := Ended\<rparr>)"
| main_returns: "live p \<Longrightarrow> stop_main_loop (daemon p)
    \<Longrightarrow> process_step L W C v0 p (p\<lparr>exit_code := Some 0\<rparr>)"

text \<open>Runs, with the number of their transitions.\<close>

inductive process_run ::
  "lib_ops \<Rightarrow> world \<Rightarrow> config \<Rightarrow> read_vars \<Rightarrow> nat \<Rightarrow> process \<Rightarrow> process \<Rightarrow> bool"
  for L :: lib_ops and W :: world and C :: config and v0 :: read_vars where
  run_none: "process_run L W C v0 0 p p"
| run_step: "process_run L W C v0 n p p' \<Longrightarrow> process_step L W C v0 p' p''
    \<Longrightarrow> process_run L W C v0 (n + 1) p p''"

section \<open>Lemmas\<close>

text \<open>Saving leaves the flags of the daemon alone.\<close>

lemma save_loop_flags:
  "save_loop L W xs acc q = Some (out, q') \<Longrightarrow>
     please_re_exec q' = please_re_exec q \<and> stop_main_loop q' = stop_main_loop q"
proof (induction xs arbitrary: acc q)
  case (Cons x xs)
  from Cons.prems obtain x1 a q1 s where "ask a (put_msg x1 q) = (s, q1)"
    and "save_loop L W xs (acc @ queue_record s x1 (the (msg_text x1))) q1 = Some (out, q')"
    by (auto elim!: bind_SomeE split: prod.splits)
  from Cons.IH [OF this(2)] this(1) show ?case by (auto simp: ask_def put_msg_def)
qed simp

lemma clean_up_flags:
  assumes "CleaupAfterMainreaderLoop L W q = Some q'"
  shows "please_re_exec q' = reexec_smqueue q" and "stop_main_loop q' = stop_main_loop q"
  using assms
  by (auto simp: CleaupAfterMainreaderLoop_def save_queue_to_file_def Let_def ask_def
      elim!: bind_SomeE split: prod.splits if_splits dest!: save_loop_flags)

lemma process_step_argv: "process_step L W C v0 p p' \<Longrightarrow> smq_argv p' = smq_argv p"
  by (induction rule: process_step.induct) simp_all

lemma process_run_argv: "process_run L W C v0 n p p' \<Longrightarrow> smq_argv p' = smq_argv p"
  by (induction rule: process_run.induct) (simp_all add: process_step_argv)

lemma process_step_live: "process_step L W C v0 p p' \<Longrightarrow> live p"
  by (induction rule: process_step.induct) simp_all

lemma process_run_live: "process_run L W C v0 n p p' \<Longrightarrow> live p' \<Longrightarrow> live p"
  by (induction rule: process_run.induct) (auto dest: process_step_live)

text \<open>What a program that was told to stop still does.\<close>

fun steps_of :: "phase \<Rightarrow> nat" where
  "steps_of Starting = 3"
| "steps_of Looping = 2"
| "steps_of Leaving = 1"
| "steps_of Ended = 0"

definition steps_left :: "process \<Rightarrow> nat" where
  "steps_left p =
     steps_of (reader_phase p) + (if writer_phase p = Looping then 1 else 0) + (if live p then 1 else 0)"

definition stopping :: "process \<Rightarrow> bool" where
  "stopping p \<longleftrightarrow> stop_main_loop (daemon p) \<and> reader_phase p \<noteq> Starting"

lemma stopping_step:
  assumes "process_step L W C v0 p p'" and "stopping p"
  shows "stopping p' \<and> steps_left p' < steps_left p"
  using assms
  by (cases rule: process_step.cases)
     (auto simp: stopping_def steps_left_def live_def dest: clean_up_flags)

lemma stopping_run:
  "process_run L W C v0 n p p' \<Longrightarrow> stopping p \<Longrightarrow> stopping p' \<and> n + steps_left p' \<le> steps_left p"
proof (induction rule: process_run.induct)
  case (run_step n p p' p'')
  with stopping_step [OF run_step(2)] show ?case by fastforce
qed simp

end
