(* ===== verification/Main_Properties.thy ===== *)
theory Main_Properties
  imports Smq_Main Smq_Example
begin

text \<open>
  Properties of the whole program: how it ends when it is told to stop, that it may end before the
  queue is saved, and that it cannot start itself again.
\<close>

section \<open>The end of the program\<close>

text \<open>
  C11: A program that is told to stop ends: from a state with the flag set and the start behind it,
  every schedule has at most four more transitions (the two threads leave their loops, the reader
  cleans up, \<open>main\<close> returns), and as long as the process lives one of them is possible.
\<close>

theorem stop_ends:
  assumes "process_run L W C v0 n p p'" and "stopping p"
  shows "n \<le> 4 \<and> (live p' \<longrightarrow> (\<exists>p''. process_step L W C v0 p' p''))"
proof -
  note r = stopping_run [OF assms]
  have "steps_left p \<le> 4"
    using assms(2) by (cases "reader_phase p") (auto simp: stopping_def steps_left_def)
  moreover have "\<exists>p''. process_step L W C v0 p' p''" if "live p'"
    using main_returns [OF that] r unfolding stopping_def by blast
  ultimately show ?thesis using r by auto
qed

text \<open>What the reader has in its variables before it reads a message.\<close>

definition vars1 :: read_vars where
  "vars1 = \<lparr>v_equals = [], v_astate = 0, v_atime = 0, v_netaddr = [], v_alength = 0, v_ms_to_sc = 0,
            v_need_repack = 0\<rparr>"

text \<open>A program with two messages that has just been told to stop.\<close>

definition stopped1 :: process where
  "stopped1 =
     \<lparr>smq_argv = None,
      daemon = (queue1 [msg1 0 REQUEST_MSG_DELIVERY 5, msg1 1 NO_STATE 6])\<lparr>stop_main_loop := True\<rparr>,
      reader_phase = Looping, writer_phase = Looping, exit_code = None, executed = None\<rparr>"

lemma stopped1_state:
  "live stopped1" "stop_main_loop (daemon stopped1)" "reader_phase stopped1 = Looping"
  "\<not> reexec_smqueue (daemon stopped1)"
  by (simp_all add: live_def stopped1_def queue1_def SMq0_def)

theorem stop_ends_witness:
  "\<exists>p'. process_run lib1 world1 config1 vars1 1 stopped1 p' \<and> live p'
     \<and> (\<exists>p''. process_step lib1 world1 config1 vars1 p' p'')"
proof -
  let ?p = "stopped1\<lparr>reader_phase := Leaving\<rparr>"
  have run: "process_run lib1 world1 config1 vars1 1 stopped1 ?p"
    using run_step [OF run_none reader_leaves [OF stopped1_state(1,3,2)]] by simp
  have "stopping stopped1" using stopped1_state by (simp add: stopping_def)
  from stop_ends [OF run this] have "live ?p \<longrightarrow> (\<exists>p''. process_step lib1 world1 config1 vars1 ?p p'')"
    by simp
  moreover have "live ?p" using stopped1_state(1) by (simp add: live_def)
  ultimately show ?thesis using run by blast
qed

section \<open>The queue at the end\<close>

text \<open>
  C12: Whether the queue is saved when the program is told to stop is left to chance: there is a
  schedule in which \<open>main\<close> returns first, the process is over and the daemon is as it was, with
  nothing saved, and one in which the reader thread comes first and cleans up.
\<close>

theorem exit_before_save:
  assumes "live p" and "stop_main_loop (daemon p)" and "reader_phase p = Looping"
    and "CleaupAfterMainreaderLoop L W (daemon p) = Some q" and "\<not> reexec_smqueue (daemon p)"
  shows "(\<exists>p1. process_run L W C v0 1 p p1 \<and> exit_code p1 = Some 0 \<and> daemon p1 = daemon p
        \<and> (\<nexists>p'. process_step L W C v0 p1 p'))
    \<and> (\<exists>p2. process_run L W C v0 3 p p2 \<and> exit_code p2 = Some 0 \<and> daemon p2 = q)"
proof -
  let ?p1 = "p\<lparr>exit_code := Some 0\<rparr>" and ?l = "p\<lparr>reader_phase := Leaving\<rparr>"
  let ?e = "?l\<lparr>daemon := q, reader_phase := Ended\<rparr>"
  have "process_run L W C v0 1 p ?p1"
    using run_step [OF run_none main_returns [OF assms(1,2)]] by simp
  moreover have "\<not> process_step L W C v0 ?p1 p'" for p'
    using process_step_live [of L W C v0 ?p1 p'] by (auto simp: live_def)
  ultimately have first: "\<exists>p1. process_run L W C v0 1 p p1 \<and> exit_code p1 = Some 0
      \<and> daemon p1 = daemon p \<and> (\<nexists>p'. process_step L W C v0 p1 p')"
    by (intro exI [of _ ?p1]) simp
  have l: "live ?l" "live ?e" using assms(1) by (simp_all add: live_def)
  have clean: "\<not> please_re_exec q" "stop_main_loop q"
    using clean_up_flags [OF assms(4)] assms(2,5) by simp_all
  have "process_step L W C v0 p ?l" by (rule reader_leaves [OF assms(1,3,2)])
  moreover have "process_step L W C v0 ?l ?e"
    by (rule reader_ends [OF l(1)]) (simp_all add: assms(4) clean exec_args_def)
  moreover have "process_step L W C v0 ?e (?e\<lparr>exit_code := Some 0\<rparr>)"
    by (rule main_returns [OF l(2)]) (simp add: clean)
  ultimately have "process_run L W C v0 (0 + 1 + 1 + 1) p (?e\<lparr>exit_code := Some 0\<rparr>)"
    by (blast intro: process_run.intros)
  then have "process_run L W C v0 3 p (?e\<lparr>exit_code := Some 0\<rparr>)" by (simp add: numeral_3_eq_3)
  then have "\<exists>p2. process_run L W C v0 3 p p2 \<and> exit_code p2 = Some 0 \<and> daemon p2 = q"
    by (intro exI [of _ "?e\<lparr>exit_code := Some 0\<rparr>"]) simp
  with first show ?thesis by blast
qed

theorem exit_before_save_witness:
  "\<exists>p1. process_run lib1 world1 config1 vars1 1 stopped1 p1 \<and> exit_code p1 = Some 0
     \<and> length (time_sorted_list (daemon p1)) = 2 \<and> saved_files (daemon p1) = []
     \<and> saved_files (the (CleaupAfterMainreaderLoop lib1 world1 (daemon stopped1))) \<noteq> []"
proof -
  let ?c = "CleaupAfterMainreaderLoop lib1 world1 (daemon stopped1)"
  have c: "?c = Some (the ?c)" by (rule defined_the) code_simp
  have s: "saved_files (the ?c) \<noteq> []" by code_simp
  from exit_before_save [OF stopped1_state(1-3) c stopped1_state(4), of config1 vars1]
  obtain p1 where "process_run lib1 world1 config1 vars1 1 stopped1 p1" "exit_code p1 = Some 0"
    "daemon p1 = daemon stopped1" by blast
  with s show ?thesis by (intro exI [of _ p1]) (simp add: stopped1_def)
qed

section \<open>Starting again\<close>

text \<open>
  C13: The program cannot start itself again.  The arguments are stored only when it has some, and
  then it returns at once; in every run in which the reader thread comes to its end with the order
  to run the program again, the pointer to the arguments is null, and whatever step the process
  still makes is one of the other threads: nothing is executed, and the reader does not end.
\<close>

theorem restart_reads_null:
  assumes "process_run L W C v0 n (main_start argv q) p" and "reader_phase p = Leaving"
    and "reexec_smqueue (daemon p)" and "process_step L W C v0 p p'"
  shows "smq_argv p = None \<and> executed p' = None \<and> reader_phase p' = Leaving"
proof -
  have "live p" by (rule process_step_live [OF assms(4)])
  with process_run_live [OF assms(1)] have "live (main_start argv q)" by simp
  then have "smq_argv (main_start argv q) = None"
    by (auto simp: main_start_def live_def Let_def split: if_splits)
  then have null: "smq_argv p = None" using process_run_argv [OF assms(1)] by simp
  from assms(4) show ?thesis
    using assms(2,3) \<open>live p\<close> null
    by (cases rule: process_step.cases) (auto simp: live_def exec_args_def dest: clean_up_flags)
qed

text \<open>A message with the order to run the program again, and a configuration that knows its code.\<close>

definition exec_msg :: short_msg_pending where
  "exec_msg = (msg1 0 INITIAL_STATE 0)\<lparr>parsed := Some (sip_request\<lparr>p_req_uri := Some (uri1 ''100''),
     p_bodies := [Some \<lparr>body = Some ''pw exec''\<rparr>]\<rparr>)\<rparr>"

definition exec_config :: config where
  "exec_config = config1\<lparr>defines_key := \<lambda>k. k = ''SC.WhiplashQuit.Code'',
     getStr := \<lambda>k. if k = ''SC.WhiplashQuit.Code'' then ''100''
                 else if k = ''SC.WhiplashQuit.Password'' then ''pw'' else []\<rparr>"

theorem restart_reads_null_witness:
  "\<exists>p n. process_run lib1 world1 exec_config vars1 n (main_start [''smqueue''] (queue1 [exec_msg])) p
     \<and> reader_phase p = Leaving \<and> reexec_smqueue (daemon p) \<and> smq_argv p = None"
proof -
  let ?s = "main_start [''smqueue''] (queue1 [exec_msg])"
  let ?i = "InitBeforeMainLoop lib1 world1 exec_config vars1 (daemon ?s)"
  let ?q1 = "InitInsideReaderLoop exec_config (the ?i)"
  let ?p1 = "?s\<lparr>daemon := ?q1, reader_phase := Looping\<rparr>"
  let ?t = "writer_timeout lib1 world1 exec_config 0 0 ?q1"
  let ?p2 = "?p1\<lparr>daemon := snd (the ?t)\<rparr>" and ?p3 = "?p1\<lparr>daemon := snd (the ?t), reader_phase := Leaving\<rparr>"
  have s: "live ?s" "reader_phase ?s = Starting" "writer_phase ?s = Looping"
    by (simp_all add: main_start_def live_def)
  then have l: "live ?p1" "live ?p2" "live ?p3" by (simp_all add: live_def)
  have i: "?i = Some (the ?i)" by (rule defined_the) code_simp
  have t: "?t = Some (fst (the ?t), snd (the ?t))" by (rule defined_2) code_simp
  have go: "\<not> stop_main_loop ?q1" by code_simp
  have flags: "stop_main_loop (snd (the ?t))" "reexec_smqueue (snd (the ?t))" by code_simp+
  have "process_step lib1 world1 exec_config vars1 ?s ?p1"
    by (rule reader_starts [OF s(1,2) i])
  moreover have "process_step lib1 world1 exec_config vars1 ?p1 ?p2"
  proof (rule writer_idles [OF l(1)])
    show "writer_phase ?p1 = Looping" using s(3) by simp
    show "\<not> stop_main_loop (daemon ?p1)" using go by simp
    show "writer_timeout lib1 world1 exec_config 0 0 (daemon ?p1) = Some (fst (the ?t), snd (the ?t))"
      using t by simp
  qed
  moreover have "process_step lib1 world1 exec_config vars1 ?p2 ?p3"
    using reader_leaves [OF l(2), of lib1 world1 exec_config vars1] flags(1) by simp
  ultimately have run: "process_run lib1 world1 exec_config vars1 (0 + 1 + 1 + 1) ?s ?p3"
    by (blast intro: process_run.intros)
  have ret: "process_step lib1 world1 exec_config vars1 ?p3 (?p3\<lparr>exit_code := Some 0\<rparr>)"
    using flags(1) by (intro main_returns [OF l(3)]) simp
  have end3: "reader_phase ?p3 = Leaving" "reexec_smqueue (daemon ?p3)" using flags(2) by simp_all
  from restart_reads_null [OF run end3 ret]
  have "smq_argv ?p3 = None" by blast
  with run end3 show ?thesis by blast
qed

end
