(* ===== verification/Smq_Test.thy ===== *)
theory Smq_Test
  imports Smq_Mutex
begin

text \<open>
  The test driver (\<open>SmqTest.cpp\<close>): the loops of the two test threads, which the daemon no longer
  starts, the datagrams one of them sends, and the recursive use of the mutex.
\<close>

definition REPEAT :: nat where
  "REPEAT = 10000"

definition SendTestMessage :: "smq \<Rightarrow> smq" where
  "SendTestMessage q = SendWriterMsg (TestMessage ''Test message from reader thread'') q"

text \<open>\<open>while (++repeatCount < REPEAT)\<close>.\<close>

function ReaderTestThread :: "nat \<Rightarrow> smq \<Rightarrow> smq" where
  "ReaderTestThread repeatCount q =
     (if repeatCount + 1 < REPEAT then ReaderTestThread (repeatCount + 1) (SendTestMessage q) else q)"
  by auto
termination by (relation "measure (\<lambda>(n, q). REPEAT - n)") auto

declare ReaderTestThread.simps [simp del]

text \<open>
  The datagrams of \<open>WriteToUDP\<close>, all to one address: a buffer full of the pattern, an \<open>int\<close> that is
  stored in a \<open>char\<close>.
\<close>

definition MAXBUFFER :: nat where
  "MAXBUFFER = 100"

fun WriteToUDP_loop :: "nat \<Rightarrow> nat \<Rightarrow> string list" where
  "WriteToUDP_loop 0 pattern = []"
| "WriteToUDP_loop (Suc n) pattern =
     replicate MAXBUFFER (char_of pattern) # WriteToUDP_loop n (pattern + 1)"

definition WriteToUDP :: "string list" where
  "WriteToUDP = WriteToUDP_loop REPEAT 0"

text \<open>The other test thread sends these datagrams; the loop after that only sleeps.\<close>

definition WriterTestThread :: "string list" where
  "WriterTestThread = WriteToUDP"

text \<open>
  The recursive test: \<open>Level\<close> and the global \<open>gLevel\<close>, and the mutex.  \<open>None\<close>: the thread waits.
\<close>

function RecursiveMutextTest ::
  "thread \<Rightarrow> int \<Rightarrow> int \<Rightarrow> mutex \<Rightarrow> (int \<times> mutex) option"
where
  "RecursiveMutextTest t Level gLevel m =
     (if 3 < Level then Some (gLevel, m)
      else do {
        m \<leftarrow> lockSortedList t m;
        (gLevel, m) \<leftarrow> RecursiveMutextTest t (gLevel + 1) (gLevel + 1) m;
        Some (gLevel, unlockSortedList t m) })"
  by auto
termination
  by (relation "measure (\<lambda>(t, Level, gLevel, m). if 3 < Level then 0 else nat (4 - gLevel) + 1)") auto

declare RecursiveMutextTest.simps [simp del]

section \<open>Lemmas\<close>

lemma ReaderTestThread_sends:
  assumes "n < REPEAT"
  shows "writer_queue (ReaderTestThread n q) = writer_queue q
    @ replicate (REPEAT - 1 - n) (TestMessage ''Test message from reader thread'')"
  using assms
proof (induction n q rule: ReaderTestThread.induct)
  case (1 n q)
  show ?case
  proof (cases "n + 1 < REPEAT")
    case True
    then have "REPEAT - 1 - n = Suc (REPEAT - 1 - (n + 1))" by simp
    with 1(1) [OF True True] True show ?thesis
      by (subst ReaderTestThread.simps) (simp add: SendTestMessage_def SendWriterMsg_def)
  next
    case False
    with 1(2) show ?thesis by (subst ReaderTestThread.simps) simp
  qed
qed

lemma WriteToUDP_loop_length: "length (WriteToUDP_loop n p) = n"
  by (induction n arbitrary: p) simp_all

lemma WriteToUDP_loop_nth:
  "i < n \<Longrightarrow> WriteToUDP_loop n p ! i = replicate MAXBUFFER (char_of (p + i))"
  by (induction n arbitrary: p i) (auto simp: nth_Cons' less_Suc_eq_0_disj)

text \<open>A thread that need not wait for the mutex goes through the recursion and leaves it as it was.\<close>

lemma RecursiveMutextTest_returns:
  assumes "mutex_ok m" and "lockSortedList t m \<noteq> None"
  shows "\<exists>g. RecursiveMutextTest t Level gLevel m = Some (g, m)"
  using assms
proof (induction t Level gLevel m rule: RecursiveMutextTest.induct)
  case (1 t Level gLevel m)
  show ?case
  proof (cases "3 < Level")
    case True
    then show ?thesis by (subst RecursiveMutextTest.simps) simp
  next
    case False
    from 1(3) obtain m' where l: "lockSortedList t m = Some m'" by auto
    have again: "lockSortedList t m' \<noteq> None" by (rule list_mutex.acquired_again [OF 1(2) l]) simp
    from 1(1) [OF False l list_mutex.acquire_ok [OF 1(2) l] again] obtain g where
      "RecursiveMutextTest t (gLevel + 1) (gLevel + 1) m' = Some (g, m')" by blast
    with False l list_mutex.release_acquire [OF 1(2) l] show ?thesis
      by (subst RecursiveMutextTest.simps) simp
  qed
qed

text \<open>While the other thread holds the mutex, the test waits.\<close>

lemma RecursiveMutextTest_waits:
  assumes "mutex_ok m" and "0 < held u m" and "t \<noteq> u" and "Level \<le> 3"
  shows "RecursiveMutextTest t Level gLevel m = None"
  using list_mutex.others_wait [OF assms(1-3)] assms(4)
  by (subst RecursiveMutextTest.simps) simp

end
