(* ===== verification/Poll_Emulation.thy ===== *)
theory Poll_Emulation
  imports Smq_Net
begin

text \<open>
  The replacement of \<open>poll\<close> by \<open>select\<close> for systems without it (\<open>smqueue/poll.c\<close>).

  A descriptor set is the list of its members.  \<open>FD_SET\<close> of a descriptor outside the set type has
  no defined result.  \<open>select\<close> is the parameter: from the number of descriptors, the three sets and
  the timeout to its return value and the sets it leaves.
\<close>

section \<open>Descriptor sets\<close>








section \<open>From poll to select and back\<close>



text \<open>The seconds and microseconds, or the null pointer; division truncates.\<close>

definition map_timeout :: "int \<Rightarrow> (int \<times> int) option" where
  "map_timeout poll_timeout =
     (if poll_timeout = - 1 then None
      else if poll_timeout = 0 then Some (0, 0)
      else let s = (if poll_timeout < 0 then - ((- poll_timeout) div 1000)
                    else poll_timeout div 1000)
           in Some (s, (poll_timeout - s * 1000) * 1000))"




section \<open>Lemmas\<close>













section \<open>The emulation\<close>




text \<open>
  A timeout in milliseconds reaches \<open>select\<close> as the same time: minus one as no timeout, any other
  number of milliseconds that is not negative as whole seconds and less than a million microseconds.
\<close>

lemma poll_timeout_faithful:
  "(case map_timeout ms of
      None \<Rightarrow> ms = - 1
    | Some (s, us) \<Rightarrow> s * 1000000 + us = ms * 1000
        \<and> (0 \<le> ms \<longrightarrow> 0 \<le> s \<and> 0 \<le> us \<and> us < 1000000))"
proof -
  have "0 \<le> ms - ms div 1000 * 1000 \<and> ms - ms div 1000 * 1000 < 1000" if "0 \<le> ms"
    using that by (simp add: minus_div_mult_eq_mod)
  then show ?thesis
    by (auto simp: map_timeout_def Let_def pos_imp_zdiv_nonneg_iff)
qed

end
