(* ===== verification/Gsm_Link.thy ===== *)
theory Gsm_Link
  imports Gsm_Frames
begin

text \<open>
  The header of link-layer frames (\<open>GSM/GSMTransfer.h\<close>): address, control field and length, with
  the asserts of their constructors and accessors (a failed assert is \<open>None\<close>, and so is a member
  that no constructor has set), and the accessors of \<open>L2Frame\<close>.  The functions that the header file
  declares and no file of the repository defines (writing, idle filling, decoding of frame types)
  are left out.
\<close>

section \<open>The header\<close>

record L2Address =
  mSAPI :: nat
  mCR :: nat
  mLPD :: nat

definition L2Address_new :: "nat \<Rightarrow> nat \<Rightarrow> nat \<Rightarrow> L2Address option" where
  "L2Address_new wCR wSAPI wLPD =
     (if wSAPI < 4 then Some \<lparr>mSAPI = wSAPI, mCR = wCR, mLPD = wLPD\<rparr> else None)"

datatype ControlFormat = IFormat | SFormat | UFormat

record L2Control =
  lcFormat :: ControlFormat
  lcNR :: "nat option"
  lcNS :: "nat option"
  lcPF :: nat
  lcSBits :: "nat option"
  lcUBits :: "nat option"

text \<open>The constructor of U and S frames, and the one of I frames.\<close>

definition L2Control_US :: "ControlFormat \<Rightarrow> nat \<Rightarrow> nat \<Rightarrow> L2Control option" where
  "L2Control_US wFormat wPF bts =
     (if wFormat \<noteq> IFormat \<and> wPF < 2 \<and> (wFormat = UFormat \<longrightarrow> bts < 32)
         \<and> (wFormat = SFormat \<longrightarrow> bts < 4)
      then Some \<lparr>lcFormat = wFormat, lcNR = None, lcNS = None, lcPF = wPF,
                 lcSBits = Some bts, lcUBits = Some bts\<rparr>
      else None)"

definition L2Control_I :: "nat \<Rightarrow> nat \<Rightarrow> nat \<Rightarrow> L2Control option" where
  "L2Control_I wNR wNS wPF =
     (if wNR < 8 \<and> wNS < 8 \<and> wPF < 2
      then Some \<lparr>lcFormat = IFormat, lcNR = Some wNR, lcNS = Some wNS, lcPF = wPF,
                 lcSBits = None, lcUBits = None\<rparr>
      else None)"

definition L2Control_NR :: "L2Control \<Rightarrow> nat option" where
  "L2Control_NR c = (if lcFormat c \<noteq> UFormat then lcNR c else None)"

definition L2Control_set_NR :: "nat \<Rightarrow> L2Control \<Rightarrow> L2Control option" where
  "L2Control_set_NR wNR c = (if lcFormat c \<noteq> UFormat then Some (c\<lparr>lcNR := Some wNR\<rparr>) else None)"

definition L2Control_NS :: "L2Control \<Rightarrow> nat option" where
  "L2Control_NS c = (if lcFormat c = IFormat then lcNS c else None)"

definition L2Control_set_NS :: "nat \<Rightarrow> L2Control \<Rightarrow> L2Control option" where
  "L2Control_set_NS wNS c = (if lcFormat c = IFormat then Some (c\<lparr>lcNS := Some wNS\<rparr>) else None)"

definition L2Control_PF :: "L2Control \<Rightarrow> nat option" where
  "L2Control_PF c = (if lcFormat c \<noteq> IFormat then Some (lcPF c) else None)"

definition L2Control_P :: "L2Control \<Rightarrow> nat option" where
  "L2Control_P c = (if lcFormat c = IFormat then Some (lcPF c) else None)"

definition L2Control_SBits :: "L2Control \<Rightarrow> nat option" where
  "L2Control_SBits c = (if lcFormat c = SFormat then lcSBits c else None)"

definition L2Control_UBits :: "L2Control \<Rightarrow> nat option" where
  "L2Control_UBits c = (if lcFormat c = UFormat then lcUBits c else None)"

text \<open>Length and "more data" flag.\<close>

record L2Length =
  mL :: nat
  mM :: nat

definition L2Length_new :: "nat \<Rightarrow> bool \<Rightarrow> L2Length" where
  "L2Length_new wL wM = \<lparr>mL = wL, mM = (if wM then 1 else 0)\<rparr>"

definition L2Length_set_L :: "nat \<Rightarrow> L2Length \<Rightarrow> L2Length" where
  "L2Length_set_L wL l = l\<lparr>mL := wL\<rparr>"

definition L2Length_set_M :: "nat \<Rightarrow> L2Length \<Rightarrow> L2Length" where
  "L2Length_set_M wM l = l\<lparr>mM := wM\<rparr>"

datatype FrameFormat = FmtA | FmtB | FmtBbis | FmtBter | FmtB4 | FmtC

record L2Header =
  lhFormat :: FrameFormat
  mAddress :: L2Address
  mControl :: L2Control
  lhLength :: L2Length

definition L2Header_B :: "L2Address \<Rightarrow> L2Control \<Rightarrow> L2Length \<Rightarrow> FrameFormat \<Rightarrow> L2Header" where
  "L2Header_B wAddress wControl wLength wFormat =
     \<lparr>lhFormat = wFormat, mAddress = wAddress, mControl = wControl, lhLength = wLength\<rparr>"

text \<open>The members that are not given have the default constructors of their classes.\<close>

definition L2Header_B4 :: "L2Address \<Rightarrow> L2Control \<Rightarrow> L2Header" where
  "L2Header_B4 wAddress wControl =
     \<lparr>lhFormat = FmtB4, mAddress = wAddress, mControl = wControl, lhLength = L2Length_new 0 False\<rparr>"

definition L2Header_Bbis :: "L2Length \<Rightarrow> L2Header option" where
  "L2Header_Bbis wLength =
     do { a \<leftarrow> L2Address_new 0 0 0; c \<leftarrow> L2Control_US UFormat 0 0;
          Some \<lparr>lhFormat = FmtBbis, mAddress = a, mControl = c, lhLength = wLength\<rparr> }"

section \<open>Frames\<close>

record L2Frame =
  l2_bits :: bits
  l2_primitive :: Primitive

definition L2Frame_PF :: "bit_ops \<Rightarrow> bits \<Rightarrow> bool option" where
  "L2Frame_PF B f = getBit B f (8 + 3)"

definition L2Frame_set_PF :: "bit_ops \<Rightarrow> bool \<Rightarrow> bits \<Rightarrow> bits option" where
  "L2Frame_set_PF B wPF f = setBit B f (8 + 3) wPF"

definition L2Frame_L :: "bit_ops \<Rightarrow> bits \<Rightarrow> nat option" where
  "L2Frame_L B f = peekField B f (8 * 2) 6"

definition L2Frame_M :: "bit_ops \<Rightarrow> bits \<Rightarrow> bool option" where
  "L2Frame_M B f = getBit B f (8 * 2 + 6)"

definition L2Frame_L3Part :: "bit_ops \<Rightarrow> bits \<Rightarrow> bits option" where
  "L2Frame_L3Part B f =
     do { l \<leftarrow> L2Frame_L B f; segmentCopyTo B f (newBits B (8 * l)) (8 * 3) (8 * l) }"

definition L2Frame_NR :: "bit_ops \<Rightarrow> bits \<Rightarrow> nat option" where
  "L2Frame_NR B f = peekField B f 8 3"

definition L2Frame_NS :: "bit_ops \<Rightarrow> bits \<Rightarrow> nat option" where
  "L2Frame_NS B f = peekField B f (8 + 4) 3"

definition L2Frame_CR :: "bit_ops \<Rightarrow> bits \<Rightarrow> bool option" where
  "L2Frame_CR B f = getBit B f 6"

definition L2Frame_DCCHIdle :: "bit_ops \<Rightarrow> bits \<Rightarrow> bool option" where
  "L2Frame_DCCHIdle B f = map_option (\<lambda>v. v = 0x0103012B) (peekField B f 0 32)"

definition L3Frame_of_L2Frame :: "bit_ops \<Rightarrow> bits \<Rightarrow> L3Frame option" where
  "L3Frame_of_L2Frame B source =
     do { part \<leftarrow> L2Frame_L3Part B source; l \<leftarrow> L2Frame_L B source;
          Some \<lparr>l3_bits = part, l3_primitive = DATA, l3_L2Length = l\<rparr> }"

section \<open>Control fields are used for what they were made\<close>

text \<open>
  The accessors that assert a format are defined exactly where the constructor has set the member;
  the receive sequence number of an S frame may be asked for and is not set by its constructor.
\<close>

lemma control_field_I:
  assumes "L2Control_I nr ns pf = Some c"
  shows "L2Control_NR c = Some nr" "L2Control_NS c = Some ns" "L2Control_P c = Some pf"
    "L2Control_PF c = None" "L2Control_SBits c = None" "L2Control_UBits c = None"
    "nr < 8" "ns < 8" "pf < 2"
  using assms
  by (auto simp: L2Control_I_def L2Control_NR_def L2Control_NS_def L2Control_P_def
      L2Control_PF_def L2Control_SBits_def L2Control_UBits_def split: if_splits)

lemma control_field_US:
  assumes "L2Control_US fmt pf bts = Some c"
  shows "L2Control_PF c = Some pf" "pf < 2" "L2Control_P c = None" "L2Control_NS c = None"
    "L2Control_NR c = None" "L2Control_SBits c = (if fmt = SFormat then Some bts else None)"
    "L2Control_UBits c = (if fmt = UFormat then Some bts else None)"
    "bts < (if fmt = SFormat then 4 else 32)"
  using assms
  by (cases fmt; auto simp: L2Control_US_def L2Control_NR_def L2Control_NS_def L2Control_P_def
      L2Control_PF_def L2Control_SBits_def L2Control_UBits_def split: if_splits)+

end
