(* ===== verification/Smq_Copies.thy ===== *)
theory Smq_Copies
  imports Smq_Message
begin

text \<open>
  The constructors of message objects from a text, the copy constructor of \<open>short_msg_pending\<close> and
  the parameter block of the short-code functions (\<open>smqueue/smqueue.h\<close>).  The daemon moves its
  objects between lists and never runs these; the standard library requires the copy constructor.
\<close>

definition new_short_msg :: "int \<Rightarrow> string option \<Rightarrow> bool \<Rightarrow> short_msg option" where
  "new_short_msg len cstr use_my_memory = initialize len cstr use_my_memory short_msg0"

definition new_short_msg_pending ::
  "nat \<Rightarrow> int \<Rightarrow> string option \<Rightarrow> bool \<Rightarrow> short_msg_pending option" where
  "new_short_msg_pending i len cstr use_my_memory =
     initialize len cstr use_my_memory (short_msg_pending0 i)"

text \<open>
  The copy with identity \<open>i\<close>.  An address longer than its array ends the constructor early, before
  the tags are copied.
\<close>

definition short_msg_pending_copy :: "nat \<Rightarrow> short_msg_pending \<Rightarrow> short_msg_pending option" where
  "short_msg_pending_copy i smp =
     do {
       base \<leftarrow> short_msg_copy (short_msg.truncate smp);
       let new = short_msg.extend base
         (short_msg_pending.fields (state smp) (next_action_time smp) (retries smp) []
            (srcaddrlen smp) None (qtaghash smp) None i);
       Some (if sizeof_srcaddr < srcaddrlen smp then new
             else new\<lparr>srcaddr := take (srcaddrlen smp) (srcaddr smp),
                      qtag := map_option c_str (qtag smp),
                      linktag := map_option c_str (linktag smp)\<rparr>) }"

record short_code_params =
  scp_retries :: int
  scp_qmsg_it :: "nat option"
  scp_reply :: "string option"
  scp_delay :: int

definition short_code_params0 :: short_code_params where
  "short_code_params0 =
     \<lparr>scp_retries = 0, scp_qmsg_it = None, scp_reply = None, scp_delay = 0\<rparr>"

text \<open>
  A copy is in the same place of the queue: state, time, retries and the hash of the tag; its tag
  is the same where the address fits, and the hash of no tag where it does not.
\<close>

lemma short_msg_pending_copy_fields:
  assumes "short_msg_pending_copy i m = Some c"
  shows "state c = state m" "next_action_time c = next_action_time m" "retries c = retries m"
    "qtaghash c = qtaghash m" "mid c = i" "text_length c = text_length m" "parsed c = None"
    "qtag c = (if sizeof_srcaddr < srcaddrlen m then None else map_option c_str (qtag m))"
  using assms
  by (auto simp: short_msg_pending_copy_def short_msg_copy_def short_msg.defs short_msg_pending.defs
      short_msg0_def Let_def elim!: bind_SomeE split: if_splits)

end
