(* ===== verification/Spec2Isabelle.thy ===== *)
theory Spec2Isabelle
  imports Queue_Properties Response_Properties Validation_Properties Delivery_Properties
    Savefile_Properties Codec_Properties Command_Properties Network_Properties Smq_Config
    Control_Properties Thread_Properties Receive_Properties Sync_Properties Attempt_Properties
    Order_Properties Main_Properties Smq_Test Poll_Emulation Gsm_Link Smq_Copies
begin

text \<open>
  smqueue receives SIP MESSAGE requests with short messages, keeps them in a queue ordered by the
  time of their next action, and drives each through a state machine: look up the sender, look up
  the receiver, register a handset, deliver, bounce.  It answers short codes itself and talks to an
  SMSC.  This development models the program under \<open>src/\<close> and states what is correct about it, and
  where it is not.

  How the program works.  The reader thread (\<open>SmqReader.cpp\<close>) runs \<open>SMq::main_loop\<close>: a datagram
  becomes a \<open>short_msg_pending\<close>, is validated, and either goes to the front of the queue or is
  refused; the answer is ordered from the writer thread through a kernel message queue.  The writer
  thread (\<open>SmqWriter.cpp\<close>) takes such orders, and on every order to look at the queue and every
  timeout of 200 milliseconds runs \<open>SMq::process_timeout\<close>, one step of the state machine for the
  message at the front if its time has come.  Once a minute it reads the configuration again and
  saves the queue.

  Theories, in the order of their imports.

  \<^item> \<open>Smq_Prelude\<close>: C strings and the routines of libc on them, decimal output, insertion into a
    sorted list, lemmas on the option monad.
  \<^item> \<open>Smq_States\<close>: the enumeration of states, their names, the table of timeouts.  \<open>Smq_Config\<close>: the
    configuration keys of \<open>getConfigurationKeys\<close>.
  \<^item> \<open>Gsm_Codec\<close>, \<open>Gsm_Frames\<close>, \<open>Gsm_Link\<close>: \<open>src/GSM\<close>, that is alphabet, numbers, time stamps, the
    formats of elements, layer-3 messages, timers, frames of layers 2 and 3.  \<open>Sms_Codec\<close>,
    \<open>Sms_Control\<close>: \<open>src/SMS\<close>, the messages of the transfer, relay and CM layers.
  \<^item> \<open>Smq_Sip\<close>: the messages of osip2 as records.  \<open>Smq_Net\<close>: \<open>smnet.cpp\<close> and \<open>smnet.h\<close>.
    \<open>Poll_Emulation\<close>: \<open>poll.c\<close>.
  \<^item> \<open>Smq_Message\<close>, \<open>Smq_Copies\<close>: the classes \<open>short_msg\<close> and \<open>short_msg_pending\<close> of \<open>smqueue.h\<close>.
    \<open>Smq_Core\<close>: the fields of the class \<open>SMq\<close> as the record \<open>smq\<close>, and the world it runs in.
  \<^item> \<open>Smq_Validate\<close> (\<open>validate_short_msg\<close>, \<open>set_qtag\<close>), \<open>Timed_Queue\<close> (the contract of a queue by
    time, a locale) and \<open>Smq_Queue\<close> (\<open>set_state\<close>, insertion, search by tag, links, billing; it
    interprets the locale), \<open>Smq_Originate\<close> (messages the daemon makes), \<open>Smq_Smsc\<close> (\<open>smsc.cpp\<close>),
    \<open>Smq_Commands\<close> (\<open>smcommands.cpp\<close>), \<open>Smq_Lookup\<close> (the lookups and the delivery), \<open>Smq_Machine\<close>
    (\<open>handle_response\<close>, \<open>handle_short_code\<close>, \<open>process_timeout\<close>), \<open>Smq_Savefile\<close>
    (\<open>read_queue_from_file\<close>), \<open>Smq_Daemon\<close> (start, \<open>main_loop\<close>, acknowledgements, the steps of the two
    threads as the relation \<open>daemon_step\<close> and their runs as \<open>reachable\<close>), \<open>Smq_Threads\<close> (the kernel
    queues, the loops of the threads and the command line), \<open>Smq_Main\<close> (\<open>main\<close>: the process with its
    threads, from its start to its end).
  \<^item> \<open>Mutex_Interface\<close> (the contract of a recursive mutex, a locale) and \<open>Smq_Mutex\<close>: the mutex of the
    queue (\<open>lockSortedList\<close>, \<open>unlockSortedList\<close>; it interprets the locale) and the control skeletons,
    of type \<open>code\<close>, of all functions that lock, touch the list or send orders, run by two threads
    that interleave at every access (\<open>thread_step\<close>, \<open>sync_reachable\<close>).  \<open>Smq_Test\<close>: \<open>SmqTest.cpp\<close>.
  \<^item> \<open>Smq_Contract\<close>, \<open>Smq_Handlers\<close>, \<open>Smq_Steps\<close>: what every operation guarantees about the list of
    messages, proved once per operation and composed along the calls: \<open>same_list\<close> (nothing moves),
    \<open>grows\<close> (messages may be added), \<open>evolves D K\<close> (only messages of \<open>D\<close> may go and only those of \<open>K\<close>
    may change, and no attempt of delivery is forgotten), and the graph \<open>sm_trans\<close> that the states
    follow.  \<open>Smq_Orders\<close>: the orders every operation sends to the writer thread.
  \<^item> \<open>Smq_Example\<close>: concrete parameters on which the definitions are evaluated.
  \<^item> \<open>Queue_Properties\<close>, \<open>Response_Properties\<close>, \<open>Validation_Properties\<close>, \<open>Delivery_Properties\<close>,
    \<open>Savefile_Properties\<close>, \<open>Codec_Properties\<close>, \<open>Control_Properties\<close>, \<open>Command_Properties\<close>,
    \<open>Network_Properties\<close>, \<open>Thread_Properties\<close>, \<open>Receive_Properties\<close>, \<open>Sync_Properties\<close>,
    \<open>Attempt_Properties\<close>, \<open>Order_Properties\<close>, \<open>Main_Properties\<close> and this theory: the properties.

  What the properties show.  Over any run of the two threads no message is duplicated and no
  identity used again; a step removes at most two messages and reschedules at most one other, and
  a step on a message in a working state loses none; the states follow the graph; nothing happens
  before its time; a message is handed to the network at most as often as is allowed, and
  its delivery ends; a program that is told to stop ends in a few transitions; the loop of
  the writer thread makes only such steps; hashes of tags stay right, so that the search by hash is
  the plain search by tag.  In every interleaving the list is touched by one thread at a time, which
  owns the mutex, except at three places that take no lock; and the threads stand still only when
  both have ended or on a full kernel queue.  Responses, deliveries and bounces do to the message
  what their class asks for and nothing to the others.  Addresses, text, relay- and CM-layer
  messages and the save file are read back as written.  Several properties state where this fails
  in the code: the tag of a message without From tag, the acknowledgement of a refused datagram and
  of a response, the message parsed without the mutex, the writer that waits for room in its own
  queue, the process that ends before the queue is saved, the null pointer of a restart, numbers in
  the save file, octet 3a, the length of an international address, the wait for a timer that does
  not run.

  Conventions.  A pointer that may be null is an option.  The result \<open>None\<close> of an operation that
  returns an option stands for a call with no defined result: a null or dangling pointer read, a
  failed assert, an uncaught exception, a loop that does not end (\<open>partial_function\<close>).  An exception
  of the codec is \<open>Some (Inl e)\<close>.  A message has an identity \<open>mid\<close>; an iterator or pointer to it is
  that number, and dereferencing it after the message has gone finds nothing.  Times are in
  milliseconds since the epoch, as mathematical integers; fields whose width matters (\<open>text_length\<close>,
  poll events, the time in the save file, random numbers, unsigned differences of lengths and
  times) are words or wrap explicitly.  No fuel is used: loops are structural, or partial functions
  whose termination is a property where it is one of the code.

  Parameters.  Code that is not under \<open>src/\<close> is an argument: \<open>lib_ops\<close> (osip2, the encodings and bit
  vectors of CommonLibs), \<open>world\<close> (clock, subscriber registry, files, gateways), \<open>net_world\<close> (sockets),
  \<open>config\<close> (the configuration table), \<open>time_ops\<close> and \<open>clock_ops\<close> (calendar and \<open>Timeval\<close>), \<open>text_ops\<close>,
  \<open>mq_world\<close> (kernel queues), \<open>select\<close>.  Answers of the world may change from call to call: they take
  the number \<open>tick\<close> of external calls so far.  What is assumed of parameters is named in the
  statements: \<open>bit_laws\<close> and \<open>segment_laws\<close> (a field or segment of a bit vector holds what was written
  and nothing else changes; the witness is bit vectors as lists), \<open>select_shrinks\<close>, clock readings
  with less than a second of nanoseconds.

  Two levels.  In the detailed model a step of a thread is one transition: it is what the daemon does
  when no other thread runs in between.  \<open>Smq_Mutex\<close> has the transitions between, at every lock, access
  and order, but leaves the branches and the data open; it over-approximates the paths of the code.
  The capacity of the kernel queue is a parameter there, and the daemon's own in the properties.
  \<open>Order_Properties\<close> relates the two: every run of the detailed model is one of the skeletons, with the
  same orders.

  Not modelled.  Log output, and the printing of messages on it where it has no effect.  The memory
  model of the machine.  Release of memory, except where freed memory is read.  The reading of
  a temporary string after its statement (the password of a short code, the cell of an answer, the
  copies of the own address) is taken to give the string.  A state number in the save file outside
  the enumeration has no result.  \<open>pthread_create\<close>, sleeping, the manager of the node, the scripts and the handset simulator under \<open>src/testing\<close>, code that is disabled by
  the preprocessor, and functions that a header declares and no file defines.
\<close>

section \<open>The queue over a run\<close>

text \<open>
  C1: In every state the daemon reaches from a queue whose messages have distinct identities, by
  any interleaving of its two threads, the identities are distinct and below the next one to be
  handed out, and every message is an old one or one made since: none appears twice and no
  identity is used again.  The hash of every message stays the hash of its tag.
\<close>

theorem run_invariant:
  assumes "reachable L W C q q'" and "wf q"
  shows "wf q' \<and> next_mid q \<le> next_mid q'
    \<and> mids q' \<subseteq> mids q \<union> {next_mid q..<next_mid q'}"
  using reachable_evolves [OF assms(1)] assms(2) by (simp add: evolves_def)

lemma run1: "reachable lib1 world1 config1 (queue1 []) (the (main_loop lib1 world1 config1 60000 (queue1 [])))"
proof (rule reachable.step [OF reachable.refl daemon_step.reader])
  show "\<not> stop_main_loop (queue1 [])" by code_simp
  show "main_loop lib1 world1 config1 60000 (queue1 [])
      = Some (the (main_loop lib1 world1 config1 60000 (queue1 [])))"
    by (rule defined_the) code_simp
qed

theorem run_invariant_witness:
  "wf (the (main_loop lib1 world1 config1 60000 (queue1 [])))"
proof -
  have "wf (queue1 [])" by code_simp
  from run_invariant [OF run1 this] show ?thesis by simp
qed

text \<open>
  C2: One run of \<open>process_timeout\<close> on a message that is due takes it to a state the graph
  \<open>sm_trans\<close> allows from the state it was in, or out of the queue where the graph allows that.
\<close>

theorem machine_follows_graph:
  assumes "process_timeout L W C q = Some q'" and "wf q"
    and "time_sorted_list q = m # ms" and "next_action_time m \<le> clock W q"
  shows "sm_trans (state m) (map_option state (deref (mid m) q'))"
proof -
  let ?q = "q\<lparr>tick := tick q + 1\<rparr>"
  have "dispatch L W C (mid m) (state m) ?q = Some q'"
    using assms(1,3,4) by (simp add: process_timeout_def msgettime_eq)
  moreover have "wf ?q" using assms(2) by (simp add: wf_def mids_def)
  moreover have "deref (mid m) ?q = Some m" using assms(3) by (simp add: deref_def)
  ultimately show ?thesis by (rule dispatch_follows) simp
qed

theorem machine_follows_graph_witness:
  "sm_trans INITIAL_STATE
     (map_option state (deref 0 (the (process_timeout lib1 world1 config1
        (queue1 [msg1 0 INITIAL_STATE 0, msg1 1 NO_STATE 5])))))"
proof -
  let ?m = "msg1 0 INITIAL_STATE 0" and ?ms = "[msg1 1 NO_STATE 5]"
  have "process_timeout lib1 world1 config1 (queue1 (?m # ?ms))
      = Some (the (process_timeout lib1 world1 config1 (queue1 (?m # ?ms))))"
    by (rule defined_the) code_simp
  moreover have "wf (queue1 (?m # ?ms))" by code_simp
  moreover have "time_sorted_list (queue1 (?m # ?ms)) = ?m # ?ms" by (simp add: queue1_def)
  moreover have "next_action_time ?m \<le> clock world1 (queue1 (?m # ?ms))" by code_simp
  ultimately have "sm_trans (state ?m) (map_option state (deref (mid ?m)
      (the (process_timeout lib1 world1 config1 (queue1 (?m # ?ms))))))"
    by (rule machine_follows_graph)
  moreover have "state ?m = INITIAL_STATE" "mid ?m = 0" by code_simp+
  ultimately show ?thesis by (simp only:)
qed

text \<open>
  C3: While the front message is in any state but the initial one, the error state and the one
  for deletion, a step of the machine loses no message at all, and every message but the front
  one keeps its state, its time, its counters, its source and its link.
\<close>

theorem step_loses_nothing:
  assumes "process_timeout L W C q = Some q'" and "wf q"
    and "time_sorted_list q = m # ms" and "keeps_state (state m)"
  shows "mids q \<subseteq> mids q' \<and> (\<forall>j \<in> mids q - {mid m}. kept j q q')"
proof -
  from assms(1) have "evolves {} {mid m} q q'"
  proof (cases rule: process_timeout_cases)
    case idle
    then show ?thesis by (simp only: grows_evolves tick_grows)
  next
    case (work m' ms')
    with assms(3,4) show ?thesis
      using grows_first [OF tick_grows dispatch_keeps [OF work(3)]] by simp
  qed
  with assms(2) show ?thesis by (simp add: evolves_def)
qed

theorem step_loses_nothing_witness:
  "mids (queue1 [msg1 0 REQUEST_DESTINATION_IMSI 0, msg1 1 NO_STATE 5])
     \<subseteq> mids (the (process_timeout lib1 world1 config1
          (queue1 [msg1 0 REQUEST_DESTINATION_IMSI 0, msg1 1 NO_STATE 5])))"
proof -
  let ?q = "queue1 [msg1 0 REQUEST_DESTINATION_IMSI 0, msg1 1 NO_STATE 5]"
  have "process_timeout lib1 world1 config1 ?q = Some (the (process_timeout lib1 world1 config1 ?q))"
    by (rule defined_the) code_simp
  moreover have "wf ?q" by code_simp
  moreover have "time_sorted_list ?q = msg1 0 REQUEST_DESTINATION_IMSI 0 # [msg1 1 NO_STATE 5]"
    by (simp add: queue1_def)
  moreover have "keeps_state (state (msg1 0 REQUEST_DESTINATION_IMSI 0))" by code_simp
  ultimately show ?thesis using step_loses_nothing by blast
qed

text \<open>
  C4: Any step of the reader or the writer removes at most two messages of the queue (a response
  and the message it answers, or one that was zapped or finished), and reschedules at most one
  more; every other message stays with its state, time, counters, source and link.
\<close>

theorem daemon_step_frame:
  assumes "daemon_step L W C q q'" and "wf q"
  shows "\<exists>i j k. mids q - {i, j} \<subseteq> mids q' \<and> (\<forall>l \<in> mids q - {i, j, k}. kept l q q')"
proof -
  obtain i j k where "evolves {i, j} {i, k} q q'"
    using daemon_step_evolves [OF assms(1)] by blast
  then have "mids q - {i, j} \<subseteq> mids q' \<and> (\<forall>l \<in> mids q - {i, j, k}. kept l q q')"
    using assms(2) by (auto simp: evolves_def)
  then show ?thesis by blast
qed

theorem daemon_step_frame_witness:
  "\<exists>i j k. mids (queue1 [msg1 0 INITIAL_STATE 0]) - {i, j}
      \<subseteq> mids (the (main_loop lib1 world1 config1 60000 (queue1 [msg1 0 INITIAL_STATE 0])))"
proof -
  let ?q = "queue1 [msg1 0 INITIAL_STATE 0]"
  have "daemon_step lib1 world1 config1 ?q (the (main_loop lib1 world1 config1 60000 ?q))"
    by (rule daemon_step.reader [OF _ defined_the]) code_simp+
  moreover have "wf ?q" by code_simp
  ultimately show ?thesis using daemon_step_frame by blast
qed

text \<open>
  Nothing happens before its time: with an empty queue, or when the front message is due
  later than now, a step of the machine reads the clock and changes nothing else.
\<close>

theorem process_timeout_idle:
  assumes "\<forall>m ms. time_sorted_list q = m # ms \<longrightarrow> clock W q < next_action_time m"
  shows "process_timeout L W C q = Some (q\<lparr>tick := tick q + 1\<rparr>)"
  using assms by (cases "time_sorted_list q") (auto simp: process_timeout_def msgettime_eq)

theorem process_timeout_idle_witness:
  "process_timeout lib1 world1 config1 (queue1 [msg1 0 INITIAL_STATE 10001])
     = Some ((queue1 [msg1 0 INITIAL_STATE 10001])\<lparr>tick := 1\<rparr>)"
proof -
  have "clock world1 (queue1 [msg1 0 INITIAL_STATE 10001]) = 10000" by code_simp
  moreover have "next_action_time (msg1 0 INITIAL_STATE 10001) = 10001" by code_simp
  ultimately have "\<forall>m ms. time_sorted_list (queue1 [msg1 0 INITIAL_STATE 10001]) = m # ms
      \<longrightarrow> clock world1 (queue1 [msg1 0 INITIAL_STATE 10001]) < next_action_time m"
    by (auto simp: queue1_def)
  from process_timeout_idle [OF this, of lib1 config1] show ?thesis
    by (simp add: queue1_def SMq0_def)
qed

end
